(* ===== verification/Prelude.thy ===== *)
theory Prelude
  imports Main "HOL-Library.Word" "HOL-Library.Monad_Syntax" "HOL-Library.List_Lexorder"
    "HOL-Library.Char_ord"
begin

text \<open>
  Shared vocabulary of the development: the machine types of the Rust sources, the parts of the
  Rust standard library the sources use (saturating arithmetic, big-endian bytes, UTF-8
  characters, \<open>Result\<close> combinators), the named collections the component theories feed, and the
  generic lemmas on lists, options and words that several components need.

  \<^item> \<open>Vec<u8>\<close> and \<open>&[u8]\<close> are \<open>bytes\<close>, lists of 8-bit words;
  \<^item> \<open>u64\<close>, \<open>u32\<close> are words of that width, so that \<open>+\<close> wraps and \<open>saturating_add\<close> does not;
  \<^item> \<open>usize\<close> lengths are natural numbers;
  \<^item> \<open>String\<close> and \<open>&str\<close> are HOL strings read as their UTF-8 bytes, so that \<open>len\<close> is
    \<open>length\<close>, equality and ordering are bytewise as in Rust, and \<open>chars\<close> decodes;
  \<^item> \<open>Result<T, E>\<close> is \<open>E + T\<close>; \<open>Result<T, ()>\<close> and \<open>Option<T>\<close> are \<open>T option\<close>.
\<close>

section \<open>Machine types\<close>

type_synonym u8 = "8 word"
type_synonym u32 = "32 word"
type_synonym u64 = "64 word"
type_synonym bytes = "u8 list"

named_theorems codec_defs \<open>definitions unfolded by the JSON round-trip proofs\<close>
named_theorems codec_rt \<open>round trips of the nested records, used as rewrite rules\<close>
named_theorems codec_wf \<open>decoders return well-formed values\<close>
named_theorems wf_defs \<open>well-formedness predicates\<close>

section \<open>Saturating arithmetic\<close>

definition saturating_add :: "'a::len word \<Rightarrow> 'a word \<Rightarrow> 'a word" where
  "saturating_add a b = (if unat a + unat b < 2 ^ LENGTH('a) then a + b else - 1)"

definition saturating_sub :: "'a::len word \<Rightarrow> 'a word \<Rightarrow> 'a word" where
  "saturating_sub a b = (if b \<le> a then a - b else 0)"

definition u64_max :: u64 where
  "u64_max = - 1"

text \<open>\<open>u64::try_from(n).unwrap_or(u64::MAX)\<close> on a length.\<close>

definition u64_of_len :: "nat \<Rightarrow> u64" where
  "u64_of_len n = (if n < 2 ^ 64 then of_nat n else u64_max)"

lemma unat_max_word: "unat (- 1 :: 'a::len word) = 2 ^ LENGTH('a) - 1"
  by (simp add: unsigned_minus_1_eq_mask mask_eq_exp_minus_1)

lemma unat_saturating_add:
  "unat (saturating_add a b) = min (unat a + unat b) (2 ^ LENGTH('a) - 1)"
  for a b :: "'a::len word"
proof (cases "unat a + unat b < 2 ^ LENGTH('a)")
  case True
  then show ?thesis by (simp add: saturating_add_def unat_word_ariths)
next
  case False
  then show ?thesis by (simp add: saturating_add_def unat_max_word)
qed

lemma unat_saturating_sub: "unat (saturating_sub a b) = unat a - unat b"
  for a b :: "'a::len word"
  by (auto simp: saturating_sub_def unat_sub word_le_nat_alt)

lemma saturating_add_ge: "a \<le> saturating_add a b"
  for a b :: "'a::len word"
proof -
  have "unat a < 2 ^ LENGTH('a)" by (rule unsigned_less)
  then have "unat a \<le> 2 ^ LENGTH('a) - 1" by arith
  then show ?thesis by (simp add: word_le_nat_alt unat_saturating_add)
qed

lemma saturating_sub_le: "saturating_sub a b \<le> a"
  for a b :: "'a::len word"
  by (auto simp: word_le_nat_alt unat_saturating_sub)

lemma saturating_add_mono: "a \<le> c \<Longrightarrow> saturating_add a b \<le> saturating_add c b"
  for a b c :: "'a::len word"
  by (auto simp: word_le_nat_alt unat_saturating_add)

lemma u64_of_len_less:
  assumes "u64_of_len n < w" shows "n < unat w"
proof (cases "n < 2 ^ 64")
  case True
  then have "unat (of_nat n :: u64) = n"
    by (simp add: unat_of_nat take_bit_nat_eq_self)
  with True assms show ?thesis
    by (simp add: u64_of_len_def word_less_nat_alt)
next
  case False
  with assms have "u64_max < w" by (simp add: u64_of_len_def)
  then show ?thesis by (simp add: u64_max_def)
qed

lemma unat_u64_of_len: "n < 2 ^ 64 \<Longrightarrow> unat (u64_of_len n) = n"
  by (simp add: u64_of_len_def unat_of_nat take_bit_nat_eq_self)

section \<open>Results\<close>

text \<open>\<open>Option::ok_or\<close>, \<open>Result::and_then\<close> (the \<open>?\<close> operator), \<open>Result::map_err\<close>,
  \<open>Result::ok\<close> and \<open>bool::then_some\<close>.\<close>

fun ok_or :: "'a option \<Rightarrow> 'e \<Rightarrow> 'e + 'a" where
  "ok_or None e = Inl e"
| "ok_or (Some x) e = Inr x"

fun and_then :: "'e + 'a \<Rightarrow> ('a \<Rightarrow> 'e + 'b) \<Rightarrow> 'e + 'b" where
  "and_then (Inl e) f = Inl e"
| "and_then (Inr x) f = f x"

fun map_err :: "('e \<Rightarrow> 'f) \<Rightarrow> 'e + 'a \<Rightarrow> 'f + 'a" where
  "map_err f (Inl e) = Inl (f e)"
| "map_err f (Inr x) = Inr x"

fun ok :: "'e + 'a \<Rightarrow> 'a option" where
  "ok (Inl e) = None"
| "ok (Inr x) = Some x"

fun unwrap_or :: "'e + 'a \<Rightarrow> 'a \<Rightarrow> 'a" where
  "unwrap_or (Inl e) d = d"
| "unwrap_or (Inr x) d = x"

definition then_some :: "bool \<Rightarrow> 'a \<Rightarrow> 'a option" where
  "then_some c x = (if c then Some x else None)"

lemma and_then_eq_Inr: "and_then r f = Inr y \<longleftrightarrow> (\<exists>x. r = Inr x \<and> f x = Inr y)"
  by (cases r) auto

lemma and_then_eq_Inl: "and_then r f = Inl e \<longleftrightarrow> r = Inl e \<or> (\<exists>x. r = Inr x \<and> f x = Inl e)"
  by (cases r) auto

lemma ok_or_eq_Inl [simp]: "ok_or x e = Inl e' \<longleftrightarrow> x = None \<and> e' = e"
  by (cases x) auto

lemma ok_or_eq_Inr [simp]: "ok_or x e = Inr y \<longleftrightarrow> x = Some y"
  by (cases x) auto

lemma map_err_eq_Inr [simp]: "map_err f r = Inr y \<longleftrightarrow> r = Inr y"
  by (cases r) auto

lemma ok_eq_Some [simp]: "ok r = Some y \<longleftrightarrow> r = Inr y"
  by (cases r) auto

lemma then_some_eq_Some [simp]: "then_some c x = Some y \<longleftrightarrow> c \<and> x = y"
  by (simp add: then_some_def)

lemma those_map_Some: "(\<And>x. x \<in> set xs \<Longrightarrow> f (g x) = Some x) \<Longrightarrow> those (map f (map g xs)) = Some xs"
  by (induction xs) auto

lemma those_map_all:
  "those (map f xs) = Some ys \<Longrightarrow> (\<And>x y. f x = Some y \<Longrightarrow> P y) \<Longrightarrow> list_all P ys"
  by (induction xs arbitrary: ys) (auto split: option.splits)

lemma those_length: "those xs = Some ys \<Longrightarrow> length ys = length xs"
  by (induction xs arbitrary: ys) (auto split: option.splits)

section \<open>Big-endian numbers\<close>

text \<open>\<open>u64::to_be_bytes\<close>.\<close>

definition to_be_bytes :: "u64 \<Rightarrow> bytes" where
  "to_be_bytes n = map (\<lambda>i. ucast (drop_bit (8 * i) n)) [7, 6, 5, 4, 3, 2, 1, 0]"

lemma unat_u8_less: "unat (b :: u8) < 256"
proof -
  have "unat b < 2 ^ LENGTH(8)" by (rule unsigned_less)
  then show ?thesis by simp
qed

text \<open>The number a big-endian byte string denotes.\<close>

fun be_val :: "bytes \<Rightarrow> nat" where
  "be_val [] = 0"
| "be_val (b # bs) = unat b * 256 ^ length bs + be_val bs"

lemma length_to_be_bytes [simp]: "length (to_be_bytes n) = 8"
  by (simp add: to_be_bytes_def)

lemma be_val_less: "be_val bs < 256 ^ length bs"
proof (induction bs)
  case Nil
  then show ?case by simp
next
  case (Cons b bs)
  have "unat b < 256" by (rule unat_u8_less)
  then have "Suc (unat b) * 256 ^ length bs \<le> 256 * 256 ^ length bs"
    by (intro mult_le_mono1) simp
  then have "unat b * 256 ^ length bs + 256 ^ length bs \<le> 256 * 256 ^ length bs"
    unfolding mult_Suc by linarith
  with Cons show ?case unfolding be_val.simps list.size power_Suc add_0_right add_Suc_right
    by linarith
qed

lemma be_val_append: "be_val (xs @ ys) = be_val xs * 256 ^ length ys + be_val ys"
  by (induction xs) (simp_all add: algebra_simps power_add)

lemma be_val_inj: "length xs = length ys \<Longrightarrow> be_val xs = be_val ys \<Longrightarrow> xs = ys"
proof (induction xs ys rule: list_induct2)
  case Nil
  then show ?case by simp
next
  case (Cons x xs y ys)
  have lx: "be_val xs < 256 ^ length ys" using be_val_less [of xs] Cons.hyps by simp
  have ly: "be_val ys < 256 ^ length ys" by (rule be_val_less)
  from Cons have eq: "unat x * 256 ^ length ys + be_val xs = unat y * 256 ^ length ys + be_val ys"
    by simp
  have "unat x = (unat x * 256 ^ length ys + be_val xs) div 256 ^ length ys" using lx by simp
  also have "\<dots> = unat y" using eq ly by simp
  finally have xy: "x = y" by (simp add: word_unat_eq_iff)
  with eq Cons.IH show ?case by simp
qed

text \<open>On byte strings of one length, Rust's lexicographic order is the numeric order.\<close>

lemma bytes_less_be_val:
  "length xs = length ys \<Longrightarrow> xs < ys \<longleftrightarrow> be_val xs < be_val ys"
proof (induction xs ys rule: list_induct2)
  case Nil
  then show ?case by simp
next
  case (Cons x xs y ys)
  have lx: "be_val xs < 256 ^ length ys" using be_val_less [of xs] Cons.hyps by simp
  have ly: "be_val ys < 256 ^ length ys" by (rule be_val_less)
  consider (lt) "unat x < unat y" | (eq) "x = y" | (gt) "unat y < unat x"
    using word_unat_eq_iff by (metis linorder_neqE_nat)
  then show ?case
  proof cases
    case lt
    then have "Suc (unat x) * 256 ^ length ys \<le> unat y * 256 ^ length ys"
      by (intro mult_le_mono1) simp
    with lt lx Cons.hyps show ?thesis by (simp add: word_less_nat_alt)
  next
    case eq
    with Cons show ?thesis by simp
  next
    case gt
    then have "Suc (unat y) * 256 ^ length ys \<le> unat x * 256 ^ length ys"
      by (intro mult_le_mono1) simp
    with gt ly Cons.hyps show ?thesis by (auto simp: word_less_nat_alt)
  qed
qed

lemma bytes_le_be_val:
  assumes "length xs = length ys" shows "xs \<le> ys \<longleftrightarrow> be_val xs \<le> be_val ys"
  using bytes_less_be_val [of ys xs] assms by (auto simp: not_less [symmetric])

section \<open>Bytewise exclusive or\<close>

unbundle bit_operations_syntax

lemma word_xor_eq_0: "x XOR y = 0 \<longleftrightarrow> x = y"
  for x y :: "'a::len word"
  by (auto simp: bit_eq_iff bit_xor_iff)

definition xor_bytes :: "bytes \<Rightarrow> bytes \<Rightarrow> bytes" where
  "xor_bytes xs ys = map2 (XOR) xs ys"

lemma length_xor_bytes [simp]: "length (xor_bytes xs ys) = min (length xs) (length ys)"
  by (simp add: xor_bytes_def)

lemma xor_bytes_commute: "xor_bytes xs ys = xor_bytes ys xs"
  by (auto simp: xor_bytes_def xor.commute intro!: nth_equalityI)

lemma xor_bytes_assoc: "xor_bytes (xor_bytes xs ys) zs = xor_bytes xs (xor_bytes ys zs)"
  by (auto simp: xor_bytes_def xor.assoc intro!: nth_equalityI)

lemma xor_bytes_zero: "length xs = n \<Longrightarrow> xor_bytes (replicate n 0) xs = xs"
  by (auto simp: xor_bytes_def intro!: nth_equalityI)

lemma xor_bytes_self: "xor_bytes xs xs = replicate (length xs) 0"
  by (auto simp: xor_bytes_def intro!: nth_equalityI)

section \<open>UTF-8\<close>

text \<open>\<open>str::chars\<close>: the scalar values of a UTF-8 byte string. The lead byte says how many
  continuation bytes follow and each continues six bits; a Rust string is valid UTF-8, so a
  truncated sequence does not occur and ends the list here.\<close>

fun chars :: "string \<Rightarrow> nat list" where
  "chars [] = []"
| "chars (a # s) =
     (if of_char a < (128::nat) then of_char a # chars s
      else if of_char a < (224::nat) then
        (case s of b # r \<Rightarrow> ((of_char a mod 32) * 64 + of_char b mod 64) # chars r | [] \<Rightarrow> [])
      else if of_char a < (240::nat) then
        (case s of b # c # r \<Rightarrow>
           ((of_char a mod 16) * 4096 + (of_char b mod 64) * 64 + of_char c mod 64) # chars r
         | _ \<Rightarrow> [])
      else
        (case s of b # c # d # r \<Rightarrow>
           ((of_char a mod 8) * 262144 + (of_char b mod 64) * 4096 + (of_char c mod 64) * 64
             + of_char d mod 64) # chars r
         | _ \<Rightarrow> []))"

definition is_ascii :: "nat \<Rightarrow> bool" where
  "is_ascii c \<longleftrightarrow> c < 128"

definition is_ascii_lowercase :: "nat \<Rightarrow> bool" where
  "is_ascii_lowercase c \<longleftrightarrow> 97 \<le> c \<and> c \<le> 122"

definition is_ascii_digit :: "nat \<Rightarrow> bool" where
  "is_ascii_digit c \<longleftrightarrow> 48 \<le> c \<and> c \<le> 57"

text \<open>The byte strings a \<open>String\<close> may hold, as \<open>core::str::from_utf8\<close> accepts them: no overlong
  form, no surrogate, no scalar above 10FFFF.\<close>

definition cont_byte :: "nat \<Rightarrow> nat \<Rightarrow> char \<Rightarrow> bool" where
  "cont_byte lo hi c \<longleftrightarrow> lo \<le> of_char c \<and> of_char c \<le> hi"

fun utf8 :: "string \<Rightarrow> bool" where
  "utf8 [] = True"
| "utf8 (a # s) =
     (if of_char a < (128::nat) then utf8 s
      else if of_char a < (194::nat) then False
      else if of_char a < (224::nat) then
        (case s of b # r \<Rightarrow> cont_byte 128 191 b \<and> utf8 r | [] \<Rightarrow> False)
      else if of_char a < (240::nat) then
        (case s of b # c # r \<Rightarrow>
           cont_byte (if of_char a = (224::nat) then 160 else 128)
             (if of_char a = (237::nat) then 159 else 191) b \<and> cont_byte 128 191 c \<and> utf8 r
         | _ \<Rightarrow> False)
      else if of_char a < (245::nat) then
        (case s of b # c # d # r \<Rightarrow>
           cont_byte (if of_char a = (240::nat) then 144 else 128)
             (if of_char a = (244::nat) then 143 else 191) b \<and>
           cont_byte 128 191 c \<and> cont_byte 128 191 d \<and> utf8 r
         | _ \<Rightarrow> False)
      else False)"

definition ascii_str :: "string \<Rightarrow> bool" where
  "ascii_str s = list_all (\<lambda>a. of_char a < (128::nat)) s"

lemma utf8_ascii: "ascii_str s \<Longrightarrow> utf8 s"
  by (induction s) (auto simp: ascii_str_def)

text \<open>On an ASCII string the characters are the bytes.\<close>

lemma chars_ascii: "list_all (\<lambda>a. of_char a < (128::nat)) s \<Longrightarrow> chars s = map of_char s"
  by (induction s) auto

end
