(* ===== verification/Ids.thy ===== *)
theory Ids
  imports Prelude
begin

text \<open>
  The error type, the constant-time comparison and the branded identifiers of
  \<open>error.rs\<close>, \<open>bytes32.rs\<close>, \<open>rng.rs\<close>, \<open>ids.rs\<close> and the roles of \<open>chain.rs\<close>, \<open>hmac.rs\<close> and
  \<open>aead.rs\<close>.

  The macros \<open>bytes32_type!\<close> and \<open>role32!\<close> stamp out one struct around \<open>[u8; 32]\<close> per role.
  Here one type \<open>'r b32\<close> carries the role as a phantom parameter: the invariant "exactly 32
  bytes" is the type's, two roles are two types, and the order, the equality and the numeric
  value are stated once.
\<close>

section \<open>Errors\<close>

datatype engine_error =
    WrongPhase | MalformedTicket | ExpiresNotAfterNow | UnknownIds | MalformedDisplayName
  | ChannelBounds | MalformedPersist | NotTicked | ClockWentBackwards | UnknownTag
  | UnknownWrite | BodyTooLarge | MalformedPayload | UnlockFailed | Locked | MalformedWake
  | EmptyEngineRequired | NotOwner | MemberCap | DuplicateMember | Equivocation

definition engine_error_display :: "engine_error \<Rightarrow> string" where
  "engine_error_display e = (case e of
     WrongPhase \<Rightarrow> ''wrong phase''
   | MalformedTicket \<Rightarrow> ''malformed ticket''
   | ExpiresNotAfterNow \<Rightarrow> ''expires not after now''
   | UnknownIds \<Rightarrow> ''unknown ids''
   | MalformedDisplayName \<Rightarrow> ''malformed display name''
   | ChannelBounds \<Rightarrow> ''channel bounds''
   | MalformedPersist \<Rightarrow> ''malformed persist''
   | NotTicked \<Rightarrow> ''not ticked''
   | ClockWentBackwards \<Rightarrow> ''clock went backwards''
   | UnknownTag \<Rightarrow> ''unknown tag''
   | UnknownWrite \<Rightarrow> ''unknown write''
   | BodyTooLarge \<Rightarrow> ''body too large''
   | MalformedPayload \<Rightarrow> ''malformed payload''
   | UnlockFailed \<Rightarrow> ''unlock failed''
   | Locked \<Rightarrow> ''locked''
   | MalformedWake \<Rightarrow> ''malformed wake''
   | EmptyEngineRequired \<Rightarrow> ''empty engine required''
   | NotOwner \<Rightarrow> ''not owner''
   | MemberCap \<Rightarrow> ''member cap''
   | DuplicateMember \<Rightarrow> ''duplicate member''
   | Equivocation \<Rightarrow> ''equivocation'')"

section \<open>Constant-time equality\<close>

definition ct_eq :: "bytes \<Rightarrow> bytes \<Rightarrow> bool" where
  "ct_eq a b = (fold (\<lambda>(x, y) acc. acc OR (x XOR y)) (zip a b) (0 :: u8) = 0)"

lemma ct_eq_fold:
  "fold (\<lambda>(x, y) acc. acc OR (x XOR y)) ps (acc :: u8) = 0 \<longleftrightarrow>
     acc = 0 \<and> (\<forall>(x, y) \<in> set ps. x = y)"
proof (induction ps arbitrary: acc)
  case Nil
  then show ?case by simp
next
  case (Cons p ps)
  obtain x y where p: "p = (x, y)" by (cases p)
  have "acc OR (x XOR y) = 0 \<longleftrightarrow> acc = 0 \<and> x = y"
    by (auto simp: or_eq_0_iff word_xor_eq_0)
  with p Cons.IH show ?case by auto
qed

section \<open>Thirty-two byte values\<close>

typedef 'r b32 = "{bs :: bytes. length bs = 32}"
  morphisms as_bytes from_array
  by (rule exI [of _ "replicate 32 0"]) simp

setup_lifting type_definition_b32

lemma length_as_bytes [simp]: "length (as_bytes x) = 32"
  using as_bytes [of x] by simp

lemma as_bytes_from_array [simp]: "length bs = 32 \<Longrightarrow> as_bytes (from_array bs) = bs"
  by (simp add: from_array_inverse)

lemma from_array_as_bytes [simp]: "from_array (as_bytes x) = x"
  by (simp add: as_bytes_inverse)

lemma b32_eq_iff: "x = y \<longleftrightarrow> as_bytes x = as_bytes y"
  by (simp add: as_bytes_inject)

instantiation b32 :: (type) equal
begin

definition equal_b32 :: "'a b32 \<Rightarrow> 'a b32 \<Rightarrow> bool" where
  "equal_b32 x y \<longleftrightarrow> as_bytes x = as_bytes y"

instance
  by standard (simp add: equal_b32_def b32_eq_iff)

end

text \<open>\<open>bytes.try_into::<[u8; 32]>()\<close> followed by the wrapper.\<close>

definition try_from_bytes :: "bytes \<Rightarrow> 'r b32 option" where
  "try_from_bytes bs = (if length bs = 32 then Some (from_array bs) else None)"

lemma try_from_bytes_as_bytes [simp]: "try_from_bytes (as_bytes x) = Some x"
  by (simp add: try_from_bytes_def)

lemma try_from_bytes_eq_Some: "try_from_bytes bs = Some x \<longleftrightarrow> as_bytes x = bs"
  by (auto simp: try_from_bytes_def b32_eq_iff)

text \<open>The same 32 bytes under another role: \<open>Role2::from_bytes(*x.as_bytes())\<close>.\<close>

definition recast :: "'r b32 \<Rightarrow> 's b32" where
  "recast x = from_array (as_bytes x)"

lemma as_bytes_recast [simp]: "as_bytes (recast x) = as_bytes x"
  by (simp add: recast_def)

definition zero32 :: "'r b32" where
  "zero32 = from_array (replicate 32 0)"

lemma as_bytes_zero32 [simp]: "as_bytes zero32 = replicate 32 0"
  by (simp add: zero32_def)

subsection \<open>Order\<close>

instantiation b32 :: (type) linorder
begin

definition less_eq_b32 :: "'a b32 \<Rightarrow> 'a b32 \<Rightarrow> bool" where
  "less_eq_b32 x y \<longleftrightarrow> as_bytes x \<le> as_bytes y"

definition less_b32 :: "'a b32 \<Rightarrow> 'a b32 \<Rightarrow> bool" where
  "less_b32 x y \<longleftrightarrow> as_bytes x < as_bytes y"

instance
  by standard (auto simp: less_eq_b32_def less_b32_def b32_eq_iff)

end

text \<open>The numeric value, on which the order of ids is the order of numbers.\<close>

definition val :: "'r b32 \<Rightarrow> nat" where
  "val x = be_val (as_bytes x)"

lemma val_less_max: "val x < 2 ^ 256"
proof -
  have "val x < 256 ^ 32" using be_val_less [of "as_bytes x"] by (simp add: val_def)
  also have "(256::nat) ^ 32 = 2 ^ 256" by simp
  finally show ?thesis .
qed

lemma less_val: "x < y \<longleftrightarrow> val x < val y"
  by (simp add: less_b32_def val_def bytes_less_be_val)

lemma le_val: "x \<le> y \<longleftrightarrow> val x \<le> val y"
  by (simp add: less_eq_b32_def val_def bytes_le_be_val)

lemma val_inj: "val x = val y \<longleftrightarrow> x = y"
  by (auto simp: val_def b32_eq_iff intro: be_val_inj)

subsection \<open>Exclusive or of ids\<close>

definition xor32 :: "'r b32 \<Rightarrow> 'r b32 \<Rightarrow> 'r b32" where
  "xor32 x y = from_array (xor_bytes (as_bytes x) (as_bytes y))"

lemma as_bytes_xor32 [simp]: "as_bytes (xor32 x y) = xor_bytes (as_bytes x) (as_bytes y)"
  by (simp add: xor32_def)

lemma xor32_commute: "xor32 x y = xor32 y x"
  by (simp add: b32_eq_iff xor_bytes_commute)

lemma xor32_assoc: "xor32 (xor32 x y) z = xor32 x (xor32 y z)"
  by (simp add: b32_eq_iff xor_bytes_assoc)

lemma xor32_left_commute: "xor32 x (xor32 y z) = xor32 y (xor32 x z)"
  by (metis xor32_assoc xor32_commute)

lemma xor32_self [simp]: "xor32 x x = zero32"
  by (simp add: b32_eq_iff xor_bytes_self)

lemma xor32_zero [simp]: "xor32 zero32 x = x" "xor32 x zero32 = x"
  by (simp_all add: b32_eq_iff xor_bytes_zero xor_bytes_commute [of _ "replicate 32 0"])

lemma xor32_cancel [simp]: "xor32 x (xor32 x y) = y"
  by (metis xor32_assoc xor32_self xor32_zero(1))

lemma xor32_eq_iff [simp]: "xor32 x y = xor32 x z \<longleftrightarrow> y = z"
  by (metis xor32_cancel)

lemma xor32_eq_left [simp]: "xor32 x y = x \<longleftrightarrow> y = zero32"
  by (metis xor32_cancel xor32_self xor32_zero(2))

lemma xor32_eq_zero [simp]: "xor32 x y = zero32 \<longleftrightarrow> x = y"
  by (metis xor32_cancel xor32_self xor32_zero(2))

lemmas xor32_ac = xor32_assoc xor32_commute xor32_left_commute

section \<open>Roles\<close>

datatype user_role = UserRole
datatype identity_role = IdentityRole
datatype conversation_role = ConversationRole
datatype device_role = DeviceRole
datatype secret_role = SecretRole
datatype tag_role = TagRole
datatype tag_key_role = TagKeyRole
datatype random_role = RandomRole
datatype hmac_key_role = HmacKeyRole
datatype hmac_mac_role = HmacMacRole
datatype aead_key_role = AeadKeyRole
datatype chain_root_role = ChainRootRole
datatype chain_key_role = ChainKeyRole
datatype message_key_role = MessageKeyRole
datatype eph_message_key_role = EphMessageKeyRole

type_synonym user_id = "user_role b32"
type_synonym identity_id = "identity_role b32"
type_synonym conversation_id = "conversation_role b32"
type_synonym device_id = "device_role b32"
type_synonym secret = "secret_role b32"
type_synonym tag = "tag_role b32"
type_synonym tag_key = "tag_key_role b32"
type_synonym random32 = "random_role b32"
type_synonym hmac_key = "hmac_key_role b32"
type_synonym hmac_mac = "hmac_mac_role b32"
type_synonym aead_key = "aead_key_role b32"
type_synonym chain_root = "chain_root_role b32"
type_synonym chain_key = "chain_key_role b32"
type_synonym message_key = "message_key_role b32"
type_synonym array32 = "unit b32"
type_synonym eph_message_key = "eph_message_key_role b32"

text \<open>\<open>u64_type!\<close> brands: a 64-bit word each, with the saturating operations of the prelude.\<close>

type_synonym unix_seconds = u64
type_synonym time_bin = u64
type_synonym persist_seq = u64
type_synonym packet_seq = u64
type_synonym packet_epoch = u64
type_synonym frag_index = u64

section \<open>Actors\<close>

datatype signing_public_key = SigningPublicKey (sign_pk_bytes: bytes)

datatype actor = Handshake | Signing signing_public_key | Device device_id

definition actor_signing :: "bytes \<Rightarrow> actor" where
  "actor_signing bs = Signing (SigningPublicKey bs)"

fun actor_role :: "actor \<Rightarrow> string" where
  "actor_role Handshake = ''handshake''"
| "actor_role (Signing _) = ''signing''"
| "actor_role (Device _) = ''device''"

fun actor_as_bytes :: "actor \<Rightarrow> bytes" where
  "actor_as_bytes Handshake = []"
| "actor_as_bytes (Signing pk) = sign_pk_bytes pk"
| "actor_as_bytes (Device i) = as_bytes i"

definition actor_from_stored :: "string option \<Rightarrow> bytes \<Rightarrow> actor option" where
  "actor_from_stored role bs =
     (if role = Some ''handshake'' then Some Handshake
      else if role = Some ''device'' then do {
        i \<leftarrow> try_from_bytes bs;
        Some (Device i)
      }
      else if role = Some ''signing'' \<or> role = None then
        (if bs = [] then Some Handshake else Some (actor_signing bs))
      else None)"

text \<open>An actor survives its stored role and bytes, but for a signing key of no bytes, which
  reads back as the handshake actor.\<close>

lemma actor_from_stored_roundtrip:
  "a \<noteq> Signing (SigningPublicKey []) \<Longrightarrow>
     actor_from_stored (Some (actor_role a)) (actor_as_bytes a) = Some a"
proof (cases a)
  case (Signing pk)
  assume "a \<noteq> Signing (SigningPublicKey [])"
  with Signing show ?thesis by (cases pk) (auto simp: actor_from_stored_def actor_signing_def)
qed (simp_all add: actor_from_stored_def)

end
