(* ===== verification/Channel.thy ===== *)
theory Channel
  imports Ids
begin

text \<open>
  Mapper kinds, addresses and channels (\<open>channel.rs\<close>) with the combining-mark table they
  consult (\<open>unicode.rs\<close>). A \<open>Kind\<close> or an \<open>Address\<close> can only be built by its \<open>try_from\<close>, so
  the grammar a parser accepts is the invariant of the type: \<open>kind_ok\<close> and \<open>address_ok\<close>.
\<close>

section \<open>Combining marks\<close>

definition COMBINING_RANGES :: "(nat \<times> nat) list" where
  "COMBINING_RANGES = [
    (0x0300, 0x036F), (0x0483, 0x0489), (0x0591, 0x05BD), (0x05BF, 0x05BF),
    (0x05C1, 0x05C2), (0x05C4, 0x05C5), (0x05C7, 0x05C7), (0x0610, 0x061A),
    (0x064B, 0x065F), (0x0670, 0x0670), (0x06D6, 0x06DC), (0x06DF, 0x06E4),
    (0x06E7, 0x06E8), (0x06EA, 0x06ED), (0x0711, 0x0711), (0x0730, 0x074A),
    (0x07A6, 0x07B0), (0x07EB, 0x07F3), (0x0816, 0x0819), (0x081B, 0x0823),
    (0x0825, 0x0827), (0x0829, 0x082D), (0x0859, 0x085B), (0x08D3, 0x08E1),
    (0x08E3, 0x0903), (0x093A, 0x094F), (0x0951, 0x0957), (0x0962, 0x0963),
    (0x1AB0, 0x1ACE), (0x1DC0, 0x1DFF), (0x20D0, 0x20F0), (0xFE20, 0xFE2F)]"

definition is_combining :: "nat \<Rightarrow> bool" where
  "is_combining c = list_ex (\<lambda>(lo, hi). lo \<le> c \<and> c \<le> hi) COMBINING_RANGES"

text \<open>The table is sorted and its ranges are disjoint, and no ASCII character is in it.\<close>

lemma combining_ranges_sorted:
  "sorted_wrt (\<lambda>(_, hi) (lo, _). hi < lo) COMBINING_RANGES \<and>
   list_all (\<lambda>(lo, hi). lo \<le> hi) COMBINING_RANGES"
  by (simp add: COMBINING_RANGES_def)

lemma is_combining_ascii: "is_ascii c \<Longrightarrow> \<not> is_combining c"
  by (auto simp: is_combining_def COMBINING_RANGES_def is_ascii_def)

section \<open>Kinds and addresses\<close>

definition KIND_MAX_LEN :: nat where "KIND_MAX_LEN = 32"
definition ADDRESS_MAX_LEN :: nat where "ADDRESS_MAX_LEN = 256"

datatype kind_error = KindEmpty | KindTooLong | KindInvalidChar

datatype address_error =
  AddressEmpty | AddressTooLong | AddressNul | AddressCombiningMark | AddressInvalidUtf8

definition parse_kind :: "string \<Rightarrow> kind_error + string" where
  "parse_kind value =
     (if value = [] then Inl KindEmpty
      else if length value > KIND_MAX_LEN then Inl KindTooLong
      else case chars value of
        [] \<Rightarrow> Inl KindInvalidChar \<comment> \<open>not reached: a nonempty string has a first character\<close>
      | first # rest \<Rightarrow>
          if \<not> is_ascii_lowercase first then Inl KindInvalidChar
          else if \<not> list_all (\<lambda>c. is_ascii_lowercase c \<or> is_ascii_digit c \<or> c = 45) rest
          then Inl KindInvalidChar
          else Inr value)"

definition parse_address :: "string \<Rightarrow> address_error + string" where
  "parse_address value =
     (if value = [] then Inl AddressEmpty
      else if length value > ADDRESS_MAX_LEN then Inl AddressTooLong
      else if list_ex (\<lambda>c. c = 0) (chars value) then Inl AddressNul
      else if list_ex is_combining (chars value) then Inl AddressCombiningMark
      else Inr value)"

datatype kind = Kind (kind_str: string)
datatype address = Address (address_str: string)

definition kind_try_from :: "string \<Rightarrow> kind_error + kind" where
  "kind_try_from value = and_then (parse_kind value) (\<lambda>s. Inr (Kind s))"

definition address_try_from :: "string \<Rightarrow> address_error + address" where
  "address_try_from value = and_then (parse_address value) (\<lambda>s. Inr (Address s))"

definition kind_ok :: "kind \<Rightarrow> bool" where
  "kind_ok k \<longleftrightarrow> kind_try_from (kind_str k) = Inr k"

definition address_ok :: "address \<Rightarrow> bool" where
  "address_ok a \<longleftrightarrow> address_try_from (address_str a) = Inr a"

lemma parse_kind_Inr:
  assumes "parse_kind s = Inr t"
  shows "t = s \<and> s \<noteq> [] \<and> length s \<le> 32 \<and> chars s \<noteq> [] \<and> is_ascii_lowercase (hd (chars s)) \<and>
    list_all (\<lambda>c. is_ascii_lowercase c \<or> is_ascii_digit c \<or> c = 45) (tl (chars s))"
  using assms
  by (auto simp: parse_kind_def KIND_MAX_LEN_def split: if_splits list.splits)

lemma parse_address_Inr:
  "parse_address s = Inr t \<longleftrightarrow>
     t = s \<and> s \<noteq> [] \<and> length s \<le> 256 \<and>
     list_all (\<lambda>c. c \<noteq> 0 \<and> \<not> is_combining c) (chars s)"
  by (auto simp: parse_address_def ADDRESS_MAX_LEN_def list_ex_iff list_all_iff split: if_splits
      intro: gr0I)

lemma kind_try_from_ok [codec_wf]: "kind_try_from s = Inr k \<Longrightarrow> kind_ok k"
  using parse_kind_Inr [of s] by (auto simp: kind_try_from_def kind_ok_def and_then_eq_Inr)

lemma address_try_from_ok [codec_wf]: "address_try_from s = Inr a \<Longrightarrow> address_ok a"
  by (auto simp: address_try_from_def address_ok_def and_then_eq_Inr parse_address_Inr)

lemma kind_try_from_str [codec_rt]: "kind_ok k \<Longrightarrow> kind_try_from (kind_str k) = Inr k"
  by (simp add: kind_ok_def)

lemma address_try_from_str [codec_rt]: "address_ok a \<Longrightarrow> address_try_from (address_str a) = Inr a"
  by (simp add: address_ok_def)

section \<open>Channels\<close>

record durable_channel =
  dch_kind :: kind
  dch_address :: address

record ephemeral_channel =
  ech_kind :: kind
  ech_address :: address

definition durable_ok :: "durable_channel \<Rightarrow> bool" where
  [wf_defs]: "durable_ok ch \<longleftrightarrow> kind_ok (dch_kind ch) \<and> address_ok (dch_address ch)"

definition ephemeral_ok :: "ephemeral_channel \<Rightarrow> bool" where
  [wf_defs]: "ephemeral_ok ch \<longleftrightarrow> kind_ok (ech_kind ch) \<and> address_ok (ech_address ch)"

end
