(* ===== verification/Defaults.thy ===== *)
theory Defaults
  imports Channel
begin

text \<open>
  Display names, profile pictures, wake subscriptions, preference snapshots and the host's
  \<open>Defaults\<close> (\<open>defaults.rs\<close>), each with the gate its constructor applies. The structs have
  private fields, so what a constructor accepts is the invariant of the type: \<open>display_name_ok\<close>,
  \<open>profile_pic_ok\<close>, \<open>wake_ok\<close>, \<open>prefs_ok\<close> and \<open>defaults_ok\<close>.
\<close>

definition DISPLAY_NAME_MAX_LEN :: nat where "DISPLAY_NAME_MAX_LEN = 64"
definition PROFILE_PIC_MAX_LEN :: nat where "PROFILE_PIC_MAX_LEN = 4096"
definition PERSISTENT_MIN_COUNT :: nat where "PERSISTENT_MIN_COUNT = 1"
definition PERSISTENT_MAX_COUNT :: nat where "PERSISTENT_MAX_COUNT = 4"
definition EPHEMERAL_MAX_COUNT :: nat where "EPHEMERAL_MAX_COUNT = 4"

section \<open>Display names\<close>

datatype display_name_error = NameEmpty | NameTooLong | NameNul | NameCombiningMark

datatype display_name = DisplayName (name_str: string)

definition display_name_try_from :: "string \<Rightarrow> display_name_error + display_name" where
  "display_name_try_from value =
     (if value = [] then Inl NameEmpty
      else if length value > DISPLAY_NAME_MAX_LEN then Inl NameTooLong
      else if list_ex (\<lambda>c. c = 0) (chars value) then Inl NameNul
      else if list_ex is_combining (chars value) then Inl NameCombiningMark
      else Inr (DisplayName value))"

definition display_name_ok :: "display_name \<Rightarrow> bool" where
  "display_name_ok n \<longleftrightarrow> display_name_try_from (name_str n) = Inr n"

lemma display_name_try_from_ok [codec_wf]:
  "display_name_try_from s = Inr n \<Longrightarrow> display_name_ok n"
  by (auto simp: display_name_ok_def display_name_try_from_def split: if_splits)

lemma display_name_try_from_str [codec_rt]:
  "display_name_ok n \<Longrightarrow> display_name_try_from (name_str n) = Inr n"
  by (simp add: display_name_ok_def)

section \<open>Profile pictures\<close>

datatype profile_pic_error = PicLength | PicHeader

datatype profile_pic = ProfilePic (pic_bytes: bytes)

definition RIFF :: bytes where "RIFF = [0x52, 0x49, 0x46, 0x46]"
definition WEBP :: bytes where "WEBP = [0x57, 0x45, 0x42, 0x50]"

definition profile_pic_try_from :: "bytes \<Rightarrow> profile_pic_error + profile_pic" where
  "profile_pic_try_from value =
     (if value = [] \<or> length value > PROFILE_PIC_MAX_LEN then Inl PicLength
      else if length value < 12 \<or> take 4 value \<noteq> RIFF \<or> take 4 (drop 8 value) \<noteq> WEBP
      then Inl PicHeader
      else Inr (ProfilePic value))"

definition profile_pic_ok :: "profile_pic \<Rightarrow> bool" where
  "profile_pic_ok p \<longleftrightarrow> profile_pic_try_from (pic_bytes p) = Inr p"

definition opt_pic_ok :: "profile_pic option \<Rightarrow> bool" where
  [wf_defs]: "opt_pic_ok p = pred_option profile_pic_ok p"

lemma profile_pic_try_from_ok [codec_wf]:
  "profile_pic_try_from bs = Inr p \<Longrightarrow> profile_pic_ok p"
  by (auto simp: profile_pic_ok_def profile_pic_try_from_def split: if_splits)

lemma profile_pic_try_from_bytes [codec_rt]:
  "profile_pic_ok p \<Longrightarrow> profile_pic_try_from (pic_bytes p) = Inr p"
  by (simp add: profile_pic_ok_def)

section \<open>Notification privacy\<close>

datatype notification_privacy = PrivacyName | PrivacyPreview | PrivacySilent

fun privacy_str :: "notification_privacy \<Rightarrow> string" where
  "privacy_str PrivacyName = ''name''"
| "privacy_str PrivacyPreview = ''preview''"
| "privacy_str PrivacySilent = ''silent''"

definition privacy_parse :: "string \<Rightarrow> notification_privacy option" where
  "privacy_parse s =
     (if s = ''name'' then Some PrivacyName
      else if s = ''preview'' then Some PrivacyPreview
      else if s = ''silent'' then Some PrivacySilent
      else None)"

lemma privacy_parse_str [codec_rt]: "privacy_parse (privacy_str p) = Some p"
  by (cases p) (simp_all add: privacy_parse_def)

section \<open>Wake subscriptions\<close>

datatype wake_error = WakeEndpoint | WakeP256dh | WakeAuth

record wake =
  wk_endpoint :: string
  wk_p256dh :: bytes
  wk_auth :: bytes
  wk_vapid_pk :: "bytes option"

definition starts_with :: "string \<Rightarrow> string \<Rightarrow> bool" where
  "starts_with s prefix = (take (length prefix) s = prefix)"

definition wake_try_new ::
  "string \<Rightarrow> bytes \<Rightarrow> bytes \<Rightarrow> bytes option \<Rightarrow> wake_error + wake" where
  "wake_try_new endpoint p256dh auth vapid_pk =
     (if endpoint = [] \<or> length endpoint > 2048 then Inl WakeEndpoint
      else if \<not> starts_with endpoint ''https:'' then Inl WakeEndpoint
      else if list_ex (\<lambda>c. c = 32 \<or> c = 0 \<or> \<not> is_ascii c \<or> is_combining c) (chars endpoint)
      then Inl WakeEndpoint
      else if length p256dh \<noteq> 65 then Inl WakeP256dh
      else if length auth \<noteq> 16 then Inl WakeAuth
      else Inr \<lparr>wk_endpoint = endpoint, wk_p256dh = p256dh, wk_auth = auth,
                wk_vapid_pk = vapid_pk\<rparr>)"

definition wake_ok :: "wake \<Rightarrow> bool" where
  "wake_ok w \<longleftrightarrow>
     wake_try_new (wk_endpoint w) (wk_p256dh w) (wk_auth w) (wk_vapid_pk w) = Inr w"

lemma wake_try_new_fields:
  "wake_try_new e p a v = Inr w \<Longrightarrow>
     w = \<lparr>wk_endpoint = e, wk_p256dh = p, wk_auth = a, wk_vapid_pk = v\<rparr>"
  by (auto simp: wake_try_new_def split: if_splits)

lemma wake_try_new_ok [codec_wf]: "wake_try_new e p a v = Inr w \<Longrightarrow> wake_ok w"
  using wake_try_new_fields [of e p a v w] by (simp add: wake_ok_def)

lemma wake_try_new_self [codec_rt]:
  "wake_ok w \<Longrightarrow> wake_try_new (wk_endpoint w) (wk_p256dh w) (wk_auth w) (wk_vapid_pk w) = Inr w"
  by (simp add: wake_ok_def)

section \<open>Preferences\<close>

record on_wire_prefs =
  owp_read_receipts :: bool
  owp_online_visible :: bool
  owp_send_typing :: bool
  owp_disappear_after :: "u64 option"
  owp_wake :: "wake option"

record conversation_prefs =
  cvp_read_receipts :: bool
  cvp_online_visible :: bool
  cvp_send_typing :: bool
  cvp_disappear_after :: "u64 option"
  cvp_notification_privacy :: notification_privacy
  cvp_wake :: "wake option"

definition prefs_ok :: "on_wire_prefs \<Rightarrow> bool" where
  [wf_defs]: "prefs_ok p = pred_option wake_ok (owp_wake p)"

section \<open>Defaults\<close>

datatype defaults_error =
  DefaultsChannelBounds | DefaultsKind kind_error | DefaultsAddress address_error

record defaults =
  df_persistents :: "durable_channel list"
  df_ephemerals :: "ephemeral_channel list"
  df_read_receipts :: bool
  df_online_visible :: bool
  df_send_typing :: bool
  df_disappear_after :: "u64 option"
  df_publish_wake :: bool
  df_notification_privacy :: notification_privacy

text \<open>The nested loops \<open>for (i, a) .. for b in iter().skip(i + 1)\<close>: some later element has the
  same kind and address.\<close>

definition same_durable :: "durable_channel \<Rightarrow> durable_channel \<Rightarrow> bool" where
  "same_durable a b \<longleftrightarrow>
     \<not> (kind_str (dch_kind a) \<noteq> kind_str (dch_kind b) \<or>
        address_str (dch_address a) \<noteq> address_str (dch_address b))"

definition same_ephemeral :: "ephemeral_channel \<Rightarrow> ephemeral_channel \<Rightarrow> bool" where
  "same_ephemeral a b \<longleftrightarrow>
     \<not> (kind_str (ech_kind a) \<noteq> kind_str (ech_kind b) \<or>
        address_str (ech_address a) \<noteq> address_str (ech_address b))"

fun has_later_match :: "('a \<Rightarrow> 'a \<Rightarrow> bool) \<Rightarrow> 'a list \<Rightarrow> bool" where
  "has_later_match same [] = False"
| "has_later_match same (a # rest) = (list_ex (same a) rest \<or> has_later_match same rest)"

definition check_channel_bounds ::
  "durable_channel list \<Rightarrow> ephemeral_channel list \<Rightarrow> defaults_error + unit" where
  "check_channel_bounds persistents ephemerals =
     (if length persistents < PERSISTENT_MIN_COUNT \<or> length persistents > PERSISTENT_MAX_COUNT
      then Inl DefaultsChannelBounds
      else if length ephemerals > EPHEMERAL_MAX_COUNT then Inl DefaultsChannelBounds
      else if has_later_match same_durable persistents then Inl DefaultsChannelBounds
      else if has_later_match same_ephemeral ephemerals then Inl DefaultsChannelBounds
      else Inr ())"

definition defaults_try_new ::
  "durable_channel list \<Rightarrow> ephemeral_channel list \<Rightarrow> bool \<Rightarrow> bool \<Rightarrow> bool \<Rightarrow> u64 option \<Rightarrow> bool
     \<Rightarrow> notification_privacy \<Rightarrow> defaults_error + defaults" where
  "defaults_try_new persistents ephemerals read_receipts online_visible send_typing
     disappear_after publish_wake notification_privacy =
     and_then (check_channel_bounds persistents ephemerals) (\<lambda>_.
       Inr \<lparr>df_persistents = persistents, df_ephemerals = ephemerals,
            df_read_receipts = read_receipts, df_online_visible = online_visible,
            df_send_typing = send_typing, df_disappear_after = disappear_after,
            df_publish_wake = publish_wake,
            df_notification_privacy = notification_privacy\<rparr>)"

definition durable_from_parts :: "string \<Rightarrow> string \<Rightarrow> defaults_error + durable_channel" where
  "durable_from_parts kd addr =
     and_then (map_err DefaultsKind (kind_try_from kd)) (\<lambda>k.
     and_then (map_err DefaultsAddress (address_try_from addr)) (\<lambda>a.
       Inr \<lparr>dch_kind = k, dch_address = a\<rparr>))"

definition defaults_ok :: "defaults \<Rightarrow> bool" where
  "defaults_ok d \<longleftrightarrow>
     check_channel_bounds (df_persistents d) (df_ephemerals d) = Inr () \<and>
     list_all durable_ok (df_persistents d) \<and> list_all ephemeral_ok (df_ephemerals d)"

lemma same_durable_iff: "same_durable a b \<longleftrightarrow> a = b"
  by (auto simp: same_durable_def kind.expand address.expand)

lemma same_ephemeral_iff: "same_ephemeral a b \<longleftrightarrow> a = b"
  by (auto simp: same_ephemeral_def kind.expand address.expand)

lemma has_later_match_distinct:
  "(\<And>a b. same a b \<longleftrightarrow> a = b) \<Longrightarrow> has_later_match same xs \<longleftrightarrow> \<not> distinct xs"
  by (induction xs) (auto simp: list_ex_iff)

lemma check_channel_bounds_Inr:
  "check_channel_bounds ps es = Inr () \<longleftrightarrow>
     1 \<le> length ps \<and> length ps \<le> 4 \<and> length es \<le> 4 \<and> distinct ps \<and> distinct es"
  by (auto simp: check_channel_bounds_def PERSISTENT_MIN_COUNT_def PERSISTENT_MAX_COUNT_def
      EPHEMERAL_MAX_COUNT_def has_later_match_distinct same_durable_iff same_ephemeral_iff
      Suc_le_eq)

lemma check_channel_bounds_cases:
  "check_channel_bounds ps es = Inr () \<or> check_channel_bounds ps es = Inl DefaultsChannelBounds"
  by (auto simp: check_channel_bounds_def)

lemma defaults_try_new_self [codec_rt]:
  "defaults_ok d \<Longrightarrow>
     defaults_try_new (df_persistents d) (df_ephemerals d) (df_read_receipts d)
       (df_online_visible d) (df_send_typing d) (df_disappear_after d) (df_publish_wake d)
       (df_notification_privacy d) = Inr d"
  by (simp add: defaults_try_new_def defaults_ok_def)

lemma defaults_try_new_ok [codec_wf]:
  "defaults_try_new ps es a b c d e f = Inr x \<Longrightarrow> list_all durable_ok ps \<Longrightarrow>
     list_all ephemeral_ok es \<Longrightarrow> defaults_ok x"
  by (auto simp: defaults_try_new_def defaults_ok_def and_then_eq_Inr)

end
