(* ===== verification/Ports.thy ===== *)
theory Ports
  imports Defaults "HOL-Library.Stream"
begin

text \<open>
  The capability ports of \<open>v1\<close> (\<open>hmac.rs\<close>, \<open>hash.rs\<close>, \<open>compress.rs\<close>, \<open>b64u.rs\<close>, \<open>aead.rs\<close>,
  \<open>json.rs\<close>, \<open>kem.rs\<close>, \<open>sign.rs\<close>, \<open>argon.rs\<close>), the bag \<open>Suite\<close> that carries them (\<open>suite.rs\<close>)
  and the host's random source (\<open>rng.rs\<close>). The primitives behind a port are third-party code:
  a suite is a record of functions and a parameter of every definition that uses one. What the
  protocol relies on is stated as predicates on a suite (\<open>b64u_ok\<close>, \<open>aead_ok\<close>,
  \<open>compress_ok\<close>, \<open>canonical_json_ok\<close>); theorems that need a law name it as a hypothesis.
\<close>

section \<open>Policies and key lengths\<close>

datatype policy = Classic | PostQuantum | Hybrid

fun kem_pk_len :: "policy \<Rightarrow> nat" where
  "kem_pk_len Classic = 32"
| "kem_pk_len PostQuantum = 1184"
| "kem_pk_len Hybrid = 1216"

fun kem_sk_len :: "policy \<Rightarrow> nat" where
  "kem_sk_len Classic = 32"
| "kem_sk_len PostQuantum = 2400"
| "kem_sk_len Hybrid = 32"

fun kem_ct_len :: "policy \<Rightarrow> nat" where
  "kem_ct_len Classic = 32"
| "kem_ct_len PostQuantum = 1088"
| "kem_ct_len Hybrid = 1120"

definition KEM_SHARED_LEN :: nat where "KEM_SHARED_LEN = 32"

definition CLASSIC_SIGN_PK_LEN :: nat where "CLASSIC_SIGN_PK_LEN = 32"
definition MLDSA65_SIGN_PK_LEN :: nat where "MLDSA65_SIGN_PK_LEN = 1952"
definition CLASSIC_SIGN_SK_LEN :: nat where "CLASSIC_SIGN_SK_LEN = 32"
definition MLDSA65_SIGN_SK_LEN :: nat where "MLDSA65_SIGN_SK_LEN = 4032"
definition CLASSIC_SIGN_SIG_LEN :: nat where "CLASSIC_SIGN_SIG_LEN = 64"
definition MLDSA65_SIGN_SIG_LEN :: nat where "MLDSA65_SIGN_SIG_LEN = 3309"

fun sign_pk_len :: "policy \<Rightarrow> nat" where
  "sign_pk_len Classic = CLASSIC_SIGN_PK_LEN"
| "sign_pk_len PostQuantum = MLDSA65_SIGN_PK_LEN"
| "sign_pk_len Hybrid = CLASSIC_SIGN_PK_LEN + MLDSA65_SIGN_PK_LEN"

fun sign_sk_len :: "policy \<Rightarrow> nat" where
  "sign_sk_len Classic = CLASSIC_SIGN_SK_LEN"
| "sign_sk_len PostQuantum = MLDSA65_SIGN_SK_LEN"
| "sign_sk_len Hybrid = CLASSIC_SIGN_SK_LEN + MLDSA65_SIGN_SK_LEN"

fun sign_sig_len :: "policy \<Rightarrow> nat" where
  "sign_sig_len Classic = CLASSIC_SIGN_SIG_LEN"
| "sign_sig_len PostQuantum = MLDSA65_SIGN_SIG_LEN"
| "sign_sig_len Hybrid = CLASSIC_SIGN_SIG_LEN + MLDSA65_SIGN_SIG_LEN"

datatype encryption_public_key = EncryptionPublicKey (enc_pk_bytes: bytes)

definition encryption_public_key_parse :: "policy \<Rightarrow> bytes \<Rightarrow> encryption_public_key option" where
  "encryption_public_key_parse pol bs =
     then_some (length bs = kem_pk_len pol) (EncryptionPublicKey bs)"

definition signing_public_key_parse :: "policy \<Rightarrow> bytes \<Rightarrow> signing_public_key option" where
  "signing_public_key_parse pol bs =
     then_some (length bs = sign_pk_len pol) (SigningPublicKey bs)"

record key_pair =
  kp_public :: bytes
  kp_secret :: bytes

record signing_key_pair =
  skp_public :: bytes
  skp_secret :: bytes

text \<open>\<open>KemSeed::from_pair\<close> and \<open>SignSeed::from_pair\<close>: two draws side by side.\<close>

definition seed_from_pair :: "random32 \<Rightarrow> random32 \<Rightarrow> bytes" where
  "seed_from_pair first second = as_bytes first @ as_bytes second"

section \<open>JSON values\<close>

datatype json =
    JNull
  | JBool bool
  | JNumber u64
  | JString string
  | JArray "json list"
  | JObject "(string \<times> json) list"

type_synonym members = "(string \<times> json) list"

section \<open>The suite\<close>

datatype compress_error = Codec | Oversize
datatype kem_error = KemUnsupportedPolicy policy | KemKeyGen | KemWrap
datatype sign_error = SignUnsupportedPolicy policy | SignKeyGen | SignSign

record b64u =
  b64_encode :: "bytes \<Rightarrow> string"
  b64_decode :: "string \<Rightarrow> bytes option"

record suite =
  st_hmac :: "hmac_key \<Rightarrow> bytes \<Rightarrow> hmac_mac"
  st_compress :: "bytes \<Rightarrow> bytes"
  st_decompress :: "bytes \<Rightarrow> nat \<Rightarrow> compress_error + bytes"
  st_b64u :: b64u
  st_seal :: "aead_key \<Rightarrow> bytes \<Rightarrow> bytes \<Rightarrow> bytes \<Rightarrow> bytes"
  st_open :: "aead_key \<Rightarrow> bytes \<Rightarrow> bytes \<Rightarrow> bytes \<Rightarrow> bytes option"
  st_json_encode :: "json \<Rightarrow> bytes"
  st_json_decode :: "bytes \<Rightarrow> json option"
  st_kem_generate :: "policy \<Rightarrow> bytes \<Rightarrow> kem_error + key_pair"
  st_kem_wrap :: "policy \<Rightarrow> bytes \<Rightarrow> bytes \<Rightarrow> kem_error + (bytes \<times> bytes)"
  st_kem_unwrap :: "policy \<Rightarrow> bytes \<Rightarrow> bytes \<Rightarrow> kem_error + bytes"
  st_sign_generate :: "policy \<Rightarrow> bytes \<Rightarrow> sign_error + signing_key_pair"
  st_sign :: "policy \<Rightarrow> bytes \<Rightarrow> bytes \<Rightarrow> random32 \<Rightarrow> sign_error + bytes"
  st_verify :: "policy \<Rightarrow> bytes \<Rightarrow> bytes \<Rightarrow> bytes \<Rightarrow> sign_error + unit"
  st_hash :: "bytes \<Rightarrow> array32"
  st_argon :: "bytes \<Rightarrow> bytes \<Rightarrow> u32 \<Rightarrow> u32 \<Rightarrow> u32 \<Rightarrow> array32 option"

section \<open>HKDF-Expand\<close>

definition EXPAND_T1_COUNTER :: u8 where "EXPAND_T1_COUNTER = 1"

definition expand :: "suite \<Rightarrow> hmac_key \<Rightarrow> bytes \<Rightarrow> hmac_mac" where
  "expand s key info = st_hmac s key (info @ [EXPAND_T1_COUNTER])"

section \<open>Random draws\<close>

text \<open>\<open>Rng::random32\<close> draws the next value of the host's source; the source left is returned.\<close>

type_synonym rng = "random32 stream"

definition draw :: "rng \<Rightarrow> random32 \<times> rng" where
  "draw r = (shd r, stl r)"

section \<open>What the protocol relies on\<close>

text \<open>Base64url: decoding undoes encoding, and the alphabet is ASCII.\<close>

definition b64u_ok :: "b64u \<Rightarrow> bool" where
  "b64u_ok b \<longleftrightarrow> (\<forall>bs. b64_decode b (b64_encode b bs) = Some bs \<and> ascii_str (b64_encode b bs))"

text \<open>AES-256-GCM: opening undoes sealing, and the output is the plaintext's length plus the
  16-byte tag.\<close>

definition aead_ok :: "suite \<Rightarrow> bool" where
  "aead_ok s \<longleftrightarrow>
     (\<forall>k n a p. st_open s k n a (st_seal s k n a p) = Some p \<and>
                length (st_seal s k n a p) = length p + 16)"

text \<open>Canonical JSON. An RFC 8785 writer emits the members of an object in its own order, so what
  the reader gives back is the value up to that order. \<open>canon\<close> sorts the members everywhere, and two
  values are the same up to order when their \<open>canon\<close> is. The writer is only asked about values
  whose member names are distinct and whose strings are UTF-8.\<close>

primrec canon :: "json \<Rightarrow> json" where
  "canon JNull = JNull"
| "canon (JBool x) = JBool x"
| "canon (JNumber n) = JNumber n"
| "canon (JString s) = JString s"
| "canon (JArray xs) = JArray (map canon xs)"
| "canon (JObject m) = JObject (sort_key fst (map (map_prod id canon) m))"

fun json_ok :: "json \<Rightarrow> bool" where
  "json_ok (JString s) = utf8 s"
| "json_ok (JArray xs) = list_all json_ok xs"
| "json_ok (JObject m) \<longleftrightarrow>
     distinct (map fst m) \<and> list_all (\<lambda>(k, v). utf8 k \<and> json_ok v) m"
| "json_ok _ = True"

definition canonical_json_ok :: "suite \<Rightarrow> bool" where
  "canonical_json_ok s \<longleftrightarrow>
     (\<forall>v. json_ok v \<longrightarrow>
        (\<exists>v'. st_json_decode s (st_json_encode s v) = Some v' \<and> canon v' = canon v))"

lemma b64u_okD: "b64u_ok b \<Longrightarrow> b64_decode b (b64_encode b bs) = Some bs"
  by (simp add: b64u_ok_def)

lemma b64u_ok_utf8: "b64u_ok b \<Longrightarrow> utf8 (b64_encode b bs)"
  by (simp add: b64u_ok_def utf8_ascii)

end
