(* ===== verification/Payload.thy ===== *)
theory Payload
  imports Ports
begin

text \<open>
  The wire objects of \<open>payload.rs\<close>: tickets, the ten packet plaintexts, the durable body and its
  39 payloads, the vault header, the conversation sorts with their key-derivation labels, hour
  bins and packet padding.
\<close>

definition TICKET_MAX_UNCOMPRESSED :: nat where "TICKET_MAX_UNCOMPRESSED = 4096"
definition PACKET_MAX_UNCOMPRESSED :: nat where "PACKET_MAX_UNCOMPRESSED = 65536"
definition PERSIST_MAX_UNCOMPRESSED :: nat where "PERSIST_MAX_UNCOMPRESSED = 1048576"
definition PACKET_LEN :: nat where "PACKET_LEN = 512"
definition PACKET_NONCE_LEN :: nat where "PACKET_NONCE_LEN = 12"
definition PACKET_PAD_LEN :: nat where "PACKET_PAD_LEN = 484"
definition AEAD_TAG_LEN :: nat where "AEAD_TAG_LEN = 16"
definition TIME_BIN_SECONDS :: u64 where "TIME_BIN_SECONDS = 3600"

section \<open>Conversation sorts\<close>

datatype conversation_sort =
  HandshakeDm | HandshakeSync | DirectMessage | Group | Synchronization | Engine

definition label :: "string \<Rightarrow> bytes" where
  "label s = map (\<lambda>c. of_nat (of_char c)) s"

fun sort_str :: "conversation_sort \<Rightarrow> string" where
  "sort_str HandshakeDm = ''HandshakeDm''"
| "sort_str HandshakeSync = ''HandshakeSync''"
| "sort_str DirectMessage = ''DirectMessage''"
| "sort_str Group = ''Group''"
| "sort_str Synchronization = ''Synchronization''"
| "sort_str Engine = ''Engine''"

definition omits_actor_id :: "conversation_sort \<Rightarrow> bool" where
  "omits_actor_id s \<longleftrightarrow> s = HandshakeDm \<or> s = HandshakeSync"

fun chain_root_label :: "conversation_sort \<Rightarrow> bytes option" where
  "chain_root_label HandshakeDm = Some (label ''chuchotez/1/handshake-dm-chain-root'')"
| "chain_root_label HandshakeSync = Some (label ''chuchotez/1/handshake-sync-chain-root'')"
| "chain_root_label DirectMessage = Some (label ''chuchotez/1/dm-chain-root'')"
| "chain_root_label Group = Some (label ''chuchotez/1/group-chain-root'')"
| "chain_root_label Synchronization = Some (label ''chuchotez/1/sync-chain-root'')"
| "chain_root_label Engine = None"

fun chain_c_label :: "conversation_sort \<Rightarrow> bytes option" where
  "chain_c_label HandshakeDm = Some (label ''chuchotez/1/handshake-dm-chain-c'')"
| "chain_c_label HandshakeSync = Some (label ''chuchotez/1/handshake-sync-chain-c'')"
| "chain_c_label DirectMessage = Some (label ''chuchotez/1/dm-chain-c'')"
| "chain_c_label Group = Some (label ''chuchotez/1/group-chain-c'')"
| "chain_c_label Synchronization = Some (label ''chuchotez/1/sync-chain-c'')"
| "chain_c_label Engine = None"

fun mix_label :: "conversation_sort \<Rightarrow> bytes option" where
  "mix_label HandshakeDm = Some (label ''chuchotez/1/handshake-dm-kem-mix'')"
| "mix_label HandshakeSync = Some (label ''chuchotez/1/handshake-sync-kem-mix'')"
| "mix_label DirectMessage = Some (label ''chuchotez/1/dm-kem-mix'')"
| "mix_label Group = Some (label ''chuchotez/1/group-kem-mix'')"
| "mix_label Synchronization = Some (label ''chuchotez/1/sync-kem-mix'')"
| "mix_label Engine = None"

fun persist_label :: "conversation_sort \<Rightarrow> bytes option" where
  "persist_label HandshakeDm = Some (label ''chuchotez/1/handshake-dm-persist-bin'')"
| "persist_label HandshakeSync = Some (label ''chuchotez/1/handshake-sync-persist-bin'')"
| "persist_label DirectMessage = Some (label ''chuchotez/1/dm-persist-bin'')"
| "persist_label Group = Some (label ''chuchotez/1/group-persist-bin'')"
| "persist_label Synchronization = Some (label ''chuchotez/1/sync-persist-bin'')"
| "persist_label Engine = None"

fun eph_label :: "conversation_sort \<Rightarrow> bytes option" where
  "eph_label HandshakeDm = Some (label ''chuchotez/1/handshake-dm-eph-bin'')"
| "eph_label HandshakeSync = Some (label ''chuchotez/1/handshake-sync-eph-bin'')"
| "eph_label DirectMessage = Some (label ''chuchotez/1/dm-eph-bin'')"
| "eph_label Group = Some (label ''chuchotez/1/group-eph-bin'')"
| "eph_label Synchronization = Some (label ''chuchotez/1/sync-eph-bin'')"
| "eph_label Engine = None"

section \<open>Tickets and timestamps\<close>

record ticket =
  tk_secret :: secret
  tk_persistents :: "durable_channel list"
  tk_expires :: unix_seconds

record hlc =
  hlc_wall_ms :: u64
  hlc_counter :: u64

section \<open>Packets\<close>

record packet_tx_frag_more =
  pfm_actor_id :: bytes
  pfm_packet_seq :: u64
  pfm_tx_id :: tag
  pfm_frag_i :: u64
  pfm_frag :: bytes

record packet_tx_frag_last =
  pfl_actor_id :: bytes
  pfl_packet_seq :: u64
  pfl_tx_id :: tag
  pfl_frag_i :: u64
  pfl_frag :: bytes
  pfl_set_xor :: tag

record packet_xor_ack =
  pxa_actor_id :: bytes
  pxa_packet_seq :: u64
  pxa_set_xor :: tag

record packet_heal_half_xor =
  phx_actor_id :: bytes
  phx_packet_seq :: u64
  phx_lo :: tag
  phx_hi :: tag
  phx_xor :: tag

record packet_heal_want =
  phw_actor_id :: bytes
  phw_packet_seq :: u64
  phw_lo :: tag
  phw_hi :: tag
  phw_ids :: "tag list"

record packet_heal_have =
  phh_actor_id :: bytes
  phh_packet_seq :: u64
  phh_lo :: tag
  phh_hi :: tag
  phh_ids :: "tag list"

record packet_typing =
  pty_actor_id :: bytes
  pty_packet_seq :: u64
  pty_conversation_id :: conversation_id
  pty_composing :: bool

record packet_typing_active =
  pta_actor_id :: bytes
  pta_packet_seq :: u64
  pta_conversation_id :: conversation_id
  pta_last_active :: u64
  pta_composing :: bool

record packet_presence =
  ppr_actor_id :: bytes
  ppr_packet_seq :: u64
  ppr_conversation_id :: conversation_id

record packet_presence_active =
  ppa_actor_id :: bytes
  ppa_packet_seq :: u64
  ppa_conversation_id :: conversation_id
  ppa_last_active :: u64

datatype packet_plain =
    TxFragMore packet_tx_frag_more
  | TxFragLast packet_tx_frag_last
  | XorAck packet_xor_ack
  | HealHalfXor packet_heal_half_xor
  | HealWant packet_heal_want
  | HealHave packet_heal_have
  | Typing packet_typing
  | TypingActive packet_typing_active
  | Presence packet_presence
  | PresenceActive packet_presence_active

section \<open>Durable payloads\<close>

record tx_notice =
  ntc_policy :: policy
  ntc_intake_pk :: encryption_public_key
  ntc_persistents :: "durable_channel list"
  ntc_ephemerals :: "ephemeral_channel list"
  ntc_expires :: unix_seconds

record tx_inviter_intro =
  iri_name :: display_name
  iri_profile_pic :: "profile_pic option"
  iri_send_tag_key :: tag_key
  iri_eph_send_tag_key :: tag_key
  iri_encryption_pk :: encryption_public_key
  iri_signing_pk :: signing_public_key
  iri_seed_ct :: bytes
  iri_prefs :: on_wire_prefs

record tx_invitee_intro =
  iei_name :: display_name
  iei_profile_pic :: "profile_pic option"
  iei_send_tag_key :: tag_key
  iei_eph_send_tag_key :: tag_key
  iei_encryption_pk :: encryption_public_key
  iei_signing_pk :: signing_public_key
  iei_intake_pk :: encryption_public_key
  iei_seed_ct :: bytes
  iei_prefs :: on_wire_prefs

record sync_inviter_intro =
  sri_intro :: tx_inviter_intro
  sri_device_id :: device_id

record sync_invitee_intro =
  sei_intro :: tx_invitee_intro
  sei_device_id :: device_id

record tx_text =
  txt_body :: string
  txt_reply_to :: "tag option"
  txt_expire_at :: "unix_seconds option"

record tx_edit =
  edt_target :: tag
  edt_body :: string

record tx_reaction =
  rct_target :: tag
  rct_emoji :: string
  rct_add :: bool

record tx_media =
  med_mime :: string
  med_filename :: string
  med_hash :: tag
  med_kind :: kind
  med_address :: address
  med_tag :: tag
  med_caption :: "string option"
  med_reply_to :: "tag option"
  med_expire_at :: "unix_seconds option"

record tx_group_invite =
  giv_group_id :: conversation_id
  giv_owner_signing_pk :: signing_public_key
  giv_persistents :: "durable_channel list"
  giv_ephemerals :: "ephemeral_channel list"
  giv_name :: display_name
  giv_photo :: "profile_pic option"
  giv_invitee_signing_pk :: signing_public_key
  giv_group_secret_ct :: bytes

record group_member =
  gmb_signing_pk :: signing_public_key
  gmb_encryption_pk :: encryption_public_key
  gmb_send_tag_key :: tag_key
  gmb_eph_send_tag_key :: tag_key

record tx_group_roster =
  gro_epoch :: u64
  gro_members :: "group_member list"
  gro_sig :: bytes

record tx_group_wrap =
  gwr_to :: signing_public_key
  gwr_from :: signing_public_key
  gwr_kem_ct :: bytes

datatype tx_payload =
    Notice tx_notice
  | InviterIntro tx_inviter_intro
  | InviteeIntro tx_invitee_intro
  | SyncInviterIntro sync_inviter_intro
  | SyncInviteeIntro sync_invitee_intro
  | Confirm
  | Reject
  | Text tx_text
  | Edit tx_edit
  | Remove tag
  | Reaction tx_reaction
  | Read tag
  | Delivered tag
  | Media tx_media
  | Advertise encryption_public_key
  | Wrap bytes
  | Ack tag
  | Name display_name
  | Photo "profile_pic option"
  | Prefs on_wire_prefs
  | GroupInvite tx_group_invite
  | GroupAccept conversation_id
  | GroupReject conversation_id
  | GroupRoster tx_group_roster
  | GroupWrap tx_group_wrap
  | GroupLeave
  | GroupKick signing_public_key
  | EngineInit
  | EngineSetDefaults defaults
  | EngineCreateUser user_id
  | EngineCreateIdentity user_id identity_id policy key_pair signing_key_pair
  | EngineDeleteUser user_id
  | EngineDeleteIdentity user_id identity_id
  | EngineSetDisplayName user_id identity_id display_name
  | EngineUnsetDisplayName user_id identity_id
  | EngineSetProfilePic user_id identity_id "profile_pic option"
  | EngineSetDeviceName display_name
  | EngineKickDevice device_id
  | SyncDek bytes

record durable_body =
  db_conversation_id :: conversation_id
  db_hlc :: hlc
  db_payload :: tx_payload

record vault_header =
  vh_salt :: bytes
  vh_m :: u32
  vh_t :: u32
  vh_p :: u32
  vh_passphrase_nonce :: "bytes option"
  vh_passphrase_wrapped_dek :: "bytes option"
  vh_prf_nonce :: "bytes option"
  vh_prf_wrapped_dek :: "bytes option"

datatype unlock_secret = Passphrase string | Prf array32

section \<open>Policy names\<close>

fun policy_str :: "policy \<Rightarrow> string" where
  "policy_str Classic = ''Classic''"
| "policy_str PostQuantum = ''PostQuantum''"
| "policy_str Hybrid = ''Hybrid''"

definition parse_policy :: "string \<Rightarrow> policy option" where
  "parse_policy s =
     (if s = ''Classic'' then Some Classic
      else if s = ''PostQuantum'' then Some PostQuantum
      else if s = ''Hybrid'' then Some Hybrid
      else None)"

lemma parse_policy_str [codec_rt]: "parse_policy (policy_str p) = Some p"
  by (cases p) (simp_all add: parse_policy_def)

section \<open>Hour bins\<close>

definition time_bin :: "unix_seconds \<Rightarrow> time_bin" where
  "time_bin unix_seconds = unix_seconds div TIME_BIN_SECONDS"

lemma unat_time_bin: "unat (time_bin t) = unat t div 3600"
  by (simp add: time_bin_def TIME_BIN_SECONDS_def unat_div)

lemma time_bin_mono: "a \<le> b \<Longrightarrow> time_bin a \<le> time_bin b"
  by (simp add: word_le_nat_alt unat_time_bin div_le_mono)

section \<open>Padding\<close>

definition pad :: "bytes \<Rightarrow> nat \<Rightarrow> bytes option" where
  "pad bs n = (if length bs \<le> n then Some (bs @ replicate (n - length bs) 0) else None)"

text \<open>\<open>bytes.iter().rposition(|&b| b != 0)\<close>: the last position that is not zero.\<close>

fun rposition :: "('a \<Rightarrow> bool) \<Rightarrow> 'a list \<Rightarrow> nat option" where
  "rposition P [] = None"
| "rposition P (x # xs) =
     (case rposition P xs of Some i \<Rightarrow> Some (Suc i) | None \<Rightarrow> if P x then Some 0 else None)"

definition unpad :: "bytes \<Rightarrow> bytes" where
  "unpad bs = take (case rposition (\<lambda>b. b \<noteq> 0) bs of None \<Rightarrow> 0 | Some i \<Rightarrow> i + 1) bs"

lemma unpad_Nil [simp]: "unpad [] = []"
  by (simp add: unpad_def)

lemma unpad_Cons: "unpad (b # bs) = (if unpad bs = [] \<and> b = 0 then [] else b # unpad bs)"
proof (cases "rposition (\<lambda>b. b \<noteq> 0) bs")
  case None
  then show ?thesis by (auto simp: unpad_def)
next
  case (Some i)
  then have "bs \<noteq> []" by auto
  with Some show ?thesis by (simp add: unpad_def)
qed

lemma unpad_replicate [simp]: "unpad (replicate n 0) = []"
  by (induction n) (simp_all add: unpad_Cons)

lemma unpad_append_zeros: "unpad (bs @ replicate n 0) = unpad bs"
  by (induction bs) (simp_all add: unpad_Cons)

lemma unpad_idem [simp]: "unpad (unpad bs) = unpad bs"
  by (induction bs) (auto simp: unpad_Cons)

lemma unpad_eq_self: "bs = [] \<or> last bs \<noteq> 0 \<Longrightarrow> unpad bs = bs"
  by (induction bs) (auto simp: unpad_Cons split: if_splits)

lemma unpad_decomp: "\<exists>n. bs = unpad bs @ replicate n 0"
proof (induction bs)
  case Nil
  then show ?case by simp
next
  case (Cons b bs)
  then obtain n where n: "bs = unpad bs @ replicate n 0" by blast
  show ?case
  proof (cases "unpad bs = [] \<and> b = 0")
    case True
    then have "unpad (b # bs) = []" by (simp add: unpad_Cons)
    with True n have "b # bs = unpad (b # bs) @ replicate (Suc n) 0"
      by (metis append_Nil replicate_Suc)
    then show ?thesis by blast
  next
    case False
    then have "unpad (b # bs) = b # unpad bs" by (auto simp: unpad_Cons)
    with n have "b # bs = unpad (b # bs) @ replicate n 0" by (metis append_Cons)
    then show ?thesis by blast
  qed
qed

end
