(* ===== verification/Codec.thy ===== *)
theory Codec
  imports Payload
begin

text \<open>
  The JSON mapping \<open>J\<close> of \<open>codec.rs\<close>: member access, and the writers of tickets, channels,
  timestamps, payloads, durable bodies, vault headers and packets. A reader that returns
  \<open>Result<_, ()>\<close> is an option; the readers are in \<open>Codec_Parse\<close> and the round trips in
  \<open>Codec_Roundtrip\<close>.
\<close>

section \<open>Member access\<close>

definition bstr :: "b64u \<Rightarrow> bytes \<Rightarrow> json" where
  [codec_defs]: "bstr b bs = JString (b64_encode b bs)"

fun parse_obj :: "json \<Rightarrow> members option" where
  "parse_obj (JObject m) = Some m"
| "parse_obj _ = None"

definition get :: "members \<Rightarrow> string \<Rightarrow> json option" where
  [codec_defs]: "get m key = map_of m key"

definition get_str :: "members \<Rightarrow> string \<Rightarrow> string option" where
  [codec_defs]: "get_str m key = do {
     v \<leftarrow> get m key;
     case v of JString s \<Rightarrow> Some s | _ \<Rightarrow> None
   }"

definition get_u64 :: "members \<Rightarrow> string \<Rightarrow> u64 option" where
  [codec_defs]: "get_u64 m key = do {
     v \<leftarrow> get m key;
     case v of JNumber n \<Rightarrow> Some n | _ \<Rightarrow> None
   }"

definition get_bool :: "members \<Rightarrow> string \<Rightarrow> bool option" where
  [codec_defs]: "get_bool m key = do {
     v \<leftarrow> get m key;
     case v of JBool n \<Rightarrow> Some n | _ \<Rightarrow> None
   }"

definition get_bstr :: "b64u \<Rightarrow> members \<Rightarrow> string \<Rightarrow> bytes option" where
  [codec_defs]: "get_bstr b m key = do {
     s \<leftarrow> get_str m key;
     b64_decode b s
   }"

definition id32 :: "bytes \<Rightarrow> 'r b32 option" where
  [codec_defs]: "id32 bs = try_from_bytes bs"

definition get_tag :: "b64u \<Rightarrow> members \<Rightarrow> string \<Rightarrow> tag option" where
  [codec_defs]: "get_tag b m key = do {
     bs \<leftarrow> get_bstr b m key;
     try_from_bytes bs
   }"

text \<open>\<open>id32(get_bstr(..)?, Wrapper::from_bytes)\<close>, at the role the context asks for.\<close>

definition get_id :: "b64u \<Rightarrow> members \<Rightarrow> string \<Rightarrow> 'r b32 option" where
  [codec_defs]: "get_id b m key = do {
     bs \<leftarrow> get_bstr b m key;
     id32 bs
   }"

definition extra_ok :: "members \<Rightarrow> string list \<Rightarrow> unit option" where
  [codec_defs]: "extra_ok m keys = (if list_all (\<lambda>(k, _). k \<in> set keys) m then Some () else None)"

section \<open>Writers\<close>

definition durable_json :: "durable_channel \<Rightarrow> json" where
  [codec_defs]: "durable_json ch = JObject [
     (''kind'', JString (kind_str (dch_kind ch))),
     (''address'', JString (address_str (dch_address ch)))]"

definition ephemeral_json :: "ephemeral_channel \<Rightarrow> json" where
  [codec_defs]: "ephemeral_json ch = JObject [
     (''kind'', JString (kind_str (ech_kind ch))),
     (''address'', JString (address_str (ech_address ch)))]"

definition ticket_to_json :: "b64u \<Rightarrow> ticket \<Rightarrow> json" where
  "ticket_to_json b t = JObject [
     (''type'', JString ''v1-handshake-ticket''),
     (''secret'', bstr b (as_bytes (tk_secret t))),
     (''persistents'', JArray (map durable_json (tk_persistents t))),
     (''expires'', JNumber (tk_expires t))]"

definition hlc_json :: "hlc \<Rightarrow> json" where
  [codec_defs]: "hlc_json h = JObject [
     (''wall_ms'', JNumber (hlc_wall_ms h)),
     (''counter'', JNumber (hlc_counter h))]"

fun payload_type :: "tx_payload \<Rightarrow> string" where
  "payload_type (Notice _) = ''v1-handshake-notice''"
| "payload_type (InviterIntro _) = ''v1-handshake-inviter-intro''"
| "payload_type (SyncInviterIntro _) = ''v1-sync-inviter-intro''"
| "payload_type (SyncInviteeIntro _) = ''v1-sync-invitee-intro''"
| "payload_type (InviteeIntro _) = ''v1-handshake-invitee-intro''"
| "payload_type Confirm = ''v1-handshake-confirm''"
| "payload_type Reject = ''v1-handshake-reject''"
| "payload_type (Text _) = ''v1-text''"
| "payload_type (Edit _) = ''v1-edit''"
| "payload_type (Remove _) = ''v1-remove''"
| "payload_type (Reaction _) = ''v1-reaction''"
| "payload_type (Read _) = ''v1-read''"
| "payload_type (Delivered _) = ''v1-delivered''"
| "payload_type (Media _) = ''v1-media''"
| "payload_type (Advertise _) = ''v1-advertise''"
| "payload_type (Wrap _) = ''v1-wrap''"
| "payload_type (Ack _) = ''v1-ack''"
| "payload_type (Name _) = ''v1-name''"
| "payload_type (Photo _) = ''v1-photo''"
| "payload_type (Prefs _) = ''v1-prefs''"
| "payload_type (GroupInvite _) = ''v1-group-invite''"
| "payload_type (GroupAccept _) = ''v1-group-accept''"
| "payload_type (GroupReject _) = ''v1-group-reject''"
| "payload_type (GroupRoster _) = ''v1-group-roster''"
| "payload_type (GroupWrap _) = ''v1-group-wrap''"
| "payload_type GroupLeave = ''v1-group-leave''"
| "payload_type (GroupKick _) = ''v1-group-kick''"
| "payload_type EngineInit = ''v1-engine-init''"
| "payload_type (EngineSetDefaults _) = ''v1-engine-set-defaults''"
| "payload_type (EngineCreateUser _) = ''v1-engine-create-user''"
| "payload_type (EngineCreateIdentity _ _ _ _ _) = ''v1-engine-create-identity''"
| "payload_type (EngineDeleteUser _) = ''v1-engine-delete-user''"
| "payload_type (EngineDeleteIdentity _ _) = ''v1-engine-delete-identity''"
| "payload_type (EngineSetDisplayName _ _ _) = ''v1-engine-set-display-name''"
| "payload_type (EngineUnsetDisplayName _ _) = ''v1-engine-unset-display-name''"
| "payload_type (EngineSetProfilePic _ _ _) = ''v1-engine-set-profile-pic''"
| "payload_type (EngineSetDeviceName _) = ''v1-engine-set-device-name''"
| "payload_type (EngineKickDevice _) = ''v1-engine-kick-device''"
| "payload_type (SyncDek _) = ''v1-sync-dek''"

fun opt_bstr :: "b64u \<Rightarrow> bytes option \<Rightarrow> json" where
  "opt_bstr b (Some bs) = bstr b bs"
| "opt_bstr b None = JNull"

fun opt_number :: "u64 option \<Rightarrow> json" where
  "opt_number (Some n) = JNumber n"
| "opt_number None = JNull"

fun opt_string :: "string option \<Rightarrow> json" where
  "opt_string (Some s) = JString s"
| "opt_string None = JNull"

definition wake_json :: "b64u \<Rightarrow> wake \<Rightarrow> json" where
  [codec_defs]: "wake_json b w = JObject [
     (''endpoint'', JString (wk_endpoint w)),
     (''p256dh'', bstr b (wk_p256dh w)),
     (''auth'', bstr b (wk_auth w)),
     (''vapid_pk'', opt_bstr b (wk_vapid_pk w))]"

definition prefs_fields :: "b64u \<Rightarrow> on_wire_prefs \<Rightarrow> members" where
  [codec_defs]: "prefs_fields b p = [
     (''read_receipts'', JBool (owp_read_receipts p)),
     (''online_visible'', JBool (owp_online_visible p)),
     (''send_typing'', JBool (owp_send_typing p)),
     (''disappear_after'', opt_number (owp_disappear_after p)),
     (''wake'', case owp_wake p of Some w \<Rightarrow> wake_json b w | None \<Rightarrow> JNull)]"

definition prefs_object :: "b64u \<Rightarrow> on_wire_prefs \<Rightarrow> json" where
  [codec_defs]: "prefs_object b p = JObject (prefs_fields b p)"

definition intro_fields :: "b64u \<Rightarrow> tx_inviter_intro \<Rightarrow> bool \<Rightarrow> members" where
  "intro_fields b i invitee = [
     (''name'', JString (name_str (iri_name i))),
     (''profile_pic'', opt_bstr b (map_option pic_bytes (iri_profile_pic i))),
     (''send_tag_key'', bstr b (as_bytes (iri_send_tag_key i))),
     (''eph_send_tag_key'', bstr b (as_bytes (iri_eph_send_tag_key i))),
     (''encryption_pk'', bstr b (enc_pk_bytes (iri_encryption_pk i))),
     (''signing_pk'', bstr b (sign_pk_bytes (iri_signing_pk i))),
     (''seed_ct'', bstr b (iri_seed_ct i)),
     (''prefs'', prefs_object b (iri_prefs i))]"

definition invitee_fields :: "b64u \<Rightarrow> tx_invitee_intro \<Rightarrow> members" where
  "invitee_fields b i = [
     (''name'', JString (name_str (iei_name i))),
     (''profile_pic'', opt_bstr b (map_option pic_bytes (iei_profile_pic i))),
     (''send_tag_key'', bstr b (as_bytes (iei_send_tag_key i))),
     (''eph_send_tag_key'', bstr b (as_bytes (iei_eph_send_tag_key i))),
     (''encryption_pk'', bstr b (enc_pk_bytes (iei_encryption_pk i))),
     (''signing_pk'', bstr b (sign_pk_bytes (iei_signing_pk i))),
     (''intake_pk'', bstr b (enc_pk_bytes (iei_intake_pk i))),
     (''seed_ct'', bstr b (iei_seed_ct i)),
     (''prefs'', prefs_object b (iei_prefs i))]"

definition defaults_json :: "defaults \<Rightarrow> json" where
  "defaults_json d = JObject [
     (''persistents'', JArray (map durable_json (df_persistents d))),
     (''ephemerals'', JArray (map ephemeral_json (df_ephemerals d))),
     (''read_receipts'', JBool (df_read_receipts d)),
     (''online_visible'', JBool (df_online_visible d)),
     (''send_typing'', JBool (df_send_typing d)),
     (''disappear_after'', opt_number (df_disappear_after d)),
     (''publish_wake'', JBool (df_publish_wake d)),
     (''notification_privacy'', JString (privacy_str (df_notification_privacy d)))]"

definition media_fields :: "b64u \<Rightarrow> tx_media \<Rightarrow> members" where
  "media_fields b m = [
     (''mime'', JString (med_mime m)),
     (''filename'', JString (med_filename m)),
     (''hash'', bstr b (as_bytes (med_hash m))),
     (''kind'', JString (kind_str (med_kind m))),
     (''address'', JString (address_str (med_address m))),
     (''tag'', bstr b (as_bytes (med_tag m))),
     (''caption'', opt_string (med_caption m)),
     (''reply_to'', opt_bstr b (map_option as_bytes (med_reply_to m))),
     (''expire_at'', opt_number (med_expire_at m))]"

definition group_invite_fields :: "b64u \<Rightarrow> tx_group_invite \<Rightarrow> members" where
  "group_invite_fields b g = [
     (''group_id'', bstr b (as_bytes (giv_group_id g))),
     (''owner_signing_pk'', bstr b (sign_pk_bytes (giv_owner_signing_pk g))),
     (''persistents'', JArray (map durable_json (giv_persistents g))),
     (''ephemerals'', JArray (map ephemeral_json (giv_ephemerals g))),
     (''name'', JString (name_str (giv_name g))),
     (''photo'', opt_bstr b (map_option pic_bytes (giv_photo g))),
     (''invitee_signing_pk'', bstr b (sign_pk_bytes (giv_invitee_signing_pk g))),
     (''group_secret_ct'', bstr b (giv_group_secret_ct g))]"

definition member_json :: "b64u \<Rightarrow> group_member \<Rightarrow> json" where
  "member_json b m = JObject [
     (''signing_pk'', bstr b (sign_pk_bytes (gmb_signing_pk m))),
     (''encryption_pk'', bstr b (enc_pk_bytes (gmb_encryption_pk m))),
     (''send_tag_key'', bstr b (as_bytes (gmb_send_tag_key m))),
     (''eph_send_tag_key'', bstr b (as_bytes (gmb_eph_send_tag_key m)))]"

definition roster_fields :: "b64u \<Rightarrow> tx_group_roster \<Rightarrow> members" where
  "roster_fields b r = [
     (''epoch'', JNumber (gro_epoch r)),
     (''members'', JArray (map (member_json b) (gro_members r))),
     (''sig'', bstr b (gro_sig r))]"

fun payload_fields :: "b64u \<Rightarrow> tx_payload \<Rightarrow> members" where
  "payload_fields b (Notice n) = [
     (''policy'', JString (policy_str (ntc_policy n))),
     (''intake_pk'', bstr b (enc_pk_bytes (ntc_intake_pk n))),
     (''persistents'', JArray (map durable_json (ntc_persistents n))),
     (''ephemerals'', JArray (map ephemeral_json (ntc_ephemerals n))),
     (''expires'', JNumber (ntc_expires n))]"
| "payload_fields b Confirm = []"
| "payload_fields b Reject = []"
| "payload_fields b EngineInit = []"
| "payload_fields b GroupLeave = []"
| "payload_fields b (EngineCreateUser u) = [(''user_id'', bstr b (as_bytes u))]"
| "payload_fields b (EngineDeleteUser u) = [(''user_id'', bstr b (as_bytes u))]"
| "payload_fields b (EngineCreateIdentity u i pol enc sg) = [
     (''user_id'', bstr b (as_bytes u)),
     (''identity_id'', bstr b (as_bytes i)),
     (''policy'', JString (policy_str pol)),
     (''encryption'', JObject [
        (''pk'', bstr b (kp_public enc)), (''sk'', bstr b (kp_secret enc))]),
     (''signing'', JObject [
        (''pk'', bstr b (skp_public sg)), (''sk'', bstr b (skp_secret sg))])]"
| "payload_fields b (EngineDeleteIdentity u i) = [
     (''user_id'', bstr b (as_bytes u)), (''identity_id'', bstr b (as_bytes i))]"
| "payload_fields b (EngineUnsetDisplayName u i) = [
     (''user_id'', bstr b (as_bytes u)), (''identity_id'', bstr b (as_bytes i))]"
| "payload_fields b (EngineSetDisplayName u i n) = [
     (''user_id'', bstr b (as_bytes u)), (''identity_id'', bstr b (as_bytes i)),
     (''name'', JString (name_str n))]"
| "payload_fields b (EngineSetProfilePic u i p) = [
     (''user_id'', bstr b (as_bytes u)), (''identity_id'', bstr b (as_bytes i)),
     (''profile_pic'', opt_bstr b (map_option pic_bytes p))]"
| "payload_fields b (EngineSetDefaults d) = [(''defaults'', defaults_json d)]"
| "payload_fields b (EngineSetDeviceName n) = [(''name'', JString (name_str n))]"
| "payload_fields b (EngineKickDevice d) = [(''device_id'', bstr b (as_bytes d))]"
| "payload_fields b (SyncDek ct) = [(''ct'', bstr b ct)]"
| "payload_fields b (Text t) = [
     (''body'', JString (txt_body t)),
     (''reply_to'', opt_bstr b (map_option as_bytes (txt_reply_to t))),
     (''expire_at'', opt_number (txt_expire_at t))]"
| "payload_fields b (Edit e) = [
     (''target'', bstr b (as_bytes (edt_target e))), (''body'', JString (edt_body e))]"
| "payload_fields b (Remove t) = [(''target'', bstr b (as_bytes t))]"
| "payload_fields b (Reaction r) = [
     (''target'', bstr b (as_bytes (rct_target r))), (''emoji'', JString (rct_emoji r)),
     (''add'', JBool (rct_add r))]"
| "payload_fields b (Read t) = [(''up_to'', bstr b (as_bytes t))]"
| "payload_fields b (Delivered t) = [(''up_to'', bstr b (as_bytes t))]"
| "payload_fields b (Name n) = [(''name'', JString (name_str n))]"
| "payload_fields b (Photo p) = [(''profile_pic'', opt_bstr b (map_option pic_bytes p))]"
| "payload_fields b (Advertise pk) = [(''encaps_pk'', bstr b (enc_pk_bytes pk))]"
| "payload_fields b (Wrap ct) = [(''kem_ct'', bstr b ct)]"
| "payload_fields b (Ack t) = [(''ratchet_ack'', bstr b (as_bytes t))]"
| "payload_fields b (GroupAccept g) = [(''group_id'', bstr b (as_bytes g))]"
| "payload_fields b (GroupReject g) = [(''group_id'', bstr b (as_bytes g))]"
| "payload_fields b (GroupKick pk) = [(''signing_pk'', bstr b (sign_pk_bytes pk))]"
| "payload_fields b (InviterIntro i) = intro_fields b i False"
| "payload_fields b (InviteeIntro i) = invitee_fields b i"
| "payload_fields b (SyncInviterIntro s) =
     intro_fields b (sri_intro s) False @ [(''device_id'', bstr b (as_bytes (sri_device_id s)))]"
| "payload_fields b (SyncInviteeIntro s) =
     invitee_fields b (sei_intro s) @ [(''device_id'', bstr b (as_bytes (sei_device_id s)))]"
| "payload_fields b (Media m) = media_fields b m"
| "payload_fields b (Prefs p) = prefs_fields b p"
| "payload_fields b (GroupInvite g) = group_invite_fields b g"
| "payload_fields b (GroupRoster r) = roster_fields b r"
| "payload_fields b (GroupWrap w) = [
     (''to'', bstr b (sign_pk_bytes (gwr_to w))),
     (''from'', bstr b (sign_pk_bytes (gwr_from w))),
     (''kem_ct'', bstr b (gwr_kem_ct w))]"

definition payload_to_json :: "b64u \<Rightarrow> tx_payload \<Rightarrow> json" where
  "payload_to_json b p = JObject ((''type'', JString (payload_type p)) # payload_fields b p)"

definition durable_body_to_json :: "b64u \<Rightarrow> durable_body \<Rightarrow> json" where
  "durable_body_to_json b body = JObject [
     (''type'', JString ''v1-durable-body''),
     (''conversation_id'', bstr b (as_bytes (db_conversation_id body))),
     (''hlc'', hlc_json (db_hlc body)),
     (''payload'', payload_to_json b (db_payload body))]"

definition vault_header_to_json :: "b64u \<Rightarrow> vault_header \<Rightarrow> json" where
  "vault_header_to_json b h = JObject [
     (''type'', JString ''v1-vault-header''),
     (''salt'', bstr b (vh_salt h)),
     (''m'', JNumber (ucast (vh_m h))),
     (''t'', JNumber (ucast (vh_t h))),
     (''p'', JNumber (ucast (vh_p h))),
     (''passphrase_nonce'', opt_bstr b (vh_passphrase_nonce h)),
     (''passphrase_wrapped_dek'', opt_bstr b (vh_passphrase_wrapped_dek h)),
     (''prf_nonce'', opt_bstr b (vh_prf_nonce h)),
     (''prf_wrapped_dek'', opt_bstr b (vh_prf_wrapped_dek h))]"

section \<open>Packet writers\<close>

fun packet_type :: "packet_plain \<Rightarrow> string" where
  "packet_type (TxFragMore _) = ''v1-packet-tx-frag-more''"
| "packet_type (TxFragLast _) = ''v1-packet-tx-frag-last''"
| "packet_type (XorAck _) = ''v1-packet-xor-ack''"
| "packet_type (HealHalfXor _) = ''v1-packet-heal-half-xor''"
| "packet_type (HealWant _) = ''v1-packet-heal-want''"
| "packet_type (HealHave _) = ''v1-packet-heal-have''"
| "packet_type (Typing _) = ''v1-packet-typing''"
| "packet_type (TypingActive _) = ''v1-packet-typing-active''"
| "packet_type (Presence _) = ''v1-packet-presence''"
| "packet_type (PresenceActive _) = ''v1-packet-presence-active''"

definition tags_json :: "b64u \<Rightarrow> tag list \<Rightarrow> json" where
  "tags_json b ids = JArray (map (\<lambda>t. bstr b (as_bytes t)) ids)"

fun packet_fields :: "b64u \<Rightarrow> packet_plain \<Rightarrow> members" where
  "packet_fields b (TxFragMore p) = [
     (''actor_id'', bstr b (pfm_actor_id p)),
     (''packet_seq'', JNumber (pfm_packet_seq p)),
     (''tx_id'', bstr b (as_bytes (pfm_tx_id p))),
     (''frag_i'', JNumber (pfm_frag_i p)),
     (''frag'', bstr b (pfm_frag p))]"
| "packet_fields b (TxFragLast p) = [
     (''actor_id'', bstr b (pfl_actor_id p)),
     (''packet_seq'', JNumber (pfl_packet_seq p)),
     (''tx_id'', bstr b (as_bytes (pfl_tx_id p))),
     (''frag_i'', JNumber (pfl_frag_i p)),
     (''frag'', bstr b (pfl_frag p)),
     (''set_xor'', bstr b (as_bytes (pfl_set_xor p)))]"
| "packet_fields b (XorAck p) = [
     (''actor_id'', bstr b (pxa_actor_id p)),
     (''packet_seq'', JNumber (pxa_packet_seq p)),
     (''set_xor'', bstr b (as_bytes (pxa_set_xor p)))]"
| "packet_fields b (HealHalfXor p) = [
     (''actor_id'', bstr b (phx_actor_id p)),
     (''packet_seq'', JNumber (phx_packet_seq p)),
     (''lo'', bstr b (as_bytes (phx_lo p))),
     (''hi'', bstr b (as_bytes (phx_hi p))),
     (''xor'', bstr b (as_bytes (phx_xor p)))]"
| "packet_fields b (HealWant p) = [
     (''actor_id'', bstr b (phw_actor_id p)),
     (''packet_seq'', JNumber (phw_packet_seq p)),
     (''lo'', bstr b (as_bytes (phw_lo p))),
     (''hi'', bstr b (as_bytes (phw_hi p))),
     (''ids'', tags_json b (phw_ids p))]"
| "packet_fields b (HealHave p) = [
     (''actor_id'', bstr b (phh_actor_id p)),
     (''packet_seq'', JNumber (phh_packet_seq p)),
     (''lo'', bstr b (as_bytes (phh_lo p))),
     (''hi'', bstr b (as_bytes (phh_hi p))),
     (''ids'', tags_json b (phh_ids p))]"
| "packet_fields b (Typing p) = [
     (''actor_id'', bstr b (pty_actor_id p)),
     (''packet_seq'', JNumber (pty_packet_seq p)),
     (''conversation_id'', bstr b (as_bytes (pty_conversation_id p))),
     (''composing'', JBool (pty_composing p))]"
| "packet_fields b (TypingActive p) = [
     (''actor_id'', bstr b (pta_actor_id p)),
     (''packet_seq'', JNumber (pta_packet_seq p)),
     (''conversation_id'', bstr b (as_bytes (pta_conversation_id p))),
     (''last_active'', JNumber (pta_last_active p)),
     (''composing'', JBool (pta_composing p))]"
| "packet_fields b (Presence p) = [
     (''actor_id'', bstr b (ppr_actor_id p)),
     (''packet_seq'', JNumber (ppr_packet_seq p)),
     (''conversation_id'', bstr b (as_bytes (ppr_conversation_id p)))]"
| "packet_fields b (PresenceActive p) = [
     (''actor_id'', bstr b (ppa_actor_id p)),
     (''packet_seq'', JNumber (ppa_packet_seq p)),
     (''conversation_id'', bstr b (as_bytes (ppa_conversation_id p))),
     (''last_active'', JNumber (ppa_last_active p))]"

definition packet_to_json :: "b64u \<Rightarrow> packet_plain \<Rightarrow> json" where
  "packet_to_json b p =
     JObject ((''type'', JString (packet_type p)) # (''version'', JNumber 1) # packet_fields b p)"

end
