(* ===== verification/Codec_Parse.thy ===== *)
theory Codec_Parse
  imports Codec
begin

text \<open>
  The readers of \<open>codec.rs\<close>: one definition per function,
      each an option because the source
  returns \<open>Result<_, ()>\<close>. A reader takes an object, refuses members outside its list
  (\<open>extra_ok\<close>) and reads every member it needs, so a missing,
      mistyped or extra member is \<open>None\<close>.
\<close>

text \<open>\<open>parse(get(m, key)?)?\<close>, a reader applied to a member.\<close>

definition at :: "members \<Rightarrow> string \<Rightarrow> (json \<Rightarrow> 'a option) \<Rightarrow> 'a option" where
  [codec_defs]: "at m key parse = do {
     v \<leftarrow> get m key;
     parse v
   }"

section \<open>Channels, tickets and timestamps\<close>

definition parse_durable :: "json \<Rightarrow> durable_channel option" where
  "parse_durable value = do {
     m \<leftarrow> parse_obj value;
     extra_ok m [''kind'', ''address''];
     ks \<leftarrow> get_str m ''kind'';
     k \<leftarrow> ok (kind_try_from ks);
     as \<leftarrow> get_str m ''address'';
     a \<leftarrow> ok (address_try_from as);
     Some \<lparr>dch_kind = k, dch_address = a\<rparr>
   }"

fun parse_durable_list :: "json \<Rightarrow> durable_channel list option" where
  "parse_durable_list (JArray items) = those (map parse_durable items)"
| "parse_durable_list _ = None"

definition parse_ephemeral :: "json \<Rightarrow> ephemeral_channel option" where
  "parse_ephemeral value = do {
     m \<leftarrow> parse_obj value;
     extra_ok m [''kind'', ''address''];
     ks \<leftarrow> get_str m ''kind'';
     k \<leftarrow> ok (kind_try_from ks);
     as \<leftarrow> get_str m ''address'';
     a \<leftarrow> ok (address_try_from as);
     Some \<lparr>ech_kind = k, ech_address = a\<rparr>
   }"

fun parse_ephemeral_list :: "json \<Rightarrow> ephemeral_channel list option" where
  "parse_ephemeral_list (JArray items) = those (map parse_ephemeral items)"
| "parse_ephemeral_list _ = None"

definition ticket_from_json :: "b64u \<Rightarrow> json \<Rightarrow> ticket option" where
  "ticket_from_json b value = do {
     m \<leftarrow> parse_obj value;
     extra_ok m [''type'', ''secret'', ''persistents'', ''expires''];
     ty \<leftarrow> get_str m ''type'';
     if ty \<noteq> ''v1-handshake-ticket'' then None else do {
       secret_bytes \<leftarrow> get_bstr b m ''secret'';
       secret \<leftarrow> try_from_bytes secret_bytes;
       persistents \<leftarrow> at m ''persistents'' parse_durable_list;
       if persistents = [] \<or> length persistents > 4 then None else do {
         expires \<leftarrow> get_u64 m ''expires'';
         Some \<lparr>tk_secret = secret, tk_persistents = persistents, tk_expires = expires\<rparr>
       }
     }
   }"

definition parse_hlc :: "json \<Rightarrow> hlc option" where
  "parse_hlc value = do {
     m \<leftarrow> parse_obj value;
     extra_ok m [''wall_ms'', ''counter''];
     w \<leftarrow> get_u64 m ''wall_ms'';
     c \<leftarrow> get_u64 m ''counter'';
     Some \<lparr>hlc_wall_ms = w, hlc_counter = c\<rparr>
   }"

section \<open>Keys, wakes, preferences and defaults\<close>

definition parse_keypair :: "b64u \<Rightarrow> json \<Rightarrow> key_pair option" where
  "parse_keypair b value = do {
     m \<leftarrow> parse_obj value;
     extra_ok m [''pk'', ''sk''];
     pk \<leftarrow> get_bstr b m ''pk'';
     sk \<leftarrow> get_bstr b m ''sk'';
     Some \<lparr>kp_public = pk, kp_secret = sk\<rparr>
   }"

definition parse_sign_pair :: "b64u \<Rightarrow> json \<Rightarrow> signing_key_pair option" where
  "parse_sign_pair b value = do {
     m \<leftarrow> parse_obj value;
     extra_ok m [''pk'', ''sk''];
     pk \<leftarrow> get_bstr b m ''pk'';
     sk \<leftarrow> get_bstr b m ''sk'';
     Some \<lparr>skp_public = pk, skp_secret = sk\<rparr>
   }"

fun parse_opt_bytes :: "b64u \<Rightarrow> json \<Rightarrow> bytes option option" where
  "parse_opt_bytes b JNull = Some None"
| "parse_opt_bytes b (JString s) = do {
     bs \<leftarrow> b64_decode b s;
     Some (Some bs)
   }"
| "parse_opt_bytes b _ = None"

fun parse_opt_u64 :: "json \<Rightarrow> u64 option option" where
  "parse_opt_u64 JNull = Some None"
| "parse_opt_u64 (JNumber n) = Some (Some n)"
| "parse_opt_u64 _ = None"

fun parse_opt_str :: "json \<Rightarrow> string option option" where
  "parse_opt_str JNull = Some None"
| "parse_opt_str (JString s) = Some (Some s)"
| "parse_opt_str _ = None"

definition parse_wake :: "b64u \<Rightarrow> json \<Rightarrow> wake option" where
  "parse_wake b value = do {
     m \<leftarrow> parse_obj value;
     extra_ok m [''endpoint'', ''p256dh'', ''auth'', ''vapid_pk''];
     vapid \<leftarrow> at m ''vapid_pk'' (parse_opt_bytes b);
     endpoint \<leftarrow> get_str m ''endpoint'';
     p256dh \<leftarrow> get_bstr b m ''p256dh'';
     auth \<leftarrow> get_bstr b m ''auth'';
     ok (wake_try_new endpoint p256dh auth vapid)
   }"

fun parse_opt_wake :: "b64u \<Rightarrow> json \<Rightarrow> wake option option" where
  "parse_opt_wake b JNull = Some None"
| "parse_opt_wake b v = do {
     w \<leftarrow> parse_wake b v;
     Some (Some w)
   }"

definition parse_prefs :: "b64u \<Rightarrow> json \<Rightarrow> on_wire_prefs option" where
  "parse_prefs b value = do {
     m \<leftarrow> parse_obj value;
     extra_ok m [''read_receipts'', ''online_visible'', ''send_typing'', ''disappear_after'',
         ''wake''];
     disappear \<leftarrow> at m ''disappear_after'' parse_opt_u64;
     wake \<leftarrow> at m ''wake'' (parse_opt_wake b);
     rr \<leftarrow> get_bool m ''read_receipts'';
     ov \<leftarrow> get_bool m ''online_visible'';
     st \<leftarrow> get_bool m ''send_typing'';
     Some \<lparr>owp_read_receipts = rr, owp_online_visible = ov, owp_send_typing = st,
           owp_disappear_after = disappear, owp_wake = wake\<rparr>
   }"

definition parse_defaults :: "json \<Rightarrow> defaults option" where
  "parse_defaults value = do {
     m \<leftarrow> parse_obj value;
     extra_ok m [''persistents'', ''ephemerals'', ''read_receipts'', ''online_visible'',
       ''send_typing'', ''disappear_after'', ''publish_wake'', ''notification_privacy''];
     disappear \<leftarrow> at m ''disappear_after'' parse_opt_u64;
     ps \<leftarrow> get_str m ''notification_privacy'';
     privacy \<leftarrow> privacy_parse ps;
     persistents \<leftarrow> at m ''persistents'' parse_durable_list;
     ephemerals \<leftarrow> at m ''ephemerals'' parse_ephemeral_list;
     rr \<leftarrow> get_bool m ''read_receipts'';
     ov \<leftarrow> get_bool m ''online_visible'';
     st \<leftarrow> get_bool m ''send_typing'';
     pw \<leftarrow> get_bool m ''publish_wake'';
     ok (defaults_try_new persistents ephemerals rr ov st disappear pw privacy)
   }"

definition parse_name :: "string \<Rightarrow> display_name option" where
  "parse_name s = ok (display_name_try_from s)"

fun parse_pic :: "b64u \<Rightarrow> json \<Rightarrow> profile_pic option option" where
  "parse_pic b JNull = Some None"
| "parse_pic b (JString s) = do {
     bs \<leftarrow> b64_decode b s;
     p \<leftarrow> ok (profile_pic_try_from bs);
     Some (Some p)
   }"
| "parse_pic b _ = None"

fun parse_opt_tag :: "b64u \<Rightarrow> json \<Rightarrow> tag option option" where
  "parse_opt_tag b JNull = Some None"
| "parse_opt_tag b (JString s) = do {
     bs \<leftarrow> b64_decode b s;
     t \<leftarrow> id32 bs;
     Some (Some t)
   }"
| "parse_opt_tag b _ = None"

definition take_enc :: "b64u \<Rightarrow> members \<Rightarrow> string \<Rightarrow> encryption_public_key option" where
  [codec_defs]: "take_enc b m key = do {
     bs \<leftarrow> get_bstr b m key;
     Some (EncryptionPublicKey bs)
   }"

definition take_sign :: "b64u \<Rightarrow> members \<Rightarrow> string \<Rightarrow> signing_public_key option" where
  [codec_defs]: "take_sign b m key = do {
     bs \<leftarrow> get_bstr b m key;
     Some (SigningPublicKey bs)
   }"

text \<open>\<open>parse_name(get_str(..)?)?\<close>.\<close>

definition get_name :: "members \<Rightarrow> string \<Rightarrow> display_name option" where
  [codec_defs]: "get_name m key = do {
     s \<leftarrow> get_str m key;
     parse_name s
   }"

section \<open>Payloads\<close>

definition parse_intro :: "b64u \<Rightarrow> members \<Rightarrow> bool \<Rightarrow> tx_inviter_intro option" where
  "parse_intro b m sync = do {
     extra_ok m ([''type'', ''name'', ''profile_pic'', ''send_tag_key'', ''eph_send_tag_key'',
       ''encryption_pk'', ''signing_pk'', ''seed_ct'', ''prefs''] @
       (if sync then [''device_id''] else []));
     name \<leftarrow> get_name m ''name'';
     pic \<leftarrow> at m ''profile_pic'' (parse_pic b);
     stk \<leftarrow> get_id b m ''send_tag_key'';
     etk \<leftarrow> get_id b m ''eph_send_tag_key'';
     epk \<leftarrow> take_enc b m ''encryption_pk'';
     spk \<leftarrow> take_sign b m ''signing_pk'';
     seed_ct \<leftarrow> get_bstr b m ''seed_ct'';
     prefs \<leftarrow> at m ''prefs'' (parse_prefs b);
     Some \<lparr>iri_name = name, iri_profile_pic = pic, iri_send_tag_key = stk,
           iri_eph_send_tag_key = etk, iri_encryption_pk = epk, iri_signing_pk = spk,
           iri_seed_ct = seed_ct, iri_prefs = prefs\<rparr>
   }"

definition parse_invitee :: "b64u \<Rightarrow> members \<Rightarrow> bool \<Rightarrow> tx_invitee_intro option" where
  "parse_invitee b m sync = do {
     extra_ok m ([''type'', ''name'', ''profile_pic'', ''send_tag_key'', ''eph_send_tag_key'',
       ''encryption_pk'', ''signing_pk'', ''intake_pk'', ''seed_ct'', ''prefs''] @
       (if sync then [''device_id''] else []));
     name \<leftarrow> get_name m ''name'';
     pic \<leftarrow> at m ''profile_pic'' (parse_pic b);
     stk \<leftarrow> get_id b m ''send_tag_key'';
     etk \<leftarrow> get_id b m ''eph_send_tag_key'';
     epk \<leftarrow> take_enc b m ''encryption_pk'';
     spk \<leftarrow> take_sign b m ''signing_pk'';
     ipk \<leftarrow> take_enc b m ''intake_pk'';
     seed_ct \<leftarrow> get_bstr b m ''seed_ct'';
     prefs \<leftarrow> at m ''prefs'' (parse_prefs b);
     Some \<lparr>iei_name = name, iei_profile_pic = pic, iei_send_tag_key = stk,
           iei_eph_send_tag_key = etk, iei_encryption_pk = epk, iei_signing_pk = spk,
           iei_intake_pk = ipk, iei_seed_ct = seed_ct, iei_prefs = prefs\<rparr>
   }"

definition parse_media :: "b64u \<Rightarrow> members \<Rightarrow> tx_media option" where
  "parse_media b m = do {
     extra_ok m [''type'', ''mime'', ''filename'', ''hash'', ''kind'', ''address'', ''tag'',
       ''caption'', ''reply_to'', ''expire_at''];
     mime \<leftarrow> get_str m ''mime'';
     filename \<leftarrow> get_str m ''filename'';
     hash \<leftarrow> get_id b m ''hash'';
     ks \<leftarrow> get_str m ''kind'';
     k \<leftarrow> ok (kind_try_from ks);
     as \<leftarrow> get_str m ''address'';
     a \<leftarrow> ok (address_try_from as);
     tag \<leftarrow> get_tag b m ''tag'';
     caption \<leftarrow> at m ''caption'' parse_opt_str;
     reply_to \<leftarrow> at m ''reply_to'' (parse_opt_tag b);
     expire_at \<leftarrow> at m ''expire_at'' parse_opt_u64;
     Some \<lparr>med_mime = mime, med_filename = filename, med_hash = hash, med_kind = k,
           med_address = a, med_tag = tag, med_caption = caption, med_reply_to = reply_to,
           med_expire_at = expire_at\<rparr>
   }"

definition parse_group_invite :: "b64u \<Rightarrow> members \<Rightarrow> tx_group_invite option" where
  "parse_group_invite b m = do {
     extra_ok m [''type'', ''group_id'', ''owner_signing_pk'', ''persistents'', ''ephemerals'',
       ''name'', ''photo'', ''invitee_signing_pk'', ''group_secret_ct''];
     gid \<leftarrow> get_id b m ''group_id'';
     owner \<leftarrow> take_sign b m ''owner_signing_pk'';
     ps \<leftarrow> at m ''persistents'' parse_durable_list;
     es \<leftarrow> at m ''ephemerals'' parse_ephemeral_list;
     name \<leftarrow> get_name m ''name'';
     photo \<leftarrow> at m ''photo'' (parse_pic b);
     invitee \<leftarrow> take_sign b m ''invitee_signing_pk'';
     ct \<leftarrow> get_bstr b m ''group_secret_ct'';
     Some \<lparr>giv_group_id = gid, giv_owner_signing_pk = owner, giv_persistents = ps,
           giv_ephemerals = es, giv_name = name, giv_photo = photo,
           giv_invitee_signing_pk = invitee, giv_group_secret_ct = ct\<rparr>
   }"

definition parse_member :: "b64u \<Rightarrow> json \<Rightarrow> group_member option" where
  "parse_member b item = do {
     im \<leftarrow> parse_obj item;
     extra_ok im [''signing_pk'', ''encryption_pk'', ''send_tag_key'', ''eph_send_tag_key''];
     spk \<leftarrow> take_sign b im ''signing_pk'';
     epk \<leftarrow> take_enc b im ''encryption_pk'';
     stk \<leftarrow> get_id b im ''send_tag_key'';
     etk \<leftarrow> get_id b im ''eph_send_tag_key'';
     Some \<lparr>gmb_signing_pk = spk, gmb_encryption_pk = epk, gmb_send_tag_key = stk,
           gmb_eph_send_tag_key = etk\<rparr>
   }"

fun parse_members :: "b64u \<Rightarrow> json \<Rightarrow> group_member list option" where
  "parse_members b (JArray items) = those (map (parse_member b) items)"
| "parse_members b _ = None"

definition parse_roster :: "b64u \<Rightarrow> members \<Rightarrow> tx_group_roster option" where
  "parse_roster b m = do {
     extra_ok m [''type'', ''epoch'', ''members'', ''sig''];
     members \<leftarrow> at m ''members'' (parse_members b);
     epoch \<leftarrow> get_u64 m ''epoch'';
     sig \<leftarrow> get_bstr b m ''sig'';
     Some \<lparr>gro_epoch = epoch, gro_members = members, gro_sig = sig\<rparr>
   }"

text \<open>The \<open>match\<close> on the type name,
    then \<open>payload_from_json\<close> itself.\<close>

definition payload_of_type :: "b64u \<Rightarrow> string \<Rightarrow> members \<Rightarrow> tx_payload option" where
  "payload_of_type b ty m =
     (if ty = ''v1-handshake-notice'' then do {
         extra_ok m [''type'', ''policy'', ''intake_pk'', ''persistents'', ''ephemerals'',
             ''expires''];
         ps \<leftarrow> get_str m ''policy'';
         pol \<leftarrow> parse_policy ps;
         ipk \<leftarrow> take_enc b m ''intake_pk'';
         prs \<leftarrow> at m ''persistents'' parse_durable_list;
         eps \<leftarrow> at m ''ephemerals'' parse_ephemeral_list;
         ex \<leftarrow> get_u64 m ''expires'';
         Some (Notice \<lparr>ntc_policy = pol, ntc_intake_pk = ipk, ntc_persistents = prs,
             ntc_ephemerals = eps, ntc_expires = ex\<rparr>) }
      else if ty = ''v1-handshake-inviter-intro'' then do {
         x \<leftarrow> parse_intro b m False;
         Some (InviterIntro x) }
      else if ty = ''v1-sync-inviter-intro'' then do {
         x \<leftarrow> parse_intro b m True;
         d \<leftarrow> get_id b m ''device_id'';
         Some (SyncInviterIntro \<lparr>sri_intro = x, sri_device_id = d\<rparr>) }
      else if ty = ''v1-sync-invitee-intro'' then do {
         x \<leftarrow> parse_invitee b m True;
         d \<leftarrow> get_id b m ''device_id'';
         Some (SyncInviteeIntro \<lparr>sei_intro = x, sei_device_id = d\<rparr>) }
      else if ty = ''v1-handshake-invitee-intro'' then do {
         x \<leftarrow> parse_invitee b m False;
         Some (InviteeIntro x) }
      else if ty = ''v1-handshake-confirm'' then do {
         extra_ok m [''type''];
         Some Confirm }
      else if ty = ''v1-handshake-reject'' then do {
         extra_ok m [''type''];
         Some Reject }
      else if ty = ''v1-text'' then do {
         extra_ok m [''type'', ''body'', ''reply_to'', ''expire_at''];
         body \<leftarrow> get_str m ''body'';
         rt \<leftarrow> at m ''reply_to'' (parse_opt_tag b);
         ea \<leftarrow> at m ''expire_at'' parse_opt_u64;
         Some (Text \<lparr>txt_body = body, txt_reply_to = rt, txt_expire_at = ea\<rparr>) }
      else if ty = ''v1-edit'' then do {
         extra_ok m [''type'', ''target'', ''body''];
         t \<leftarrow> get_tag b m ''target'';
         body \<leftarrow> get_str m ''body'';
         Some (Edit \<lparr>edt_target = t, edt_body = body\<rparr>) }
      else if ty = ''v1-remove'' then do {
         extra_ok m [''type'', ''target''];
         t \<leftarrow> get_tag b m ''target'';
         Some (Remove t) }
      else if ty = ''v1-reaction'' then do {
         extra_ok m [''type'', ''target'', ''emoji'', ''add''];
         t \<leftarrow> get_tag b m ''target'';
         e \<leftarrow> get_str m ''emoji'';
         a \<leftarrow> get_bool m ''add'';
         Some (Reaction \<lparr>rct_target = t, rct_emoji = e, rct_add = a\<rparr>) }
      else if ty = ''v1-read'' then do {
         extra_ok m [''type'', ''up_to''];
         t \<leftarrow> get_tag b m ''up_to'';
         Some (Read t) }
      else if ty = ''v1-delivered'' then do {
         extra_ok m [''type'', ''up_to''];
         t \<leftarrow> get_tag b m ''up_to'';
         Some (Delivered t) }
      else if ty = ''v1-media'' then do {
         x \<leftarrow> parse_media b m;
         Some (Media x) }
      else if ty = ''v1-advertise'' then do {
         extra_ok m [''type'', ''encaps_pk''];
         pk \<leftarrow> take_enc b m ''encaps_pk'';
         Some (Advertise pk) }
      else if ty = ''v1-wrap'' then do {
         extra_ok m [''type'', ''kem_ct''];
         ct \<leftarrow> get_bstr b m ''kem_ct'';
         Some (Wrap ct) }
      else if ty = ''v1-ack'' then do {
         extra_ok m [''type'', ''ratchet_ack''];
         t \<leftarrow> get_tag b m ''ratchet_ack'';
         Some (Ack t) }
      else if ty = ''v1-name'' then do {
         extra_ok m [''type'', ''name''];
         n \<leftarrow> get_name m ''name'';
         Some (Name n) }
      else if ty = ''v1-photo'' then do {
         extra_ok m [''type'', ''profile_pic''];
         p \<leftarrow> at m ''profile_pic'' (parse_pic b);
         Some (Photo p) }
      else if ty = ''v1-prefs'' then do {
         p \<leftarrow> parse_prefs b (JObject (filter (\<lambda>(k, _). k \<noteq> ''type'') m));
         Some (Prefs p) }
      else if ty = ''v1-group-invite'' then do {
         x \<leftarrow> parse_group_invite b m;
         Some (GroupInvite x) }
      else if ty = ''v1-group-accept'' then do {
         extra_ok m [''type'', ''group_id''];
         g \<leftarrow> get_id b m ''group_id'';
         Some (GroupAccept g) }
      else if ty = ''v1-group-reject'' then do {
         extra_ok m [''type'', ''group_id''];
         g \<leftarrow> get_id b m ''group_id'';
         Some (GroupReject g) }
      else if ty = ''v1-group-roster'' then do {
         x \<leftarrow> parse_roster b m;
         Some (GroupRoster x) }
      else if ty = ''v1-group-wrap'' then do {
         extra_ok m [''type'', ''to'', ''from'', ''kem_ct''];
         t \<leftarrow> get_bstr b m ''to'';
         f \<leftarrow> get_bstr b m ''from'';
         ct \<leftarrow> get_bstr b m ''kem_ct'';
         Some (GroupWrap \<lparr>gwr_to = SigningPublicKey t, gwr_from = SigningPublicKey f,
             gwr_kem_ct = ct\<rparr>) }
      else if ty = ''v1-group-leave'' then do {
         extra_ok m [''type''];
         Some GroupLeave }
      else if ty = ''v1-group-kick'' then do {
         extra_ok m [''type'', ''signing_pk''];
         pk \<leftarrow> take_sign b m ''signing_pk'';
         Some (GroupKick pk) }
      else if ty = ''v1-engine-init'' then do {
         extra_ok m [''type''];
         Some EngineInit }
      else if ty = ''v1-engine-set-defaults'' then do {
         extra_ok m [''type'', ''defaults''];
         d \<leftarrow> at m ''defaults'' parse_defaults;
         Some (EngineSetDefaults d) }
      else if ty = ''v1-engine-create-user'' then do {
         extra_ok m [''type'', ''user_id''];
         u \<leftarrow> get_id b m ''user_id'';
         Some (EngineCreateUser u) }
      else if ty = ''v1-engine-create-identity'' then do {
         extra_ok m [''type'', ''user_id'', ''identity_id'', ''policy'', ''encryption'',
             ''signing''];
         u \<leftarrow> get_id b m ''user_id'';
         i \<leftarrow> get_id b m ''identity_id'';
         ps \<leftarrow> get_str m ''policy'';
         pol \<leftarrow> parse_policy ps;
         enc \<leftarrow> at m ''encryption'' (parse_keypair b);
         sg \<leftarrow> at m ''signing'' (parse_sign_pair b);
         Some (EngineCreateIdentity u i pol enc sg) }
      else if ty = ''v1-engine-delete-user'' then do {
         extra_ok m [''type'', ''user_id''];
         u \<leftarrow> get_id b m ''user_id'';
         Some (EngineDeleteUser u) }
      else if ty = ''v1-engine-delete-identity'' then do {
         extra_ok m [''type'', ''user_id'', ''identity_id''];
         u \<leftarrow> get_id b m ''user_id'';
         i \<leftarrow> get_id b m ''identity_id'';
         Some (EngineDeleteIdentity u i) }
      else if ty = ''v1-engine-set-display-name'' then do {
         extra_ok m [''type'', ''user_id'', ''identity_id'', ''name''];
         u \<leftarrow> get_id b m ''user_id'';
         i \<leftarrow> get_id b m ''identity_id'';
         n \<leftarrow> get_name m ''name'';
         Some (EngineSetDisplayName u i n) }
      else if ty = ''v1-engine-unset-display-name'' then do {
         extra_ok m [''type'', ''user_id'', ''identity_id''];
         u \<leftarrow> get_id b m ''user_id'';
         i \<leftarrow> get_id b m ''identity_id'';
         Some (EngineUnsetDisplayName u i) }
      else if ty = ''v1-engine-set-profile-pic'' then do {
         extra_ok m [''type'', ''user_id'', ''identity_id'', ''profile_pic''];
         u \<leftarrow> get_id b m ''user_id'';
         i \<leftarrow> get_id b m ''identity_id'';
         p \<leftarrow> at m ''profile_pic'' (parse_pic b);
         Some (EngineSetProfilePic u i p) }
      else if ty = ''v1-engine-set-device-name'' then do {
         extra_ok m [''type'', ''name''];
         n \<leftarrow> get_name m ''name'';
         Some (EngineSetDeviceName n) }
      else if ty = ''v1-engine-kick-device'' then do {
         extra_ok m [''type'', ''device_id''];
         d \<leftarrow> get_id b m ''device_id'';
         Some (EngineKickDevice d) }
      else if ty = ''v1-sync-dek'' then do {
         extra_ok m [''type'', ''ct''];
         ct \<leftarrow> get_bstr b m ''ct'';
         Some (SyncDek ct) }
      else None)"

definition payload_from_json :: "b64u \<Rightarrow> json \<Rightarrow> tx_payload option" where
  "payload_from_json b value = do {
     m \<leftarrow> parse_obj value;
     ty \<leftarrow> get_str m ''type'';
     payload_of_type b ty m
   }"

definition durable_body_from_json :: "b64u \<Rightarrow> json \<Rightarrow> durable_body option" where
  "durable_body_from_json b value = do {
     m \<leftarrow> parse_obj value;
     extra_ok m [''type'', ''conversation_id'', ''hlc'', ''payload''];
     ty \<leftarrow> get_str m ''type'';
     if ty \<noteq> ''v1-durable-body'' then None else do {
       cid \<leftarrow> get_id b m ''conversation_id'';
       h \<leftarrow> at m ''hlc'' parse_hlc;
       p \<leftarrow> at m ''payload'' (payload_from_json b);
       Some \<lparr>db_conversation_id = cid, db_hlc = h, db_payload = p\<rparr>
     }
   }"

section \<open>Packets\<close>

definition get_cid :: "b64u \<Rightarrow> members \<Rightarrow> conversation_id option" where
  [codec_defs]: "get_cid b m = get_id b m ''conversation_id''"

definition require_v1 :: "members \<Rightarrow> unit option" where
  [codec_defs]: "require_v1 m = do {
     n \<leftarrow> get_u64 m ''version'';
     then_some (n = 1) ()
   }"

definition get_frag_i :: "members \<Rightarrow> u64 \<Rightarrow> u64 option" where
  [codec_defs]: "get_frag_i m mx = do {
     n \<leftarrow> get_u64 m ''frag_i'';
     then_some (n \<le> mx) n
   }"

fun parse_tag_item :: "b64u \<Rightarrow> json \<Rightarrow> tag option" where
  "parse_tag_item b (JString s) = do {
     bs \<leftarrow> b64_decode b s;
     id32 bs
   }"
| "parse_tag_item b _ = None"

fun parse_tags :: "b64u \<Rightarrow> json \<Rightarrow> tag list option" where
  "parse_tags b (JArray items) = do {
     then_some (length items \<le> 32) ();
     those (map (parse_tag_item b) items)
   }"
| "parse_tags b _ = None"

definition get_ids :: "b64u \<Rightarrow> members \<Rightarrow> tag list option" where
  [codec_defs]: "get_ids b m = at m ''ids'' (parse_tags b)"

definition packet_of_type :: "b64u \<Rightarrow> string \<Rightarrow> members \<Rightarrow> packet_plain option" where
  "packet_of_type b ty m =
     (if ty = ''v1-packet-tx-frag-more'' then do {
         extra_ok m [''type'', ''version'', ''actor_id'', ''packet_seq'', ''tx_id'', ''frag_i'',
             ''frag''];
         a \<leftarrow> get_bstr b m ''actor_id'';
         n \<leftarrow> get_u64 m ''packet_seq'';
         t \<leftarrow> get_tag b m ''tx_id'';
         i \<leftarrow> get_frag_i m 62;
         f \<leftarrow> get_bstr b m ''frag'';
         Some (TxFragMore \<lparr>pfm_actor_id = a, pfm_packet_seq = n, pfm_tx_id = t,
             pfm_frag_i = i, pfm_frag = f\<rparr>) }
      else if ty = ''v1-packet-tx-frag-last'' then do {
         extra_ok m [''type'', ''version'', ''actor_id'', ''packet_seq'', ''tx_id'', ''frag_i'',
             ''frag'', ''set_xor''];
         a \<leftarrow> get_bstr b m ''actor_id'';
         n \<leftarrow> get_u64 m ''packet_seq'';
         t \<leftarrow> get_tag b m ''tx_id'';
         i \<leftarrow> get_frag_i m 63;
         f \<leftarrow> get_bstr b m ''frag'';
         x \<leftarrow> get_tag b m ''set_xor'';
         Some (TxFragLast \<lparr>pfl_actor_id = a, pfl_packet_seq = n, pfl_tx_id = t,
             pfl_frag_i = i, pfl_frag = f, pfl_set_xor = x\<rparr>) }
      else if ty = ''v1-packet-xor-ack'' then do {
         extra_ok m [''type'', ''version'', ''actor_id'', ''packet_seq'', ''set_xor''];
         a \<leftarrow> get_bstr b m ''actor_id'';
         n \<leftarrow> get_u64 m ''packet_seq'';
         x \<leftarrow> get_tag b m ''set_xor'';
         Some (XorAck \<lparr>pxa_actor_id = a, pxa_packet_seq = n, pxa_set_xor = x\<rparr>) }
      else if ty = ''v1-packet-heal-half-xor'' then do {
         extra_ok m [''type'', ''version'', ''actor_id'', ''packet_seq'', ''lo'', ''hi'', ''xor''];
         a \<leftarrow> get_bstr b m ''actor_id'';
         n \<leftarrow> get_u64 m ''packet_seq'';
         lo \<leftarrow> get_tag b m ''lo'';
         hi \<leftarrow> get_tag b m ''hi'';
         x \<leftarrow> get_tag b m ''xor'';
         Some (HealHalfXor \<lparr>phx_actor_id = a, phx_packet_seq = n, phx_lo = lo, phx_hi = hi,
             phx_xor = x\<rparr>) }
      else if ty = ''v1-packet-heal-want'' then do {
         extra_ok m [''type'', ''version'', ''actor_id'', ''packet_seq'', ''lo'', ''hi'', ''ids''];
         a \<leftarrow> get_bstr b m ''actor_id'';
         n \<leftarrow> get_u64 m ''packet_seq'';
         lo \<leftarrow> get_tag b m ''lo'';
         hi \<leftarrow> get_tag b m ''hi'';
         is \<leftarrow> get_ids b m;
         Some (HealWant \<lparr>phw_actor_id = a, phw_packet_seq = n, phw_lo = lo, phw_hi = hi,
             phw_ids = is\<rparr>) }
      else if ty = ''v1-packet-heal-have'' then do {
         extra_ok m [''type'', ''version'', ''actor_id'', ''packet_seq'', ''lo'', ''hi'', ''ids''];
         a \<leftarrow> get_bstr b m ''actor_id'';
         n \<leftarrow> get_u64 m ''packet_seq'';
         lo \<leftarrow> get_tag b m ''lo'';
         hi \<leftarrow> get_tag b m ''hi'';
         is \<leftarrow> get_ids b m;
         Some (HealHave \<lparr>phh_actor_id = a, phh_packet_seq = n, phh_lo = lo, phh_hi = hi,
             phh_ids = is\<rparr>) }
      else if ty = ''v1-packet-typing'' then do {
         extra_ok m [''type'', ''version'', ''actor_id'', ''packet_seq'', ''conversation_id'',
             ''composing''];
         a \<leftarrow> get_bstr b m ''actor_id'';
         n \<leftarrow> get_u64 m ''packet_seq'';
         c \<leftarrow> get_cid b m;
         w \<leftarrow> get_bool m ''composing'';
         Some (Typing \<lparr>pty_actor_id = a, pty_packet_seq = n, pty_conversation_id = c,
             pty_composing = w\<rparr>) }
      else if ty = ''v1-packet-typing-active'' then do {
         extra_ok m [''type'', ''version'', ''actor_id'', ''packet_seq'', ''conversation_id'',
             ''last_active'', ''composing''];
         a \<leftarrow> get_bstr b m ''actor_id'';
         n \<leftarrow> get_u64 m ''packet_seq'';
         c \<leftarrow> get_cid b m;
         l \<leftarrow> get_u64 m ''last_active'';
         w \<leftarrow> get_bool m ''composing'';
         Some (TypingActive \<lparr>pta_actor_id = a, pta_packet_seq = n, pta_conversation_id = c,
             pta_last_active = l, pta_composing = w\<rparr>) }
      else if ty = ''v1-packet-presence'' then do {
         extra_ok m [''type'', ''version'', ''actor_id'', ''packet_seq'', ''conversation_id''];
         a \<leftarrow> get_bstr b m ''actor_id'';
         n \<leftarrow> get_u64 m ''packet_seq'';
         c \<leftarrow> get_cid b m;
         Some (Presence \<lparr>ppr_actor_id = a, ppr_packet_seq = n,
             ppr_conversation_id = c\<rparr>) }
      else if ty = ''v1-packet-presence-active'' then do {
         extra_ok m [''type'', ''version'', ''actor_id'', ''packet_seq'', ''conversation_id'',
             ''last_active''];
         a \<leftarrow> get_bstr b m ''actor_id'';
         n \<leftarrow> get_u64 m ''packet_seq'';
         c \<leftarrow> get_cid b m;
         l \<leftarrow> get_u64 m ''last_active'';
         Some (PresenceActive \<lparr>ppa_actor_id = a, ppa_packet_seq = n,
             ppa_conversation_id = c, ppa_last_active = l\<rparr>) }
      else None)"

definition packet_from_json :: "b64u \<Rightarrow> json \<Rightarrow> packet_plain option" where
  "packet_from_json b value = do {
     m \<leftarrow> parse_obj value;
     require_v1 m;
     ty \<leftarrow> get_str m ''type'';
     packet_of_type b ty m
   }"

section \<open>Packed bytes\<close>

definition packed_packet :: "suite \<Rightarrow> packet_plain \<Rightarrow> engine_error + bytes" where
  "packed_packet s packet =
     (let packed = st_compress s (st_json_encode s (packet_to_json (st_b64u s) packet))
      in ok_or (then_some (length packed \<le> PACKET_PAD_LEN) packed) BodyTooLarge)"

definition packed_durable_body :: "suite \<Rightarrow> durable_body \<Rightarrow> bytes" where
  "packed_durable_body s body =
     st_compress s (st_json_encode s (durable_body_to_json (st_b64u s) body))"

end
