(* ===== verification/Codec_Order.thy ===== *)
theory Codec_Order
  imports Codec_Parse
begin

text \<open>
  Member order. A canonical writer may emit the members of an object in any order, so a reader must
  not depend on it. Every reader of \<open>codec.rs\<close> reaches the members through \<open>get\<close> and \<open>extra_ok\<close>,
  and these do not see the order once the names are distinct; hence no reader does.
\<close>

named_theorems unordered \<open>readers do not depend on the order of members\<close>

definition canon_members :: "members \<Rightarrow> members" where
  "canon_members m = sort_key fst (map (map_prod id canon) m)"

definition members_ok :: "members \<Rightarrow> bool" where
  "members_ok m \<longleftrightarrow> distinct (map fst m) \<and> list_all (\<lambda>(k, v). utf8 k \<and> json_ok v) m"

lemma canon_JObject [simp]: "canon (JObject m) = JObject (canon_members m)"
  by (simp add: canon_members_def)

lemma json_ok_JObject [simp]: "json_ok (JObject m) = members_ok m"
  by (simp add: members_ok_def)

declare canon.simps(6) [simp del] json_ok.simps(3) [simp del]

lemma set_canon_members: "set (canon_members m) = map_prod id canon ` set m"
  by (simp add: canon_members_def)

lemma distinct_fst_sort: "distinct (map fst (sort_key f ys)) = distinct (map fst ys)"
  by (simp add: distinct_map)

lemma fst_map_prod_id: "map fst (map (map_prod id f) m) = map fst m"
  by simp

lemma distinct_canon_members: "distinct (map fst (canon_members m)) = distinct (map fst m)"
  unfolding canon_members_def distinct_fst_sort fst_map_prod_id ..

lemma map_of_map_prod: "map_of (map (map_prod id f) m) k = map_option f (map_of m k)"
  by (induction m) auto

lemma get_canon [unordered]:
  assumes "members_ok m" shows "get (canon_members m) k = map_option canon (get m k)"
proof -
  have d: "distinct (map fst m)" using assms by (simp add: members_ok_def)
  have "map_of (canon_members m) = map_of (map (map_prod id canon) m)"
    using d distinct_canon_members [of m]
    by (intro map_of_inject_set [THEN iffD2]) (auto simp: canon_members_def comp_def)
  then show ?thesis by (simp add: get_def map_of_map_prod)
qed

lemma extra_ok_canon [unordered]: "extra_ok (canon_members m) keys = extra_ok m keys"
  by (auto simp: extra_ok_def list_all_iff set_canon_members)

lemma get_json_ok: "members_ok m \<Longrightarrow> get m k = Some v \<Longrightarrow> json_ok v"
  by (auto simp: get_def members_ok_def list_all_iff dest!: map_of_SomeD)

lemma get_case_canon:
  assumes "members_ok m" and "\<And>v. json_ok v \<Longrightarrow> p (canon v) = p v"
  shows "Option.bind (get (canon_members m) k) p = Option.bind (get m k) p"
  using assms get_json_ok [of m k] by (cases "get m k") (simp_all add: get_canon)

lemma at_canon [unordered]:
  "members_ok m \<Longrightarrow> (\<And>v. json_ok v \<Longrightarrow> p (canon v) = p v) \<Longrightarrow>
     at (canon_members m) k p = at m k p"
  unfolding at_def by (rule get_case_canon)

lemma get_str_canon [unordered]: "members_ok m \<Longrightarrow> get_str (canon_members m) k = get_str m k"
  unfolding get_str_def by (rule get_case_canon) (auto split: json.split)

lemma get_u64_canon [unordered]: "members_ok m \<Longrightarrow> get_u64 (canon_members m) k = get_u64 m k"
  unfolding get_u64_def by (rule get_case_canon) (auto split: json.split)

lemma get_bool_canon [unordered]: "members_ok m \<Longrightarrow> get_bool (canon_members m) k = get_bool m k"
  unfolding get_bool_def by (rule get_case_canon) (auto split: json.split)

lemma get_bstr_canon [unordered]: "members_ok m \<Longrightarrow> get_bstr b (canon_members m) k = get_bstr b m k"
  by (simp add: get_bstr_def get_str_canon)

lemma get_tag_canon [unordered]: "members_ok m \<Longrightarrow> get_tag b (canon_members m) k = get_tag b m k"
  by (simp add: get_tag_def get_bstr_canon)

lemma get_id_canon [unordered]: "members_ok m \<Longrightarrow> get_id b (canon_members m) k = get_id b m k"
  by (simp add: get_id_def get_bstr_canon)

lemma take_enc_canon [unordered]: "members_ok m \<Longrightarrow> take_enc b (canon_members m) k = take_enc b m k"
  by (simp add: take_enc_def get_bstr_canon)

lemma take_sign_canon [unordered]: "members_ok m \<Longrightarrow> take_sign b (canon_members m) k = take_sign b m k"
  by (simp add: take_sign_def get_bstr_canon)

lemma get_name_canon [unordered]: "members_ok m \<Longrightarrow> get_name (canon_members m) k = get_name m k"
  by (simp add: get_name_def get_str_canon)

lemma get_cid_canon [unordered]: "members_ok m \<Longrightarrow> get_cid b (canon_members m) = get_cid b m"
  by (simp add: get_cid_def get_id_canon)

lemma require_v1_canon [unordered]: "members_ok m \<Longrightarrow> require_v1 (canon_members m) = require_v1 m"
  by (simp add: require_v1_def get_u64_canon)

lemma get_frag_i_canon [unordered]:
  "members_ok m \<Longrightarrow> get_frag_i (canon_members m) n = get_frag_i m n"
  by (simp add: get_frag_i_def get_u64_canon)

text \<open>A reader that starts with \<open>parse_obj\<close> and then only looks at the members.\<close>

lemma parse_obj_canon:
  assumes "json_ok v" and "\<And>m. members_ok m \<Longrightarrow> f (canon_members m) = f m"
  shows "Option.bind (parse_obj (canon v)) f = Option.bind (parse_obj v) f"
  using assms by (cases v) simp_all

lemma those_map_canon:
  "list_all json_ok xs \<Longrightarrow> (\<And>v. json_ok v \<Longrightarrow> p (canon v) = p v) \<Longrightarrow>
     those (map p (map canon xs)) = those (map p xs)"
  by (induction xs) (auto split: option.split simp del: map_map)

section \<open>The readers\<close>

lemma parse_durable_canon [unordered]:
  "json_ok v \<Longrightarrow> parse_durable (canon v) = parse_durable v"
  unfolding parse_durable_def by (rule parse_obj_canon) (simp_all add: unordered)

lemma parse_durable_list_canon [unordered]:
  "json_ok v \<Longrightarrow> parse_durable_list (canon v) = parse_durable_list v"
  by (cases v) (simp_all add: those_map_canon unordered del: map_map)

lemma parse_ephemeral_canon [unordered]:
  "json_ok v \<Longrightarrow> parse_ephemeral (canon v) = parse_ephemeral v"
  unfolding parse_ephemeral_def by (rule parse_obj_canon) (simp_all add: unordered)

lemma parse_ephemeral_list_canon [unordered]:
  "json_ok v \<Longrightarrow> parse_ephemeral_list (canon v) = parse_ephemeral_list v"
  by (cases v) (simp_all add: those_map_canon unordered del: map_map)

lemma ticket_from_json_canon [unordered]:
  "json_ok v \<Longrightarrow> ticket_from_json b (canon v) = ticket_from_json b v"
  unfolding ticket_from_json_def by (rule parse_obj_canon) (simp_all add: unordered cong: if_cong)

lemma parse_hlc_canon [unordered]: "json_ok v \<Longrightarrow> parse_hlc (canon v) = parse_hlc v"
  unfolding parse_hlc_def by (rule parse_obj_canon) (simp_all add: unordered)

lemma parse_keypair_canon [unordered]: "json_ok v \<Longrightarrow> parse_keypair b (canon v) = parse_keypair b v"
  unfolding parse_keypair_def by (rule parse_obj_canon) (simp_all add: unordered)

lemma parse_sign_pair_canon [unordered]:
  "json_ok v \<Longrightarrow> parse_sign_pair b (canon v) = parse_sign_pair b v"
  unfolding parse_sign_pair_def by (rule parse_obj_canon) (simp_all add: unordered)

lemma parse_opt_bytes_canon [unordered]: "parse_opt_bytes b (canon v) = parse_opt_bytes b v"
  by (cases v) simp_all

lemma parse_opt_u64_canon [unordered]: "parse_opt_u64 (canon v) = parse_opt_u64 v"
  by (cases v) simp_all

lemma parse_opt_str_canon [unordered]: "parse_opt_str (canon v) = parse_opt_str v"
  by (cases v) simp_all

lemma parse_pic_canon [unordered]: "parse_pic b (canon v) = parse_pic b v"
  by (cases v) simp_all

lemma parse_opt_tag_canon [unordered]: "parse_opt_tag b (canon v) = parse_opt_tag b v"
  by (cases v) simp_all

lemma parse_wake_canon [unordered]: "json_ok v \<Longrightarrow> parse_wake b (canon v) = parse_wake b v"
  unfolding parse_wake_def by (rule parse_obj_canon) (simp_all add: unordered)

lemma parse_opt_wake_canon [unordered]:
  "json_ok v \<Longrightarrow> parse_opt_wake b (canon v) = parse_opt_wake b v"
  using parse_wake_canon [of v b] by (cases v) simp_all

lemma parse_prefs_canon [unordered]: "json_ok v \<Longrightarrow> parse_prefs b (canon v) = parse_prefs b v"
  unfolding parse_prefs_def by (rule parse_obj_canon) (simp_all add: unordered)

lemma parse_defaults_canon [unordered]: "json_ok v \<Longrightarrow> parse_defaults (canon v) = parse_defaults v"
  unfolding parse_defaults_def by (rule parse_obj_canon) (simp_all add: unordered)

lemma parse_member_canon [unordered]: "json_ok v \<Longrightarrow> parse_member b (canon v) = parse_member b v"
  unfolding parse_member_def by (rule parse_obj_canon) (simp_all add: unordered)

lemma parse_members_canon [unordered]: "json_ok v \<Longrightarrow> parse_members b (canon v) = parse_members b v"
  by (cases v) (simp_all add: those_map_canon unordered del: map_map)

lemma parse_intro_canon [unordered]:
  "members_ok m \<Longrightarrow> parse_intro b (canon_members m) s = parse_intro b m s"
  by (simp add: parse_intro_def unordered)

lemma parse_invitee_canon [unordered]:
  "members_ok m \<Longrightarrow> parse_invitee b (canon_members m) s = parse_invitee b m s"
  by (simp add: parse_invitee_def unordered)

lemma parse_media_canon [unordered]:
  "members_ok m \<Longrightarrow> parse_media b (canon_members m) = parse_media b m"
  by (simp add: parse_media_def unordered)

lemma parse_group_invite_canon [unordered]:
  "members_ok m \<Longrightarrow> parse_group_invite b (canon_members m) = parse_group_invite b m"
  by (simp add: parse_group_invite_def unordered)

lemma parse_roster_canon [unordered]:
  "members_ok m \<Longrightarrow> parse_roster b (canon_members m) = parse_roster b m"
  by (simp add: parse_roster_def unordered)

text \<open>The \<open>v1-prefs\<close> reader drops the \<open>type\<close> member and reads the rest as an object.\<close>

lemma members_ok_filter: "members_ok m \<Longrightarrow> members_ok (filter P m)"
  by (auto simp: members_ok_def list_all_iff distinct_map intro: inj_on_subset)

lemma filter_canon_members:
  "filter (\<lambda>(k, _). k \<noteq> s) (canon_members m) = canon_members (filter (\<lambda>(k, _). k \<noteq> s) m)"
  by (simp add: canon_members_def filter_sort filter_map comp_def case_prod_unfold)

lemma prefs_members_canon [unordered]:
  assumes "members_ok m"
  shows "parse_prefs b (JObject (filter (\<lambda>(k, _). k \<noteq> s) (canon_members m))) =
    parse_prefs b (JObject (filter (\<lambda>(k, _). k \<noteq> s) m))"
  using parse_prefs_canon [of "JObject (filter (\<lambda>(k, _). k \<noteq> s) m)" b] members_ok_filter [OF assms]
  by (simp add: filter_canon_members)

lemma parse_tag_item_canon [unordered]: "parse_tag_item b (canon v) = parse_tag_item b v"
  by (cases v) simp_all

lemma parse_tags_canon [unordered]: "json_ok v \<Longrightarrow> parse_tags b (canon v) = parse_tags b v"
  by (cases v) (simp_all add: those_map_canon unordered del: map_map)

lemma get_ids_canon [unordered]: "members_ok m \<Longrightarrow> get_ids b (canon_members m) = get_ids b m"
  by (simp add: get_ids_def unordered)

lemma payload_of_type_canon [unordered]:
  "members_ok m \<Longrightarrow> payload_of_type b ty (canon_members m) = payload_of_type b ty m"
  unfolding payload_of_type_def by (simp only: unordered TrueI)

lemma payload_from_json_canon [unordered]:
  "json_ok v \<Longrightarrow> payload_from_json b (canon v) = payload_from_json b v"
  unfolding payload_from_json_def by (rule parse_obj_canon) (simp_all add: unordered)

lemma durable_body_from_json_canon [unordered]:
  "json_ok v \<Longrightarrow> durable_body_from_json b (canon v) = durable_body_from_json b v"
  unfolding durable_body_from_json_def
  by (rule parse_obj_canon) (simp_all add: unordered cong: if_cong)

lemma packet_of_type_canon [unordered]:
  "members_ok m \<Longrightarrow> packet_of_type b ty (canon_members m) = packet_of_type b ty m"
  unfolding packet_of_type_def by (simp only: unordered TrueI)

lemma packet_from_json_canon [unordered]:
  "json_ok v \<Longrightarrow> packet_from_json b (canon v) = packet_from_json b v"
  unfolding packet_from_json_def by (rule parse_obj_canon) (simp_all add: unordered)

text \<open>Two values that differ only in member order are both fit for the wire or neither is.\<close>

lemma json_ok_canon: "json_ok (canon v) = json_ok v"
proof (induction v)
  case (JArray xs)
  then show ?case by (auto simp: list_all_iff)
next
  case (JObject m)
  then have "json_ok (canon v) = json_ok v" if "(k, v) \<in> set m" for k v
    using that by (auto simp: prod_set_defs)
  then show ?case
    by (force simp: members_ok_def distinct_canon_members list_all_iff set_canon_members)
qed simp_all

end
