(* ===== verification/Codec_Roundtrip.thy ===== *)
theory Codec_Roundtrip
  imports Codec_Order
begin

text \<open>
  What a pair of writer and reader of \<open>codec.rs\<close> promises, as the locale \<open>json_codec\<close>: the reader
  undoes the writer on well-formed values, returns well-formed values only and does not depend on
  member order. Its consequences (the writer is injective, the value survives any canonical JSON
  port) are proved once; the pairs of the source are its interpretations.
\<close>

section \<open>The contract\<close>

locale json_codec =
  fixes to_json :: "b64u \<Rightarrow> 'a \<Rightarrow> json"
    and from_json :: "b64u \<Rightarrow> json \<Rightarrow> 'a option"
    and wf :: "'a \<Rightarrow> bool"
  assumes roundtrip: "b64u_ok b \<Longrightarrow> wf x \<Longrightarrow> from_json b (to_json b x) = Some x"
    and sound: "from_json b v = Some x \<Longrightarrow> wf x"
    and any_order: "json_ok v \<Longrightarrow> from_json b (canon v) = from_json b v"
begin

lemma injective:
  assumes "b64u_ok b" "wf x" "wf y" "to_json b x = to_json b y" shows "x = y"
  using roundtrip [OF assms(1,2)] roundtrip [OF assms(1,3)] assms(4) by (metis option.inject)

lemma readable_iff:
  assumes "b64u_ok b" shows "(\<exists>v. from_json b v = Some x) \<longleftrightarrow> wf x"
  using roundtrip [OF assms] sound by blast

lemma same_up_to_order:
  assumes "json_ok v" "canon v' = canon v" shows "from_json b v' = from_json b v"
  using assms any_order json_ok_canon by metis

lemma wire_roundtrip:
  assumes "b64u_ok (st_b64u s)" "canonical_json_ok s" "wf x" "json_ok (to_json (st_b64u s) x)"
  shows "Option.bind (st_json_decode s (st_json_encode s (to_json (st_b64u s) x)))
           (from_json (st_b64u s)) = Some x"
proof -
  obtain v where v: "st_json_decode s (st_json_encode s (to_json (st_b64u s) x)) = Some v"
      "canon v = canon (to_json (st_b64u s) x)"
    using assms(2,4) unfolding canonical_json_ok_def by blast
  with same_up_to_order [OF assms(4) v(2)] roundtrip [OF assms(1,3)] show ?thesis by simp
qed

text \<open>A codec for the items gives one for arrays of them.\<close>

lemma array_roundtrip:
  "b64u_ok b \<Longrightarrow> list_all wf xs \<Longrightarrow> those (map (from_json b) (map (to_json b) xs)) = Some xs"
  by (rule those_map_Some) (auto simp: list_all_iff intro: roundtrip)

lemma array_sound: "those (map (from_json b) vs) = Some xs \<Longrightarrow> list_all wf xs"
  by (rule those_map_all) (auto intro: sound)

end

section \<open>Reading back a member\<close>

lemma get_Cons [simp]: "get ((k, v) # m) key = (if key = k then Some v else get m key)"
  by (simp add: get_def)

lemma get_Nil [simp]: "get [] key = None"
  by (simp add: get_def)

lemma extra_ok_Nil [simp]: "extra_ok [] keys = Some ()"
  by (simp add: extra_ok_def)

lemma extra_ok_Cons [simp]:
  "extra_ok ((k, v) # m) keys = (if k \<in> set keys then extra_ok m keys else None)"
  by (simp add: extra_ok_def)

lemma members_ok_Nil [simp]: "members_ok []"
  by (simp add: members_ok_def)

lemma members_ok_Cons [simp]:
  "members_ok ((k, v) # m) \<longleftrightarrow> k \<notin> fst ` set m \<and> utf8 k \<and> json_ok v \<and> members_ok m"
  by (auto simp: members_ok_def)

lemma bstr_json_ok [simp]: "b64u_ok b \<Longrightarrow> json_ok (bstr b bs)"
  by (simp add: bstr_def b64u_ok_utf8)

lemmas member_readers = get_str_def get_u64_def get_bool_def get_bstr_def get_tag_def get_id_def
  id32_def take_enc_def take_sign_def get_name_def parse_name_def at_def get_cid_def require_v1_def
  get_frag_i_def get_ids_def bstr_def b64u_okD

lemma try_from_bytes_id [simp]: "try_from_bytes (as_bytes x) = Some x"
  by simp

lemma parse_opt_number [simp]: "parse_opt_u64 (opt_number n) = Some n"
  by (cases n) simp_all

lemma parse_opt_string [simp]: "parse_opt_str (opt_string n) = Some n"
  by (cases n) simp_all

lemma parse_opt_bstr [simp]: "b64u_ok b \<Longrightarrow> parse_opt_bytes b (opt_bstr b x) = Some x"
  by (cases x) (simp_all add: bstr_def b64u_okD)

lemma parse_opt_tag_bstr [simp]:
  "b64u_ok b \<Longrightarrow> parse_opt_tag b (opt_bstr b (map_option as_bytes x)) = Some x"
  by (cases x) (simp_all add: bstr_def b64u_okD id32_def)

lemma parse_pic_bstr [simp]:
  "b64u_ok b \<Longrightarrow> opt_pic_ok x \<Longrightarrow> parse_pic b (opt_bstr b (map_option pic_bytes x)) = Some x"
  by (cases x) (simp_all add: bstr_def b64u_okD opt_pic_ok_def codec_rt)

lemma parse_pic_wf: "parse_pic b v = Some x \<Longrightarrow> opt_pic_ok x"
  by (cases v) (auto simp: opt_pic_ok_def bind_eq_Some_conv intro: codec_wf)

section \<open>Channels, tickets, timestamps\<close>

lemma parse_durable_json: "durable_ok ch \<Longrightarrow> parse_durable (durable_json ch) = Some ch"
  by (simp add: durable_json_def parse_durable_def get_str_def durable_ok_def codec_rt)

lemma parse_durable_wf: "parse_durable v = Some ch \<Longrightarrow> durable_ok ch"
  by (auto simp: parse_durable_def bind_eq_Some_conv durable_ok_def intro: codec_wf)

lemma parse_ephemeral_json: "ephemeral_ok ch \<Longrightarrow> parse_ephemeral (ephemeral_json ch) = Some ch"
  by (simp add: ephemeral_json_def parse_ephemeral_def get_str_def ephemeral_ok_def codec_rt)

lemma parse_ephemeral_wf: "parse_ephemeral v = Some ch \<Longrightarrow> ephemeral_ok ch"
  by (auto simp: parse_ephemeral_def bind_eq_Some_conv ephemeral_ok_def intro: codec_wf)

interpretation durable_codec: json_codec "\<lambda>_. durable_json" "\<lambda>_. parse_durable" durable_ok
  by unfold_locales
    (simp_all add: parse_durable_json parse_durable_wf parse_durable_canon)

interpretation ephemeral_codec: json_codec "\<lambda>_. ephemeral_json" "\<lambda>_. parse_ephemeral" ephemeral_ok
  by unfold_locales
    (simp_all add: parse_ephemeral_json parse_ephemeral_wf parse_ephemeral_canon)

lemma parse_durable_list_json [simp]:
  "list_all durable_ok chs \<Longrightarrow> parse_durable_list (JArray (map durable_json chs)) = Some chs"
  using those_map_Some [of chs parse_durable durable_json]
  by (simp add: list_all_iff parse_durable_json)

lemma parse_durable_list_wf: "parse_durable_list v = Some chs \<Longrightarrow> list_all durable_ok chs"
  by (cases v) (auto dest: durable_codec.array_sound)

lemma parse_ephemeral_list_json [simp]:
  "list_all ephemeral_ok chs \<Longrightarrow> parse_ephemeral_list (JArray (map ephemeral_json chs)) = Some chs"
  using those_map_Some [of chs parse_ephemeral ephemeral_json]
  by (simp add: list_all_iff parse_ephemeral_json)

lemma parse_ephemeral_list_wf: "parse_ephemeral_list v = Some chs \<Longrightarrow> list_all ephemeral_ok chs"
  by (cases v) (auto dest: ephemeral_codec.array_sound)

declare parse_durable_list.simps(1) [simp del] parse_ephemeral_list.simps(1) [simp del]

definition ticket_wf :: "ticket \<Rightarrow> bool" where
  "ticket_wf t \<longleftrightarrow>
     1 \<le> length (tk_persistents t) \<and> length (tk_persistents t) \<le> 4 \<and>
     list_all durable_ok (tk_persistents t)"

lemma ticket_roundtrip:
  "b64u_ok b \<Longrightarrow> ticket_wf t \<Longrightarrow> ticket_from_json b (ticket_to_json b t) = Some t"
  by (auto simp: ticket_to_json_def ticket_from_json_def member_readers ticket_wf_def)

lemma ticket_from_json_wf: "ticket_from_json b v = Some t \<Longrightarrow> ticket_wf t"
  by (auto simp: ticket_from_json_def bind_eq_Some_conv ticket_wf_def at_def Suc_le_eq
      split: if_splits dest: parse_durable_list_wf)

interpretation ticket_codec: json_codec ticket_to_json ticket_from_json ticket_wf
  by unfold_locales (simp_all add: ticket_roundtrip ticket_from_json_wf ticket_from_json_canon)

lemma parse_hlc_json [simp]: "parse_hlc (hlc_json h) = Some h"
  by (simp add: hlc_json_def parse_hlc_def get_u64_def)

interpretation hlc_codec: json_codec "\<lambda>_. hlc_json" "\<lambda>_. parse_hlc" "\<lambda>_. True"
  by unfold_locales (simp_all add: parse_hlc_canon)

section \<open>Wakes, preferences, defaults\<close>

lemma wake_roundtrip: "b64u_ok b \<Longrightarrow> wake_ok w \<Longrightarrow> parse_wake b (wake_json b w) = Some w"
  by (simp add: wake_json_def parse_wake_def member_readers codec_rt)

lemma parse_wake_wf: "parse_wake b v = Some w \<Longrightarrow> wake_ok w"
  by (auto simp: parse_wake_def bind_eq_Some_conv intro: codec_wf)

interpretation wake_codec: json_codec wake_json parse_wake wake_ok
  by unfold_locales (simp_all add: wake_roundtrip parse_wake_wf parse_wake_canon)

lemma parse_opt_wake_json [simp]:
  assumes "b64u_ok b" "pred_option wake_ok x"
  shows "parse_opt_wake b (case x of Some w \<Rightarrow> wake_json b w | None \<Rightarrow> JNull) = Some x"
proof (cases x)
  case (Some w)
  with assms wake_roundtrip [of b w] show ?thesis by (simp add: wake_json_def)
qed simp

lemma parse_opt_wake_wf: "parse_opt_wake b v = Some x \<Longrightarrow> pred_option wake_ok x"
  by (cases v) (auto simp: bind_eq_Some_conv dest: parse_wake_wf)

lemma prefs_roundtrip: "b64u_ok b \<Longrightarrow> prefs_ok p \<Longrightarrow> parse_prefs b (prefs_object b p) = Some p"
  by (simp add: prefs_object_def prefs_fields_def parse_prefs_def at_def get_bool_def prefs_ok_def)

lemma parse_prefs_wf: "parse_prefs b v = Some p \<Longrightarrow> prefs_ok p"
  by (auto simp: parse_prefs_def bind_eq_Some_conv prefs_ok_def at_def dest: parse_opt_wake_wf)

interpretation prefs_codec: json_codec prefs_object parse_prefs prefs_ok
  by unfold_locales (simp_all add: prefs_roundtrip parse_prefs_wf parse_prefs_canon)

lemma defaults_roundtrip: "defaults_ok d \<Longrightarrow> parse_defaults (defaults_json d) = Some d"
  by (simp add: defaults_json_def parse_defaults_def at_def get_bool_def get_str_def codec_rt)
    (simp add: defaults_ok_def codec_rt)

lemma parse_defaults_wf: "parse_defaults v = Some d \<Longrightarrow> defaults_ok d"
  by (auto simp: parse_defaults_def bind_eq_Some_conv at_def
      intro: defaults_try_new_ok dest: parse_durable_list_wf parse_ephemeral_list_wf)

interpretation defaults_codec: json_codec "\<lambda>_. defaults_json" "\<lambda>_. parse_defaults" defaults_ok
  by unfold_locales (simp_all add: defaults_roundtrip parse_defaults_wf parse_defaults_canon)

lemma member_roundtrip: "b64u_ok b \<Longrightarrow> parse_member b (member_json b m) = Some m"
  by (simp add: member_json_def parse_member_def member_readers)

interpretation member_codec: json_codec member_json parse_member "\<lambda>_. True"
  by unfold_locales (simp_all add: member_roundtrip parse_member_canon)

lemma parse_members_json [simp]:
  "b64u_ok b \<Longrightarrow> parse_members b (JArray (map (member_json b) ms)) = Some ms"
  using member_codec.array_roundtrip [of b ms] by (simp add: list_all_iff)

declare parse_members.simps(1) [simp del]

section \<open>Payloads\<close>

definition inviter_intro_wf :: "tx_inviter_intro \<Rightarrow> bool" where
  [wf_defs]: "inviter_intro_wf i \<longleftrightarrow>
     display_name_ok (iri_name i) \<and> opt_pic_ok (iri_profile_pic i) \<and> prefs_ok (iri_prefs i)"

definition invitee_intro_wf :: "tx_invitee_intro \<Rightarrow> bool" where
  [wf_defs]: "invitee_intro_wf i \<longleftrightarrow>
     display_name_ok (iei_name i) \<and> opt_pic_ok (iei_profile_pic i) \<and> prefs_ok (iei_prefs i)"

definition media_wf :: "tx_media \<Rightarrow> bool" where
  [wf_defs]: "media_wf m \<longleftrightarrow> kind_ok (med_kind m) \<and> address_ok (med_address m)"

definition group_invite_wf :: "tx_group_invite \<Rightarrow> bool" where
  [wf_defs]: "group_invite_wf g \<longleftrightarrow>
     list_all durable_ok (giv_persistents g) \<and> list_all ephemeral_ok (giv_ephemerals g) \<and>
     display_name_ok (giv_name g) \<and> opt_pic_ok (giv_photo g)"

text \<open>The values a payload can hold: its parts came through their constructors.\<close>

definition payload_wf :: "tx_payload \<Rightarrow> bool" where
  "payload_wf p = (case p of
       Notice n \<Rightarrow> list_all durable_ok (ntc_persistents n) \<and> list_all ephemeral_ok (ntc_ephemerals n)
     | InviterIntro i \<Rightarrow> inviter_intro_wf i
     | InviteeIntro i \<Rightarrow> invitee_intro_wf i
     | SyncInviterIntro s \<Rightarrow> inviter_intro_wf (sri_intro s)
     | SyncInviteeIntro s \<Rightarrow> invitee_intro_wf (sei_intro s)
     | Media m \<Rightarrow> media_wf m
     | Name n \<Rightarrow> display_name_ok n
     | Photo x \<Rightarrow> opt_pic_ok x
     | Prefs x \<Rightarrow> prefs_ok x
     | GroupInvite g \<Rightarrow> group_invite_wf g
     | EngineSetDefaults d \<Rightarrow> defaults_ok d
     | EngineSetDisplayName u i n \<Rightarrow> display_name_ok n
     | EngineSetProfilePic u i x \<Rightarrow> opt_pic_ok x
     | EngineSetDeviceName n \<Rightarrow> display_name_ok n
     | _ \<Rightarrow> True)"

lemma parse_intro_fields:
  assumes "b64u_ok b" "inviter_intro_wf i"
  shows "parse_intro b ((''type'', t) # intro_fields b i False) False = Some i"
    and "parse_intro b ((''type'', t) # intro_fields b i False @ [(''device_id'', d)]) True = Some i"
  using assms
  by (simp_all add: parse_intro_def intro_fields_def member_readers inviter_intro_wf_def codec_rt
      prefs_roundtrip)

lemma parse_invitee_fields:
  assumes "b64u_ok b" "invitee_intro_wf i"
  shows "parse_invitee b ((''type'', t) # invitee_fields b i) False = Some i"
    and "parse_invitee b ((''type'', t) # invitee_fields b i @ [(''device_id'', d)]) True = Some i"
  using assms
  by (simp_all add: parse_invitee_def invitee_fields_def member_readers invitee_intro_wf_def codec_rt
      prefs_roundtrip)

lemma parse_media_fields:
  "b64u_ok b \<Longrightarrow> media_wf m \<Longrightarrow> parse_media b ((''type'', t) # media_fields b m) = Some m"
  by (simp add: parse_media_def media_fields_def member_readers media_wf_def codec_rt)

lemma parse_group_invite_fields:
  "b64u_ok b \<Longrightarrow> group_invite_wf g \<Longrightarrow>
     parse_group_invite b ((''type'', t) # group_invite_fields b g) = Some g"
  by (simp add: parse_group_invite_def group_invite_fields_def member_readers group_invite_wf_def
      codec_rt)

lemma parse_roster_fields:
  "b64u_ok b \<Longrightarrow> parse_roster b ((''type'', t) # roster_fields b r) = Some r"
  by (simp add: parse_roster_def roster_fields_def member_readers)

lemma parse_prefs_fields:
  "b64u_ok b \<Longrightarrow> prefs_ok p \<Longrightarrow>
     parse_prefs b (JObject (filter (\<lambda>(k, _). k \<noteq> ''type'') (prefs_fields b p))) = Some p"
  using prefs_roundtrip [of b p] by (simp add: prefs_object_def prefs_fields_def)

lemma parse_keypair_json [simp]:
  "b64u_ok b \<Longrightarrow> parse_keypair b (JObject [(''pk'', JString (b64_encode b (kp_public k))),
     (''sk'', JString (b64_encode b (kp_secret k)))]) = Some k"
  by (simp add: parse_keypair_def member_readers)

lemma parse_sign_pair_json [simp]:
  "b64u_ok b \<Longrightarrow> parse_sign_pair b (JObject [(''pk'', JString (b64_encode b (skp_public k))),
     (''sk'', JString (b64_encode b (skp_secret k)))]) = Some k"
  by (simp add: parse_sign_pair_def member_readers)

lemma get_device [simp]:
  "get (intro_fields b i c @ [(''device_id'', v)]) ''device_id'' = Some v"
  "get (invitee_fields b j @ [(''device_id'', v)]) ''device_id'' = Some v"
  by (simp_all add: intro_fields_def invitee_fields_def)

lemma payload_of_type_fields:
  assumes "b64u_ok b" "payload_wf p"
  shows "payload_of_type b (payload_type p) ((''type'', t) # payload_fields b p) = Some p"
  using assms
  by (cases p)
    (simp_all add: payload_of_type_def payload_wf_def member_readers codec_rt parse_media_fields
      parse_intro_fields parse_invitee_fields parse_group_invite_fields parse_roster_fields
      parse_prefs_fields defaults_roundtrip)

lemma payload_roundtrip:
  "b64u_ok b \<Longrightarrow> payload_wf p \<Longrightarrow> payload_from_json b (payload_to_json b p) = Some p"
  by (simp add: payload_to_json_def payload_from_json_def get_str_def payload_of_type_fields)

lemma parse_intro_wf: "parse_intro b m s = Some i \<Longrightarrow> inviter_intro_wf i"
  by (auto simp: parse_intro_def bind_eq_Some_conv inviter_intro_wf_def at_def get_name_def
      parse_name_def intro: codec_wf dest: parse_pic_wf parse_prefs_wf)

lemma parse_invitee_wf: "parse_invitee b m s = Some i \<Longrightarrow> invitee_intro_wf i"
  by (auto simp: parse_invitee_def bind_eq_Some_conv invitee_intro_wf_def at_def get_name_def
      parse_name_def intro: codec_wf dest: parse_pic_wf parse_prefs_wf)

lemma parse_media_wf: "parse_media b m = Some x \<Longrightarrow> media_wf x"
  by (auto simp: parse_media_def bind_eq_Some_conv media_wf_def intro: codec_wf)

lemma parse_group_invite_wf: "parse_group_invite b m = Some x \<Longrightarrow> group_invite_wf x"
  by (auto simp: parse_group_invite_def bind_eq_Some_conv group_invite_wf_def at_def get_name_def
      parse_name_def intro: codec_wf
      dest: parse_pic_wf parse_durable_list_wf parse_ephemeral_list_wf)

lemma if_SomeE:
  assumes "(if c then x else y) = Some z"
  obtains "c" "x = Some z" | "y = Some z"
  using assms by (auto split: if_splits)

lemma payload_of_type_wf: "payload_of_type b ty m = Some p \<Longrightarrow> payload_wf p"
  unfolding payload_of_type_def
  by (elim if_SomeE)
    (auto simp: bind_eq_Some_conv payload_wf_def at_def get_name_def parse_name_def intro: codec_wf
      dest: parse_pic_wf parse_prefs_wf parse_durable_list_wf parse_ephemeral_list_wf
        parse_defaults_wf parse_intro_wf parse_invitee_wf parse_media_wf parse_group_invite_wf)

lemma payload_from_json_wf: "payload_from_json b v = Some p \<Longrightarrow> payload_wf p"
  by (auto simp: payload_from_json_def bind_eq_Some_conv dest: payload_of_type_wf)

interpretation payload_codec: json_codec payload_to_json payload_from_json payload_wf
  by unfold_locales (simp_all add: payload_roundtrip payload_from_json_wf payload_from_json_canon)

definition body_wf :: "durable_body \<Rightarrow> bool" where
  "body_wf body = payload_wf (db_payload body)"

lemma durable_body_roundtrip:
  "b64u_ok b \<Longrightarrow> body_wf body \<Longrightarrow>
     durable_body_from_json b (durable_body_to_json b body) = Some body"
  by (simp add: durable_body_to_json_def durable_body_from_json_def member_readers body_wf_def
      payload_roundtrip)

lemma durable_body_from_json_wf: "durable_body_from_json b v = Some body \<Longrightarrow> body_wf body"
  by (auto simp: durable_body_from_json_def bind_eq_Some_conv body_wf_def at_def
      split: if_splits dest: payload_from_json_wf)

interpretation body_codec: json_codec durable_body_to_json durable_body_from_json body_wf
  by unfold_locales
    (simp_all add: durable_body_roundtrip durable_body_from_json_wf durable_body_from_json_canon)

section \<open>Packets\<close>

text \<open>The bounds a packet reader enforces: a fragment index fits its kind and a heal list has at
  most 32 ids.\<close>

definition packet_wf :: "packet_plain \<Rightarrow> bool" where
  "packet_wf p = (case p of
       TxFragMore q \<Rightarrow> pfm_frag_i q \<le> 62
     | TxFragLast q \<Rightarrow> pfl_frag_i q \<le> 63
     | HealWant q \<Rightarrow> length (phw_ids q) \<le> 32
     | HealHave q \<Rightarrow> length (phh_ids q) \<le> 32
     | _ \<Rightarrow> True)"

lemma parse_tags_json [simp]:
  "b64u_ok b \<Longrightarrow> length ids \<le> 32 \<Longrightarrow> parse_tags b (tags_json b ids) = Some ids"
  using those_map_Some [of ids "parse_tag_item b" "\<lambda>t. bstr b (as_bytes t)"]
  by (simp add: tags_json_def then_some_def bstr_def b64u_okD id32_def)

lemma parse_tags_wf: "parse_tags b v = Some ids \<Longrightarrow> length ids \<le> 32"
  by (cases v) (auto simp: bind_eq_Some_conv dest: those_length)

lemma packet_roundtrip:
  "b64u_ok b \<Longrightarrow> packet_wf p \<Longrightarrow> packet_from_json b (packet_to_json b p) = Some p"
  by (cases p)
    (simp_all add: packet_to_json_def packet_from_json_def packet_of_type_def packet_wf_def
      member_readers then_some_def)

lemma packet_of_type_wf: "packet_of_type b ty m = Some p \<Longrightarrow> packet_wf p"
  unfolding packet_of_type_def
  by (elim if_SomeE)
    (auto simp: bind_eq_Some_conv packet_wf_def at_def get_ids_def get_frag_i_def
      dest: parse_tags_wf)

lemma packet_from_json_wf: "packet_from_json b v = Some p \<Longrightarrow> packet_wf p"
  by (auto simp: packet_from_json_def bind_eq_Some_conv dest: packet_of_type_wf)

interpretation packet_codec: json_codec packet_to_json packet_from_json packet_wf
  by unfold_locales (simp_all add: packet_roundtrip packet_from_json_wf packet_from_json_canon)

text \<open>The strings of a packet are base64url and fixed names, so a packet is always fit for the
  wire.\<close>

lemma packet_json_ok: "b64u_ok b \<Longrightarrow> json_ok (packet_to_json b p)"
  by (cases p) (simp_all add: packet_to_json_def tags_json_def list_all_iff)

end
