(* ===== verification/Chain.thy ===== *)
theory Chain
  imports Codec_Roundtrip
begin

text \<open>
  One direction of packet keys (\<open>chain.rs\<close>): deriving, stepping and mixing a sending chain, sealing a
  packet to 512 bytes, opening one, and the bounded skip-ahead search of a receiver that has fallen
  behind. A chain position is a pure value; the search loops are recursions over the number of
  attempts left, so they end by construction and their bound is stated as a theorem.
\<close>

definition MK_LABEL :: bytes where "MK_LABEL = label ''chuchotez/1/packet-mk''"
definition STEP_LABEL :: bytes where "STEP_LABEL = label ''chuchotez/1/packet-step''"
definition EPH_MK_LABEL :: bytes where "EPH_MK_LABEL = label ''chuchotez/1/eph-mk''"
definition SKIP_AHEAD :: nat where "SKIP_AHEAD = 50"
definition LATER_EPOCHS :: nat where "LATER_EPOCHS = 8"
definition MK_CACHE_SECS :: u64 where "MK_CACHE_SECS = 172800"
definition MAX_FRAGS :: u64 where "MAX_FRAGS = 64"

record send_chain =
  sc_root :: chain_root
  sc_c :: chain_key
  sc_epoch :: packet_epoch
  sc_packet_seq :: packet_seq

record cached_mk =
  cm_mk :: message_key
  cm_expires_at :: unix_seconds
  cm_tx_id :: "tag option"

record opened =
  op_packet :: packet_plain
  op_chain :: send_chain
  op_skipped :: "cached_mk list"
  op_from_cache :: bool
  op_mk :: message_key

section \<open>Key schedule\<close>

definition expand_mac :: "suite \<Rightarrow> 'k b32 \<Rightarrow> bytes \<Rightarrow> 'r b32" where
  "expand_mac s key info = recast (expand s (recast key) info)"

definition labeled_expand ::
  "suite \<Rightarrow> chain_key \<Rightarrow> bytes \<Rightarrow> packet_epoch \<Rightarrow> packet_seq \<Rightarrow> 'r b32" where
  "labeled_expand s c lbl epoch seq =
     expand_mac s c (lbl @ to_be_bytes epoch @ to_be_bytes seq)"

definition join :: "suite \<Rightarrow> secret \<Rightarrow> conversation_sort \<Rightarrow> bytes \<Rightarrow> engine_error + send_chain" where
  "join s conv_secret srt actor_id =
     and_then (ok_or (chain_root_label srt) WrongPhase) (\<lambda>root_label.
       let info = (if \<not> omits_actor_id srt then root_label @ actor_id else root_label);
           root = expand_mac s conv_secret info;
           c = expand_mac s root (case chain_c_label srt of Some l \<Rightarrow> l | None \<Rightarrow> [])
       in Inr \<lparr>sc_root = root, sc_c = c, sc_epoch = 0, sc_packet_seq = 0\<rparr>)"

definition mk :: "suite \<Rightarrow> send_chain \<Rightarrow> message_key" where
  "mk s chain = labeled_expand s (sc_c chain) MK_LABEL (sc_epoch chain) (sc_packet_seq chain)"

definition eph_mk :: "suite \<Rightarrow> send_chain \<Rightarrow> eph_message_key" where
  "eph_mk s chain =
     labeled_expand s (sc_c chain) EPH_MK_LABEL (sc_epoch chain) (sc_packet_seq chain)"

definition mix ::
  "suite \<Rightarrow> send_chain \<Rightarrow> conversation_sort \<Rightarrow> secret \<Rightarrow> engine_error + send_chain" where
  "mix s chain srt shared =
     and_then (ok_or (mix_label srt) WrongPhase) (\<lambda>ml.
     and_then (ok_or (chain_c_label srt) WrongPhase) (\<lambda>c_label.
       let root = expand_mac s (sc_root chain) (ml @ as_bytes shared);
           c = expand_mac s root c_label
       in Inr \<lparr>sc_root = root, sc_c = c,
               sc_epoch = saturating_add (sc_epoch chain) 1, sc_packet_seq = 0\<rparr>))"

definition step :: "suite \<Rightarrow> send_chain \<Rightarrow> send_chain" where
  "step s chain = \<lparr>
     sc_root = sc_root chain,
     sc_c = labeled_expand s (sc_c chain) STEP_LABEL (sc_epoch chain) (sc_packet_seq chain),
     sc_epoch = sc_epoch chain,
     sc_packet_seq = saturating_add (sc_packet_seq chain) 1\<rparr>"

section \<open>Sealing and opening\<close>

definition seal_packet :: "suite \<Rightarrow> rng \<Rightarrow> 'k b32 \<Rightarrow> packet_plain \<Rightarrow> (engine_error + bytes) \<times> rng" where
  "seal_packet s r key packet =
     (case packed_packet s packet of
        Inl e \<Rightarrow> (Inl e, r)
      | Inr packed \<Rightarrow>
          let padded = packed @ replicate (PACKET_PAD_LEN - length packed) 0;
              (rnd, r') = draw r;
              nonce = take PACKET_NONCE_LEN (as_bytes rnd);
              ct = st_seal s (recast key) nonce [] padded;
              body = nonce @ ct
          in (ok_or (then_some (length body = PACKET_LEN) body) MalformedPayload, r'))"

definition open_plain :: "suite \<Rightarrow> 'k b32 \<Rightarrow> bytes \<Rightarrow> engine_error + packet_plain" where
  "open_plain s key body =
     (if length body \<noteq> PACKET_LEN then Inl UnknownTag
      else
        let nonce = take PACKET_NONCE_LEN body in
        and_then (ok_or (st_open s (recast key) nonce [] (drop PACKET_NONCE_LEN body)) UnknownTag)
          (\<lambda>pt.
            let packed = unpad pt;
                raw = unwrap_or (st_decompress s packed PACKET_MAX_UNCOMPRESSED) []
            in and_then (ok_or (st_json_decode s raw) UnknownTag) (\<lambda>json.
                 ok_or (packet_from_json (st_b64u s) json) UnknownTag)))"

section \<open>Skip-ahead\<close>

text \<open>The three loops of \<open>open_skip_ahead\<close>: the cached keys, the next positions of this epoch (the
  number of tries left counts down) and the probes of later epochs.\<close>

fun open_cached ::
  "suite \<Rightarrow> send_chain \<Rightarrow> cached_mk list \<Rightarrow> unix_seconds \<Rightarrow> bytes \<Rightarrow> opened option" where
  "open_cached s start [] now body = None"
| "open_cached s start (entry # rest) now body =
     (case (if cm_expires_at entry > now then ok (open_plain s (cm_mk entry) body) else None) of
        Some packet \<Rightarrow> Some \<lparr>op_packet = packet, op_chain = start, op_skipped = [],
                             op_from_cache = True, op_mk = cm_mk entry\<rparr>
      | None \<Rightarrow> open_cached s start rest now body)"

fun open_walk ::
  "suite \<Rightarrow> unix_seconds \<Rightarrow> bytes \<Rightarrow> nat \<Rightarrow> send_chain \<Rightarrow> cached_mk list \<Rightarrow> opened option" where
  "open_walk s now body 0 chain skipped = None"
| "open_walk s now body (Suc n) chain skipped =
     (let key = mk s chain in
      case open_plain s key body of
        Inr packet \<Rightarrow> Some \<lparr>op_packet = packet, op_chain = step s chain, op_skipped = skipped,
                            op_from_cache = False, op_mk = key\<rparr>
      | Inl _ \<Rightarrow> open_walk s now body n (step s chain)
          (skipped @ [\<lparr>cm_mk = key, cm_expires_at = saturating_add now MK_CACHE_SECS,
                       cm_tx_id = None\<rparr>]))"

definition probe :: "send_chain \<Rightarrow> nat \<Rightarrow> nat \<Rightarrow> send_chain" where
  "probe start de seq = \<lparr>sc_root = sc_root start, sc_c = sc_c start,
     sc_epoch = saturating_add (sc_epoch start) (of_nat de), sc_packet_seq = of_nat seq\<rparr>"

definition probes :: "send_chain \<Rightarrow> send_chain list" where
  "probes start =
     [probe start de seq. de \<leftarrow> [1..<Suc LATER_EPOCHS], seq \<leftarrow> [0..<Suc SKIP_AHEAD]]"

fun open_probes :: "suite \<Rightarrow> bytes \<Rightarrow> send_chain list \<Rightarrow> opened option" where
  "open_probes s body [] = None"
| "open_probes s body (p # ps) =
     (let key = mk s p in
      case open_plain s key body of
        Inr packet \<Rightarrow> Some \<lparr>op_packet = packet, op_chain = step s p, op_skipped = [],
                            op_from_cache = False, op_mk = key\<rparr>
      | Inl _ \<Rightarrow> open_probes s body ps)"

definition open_skip_ahead ::
  "suite \<Rightarrow> send_chain \<Rightarrow> cached_mk list \<Rightarrow> unix_seconds \<Rightarrow> bytes \<Rightarrow> engine_error + opened" where
  "open_skip_ahead s start cached now body =
     (case open_cached s start cached now body of
        Some o1 \<Rightarrow> Inr o1
      | None \<Rightarrow>
          (case open_walk s now body (Suc SKIP_AHEAD) start [] of
             Some o2 \<Rightarrow> Inr o2
           | None \<Rightarrow>
               (case open_probes s body (probes start) of
                  Some o3 \<Rightarrow> Inr o3
                | None \<Rightarrow> Inl UnknownTag)))"

definition open_at ::
  "suite \<Rightarrow> send_chain \<Rightarrow> send_chain option \<Rightarrow> cached_mk list \<Rightarrow> unix_seconds \<Rightarrow> bytes
     \<Rightarrow> engine_error + opened" where
  "open_at s start mixed cached now body =
     (case mixed of
        None \<Rightarrow> open_skip_ahead s start cached now body
      | Some m \<Rightarrow>
          let key = mk s m in
          (case open_plain s key body of
             Inr packet \<Rightarrow> Inr \<lparr>op_packet = packet, op_chain = step s m, op_skipped = [],
                                op_from_cache = False, op_mk = key\<rparr>
           | Inl _ \<Rightarrow> open_skip_ahead s start cached now body))"

section \<open>What packets rely on\<close>

text \<open>Deflate: decompression undoes compression and refuses nothing within the caller's bound. The
  padding of a packet is removed by dropping trailing zeros, so those of the compressed stream itself
  go with it; decompression must give the input back from what is left as well.\<close>

definition compress_ok :: "suite \<Rightarrow> bool" where
  "compress_ok s \<longleftrightarrow>
     (\<forall>x mx. length x \<le> mx \<longrightarrow>
        st_decompress s (st_compress s x) mx = Inr x \<and>
        st_decompress s (unpad (st_compress s x)) mx = Inr x)"

definition packet_suite_ok :: "suite \<Rightarrow> bool" where
  "packet_suite_ok s \<longleftrightarrow>
     b64u_ok (st_b64u s) \<and> canonical_json_ok s \<and> aead_ok s \<and> compress_ok s"

text \<open>A packet that can be sent: within the reader's bounds, its JSON no longer than the reader
  decompresses, and its compressed form no longer than the padded plaintext.\<close>

definition packet_sendable :: "suite \<Rightarrow> packet_plain \<Rightarrow> bool" where
  "packet_sendable s p \<longleftrightarrow>
     (let raw = st_json_encode s (packet_to_json (st_b64u s) p) in
        packet_wf p \<and> length raw \<le> PACKET_MAX_UNCOMPRESSED \<and>
        length (st_compress s raw) \<le> PACKET_PAD_LEN)"

lemma packed_packet_cases:
  "packed_packet s p =
     (if length (st_compress s (st_json_encode s (packet_to_json (st_b64u s) p))) \<le> PACKET_PAD_LEN
      then Inr (st_compress s (st_json_encode s (packet_to_json (st_b64u s) p)))
      else Inl BodyTooLarge)"
  by (simp add: packed_packet_def then_some_def)

text \<open>The whole path of a plaintext: compressed, padded, unpadded, decompressed and read.\<close>

lemma read_padded:
  assumes "packet_suite_ok s" "packet_sendable s p" "packed_packet s p = Inr packed"
  shows "and_then (ok_or (st_json_decode s
             (unwrap_or (st_decompress s (unpad (packed @ replicate n 0)) PACKET_MAX_UNCOMPRESSED) []))
             UnknownTag) (\<lambda>json. ok_or (packet_from_json (st_b64u s) json) UnknownTag) = Inr p"
proof -
  let ?v = "packet_to_json (st_b64u s) p"
  have b: "b64u_ok (st_b64u s)" and j: "canonical_json_ok s" and c: "compress_ok s"
    using assms(1) by (simp_all add: packet_suite_ok_def)
  have wf: "packet_wf p" and len: "length (st_json_encode s ?v) \<le> PACKET_MAX_UNCOMPRESSED"
    using assms(2) by (simp_all add: packet_sendable_def Let_def)
  have "packed = st_compress s (st_json_encode s ?v)"
    using assms(3) by (simp add: packed_packet_cases split: if_splits)
  then have "st_decompress s (unpad (packed @ replicate n 0)) PACKET_MAX_UNCOMPRESSED =
      Inr (st_json_encode s ?v)"
    using c len by (simp add: unpad_append_zeros compress_ok_def)
  with packet_codec.wire_roundtrip [OF b j wf packet_json_ok [OF b]] show ?thesis
    by (auto simp: bind_eq_Some_conv)
qed

lemma seal_then_open:
  assumes "packet_suite_ok s" "packet_sendable s p"
  obtains body where "seal_packet s r key p = (Inr body, stl r)" "length body = PACKET_LEN"
    and "open_plain s key body = Inr p"
proof -
  let ?n = "take PACKET_NONCE_LEN (as_bytes (shd r))"
  obtain packed where packed: "packed_packet s p = Inr packed" "length packed \<le> PACKET_PAD_LEN"
    using assms(2) by (auto simp: packet_sendable_def packed_packet_cases Let_def)
  let ?pad = "packed @ replicate (PACKET_PAD_LEN - length packed) 0"
  let ?body = "?n @ st_seal s (recast key) ?n [] ?pad"
  have seal: "st_open s (recast key) ?n [] (st_seal s (recast key) ?n [] ?pad) = Some ?pad"
      "length (st_seal s (recast key) ?n [] ?pad) = length ?pad + 16"
    using assms(1) by (simp_all add: packet_suite_ok_def aead_ok_def)
  have n: "length ?n = PACKET_NONCE_LEN" by (simp add: PACKET_NONCE_LEN_def)
  have len: "length ?body = PACKET_LEN"
    using seal(2) n packed(2) by (simp add: PACKET_LEN_def PACKET_NONCE_LEN_def PACKET_PAD_LEN_def)
  have "seal_packet s r key p = (Inr ?body, stl r)"
    using packed(1) len by (simp add: seal_packet_def draw_def Let_def then_some_def)
  moreover have "open_plain s key ?body = Inr p"
    using len seal(1) n read_padded [OF assms packed(1)] by (simp add: open_plain_def Let_def)
  ultimately show ?thesis using len that by blast
qed

lemma open_plain_error: "open_plain s key body = Inl e \<Longrightarrow> e = UnknownTag"
  by (auto simp: open_plain_def Let_def and_then_eq_Inl split: if_splits)

section \<open>Walking a chain\<close>

abbreviation steps :: "suite \<Rightarrow> nat \<Rightarrow> send_chain \<Rightarrow> send_chain" where
  "steps s n c \<equiv> (step s ^^ n) c"

lemma step_simps [simp]:
  "sc_root (step s c) = sc_root c" "sc_epoch (step s c) = sc_epoch c"
  "sc_packet_seq (step s c) = saturating_add (sc_packet_seq c) 1"
  by (simp_all add: step_def)

lemma steps_root_epoch [simp]:
  "sc_root (steps s n c) = sc_root c" "sc_epoch (steps s n c) = sc_epoch c"
  by (induction n) simp_all

lemma steps_seq:
  "unat (sc_packet_seq (steps s n c)) = min (unat (sc_packet_seq c) + n) (2 ^ 64 - 1)"
proof (induction n)
  case 0
  have "unat (sc_packet_seq c) < 2 ^ LENGTH(64)" by (rule unsigned_less)
  then show ?case by simp
next
  case (Suc n)
  then show ?case by (simp add: unat_saturating_add)
qed

lemma steps_Suc: "steps s n (step s c) = steps s (Suc n) c"
  by (simp add: funpow_swap1)

definition skipped_key :: "suite \<Rightarrow> unix_seconds \<Rightarrow> send_chain \<Rightarrow> nat \<Rightarrow> cached_mk" where
  "skipped_key s now c i =
     \<lparr>cm_mk = mk s (steps s i c), cm_expires_at = saturating_add now MK_CACHE_SECS, cm_tx_id = None\<rparr>"

lemma skipped_key_0:
  "\<lparr>cm_mk = mk s c, cm_expires_at = saturating_add now MK_CACHE_SECS, cm_tx_id = None\<rparr> =
     skipped_key s now c 0"
  by (simp add: skipped_key_def)

lemma skipped_key_step: "skipped_key s now (step s c) i = skipped_key s now c (Suc i)"
  unfolding skipped_key_def steps_Suc ..

lemma map_skipped_key_Suc:
  "map (skipped_key s now c) [0..<Suc k] =
     skipped_key s now c 0 # map (skipped_key s now (step s c)) [0..<k]"
  unfolding skipped_key_step by (simp only: upt_conv_Cons zero_less_Suc map_Suc_upt [symmetric]
      list.map list.map_comp comp_def)

lemma open_walk_finds:
  assumes "k < n" and "\<forall>i<k. isl (open_plain s (mk s (steps s i c)) body)"
    and "open_plain s (mk s (steps s k c)) body = Inr p"
  shows "open_walk s now body n c sk = Some \<lparr>op_packet = p, op_chain = steps s (Suc k) c,
    op_skipped = sk @ map (skipped_key s now c) [0..<k], op_from_cache = False,
    op_mk = mk s (steps s k c)\<rparr>"
  using assms
proof (induction n arbitrary: k c sk)
  case (Suc n)
  show ?case
  proof (cases k)
    case 0
    with Suc.prems show ?thesis by simp
  next
    case (Suc k')
    then obtain e where e: "open_plain s (mk s c) body = Inl e"
      using Suc.prems(2) by (metis funpow_0 isl_def zero_less_Suc)
    have "open_walk s now body n (step s c) (sk @ [skipped_key s now c 0]) = Some \<lparr>op_packet = p,
        op_chain = steps s (Suc k') (step s c),
        op_skipped = (sk @ [skipped_key s now c 0]) @ map (skipped_key s now (step s c)) [0..<k'],
        op_from_cache = False, op_mk = mk s (steps s k' (step s c))\<rparr>"
      using Suc.prems \<open>k = Suc k'\<close> by (intro Suc.IH) (auto simp: steps_Suc simp del: funpow.simps)
    then show ?thesis
      unfolding steps_Suc \<open>k = Suc k'\<close> map_skipped_key_Suc
      using e by (simp add: Let_def skipped_key_def del: funpow.simps(2))
  qed
qed simp

lemma open_walk_fails:
  assumes "\<forall>i<n. isl (open_plain s (mk s (steps s i c)) body)"
  shows "open_walk s now body n c sk = None"
  using assms
proof (induction n arbitrary: c sk)
  case (Suc n)
  then obtain e where "open_plain s (mk s c) body = Inl e" by (metis funpow_0 isl_def zero_less_Suc)
  moreover have "\<forall>i<n. isl (open_plain s (mk s (steps s i (step s c))) body)"
    using Suc.prems unfolding steps_Suc by (simp del: funpow.simps)
  ultimately show ?case using Suc.IH by (simp add: Let_def)
qed simp

lemma open_cached_none:
  "list_all (\<lambda>e. cm_expires_at e > now \<longrightarrow> isl (open_plain s (cm_mk e) body)) cached \<Longrightarrow>
     open_cached s c cached now body = None"
  by (induction cached) (auto simp: isl_def split: option.splits if_splits)

lemma open_cached_finds:
  assumes "e \<in> set cached" "cm_expires_at e > now" "open_plain s (cm_mk e) body = Inr p"
  shows "\<exists>o1. open_cached s c cached now body = Some o1 \<and> op_chain o1 = c \<and> op_from_cache o1 \<and>
    op_skipped o1 = [] \<and> (\<exists>e' \<in> set cached. op_mk o1 = cm_mk e' \<and> cm_expires_at e' > now \<and>
      open_plain s (cm_mk e') body = Inr (op_packet o1))"
  using assms
proof (induction cached)
  case (Cons a rest)
  show ?case
  proof (cases "if cm_expires_at a > now then ok (open_plain s (cm_mk a) body) else None")
    case None
    with Cons.prems have "e \<in> set rest" by (auto split: if_splits)
    with Cons None show ?thesis by simp blast
  next
    case (Some q)
    then have "cm_expires_at a > now" "open_plain s (cm_mk a) body = Inr q"
      by (auto split: if_splits)
    with Some show ?thesis by simp
  qed
qed simp

section \<open>The search as one list of candidates\<close>

text \<open>Everything \<open>open_skip_ahead\<close> may try, in order: the live cached keys, the next 51 positions and
  the 8 times 51 probes; each with the chain, skipped keys and origin it would report.\<close>

definition candidates ::
  "suite \<Rightarrow> send_chain \<Rightarrow> cached_mk list \<Rightarrow> unix_seconds
     \<Rightarrow> (message_key \<times> send_chain \<times> cached_mk list \<times> bool) list" where
  "candidates s start cached now =
     [(cm_mk e, start, [], True). e \<leftarrow> cached, cm_expires_at e > now] @
     [(mk s (steps s k start), steps s (Suc k) start, map (skipped_key s now start) [0..<k], False).
        k \<leftarrow> [0..<Suc SKIP_AHEAD]] @
     [(mk s p, step s p, [], False). p \<leftarrow> probes start]"

fun first_open ::
  "suite \<Rightarrow> bytes \<Rightarrow> (message_key \<times> send_chain \<times> cached_mk list \<times> bool) list \<Rightarrow> opened option" where
  "first_open s body [] = None"
| "first_open s body ((key, chain, skipped, cache) # rest) =
     (case open_plain s key body of
        Inr packet \<Rightarrow> Some \<lparr>op_packet = packet, op_chain = chain, op_skipped = skipped,
                            op_from_cache = cache, op_mk = key\<rparr>
      | Inl _ \<Rightarrow> first_open s body rest)"

lemma first_open_append:
  "first_open s body (xs @ ys) =
     (case first_open s body xs of Some x \<Rightarrow> Some x | None \<Rightarrow> first_open s body ys)"
  by (induction xs) (auto split: sum.split)

lemma first_open_cached:
  "first_open s body [(cm_mk e, start, [], True). e \<leftarrow> cached, cm_expires_at e > now] =
     open_cached s start cached now body"
  by (induction cached) (auto split: sum.split)

lemma first_open_probes: "first_open s body (map (\<lambda>p. (mk s p, step s p, [], False)) ps) =
     open_probes s body ps"
  by (induction ps) (auto simp: Let_def split: sum.split)

lemma first_open_walk:
  "first_open s body (map (\<lambda>k. (mk s (steps s k c), steps s (Suc k) c,
      sk @ map (skipped_key s now c) [0..<k], False)) [0..<n]) = open_walk s now body n c sk"
proof (induction n arbitrary: c sk)
  case (Suc n)
  let ?f = "\<lambda>c sk k. (mk s (steps s k c), steps s (Suc k) c,
      sk @ map (skipped_key s now c) [0..<k], False)"
  have "?f c sk (Suc k) = ?f (step s c) (sk @ [skipped_key s now c 0]) k" for k
    unfolding steps_Suc map_skipped_key_Suc by simp
  then have "map (?f c sk) [0..<Suc n] =
      ?f c sk 0 # map (?f (step s c) (sk @ [skipped_key s now c 0])) [0..<n]"
    by (simp only: upt_conv_Cons zero_less_Suc map_Suc_upt [symmetric] list.map list.map_comp comp_def)
  moreover have "first_open s body (map (?f (step s c) (sk @ [skipped_key s now c 0])) [0..<n]) =
      open_walk s now body n (step s c) (sk @ [skipped_key s now c 0])"
    by (rule Suc.IH)
  ultimately show ?case
    by (cases "open_plain s (mk s c) body")
      (simp_all add: Let_def skipped_key_0 del: upt_Suc)
qed simp

lemma length_probes: "length (probes start) = 408"
  by (simp add: probes_def length_concat comp_def LATER_EPOCHS_def SKIP_AHEAD_def sum_list_triv)

lemma open_skip_ahead_first:
  "open_skip_ahead s start cached now body =
     ok_or (first_open s body (candidates s start cached now)) UnknownTag"
  using first_open_walk [of s body start "[]" now "Suc SKIP_AHEAD"]
  unfolding candidates_def first_open_append first_open_cached first_open_probes
  by (simp add: open_skip_ahead_def del: upt_Suc split: option.split)

lemma length_candidates: "length (candidates s start cached now) \<le> length cached + 459"
proof -
  have "length [(cm_mk e, start, [], True). e \<leftarrow> cached, cm_expires_at e > now] \<le> length cached"
    by (induction cached) auto
  then show ?thesis
    by (simp add: candidates_def length_probes SKIP_AHEAD_def del: upt_Suc)
qed

end
