(* ===== verification/Utf8.thy ===== *)
theory Utf8
  imports Prelude
begin

text \<open>
  The two views of a Rust string, UTF-8 bytes and Unicode scalars: \<open>char::encode_utf8\<close>, and that it
  and \<open>str::chars\<close> undo each other on the byte strings \<open>from_utf8\<close> accepts.
\<close>

definition is_scalar :: "nat \<Rightarrow> bool" where
  "is_scalar c \<longleftrightarrow> c < 0xD800 \<or> (0xDFFF < c \<and> c < 0x110000)"

definition byte :: "nat \<Rightarrow> char" where
  "byte n = char_of n"

definition encode_utf8 :: "nat \<Rightarrow> string" where
  "encode_utf8 c =
     (if c < 0x80 then [byte c]
      else if c < 0x800 then [byte (0xC0 + c div 64), byte (0x80 + c mod 64)]
      else if c < 0x10000 then
        [byte (0xE0 + c div 64 div 64), byte (0x80 + c div 64 mod 64), byte (0x80 + c mod 64)]
      else
        [byte (0xF0 + c div 64 div 64 div 64), byte (0x80 + c div 64 div 64 mod 64),
         byte (0x80 + c div 64 mod 64), byte (0x80 + c mod 64)])"

definition string_of_scalars :: "nat list \<Rightarrow> string" where
  "string_of_scalars cs = concat (map encode_utf8 cs)"

lemma of_char_byte: "n < 256 \<Longrightarrow> of_char (byte n) = (n :: nat)"
  by (simp add: byte_def)

lemma byte_of_char: "byte (of_char a) = a"
  by (simp add: byte_def)

lemma of_char_less: "of_char a < (256 :: nat)"
  by simp

lemma string_of_scalars_simps [simp]:
  "string_of_scalars [] = []"
  "string_of_scalars (c # cs) = encode_utf8 c @ string_of_scalars cs"
  "string_of_scalars (as @ bs) = string_of_scalars as @ string_of_scalars bs"
  by (simp_all add: string_of_scalars_def)

text \<open>Six-bit digits: a scalar is \<open>x\<close>, \<open>x y\<close>, \<open>x y z\<close> or \<open>x y z w\<close> in base 64.\<close>

lemma mod_off: "u < m \<Longrightarrow> (k * m + u) mod m = u" for u m k :: nat
  by simp

lemma lead_mod:
  "u < 32 \<Longrightarrow> (192 + u) mod 32 = u" "u < 16 \<Longrightarrow> (224 + u) mod 16 = u"
  "u < 8 \<Longrightarrow> (240 + u) mod 8 = u" "u < 64 \<Longrightarrow> (128 + u) mod 64 = u" for u :: nat
  using mod_off [of u 32 6] mod_off [of u 16 14] mod_off [of u 8 30] mod_off [of u 64 2] by simp_all

definition d6 :: "nat \<Rightarrow> nat \<Rightarrow> nat" where
  "d6 x y = x * 64 + y"

lemma d6_div [simp]: "y < 64 \<Longrightarrow> d6 x y div 64 = x"
  by (simp add: d6_def)

lemma d6_mod [simp]: "y < 64 \<Longrightarrow> d6 x y mod 64 = y"
  by (simp add: d6_def)

lemma d6E: obtains x y where "c = d6 x y" "y < 64"
  using that [of "c div 64" "c mod 64"] by (simp add: d6_def)

lemma d6_less: "y < 64 \<Longrightarrow> d6 x y < n * 64 \<longleftrightarrow> x < n"
proof
  assume "y < 64" "x < n"
  then have "Suc x * 64 \<le> n * 64" by (intro mult_le_mono1) simp
  with \<open>y < 64\<close> show "d6 x y < n * 64" by (simp add: d6_def)
next
  assume "d6 x y < n * 64"
  then show "x < n" by (simp add: d6_def)
qed

definition encode_digits :: "nat list \<Rightarrow> string" where
  "encode_digits ds = (case ds of
       [x, y] \<Rightarrow> [byte (192 + x), byte (128 + y)]
     | [x, y, z] \<Rightarrow> [byte (224 + x), byte (128 + y), byte (128 + z)]
     | [x, y, z, w] \<Rightarrow> [byte (240 + x), byte (128 + y), byte (128 + z), byte (128 + w)]
     | _ \<Rightarrow> [])"

lemma encode_utf8_2:
  assumes "2 \<le> x" "x < 32" "y < 64"
  shows "encode_utf8 (d6 x y) = encode_digits [x, y]"
  using assms d6_less [of y x 2] d6_less [of y x 32]
  by (simp add: encode_utf8_def encode_digits_def)

lemma encode_utf8_3:
  assumes "x = 0 \<Longrightarrow> 32 \<le> y" "x < 16" "y < 64" "z < 64"
  shows "encode_utf8 (d6 (d6 x y) z) = encode_digits [x, y, z]"
proof -
  have "32 \<le> d6 x y" "d6 x y < 1024" using assms by (cases "x = 0"; simp add: d6_def)+
  then have "\<not> d6 (d6 x y) z < 0x800" "\<not> d6 (d6 x y) z < 0x80" "d6 (d6 x y) z < 0x10000"
    using d6_less [of z "d6 x y" 32] d6_less [of z "d6 x y" 1024] d6_less [of z "d6 x y" 2] assms(4)
    by simp_all
  then show ?thesis using assms by (simp add: encode_utf8_def encode_digits_def)
qed

lemma encode_utf8_4:
  assumes "x = 0 \<Longrightarrow> 16 \<le> y" "x < 5" "y < 64" "z < 64" "w < 64"
  shows "encode_utf8 (d6 (d6 (d6 x y) z) w) = encode_digits [x, y, z, w]"
proof -
  have "1024 \<le> d6 (d6 x y) z" using assms by (cases "x = 0"; simp add: d6_def)
  then have "0x10000 \<le> d6 (d6 (d6 x y) z) w" by (simp add: d6_def)
  then show ?thesis using assms by (simp add: encode_utf8_def encode_digits_def)
qed

text \<open>Every scalar is one of the four shapes.\<close>

lemma scalar_cases:
  assumes "is_scalar c"
  obtains (one) "c < 128"
  | (two) x y where "c = d6 x y" "2 \<le> x" "x < 32" "y < 64"
  | (three) x y z where "c = d6 (d6 x y) z" "x = 0 \<Longrightarrow> 32 \<le> y" "x = 13 \<Longrightarrow> y < 32" "x < 16"
      "y < 64" "z < 64"
  | (four) x y z w where "c = d6 (d6 (d6 x y) z) w" "x = 0 \<Longrightarrow> 16 \<le> y"
      "x = 4 \<Longrightarrow> y < 16" "x < 5" "y < 64" "z < 64" "w < 64"
proof -
  obtain r z where r: "c = d6 r z" "z < 64" by (rule d6E)
  obtain q y where q: "r = d6 q y" "y < 64" by (rule d6E)
  obtain p x where p: "q = d6 p x" "x < 64" by (rule d6E)
  consider "c < 0x80" | "0x80 \<le> c" "c < 0x800" | "0x800 \<le> c" "c < 0x10000"
    | "0x10000 \<le> c" "c < 0x110000"
    using assms by (fastforce simp: is_scalar_def)
  then show ?thesis
  proof cases
    case 1
    then show ?thesis by (rule one)
  next
    case 2
    then have "2 \<le> r" "r < 32" using r(2) unfolding r(1) d6_def by linarith+
    with r show ?thesis by (intro two)
  next
    case 3
    have "q < 16" "q = 0 \<Longrightarrow> 32 \<le> y" using 3 r(2) q(2) unfolding r(1) q(1) d6_def by auto
    moreover have "q = 13 \<Longrightarrow> y < 32"
      using assms r(2) q(2) unfolding is_scalar_def r(1) q(1) d6_def by auto
    ultimately show ?thesis using r q by (intro three [of q y z]) simp_all
  next
    case 4
    have "p < 5" "p = 0 \<Longrightarrow> 16 \<le> x" "p = 4 \<Longrightarrow> x < 16"
      using 4 r(2) q(2) p(2) unfolding r(1) q(1) p(1) d6_def by auto
    then show ?thesis using r q p by (intro four [of p x y z]) simp_all
  qed
qed

lemma chars_encode_utf8:
  assumes "is_scalar c" shows "chars (encode_utf8 c @ s) = c # chars s"
  using assms
proof (cases rule: scalar_cases)
  case one
  then show ?thesis by (simp add: encode_utf8_def of_char_byte)
next
  case two
  then show ?thesis by (simp add: encode_utf8_2 encode_digits_def of_char_byte lead_mod)
      (simp add: d6_def)
next
  case three
  then show ?thesis by (simp add: encode_utf8_3 encode_digits_def of_char_byte lead_mod)
      (simp add: d6_def)
next
  case four
  then show ?thesis by (simp add: encode_utf8_4 encode_digits_def of_char_byte lead_mod)
      (simp add: d6_def)
qed

lemma utf8_encode_utf8:
  assumes "is_scalar c" shows "utf8 (encode_utf8 c @ s) = utf8 s"
  using assms
proof (cases rule: scalar_cases)
  case one
  then show ?thesis by (simp add: encode_utf8_def of_char_byte)
next
  case two
  then show ?thesis by (auto simp: encode_utf8_2 encode_digits_def of_char_byte cont_byte_def)
next
  case three
  then show ?thesis by (auto simp: encode_utf8_3 encode_digits_def of_char_byte cont_byte_def)
next
  case four
  then show ?thesis by (auto simp: encode_utf8_4 encode_digits_def of_char_byte cont_byte_def)
qed

lemma chars_string_of_scalars: "list_all is_scalar cs \<Longrightarrow> chars (string_of_scalars cs) = cs"
  by (induction cs) (simp_all add: chars_encode_utf8)

lemma utf8_string_of_scalars: "list_all is_scalar cs \<Longrightarrow> utf8 (string_of_scalars cs)"
  by (induction cs) (simp_all add: utf8_encode_utf8)

text \<open>A valid byte string starts with the encoding of a scalar, so it is one.\<close>

lemma lead_byte: "of_char a = (k + u :: nat) \<Longrightarrow> a = byte (k + u)"
  by (metis byte_of_char)

lemma cont_byteE:
  assumes "cont_byte lo hi b" "128 \<le> lo" "hi \<le> 191"
  obtains y where "b = byte (128 + y)" "y < 64" "lo \<le> 128 + y" "128 + y \<le> hi"
proof
  show "b = byte (128 + (of_char b - 128))" "of_char b - 128 < (64 :: nat)"
    "lo \<le> 128 + (of_char b - 128)" "128 + (of_char b - 128) \<le> hi"
    using assms by (auto simp: cont_byte_def byte_of_char)
qed

lemma utf8_cases:
  assumes "utf8 (a # s)"
  obtains (1) "of_char a < (128::nat)" "utf8 s"
    | (2) b r where "s = b # r" "194 \<le> (of_char a :: nat)" "of_char a < (224::nat)"
        "cont_byte 128 191 b" "utf8 r"
    | (3) b d r where "s = b # d # r" "224 \<le> (of_char a :: nat)" "of_char a < (240::nat)"
        "cont_byte (if of_char a = (224::nat) then 160 else 128)
          (if of_char a = (237::nat) then 159 else 191) b" "cont_byte 128 191 d" "utf8 r"
    | (4) b d e r where "s = b # d # e # r" "240 \<le> (of_char a :: nat)" "of_char a < (245::nat)"
        "cont_byte (if of_char a = (240::nat) then 144 else 128)
          (if of_char a = (244::nat) then 143 else 191) b"
        "cont_byte 128 191 d" "cont_byte 128 191 e" "utf8 r"
proof -
  define n :: nat where "n = of_char a"
  consider "n < 128" | "128 \<le> n" "n < 194" | "194 \<le> n" "n < 224" | "224 \<le> n" "n < 240"
    | "240 \<le> n" "n < 245" | "245 \<le> n" by linarith
  then show ?thesis
  proof cases
    case 1
    with assms show ?thesis by (intro that(1)) (simp_all add: n_def)
  next
    case 3
    with assms obtain b r where "s = b # r" "cont_byte 128 191 b" "utf8 r"
      by (cases s) (simp_all add: n_def)
    with 3 show ?thesis by (intro that(2)) (simp_all add: n_def)
  next
    case 4
    with assms obtain b d r where "s = b # d # r"
        "cont_byte (if n = 224 then 160 else 128) (if n = 237 then 159 else 191) b"
        "cont_byte 128 191 d" "utf8 r"
      unfolding utf8.simps n_def by (simp split: list.splits)
    with 4 show ?thesis unfolding n_def by (intro that(3))
  next
    case 5
    with assms obtain b d e r where "s = b # d # e # r"
        "cont_byte (if n = 240 then 144 else 128) (if n = 244 then 143 else 191) b"
        "cont_byte 128 191 d" "cont_byte 128 191 e" "utf8 r"
      unfolding utf8.simps n_def by (simp split: list.splits)
    with 5 show ?thesis unfolding n_def by (intro that(4))
  qed (use assms in \<open>simp_all add: n_def\<close>)
qed

lemma utf8_unconsE:
  assumes "utf8 (a # s)"
  obtains c r where "a # s = encode_utf8 c @ r" "is_scalar c" "utf8 r"
proof -
  show ?thesis
    using assms
  proof (cases rule: utf8_cases)
    case 1
    then have "a # s = encode_utf8 (of_char a) @ s" by (simp add: encode_utf8_def byte_of_char)
    with 1 show ?thesis by (intro that) (auto simp: is_scalar_def)
  next
    case (2 b r)
    obtain y where y: "b = byte (128 + y)" "y < 64" using 2(4) by (auto elim: cont_byteE)
    define x where "x = of_char a - (192 :: nat)"
    have x: "of_char a = 192 + x" "2 \<le> x" "x < 32" using 2(2,3) by (simp_all add: x_def)
    have "a # s = encode_utf8 (d6 x y) @ r"
      using x y 2(1) lead_byte [OF x(1)] by (simp add: encode_utf8_2 encode_digits_def)
    moreover have "is_scalar (d6 x y)" using x y by (simp add: is_scalar_def d6_def)
    ultimately show ?thesis using 2 that by blast
  next
    case (3 b d r)
    obtain y where y: "b = byte (128 + y)" "y < 64"
        "(if of_char a = (224::nat) then 160 else 128) \<le> 128 + y"
        "128 + y \<le> (if of_char a = (237::nat) then 159 else 191)"
      using 3(4) by (rule cont_byteE) (auto split: if_splits)
    obtain z where z: "d = byte (128 + z)" "z < 64" using 3(5) by (auto elim: cont_byteE)
    define x where "x = of_char a - (224 :: nat)"
    have x: "of_char a = 224 + x" "x < 16" using 3(2,3) by (simp_all add: x_def)
    have xy: "x = 0 \<Longrightarrow> 32 \<le> y" "x = 13 \<Longrightarrow> y < 32" using y x(1) by auto
    have "a # s = encode_utf8 (d6 (d6 x y) z) @ r"
      using x xy y(1,2) z 3(1) lead_byte [OF x(1)] by (simp add: encode_utf8_3 encode_digits_def)
    moreover have "is_scalar (d6 (d6 x y) z)"
      using x(2) xy y(2) z(2) unfolding is_scalar_def d6_def
      by (cases "x < 13"; cases "x = 13") auto
    ultimately show ?thesis using 3 that by blast
  next
    case (4 b d e r)
    obtain y where y: "b = byte (128 + y)" "y < 64"
        "(if of_char a = (240::nat) then 144 else 128) \<le> 128 + y"
        "128 + y \<le> (if of_char a = (244::nat) then 143 else 191)"
      using 4(4) by (rule cont_byteE) (auto split: if_splits)
    obtain z where z: "d = byte (128 + z)" "z < 64" using 4(5) by (auto elim: cont_byteE)
    obtain w where w: "e = byte (128 + w)" "w < 64" using 4(6) by (auto elim: cont_byteE)
    define x where "x = of_char a - (240 :: nat)"
    have x: "of_char a = 240 + x" "x < 5" using 4(2,3) by (simp_all add: x_def)
    have xy: "x = 0 \<Longrightarrow> 16 \<le> y" "x = 4 \<Longrightarrow> y < 16" using y x(1) by auto
    have "a # s = encode_utf8 (d6 (d6 (d6 x y) z) w) @ r"
      using x xy y(1,2) z w 4(1) lead_byte [OF x(1)] by (simp add: encode_utf8_4 encode_digits_def)
    moreover have "is_scalar (d6 (d6 (d6 x y) z) w)"
      using x(2) xy y(2) z(2) w(2) unfolding is_scalar_def d6_def
      by (cases "x = 0"; cases "x = 4") auto
    ultimately show ?thesis using 4 that by blast
  qed
qed

lemma utf8_scalars: "utf8 s \<Longrightarrow> string_of_scalars (chars s) = s \<and> list_all is_scalar (chars s)"
proof (induction s rule: measure_induct_rule [of length])
  case (less s)
  show ?case
  proof (cases s)
    case (Cons a t)
    obtain c r where c: "s = encode_utf8 c @ r" "is_scalar c" "utf8 r"
      using less.prems Cons utf8_unconsE by metis
    moreover have "encode_utf8 c \<noteq> []" by (simp add: encode_utf8_def)
    ultimately have "string_of_scalars (chars r) = r \<and> list_all is_scalar (chars r)"
      by (intro less.IH) (simp_all add: c(1))
    with c show ?thesis by (simp add: chars_encode_utf8)
  qed simp
qed

end
