(* ===== verification/Rfc8785.thy ===== *)
theory Rfc8785
  imports Codec_Order Utf8 "HOL-Library.Multiset"
begin

text \<open>
  The JSON port of \<open>adapters/json.rs\<close>: the writer that emits members in UTF-16 order and the
  recursive-descent parser. Text is the list of its Unicode scalars, as \<open>str::chars\<close> gives it, and
  the bytes are its UTF-8 encoding. The parser recurses on the text left, so the model gives it fuel:
  twice the length of the text is enough, and more fuel never changes the answer.

  Shown: the parser reads back what the writer wrote, with the members in the writer's order, so the
  adapter keeps the law \<open>canonical_json_ok\<close> that the protocol relies on.
\<close>

type_synonym scalars = "nat list"

definition lit :: "string \<Rightarrow> scalars" where
  "lit s = map of_char s"

section \<open>The writer\<close>

text \<open>\<open>u64::to_string\<close>.\<close>

fun decimal :: "nat \<Rightarrow> scalars" where
  "decimal n = (if n < 10 then [48 + n] else decimal (n div 10) @ [48 + n mod 10])"

declare decimal.simps [simp del]

text \<open>\<open>format!("{:x}")\<close> of one digit, and \<open>\\u{:04x}\<close>.\<close>

definition hex_digit :: "nat \<Rightarrow> nat" where
  "hex_digit d = (if d < 10 then 48 + d else 87 + d)"

definition hex4 :: "nat \<Rightarrow> scalars" where
  "hex4 c = [hex_digit (c div 4096 mod 16), hex_digit (c div 256 mod 16),
     hex_digit (c div 16 mod 16), hex_digit (c mod 16)]"

definition escape :: "nat \<Rightarrow> scalars" where
  "escape c =
     (if c = 34 then [92, 34]
      else if c = 92 then [92, 92]
      else if c = 8 then [92, 98]
      else if c = 12 then [92, 102]
      else if c = 10 then [92, 110]
      else if c = 13 then [92, 114]
      else if c = 9 then [92, 116]
      else if c < 32 then [92, 117] @ hex4 c
      else [c])"

definition write_string :: "string \<Rightarrow> scalars" where
  "write_string s = [34] @ concat (map escape (chars s)) @ [34]"

text \<open>\<open>str::encode_utf16\<close>, on which members are compared.\<close>

definition encode_utf16 :: "string \<Rightarrow> nat list" where
  "encode_utf16 s = concat (map (\<lambda>c. if c < 0x10000 then [c]
     else [0xD800 + (c - 0x10000) div 0x400, 0xDC00 + (c - 0x10000) mod 0x400]) (chars s))"

definition sort_members :: "(string \<times> 'a) list \<Rightarrow> (string \<times> 'a) list" where
  "sort_members m = sort_key (\<lambda>(k, _). encode_utf16 k) m"

text \<open>The pieces with a comma before each but the first.\<close>

fun comma :: "scalars list \<Rightarrow> scalars" where
  "comma [] = []"
| "comma [x] = x"
| "comma (x # y # xs) = x @ [44] @ comma (y # xs)"

primrec write_json :: "json \<Rightarrow> scalars" where
  "write_json JNull = lit ''null''"
| "write_json (JBool b) = (if b then lit ''true'' else lit ''false'')"
| "write_json (JNumber n) = decimal (unat n)"
| "write_json (JString s) = write_string s"
| "write_json (JArray items) = [91] @ comma (map write_json items) @ [93]"
| "write_json (JObject members) =
     [123] @ comma (map (\<lambda>(k, w). write_string k @ [58] @ w)
       (sort_members (map (map_prod id write_json) members))) @ [125]"

definition json_encode :: "json \<Rightarrow> bytes" where
  "json_encode v = map (\<lambda>c. of_nat (of_char c)) (string_of_scalars (write_json v))"

section \<open>The parser\<close>

text \<open>\<open>char::is_whitespace\<close>, \<open>str::trim_start\<close> and \<open>str::strip_prefix\<close>.\<close>

definition is_whitespace :: "nat \<Rightarrow> bool" where
  "is_whitespace c \<longleftrightarrow> 9 \<le> c \<and> c \<le> 13 \<or> c = 32 \<or> c = 0x85 \<or> c = 0xA0 \<or> c = 0x1680 \<or>
     0x2000 \<le> c \<and> c \<le> 0x200A \<or> c = 0x2028 \<or> c = 0x2029 \<or> c = 0x202F \<or> c = 0x205F \<or> c = 0x3000"

definition skip_ws :: "scalars \<Rightarrow> scalars" where
  "skip_ws rest = dropWhile is_whitespace rest"

definition strip_prefix :: "scalars \<Rightarrow> scalars \<Rightarrow> scalars option" where
  "strip_prefix p rest =
     (if take (length p) rest = p then Some (drop (length p) rest) else None)"

definition starts :: "nat \<Rightarrow> scalars \<Rightarrow> bool" where
  "starts c rest \<longleftrightarrow> (case rest of [] \<Rightarrow> False | x # _ \<Rightarrow> x = c)"

definition is_digit :: "nat \<Rightarrow> bool" where
  "is_digit c \<longleftrightarrow> 48 \<le> c \<and> c \<le> 57"

definition digits_val :: "scalars \<Rightarrow> nat" where
  "digits_val ds = foldl (\<lambda>n d. n * 10 + (d - 48)) 0 ds"

definition parse_number :: "scalars \<Rightarrow> (json \<times> scalars) option" where
  "parse_number rest =
     (if starts 48 rest \<and> (case tl rest of [] \<Rightarrow> False | d # _ \<Rightarrow> is_digit d) then None
      else
        let digits = takeWhile is_digit rest; rest' = dropWhile is_digit rest; n = digits_val digits
        in if digits \<noteq> [] \<and> n < 2 ^ 64 then Some (JNumber (of_nat n), rest') else None)"

definition hex_val :: "nat \<Rightarrow> nat option" where
  "hex_val c =
     (if 48 \<le> c \<and> c \<le> 57 then Some (c - 48)
      else if 97 \<le> c \<and> c \<le> 102 then Some (c - 87)
      else if 65 \<le> c \<and> c \<le> 70 then Some (c - 55)
      else None)"

text \<open>\<open>u32::from_str_radix(&hex, 16)\<close> of four characters, which also takes a leading plus sign.\<close>

definition from_hex :: "scalars \<Rightarrow> nat option" where
  "from_hex h =
     (case those (map hex_val (case h of c # r \<Rightarrow> if c = 43 then r else h | [] \<Rightarrow> h)) of
        Some ds \<Rightarrow> if ds = [] then None else Some (foldl (\<lambda>n d. n * 16 + d) 0 ds)
      | None \<Rightarrow> None)"

text \<open>The escapes of one character: what follows the backslash and what is pushed for it.\<close>

definition simple_escape :: "nat \<Rightarrow> nat option" where
  "simple_escape e =
     (if e = 34 then Some 34 else if e = 92 then Some 92 else if e = 47 then Some 47
      else if e = 98 then Some 8 else if e = 102 then Some 12 else if e = 110 then Some 10
      else if e = 114 then Some 13 else if e = 116 then Some 9 else None)"

fun string_loop :: "scalars \<Rightarrow> scalars \<Rightarrow> (scalars \<times> scalars) option" where
  "string_loop out [] = None"
| "string_loop out (c # cs) =
     (if c = 34 then Some (out, cs)
      else if c = 92 then
        (case cs of [] \<Rightarrow> None
         | e # r \<Rightarrow>
             (case simple_escape e of
                Some x \<Rightarrow> string_loop (out @ [x]) r
              | None \<Rightarrow>
                  if e = 117 then
                    (case r of
                       a # b # d # f # r' \<Rightarrow>
                         (case from_hex [a, b, d, f] of
                            Some code \<Rightarrow>
                              if is_scalar code then string_loop (out @ [code]) r' else None
                          | None \<Rightarrow> None)
                     | _ \<Rightarrow> None)
                  else None))
      else string_loop (out @ [c]) cs)"

definition parse_string :: "scalars \<Rightarrow> (string \<times> scalars) option" where
  "parse_string rest =
     (case rest of
        [] \<Rightarrow> None
      | c # cs \<Rightarrow>
          if c \<noteq> 34 then None
          else (case string_loop [] cs of
                  Some (out, r) \<Rightarrow> Some (string_of_scalars out, r)
                | None \<Rightarrow> None))"

text \<open>\<open>value\<close> and the two loops of \<open>array\<close> and \<open>object\<close>, each iteration of which reads one element
  and looks at the separator.\<close>

fun parse_value :: "nat \<Rightarrow> scalars \<Rightarrow> (json \<times> scalars) option"
  and array_loop :: "nat \<Rightarrow> json list \<Rightarrow> scalars \<Rightarrow> (json \<times> scalars) option"
  and object_loop :: "nat \<Rightarrow> members \<Rightarrow> scalars \<Rightarrow> (json \<times> scalars) option" where
  "parse_value 0 rest = None"
| "parse_value (Suc n) rest0 =
     (let rest = skip_ws rest0 in
      case strip_prefix (lit ''null'') rest of Some r \<Rightarrow> Some (JNull, r) | None \<Rightarrow>
      case strip_prefix (lit ''true'') rest of Some r \<Rightarrow> Some (JBool True, r) | None \<Rightarrow>
      case strip_prefix (lit ''false'') rest of Some r \<Rightarrow> Some (JBool False, r) | None \<Rightarrow>
      if starts 34 rest then map_option (\<lambda>(s, r). (JString s, r)) (parse_string rest)
      else if starts 91 rest then
        (let r = skip_ws (drop 1 rest) in
         if starts 93 r then Some (JArray [], drop 1 r) else array_loop n [] r)
      else if starts 123 rest then
        (let r = skip_ws (drop 1 rest) in
         if starts 125 r then Some (JObject [], drop 1 r) else object_loop n [] r)
      else if (case rest of [] \<Rightarrow> False | d # _ \<Rightarrow> is_digit d) then parse_number rest
      else None)"
| "array_loop 0 items rest = None"
| "array_loop (Suc n) items rest =
     (case parse_value n rest of
        None \<Rightarrow> None
      | Some (v, r0) \<Rightarrow>
          let r = skip_ws r0 in
          if starts 44 r then array_loop n (items @ [v]) (drop 1 r)
          else if starts 93 r then Some (JArray (items @ [v]), drop 1 r)
          else None)"
| "object_loop 0 members rest = None"
| "object_loop (Suc n) members rest =
     (case parse_string (skip_ws rest) of
        None \<Rightarrow> None
      | Some (key, r0) \<Rightarrow>
          let r1 = skip_ws r0 in
          if \<not> starts 58 r1 then None
          else
            (case parse_value n (drop 1 r1) of
               None \<Rightarrow> None
             | Some (v, r2) \<Rightarrow>
                 let r = skip_ws r2; ms = members @ [(key, v)] in
                 if starts 44 r then object_loop n ms (drop 1 r)
                 else if starts 125 r then Some (JObject ms, drop 1 r)
                 else None))"

definition json_decode :: "bytes \<Rightarrow> json option" where
  "json_decode bs =
     (let s = map (\<lambda>b. char_of (unat b)) bs in
      if \<not> utf8 s then None
      else
        (case parse_value (2 * length (chars s) + 1) (chars s) of
           None \<Rightarrow> None
         | Some (v, r) \<Rightarrow> if skip_ws r \<noteq> [] then None else Some v))"

section \<open>Strings and numbers read back\<close>

lemma from_hex_hex4: "c < 32 \<Longrightarrow> from_hex (hex4 c) = Some c"
  by (simp add: from_hex_def hex4_def hex_digit_def hex_val_def) arith

lemma string_loop_escape:
  assumes "is_scalar c"
  shows "string_loop out (escape c @ rest) = string_loop (out @ [c]) rest"
proof (cases "c < 32 \<and> c \<notin> {8, 9, 10, 12, 13}")
  case True
  then have "escape c = [92, 117] @ hex4 c" by (auto simp: escape_def)
  then show ?thesis
    using True from_hex_hex4 [of c] assms by (simp add: hex4_def simple_escape_def)
next
  case False
  then show ?thesis by (auto simp: escape_def simple_escape_def)
qed

lemma string_loop_write:
  "list_all is_scalar cs \<Longrightarrow>
     string_loop out (concat (map escape cs) @ 34 # rest) = Some (out @ cs, rest)"
proof (induction cs arbitrary: out)
  case (Cons c cs)
  then show ?case using string_loop_escape [of c out "concat (map escape cs) @ 34 # rest"] by simp
qed simp

lemma parse_string_write: "utf8 s \<Longrightarrow> parse_string (write_string s @ rest) = Some (s, rest)"
  using utf8_scalars [of s] string_loop_write [of "chars s" "[]" rest]
  by (simp add: parse_string_def write_string_def)

lemma decimal_digits: "list_all is_digit (decimal n)"
proof (induction n rule: decimal.induct)
  case (1 n)
  have "is_digit (48 + n mod 10)" "n < 10 \<Longrightarrow> is_digit (48 + n)" by (auto simp: is_digit_def)
  with 1 show ?case by (subst decimal.simps) simp
qed

lemma decimal_not_Nil: "decimal n \<noteq> []"
  by (subst decimal.simps) simp

lemma decimal_no_zero: "10 \<le> n \<Longrightarrow> hd (decimal n) \<noteq> 48"
proof (induction n rule: decimal.induct)
  case (1 n)
  show ?case
  proof (cases "n div 10 < 10")
    case True
    then have "decimal (n div 10) = [48 + n div 10]" by (subst decimal.simps) simp
    moreover have "n div 10 \<noteq> 0" using 1 by simp
    ultimately show ?thesis using 1 by (subst decimal.simps) simp
  next
    case False
    then show ?thesis using 1 decimal_not_Nil by (subst decimal.simps) simp
  qed
qed

lemma digits_val_decimal: "digits_val (decimal n) = n"
proof (induction n rule: decimal.induct)
  case (1 n)
  show ?case
  proof (cases "n < 10")
    case True
    then show ?thesis by (subst decimal.simps) (simp add: digits_val_def)
  next
    case False
    then have "digits_val (decimal n) = digits_val (decimal (n div 10)) * 10 + n mod 10"
      by (subst decimal.simps) (simp add: digits_val_def)
    with 1 False show ?thesis by simp
  qed
qed

definition no_digit :: "scalars \<Rightarrow> bool" where
  "no_digit rest \<longleftrightarrow> (case rest of [] \<Rightarrow> True | d # _ \<Rightarrow> \<not> is_digit d)"

lemma no_digit_Cons [simp]: "no_digit (44 # r)" "no_digit (93 # r)" "no_digit (125 # r)" "no_digit []"
  by (simp_all add: no_digit_def is_digit_def)

lemma span_digits:
  assumes "list_all is_digit ds" "no_digit rest"
  shows "takeWhile is_digit (ds @ rest) = ds" "dropWhile is_digit (ds @ rest) = rest"
proof -
  have "takeWhile is_digit rest = []" "dropWhile is_digit rest = rest"
    using assms(2) by (auto simp: no_digit_def split: list.splits)
  moreover have "\<And>x. x \<in> set ds \<Longrightarrow> is_digit x" using assms(1) by (simp add: list_all_iff)
  ultimately show "takeWhile is_digit (ds @ rest) = ds" "dropWhile is_digit (ds @ rest) = rest"
    by (simp_all add: takeWhile_append2 dropWhile_append2)
qed

lemma decimal_lead:
  assumes "no_digit rest"
  shows "\<not> (starts 48 (decimal n @ rest) \<and>
    (case tl (decimal n @ rest) of [] \<Rightarrow> False | d # _ \<Rightarrow> is_digit d))"
proof (cases "n < 10")
  case True
  then have "decimal n = [48 + n]" by (subst decimal.simps) simp
  with assms show ?thesis by (simp add: no_digit_def split: list.splits)
next
  case False
  then have "hd (decimal n) \<noteq> 48" by (intro decimal_no_zero) simp
  then show ?thesis
    using decimal_not_Nil [of n] by (cases "decimal n") (simp_all add: starts_def)
qed

lemma parse_number_decimal:
  assumes "n < 2 ^ 64" "no_digit rest"
  shows "parse_number (decimal n @ rest) = Some (JNumber (of_nat n), rest)"
  using assms decimal_lead [OF assms(2), of n] decimal_not_Nil [of n]
  by (simp only: parse_number_def if_False span_digits [OF decimal_digits assms(2)]
      digits_val_decimal Let_def) simp

section \<open>Values read back\<close>

text \<open>What the parser returns: the value with its members in the writer's order.\<close>

primrec canon16 :: "json \<Rightarrow> json" where
  "canon16 JNull = JNull"
| "canon16 (JBool b) = JBool b"
| "canon16 (JNumber n) = JNumber n"
| "canon16 (JString s) = JString s"
| "canon16 (JArray xs) = JArray (map canon16 xs)"
| "canon16 (JObject m) = JObject (sort_members (map (map_prod id canon16) m))"

lemma insort_key_map:
  "insort_key g (f x) (map f xs) = map f (insort_key (\<lambda>y. g (f y)) x xs)"
  by (induction xs) auto

lemma sort_key_map: "sort_key g (map f xs) = map f (sort_key (\<lambda>y. g (f y)) xs)"
  by (induction xs) (simp_all add: insort_key_map)

lemma sort_members_map: "sort_members (map (map_prod id f) m) = map (map_prod id f) (sort_members m)"
  by (simp add: sort_members_def sort_key_map case_prod_unfold)

lemma set_sort_members [simp]: "set (sort_members m) = set m"
  by (simp add: sort_members_def)

definition write_member :: "string \<times> json \<Rightarrow> scalars" where
  "write_member kv = write_string (fst kv) @ [58] @ write_json (snd kv)"

lemma write_json_object:
  "write_json (JObject m) = [123] @ comma (map write_member (sort_members m)) @ [125]"
  by (simp add: sort_members_map write_member_def [abs_def] comp_def case_prod_unfold)

declare write_json.simps(6) [simp del]

text \<open>The first character of a value: no whitespace, no bracket that closes.\<close>

definition value_lead :: "nat \<Rightarrow> bool" where
  "value_lead c \<longleftrightarrow> c \<in> {110, 116, 102, 34, 91, 123} \<or> is_digit c"

lemma write_json_lead: "\<exists>c t. write_json v = c # t \<and> value_lead c"
proof (cases v)
  case (JNumber n)
  obtain d t where d: "decimal (unat n) = d # t" using decimal_not_Nil by (cases "decimal (unat n)") auto
  then have "is_digit d" using decimal_digits [of "unat n"] by simp
  with d JNumber show ?thesis by (simp add: value_lead_def)
qed (simp_all add: lit_def value_lead_def write_string_def write_json_object)

lemma value_lead_simps:
  "value_lead c \<Longrightarrow> \<not> is_whitespace c" "value_lead c \<Longrightarrow> c \<noteq> 93" "value_lead c \<Longrightarrow> c \<noteq> 125"
  by (auto simp: value_lead_def is_whitespace_def is_digit_def)

lemma skip_ws_value [simp]: "skip_ws (write_json v @ rest) = write_json v @ rest"
  using write_json_lead [of v] by (auto simp: skip_ws_def value_lead_simps)

lemma skip_ws_Cons: "\<not> is_whitespace c \<Longrightarrow> skip_ws (c # r) = c # r"
  by (simp add: skip_ws_def)

lemma skip_ws_marks [simp]:
  "skip_ws (34 # r) = 34 # r" "skip_ws (44 # r) = 44 # r" "skip_ws (58 # r) = 58 # r"
  "skip_ws (91 # r) = 91 # r" "skip_ws (93 # r) = 93 # r" "skip_ws (123 # r) = 123 # r"
  "skip_ws (125 # r) = 125 # r"
  by (simp_all add: skip_ws_def is_whitespace_def)

lemma starts_Cons [simp]: "starts c (x # r) \<longleftrightarrow> x = c" "\<not> starts c []"
  by (simp_all add: starts_def)

definition reads_back :: "json \<Rightarrow> bool" where
  "reads_back v \<longleftrightarrow> (\<forall>n rest. 2 * length (write_json v) + 1 \<le> n \<longrightarrow> no_digit rest \<longrightarrow>
     parse_value n (write_json v @ rest) = Some (canon16 v, rest))"

lemma reads_backD:
  "reads_back v \<Longrightarrow> 2 * length (write_json v) + 1 \<le> n \<Longrightarrow> no_digit rest \<Longrightarrow>
     parse_value n (write_json v @ rest) = Some (canon16 v, rest)"
  by (simp add: reads_back_def)

lemma comma_Cons: "xs \<noteq> [] \<Longrightarrow> comma (x # xs) = x @ [44] @ comma xs"
  by (cases xs) simp_all

lemma array_loop_reads:
  assumes "xs \<noteq> []" "list_all reads_back xs" "2 * length (comma (map write_json xs)) + 2 \<le> n"
  shows "array_loop n items (comma (map write_json xs) @ 93 # rest) =
    Some (JArray (items @ map canon16 xs), rest)"
  using assms
proof (induction xs arbitrary: n items)
  case (Cons x xs)
  then obtain m where n: "n = Suc m" by (cases n) auto
  show ?case
  proof (cases "xs = []")
    case True
    then have "parse_value m (write_json x @ 93 # rest) = Some (canon16 x, 93 # rest)"
      using Cons.prems n by (intro reads_backD) auto
    with True n show ?thesis by simp
  next
    case False
    then have c: "comma (map write_json (x # xs)) = write_json x @ 44 # comma (map write_json xs)"
      by (simp add: comma_Cons)
    have "parse_value m (write_json x @ 44 # comma (map write_json xs) @ 93 # rest) =
        Some (canon16 x, 44 # comma (map write_json xs) @ 93 # rest)"
      using Cons.prems n unfolding c by (intro reads_backD) auto
    moreover have "array_loop m (items @ [canon16 x]) (comma (map write_json xs) @ 93 # rest) =
        Some (JArray ((items @ [canon16 x]) @ map canon16 xs), rest)"
      using Cons.prems n False unfolding c by (intro Cons.IH) auto
    ultimately show ?thesis unfolding c n by simp
  qed
qed simp

lemma object_loop_reads:
  assumes "m \<noteq> []" "list_all (\<lambda>(k, v). utf8 k \<and> reads_back v) m"
    and "2 * length (comma (map write_member m)) + 2 \<le> n"
  shows "object_loop n ms (comma (map write_member m) @ 125 # rest) =
    Some (JObject (ms @ map (map_prod id canon16) m), rest)"
  using assms
proof (induction m arbitrary: n ms)
  case (Cons kv m)
  obtain k v where kv: "kv = (k, v)" by (cases kv)
  have u: "utf8 k" "reads_back v" using Cons.prems(2) kv by auto
  obtain l where n: "n = Suc l" using Cons.prems(3) by (cases n) auto
  have ws: "skip_ws (write_string k @ r) = write_string k @ r" for r by (simp add: write_string_def)
  show ?case
  proof (cases "m = []")
    case True
    then have "parse_value l (write_json v @ 125 # rest) = Some (canon16 v, 125 # rest)"
      using Cons.prems(3) n kv u(2) by (intro reads_backD) (auto simp: write_member_def)
    with True n kv u(1) show ?thesis by (simp add: write_member_def ws parse_string_write)
  next
    case False
    then have c: "comma (map write_member (kv # m)) =
        write_string k @ 58 # write_json v @ 44 # comma (map write_member m)"
      by (simp add: comma_Cons kv write_member_def)
    have "parse_value l (write_json v @ 44 # comma (map write_member m) @ 125 # rest) =
        Some (canon16 v, 44 # comma (map write_member m) @ 125 # rest)"
      using Cons.prems(3) n u(2) unfolding c by (intro reads_backD) auto
    moreover have "object_loop l (ms @ [(k, canon16 v)]) (comma (map write_member m) @ 125 # rest) =
        Some (JObject ((ms @ [(k, canon16 v)]) @ map (map_prod id canon16) m), rest)"
      using Cons.prems n False unfolding c by (intro Cons.IH) auto
    ultimately show ?thesis unfolding c n using u(1)
      by (simp add: ws parse_string_write kv id_def)
  qed
qed simp

lemma strip_prefix_other:
  "c \<noteq> hd p \<Longrightarrow> p \<noteq> [] \<Longrightarrow> strip_prefix p (c # r) = None"
  by (cases p) (simp_all add: strip_prefix_def)

lemma strip_prefix_self: "strip_prefix p (p @ r) = Some r"
  by (simp add: strip_prefix_def)

lemma hd_lit: "hd (lit ''null'') = 110" "hd (lit ''true'') = 116" "hd (lit ''false'') = 102"
  "lit ''null'' \<noteq> []" "lit ''true'' \<noteq> []" "lit ''false'' \<noteq> []"
  by (simp_all add: lit_def)

lemma no_keyword:
  assumes "c \<notin> {110, 116, 102}"
  shows "strip_prefix (lit ''null'') (c # r) = None" "strip_prefix (lit ''true'') (c # r) = None"
    "strip_prefix (lit ''false'') (c # r) = None"
  using assms by (auto intro!: strip_prefix_other simp: hd_lit)

lemma keyword_simps:
  "strip_prefix (lit ''null'') (lit ''null'' @ r) = Some r"
  "strip_prefix (lit ''null'') (lit ''true'' @ r) = None"
  "strip_prefix (lit ''null'') (lit ''false'' @ r) = None"
  "strip_prefix (lit ''true'') (lit ''true'' @ r) = Some r"
  "strip_prefix (lit ''true'') (lit ''false'' @ r) = None"
  "strip_prefix (lit ''false'') (lit ''false'' @ r) = Some r"
  by (simp_all add: strip_prefix_def lit_def)

lemma reads_back_array:
  assumes "list_all reads_back xs" shows "reads_back (JArray xs)"
  unfolding reads_back_def
proof (intro allI impI)
  fix n rest assume n: "2 * length (write_json (JArray xs)) + 1 \<le> n"
  then obtain m where m: "n = Suc m" by (cases n) auto
  show "parse_value n (write_json (JArray xs) @ rest) = Some (canon16 (JArray xs), rest)"
  proof (cases xs)
    case Nil
    then show ?thesis using m by (simp add: no_keyword)
  next
    case (Cons x ys)
    have lead: "\<not> starts 93 (comma (map write_json xs) @ r)"
        "skip_ws (comma (map write_json xs) @ r) = comma (map write_json xs) @ r" for r
      using write_json_lead [of x] Cons value_lead_simps
      by (cases "ys = []"; auto simp: comma_Cons skip_ws_Cons)+
    have "array_loop m [] (comma (map write_json xs) @ 93 # rest) = Some (JArray ([] @ map canon16 xs), rest)"
      using assms Cons n m by (intro array_loop_reads) auto
    with m lead show ?thesis by (simp add: no_keyword)
  qed
qed

lemma reads_back_object:
  assumes "list_all (\<lambda>(k, v). utf8 k \<and> reads_back v) m" shows "reads_back (JObject m)"
  unfolding reads_back_def
proof (intro allI impI)
  fix n rest assume n: "2 * length (write_json (JObject m)) + 1 \<le> n"
  then obtain l where l: "n = Suc l" by (cases n) auto
  let ?m = "sort_members m"
  have ok: "list_all (\<lambda>(k, v). utf8 k \<and> reads_back v) ?m" using assms by (simp add: list_all_iff)
  show "parse_value n (write_json (JObject m) @ rest) = Some (canon16 (JObject m), rest)"
  proof (cases ?m)
    case Nil
    then show ?thesis using l by (simp add: write_json_object no_keyword sort_members_map)
  next
    case (Cons kv ys)
    have lead: "\<not> starts 125 (comma (map write_member ?m) @ r)"
        "skip_ws (comma (map write_member ?m) @ r) = comma (map write_member ?m) @ r" for r
      using Cons by (cases "ys = []"; auto simp: comma_Cons write_member_def write_string_def)+
    have "object_loop l [] (comma (map write_member ?m) @ 125 # rest) =
        Some (JObject ([] @ map (map_prod id canon16) ?m), rest)"
      using ok Cons n l by (intro object_loop_reads) (auto simp: write_json_object)
    with l lead show ?thesis by (simp add: write_json_object no_keyword sort_members_map)
  qed
qed

lemma digit_lead:
  "is_digit d \<Longrightarrow> d \<notin> {110, 116, 102}" "is_digit d \<Longrightarrow> d \<noteq> 34 \<and> d \<noteq> 91 \<and> d \<noteq> 123"
  "is_digit d \<Longrightarrow> \<not> is_whitespace d"
  by (auto simp: is_digit_def is_whitespace_def)

lemma reads_back_number: "reads_back (JNumber w)"
  unfolding reads_back_def
proof (intro allI impI)
  fix n rest assume n: "2 * length (write_json (JNumber w)) + 1 \<le> n" and r: "no_digit rest"
  obtain m where m: "n = Suc m" using n by (cases n) auto
  obtain d t where d: "decimal (unat w) = d # t" by (cases "decimal (unat w)") (simp_all add: decimal_not_Nil)
  then have dd: "is_digit d" using decimal_digits [of "unat w"] by simp
  have lt: "unat w < 2 ^ 64" using unsigned_less [of w] by simp
  have "parse_number (d # t @ rest) = Some (JNumber w, rest)"
    using parse_number_decimal [OF lt r] d by simp
  moreover have "parse_value n (d # t @ rest) = parse_number (d # t @ rest)"
    using dd digit_lead [OF dd] m by (simp add: no_keyword skip_ws_Cons)
  ultimately show "parse_value n (write_json (JNumber w) @ rest) = Some (canon16 (JNumber w), rest)"
    using d by simp
qed

lemma reads_back_string: "utf8 s \<Longrightarrow> reads_back (JString s)"
  unfolding reads_back_def
proof (intro allI impI)
  fix n rest assume "utf8 s" and n: "2 * length (write_json (JString s)) + 1 \<le> n"
  obtain m where "n = Suc m" using n by (cases n) auto
  with \<open>utf8 s\<close> parse_string_write [of s rest]
  show "parse_value n (write_json (JString s) @ rest) = Some (canon16 (JString s), rest)"
    by (simp add: write_string_def no_keyword)
qed

lemma reads_back_keyword: "reads_back JNull" "reads_back (JBool b)"
proof -
  have ws: "skip_ws (lit ''null'' @ r) = lit ''null'' @ r" "skip_ws (lit ''true'' @ r) = lit ''true'' @ r"
    "skip_ws (lit ''false'' @ r) = lit ''false'' @ r" for r
    by (simp_all add: lit_def skip_ws_def is_whitespace_def)
  have "\<exists>m. n = Suc m" if "k + 1 \<le> n" for k n :: nat using that by (cases n) auto
  then show "reads_back JNull" "reads_back (JBool b)"
    unfolding reads_back_def by (fastforce simp: ws keyword_simps)+
qed

lemma json_reads_back: "json_ok v \<Longrightarrow> reads_back v"
proof (induction v)
  case (JArray xs)
  then show ?case by (intro reads_back_array) (auto simp: list_all_iff)
next
  case (JObject m)
  then have "utf8 k \<and> reads_back v" if "(k, v) \<in> set m" for k v
    using that by (auto simp: members_ok_def list_all_iff prod_set_defs)
  then show ?case by (intro reads_back_object) (auto simp: list_all_iff)
qed (simp_all add: reads_back_keyword reads_back_number reads_back_string)

text \<open>The order of the writer is a reordering.\<close>

lemma canon_canon16: "json_ok v \<Longrightarrow> canon (canon16 v) = canon v"
proof (induction v)
  case (JArray xs)
  then show ?case by (simp add: list_all_iff)
next
  case (JObject m)
  let ?c = "map (map_prod id canon) m"
  have "canon (canon16 v) = canon v" if "(k, v) \<in> set m" for k v
    using JObject that by (auto simp: members_ok_def list_all_iff prod_set_defs)
  then have "map (map_prod id canon) (map (map_prod id canon16) (sort_members m)) = sort_members ?c"
    by (auto simp: sort_members_map)
  moreover have "sort_key fst (sort_members ?c) = sort_key fst ?c"
  proof (rule sort_key_inj_key_eq)
    show "mset (sort_members ?c) = mset (sort_key fst ?c)" by (simp add: sort_members_def)
    have "distinct (map fst ?c)" using JObject.prems by (simp add: members_ok_def)
    then show "inj_on fst (set (sort_members ?c))" unfolding set_sort_members distinct_map by simp
  qed simp
  ultimately show ?case
    by (simp only: canon16.simps canon_JObject canon_members_def sort_members_map [where f = canon16])
qed simp_all

section \<open>Bytes\<close>

lemma is_scalar_ascii: "c < 128 \<Longrightarrow> is_scalar c"
  by (simp add: is_scalar_def)

lemma write_string_scalar: "utf8 s \<Longrightarrow> list_all is_scalar (write_string s)"
proof -
  have "list_all is_scalar (escape c)" if "is_scalar c" for c
    using that by (auto simp: escape_def is_scalar_ascii hex4_def hex_digit_def)
  then show "utf8 s \<Longrightarrow> list_all is_scalar (write_string s)"
    using utf8_scalars [of s] by (auto simp: write_string_def list_all_iff is_scalar_ascii)
qed

lemma comma_scalar: "list_all (list_all is_scalar) xs \<Longrightarrow> list_all is_scalar (comma xs)"
  by (induction xs rule: comma.induct) (simp_all add: is_scalar_ascii)

lemma write_json_scalar: "json_ok v \<Longrightarrow> list_all is_scalar (write_json v)"
proof (induction v)
  case (JNumber n)
  show ?case using decimal_digits [of "unat n"] by (auto simp: list_all_iff is_digit_def is_scalar_def)
next
  case (JArray xs)
  then have "list_all is_scalar (comma (map write_json xs))"
    by (intro comma_scalar) (auto simp: list_all_iff)
  then show ?case by (simp add: is_scalar_ascii)
next
  case (JObject m)
  then have "utf8 k \<and> list_all is_scalar (write_json v)" if "(k, v) \<in> set m" for k v
    using that by (auto simp: members_ok_def list_all_iff prod_set_defs)
  then have "list_all is_scalar (comma (map write_member (sort_members m)))"
    by (intro comma_scalar)
      (auto simp: write_member_def is_scalar_ascii write_string_scalar list_all_iff [of _ "map _ _"])
  then show ?case by (simp add: is_scalar_ascii write_json_object)
qed (auto simp: lit_def is_scalar_ascii write_string_scalar)

lemma bytes_of_string_inv: "map (\<lambda>b. char_of (unat b)) (map (\<lambda>c. of_nat (of_char c) :: u8) s) = s"
  by (induction s) (simp_all add: unat_of_nat)

lemma json_decode_encode:
  assumes "json_ok v" shows "json_decode (json_encode v) = Some (canon16 v)"
proof -
  let ?w = "write_json v"
  have s: "list_all is_scalar ?w" by (rule write_json_scalar [OF assms])
  have "parse_value (2 * length ?w + 1) (?w @ []) = Some (canon16 v, [])"
    by (rule reads_backD [OF json_reads_back [OF assms]]) simp_all
  then show ?thesis
    unfolding json_decode_def json_encode_def bytes_of_string_inv Let_def
    using utf8_string_of_scalars [OF s] chars_string_of_scalars [OF s] by (simp add: skip_ws_def)
qed

lemma rfc8785_canonical:
  assumes "st_json_encode s = json_encode" "st_json_decode s = json_decode"
  shows "canonical_json_ok s"
  unfolding canonical_json_ok_def assms using json_decode_encode canon_canon16 by blast

section \<open>Fuel\<close>

lemma length_skip_ws: "length (skip_ws r) \<le> length r"
  by (simp add: skip_ws_def length_dropWhile_le)

lemma string_loop_shrinks: "string_loop out cs = Some (o1, r) \<Longrightarrow> length r < length cs"
proof (induction out cs rule: string_loop.induct)
  case (2 out c cs)
  then show ?case
    by (auto split: if_splits list.splits option.splits) fastforce+
qed simp

lemma parse_string_shrinks: "parse_string r0 = Some (s, r) \<Longrightarrow> length r < length r0"
  by (auto simp: parse_string_def split: list.splits if_splits option.splits dest: string_loop_shrinks)

lemma parse_number_shrinks:
  assumes "parse_number r0 = Some (v, r)" shows "length r < length r0"
proof -
  have r: "r = dropWhile is_digit r0" "takeWhile is_digit r0 \<noteq> []"
    using assms by (auto simp: parse_number_def Let_def split: if_splits)
  have "length r0 = length (takeWhile is_digit r0) + length r"
    unfolding r(1) by (metis length_append takeWhile_dropWhile_id)
  with r(2) show ?thesis by simp
qed

lemma strip_prefix_shrinks: "strip_prefix p r0 = Some r \<Longrightarrow> p \<noteq> [] \<Longrightarrow> length r < length r0"
  by (cases r0) (auto simp: strip_prefix_def split: if_splits)

lemma drop_after_start: "starts c r \<Longrightarrow> length (drop 1 r) < length r"
  by (cases r) simp_all

lemma parse_value_cases:
  assumes "parse_value (Suc n) r0 = Some (v, r)"
  obtains (short) "length r < length r0"
  | (arr) r1 where "length r1 < length r0" "array_loop n [] r1 = Some (v, r)"
  | (obj) r1 where "length r1 < length r0" "object_loop n [] r1 = Some (v, r)"
proof -
  let ?r = "skip_ws r0"
  have le: "length ?r \<le> length r0" by (rule length_skip_ws)
  have nil: "lit ''null'' \<noteq> []" "lit ''true'' \<noteq> []" "lit ''false'' \<noteq> []" by (simp_all add: lit_def)
  have sub: "length (skip_ws (drop 1 ?r)) < length r0" if "starts c ?r" for c
    using drop_after_start [OF that] length_skip_ws [of "drop 1 ?r"] le by linarith
  have sub2: "length (drop 1 (skip_ws (drop 1 ?r))) < length r0" if "starts c ?r" for c
    using sub [OF that] by simp
  consider "strip_prefix (lit ''null'') ?r = Some r" | "strip_prefix (lit ''true'') ?r = Some r"
    | "strip_prefix (lit ''false'') ?r = Some r" | s where "parse_string ?r = Some (s, r)"
    | "starts 91 ?r" "r = drop 1 (skip_ws (drop 1 ?r))"
    | "starts 91 ?r" "array_loop n [] (skip_ws (drop 1 ?r)) = Some (v, r)"
    | "starts 123 ?r" "r = drop 1 (skip_ws (drop 1 ?r))"
    | "starts 123 ?r" "object_loop n [] (skip_ws (drop 1 ?r)) = Some (v, r)"
    | "parse_number ?r = Some (v, r)"
    using assms by (auto simp: Let_def split: option.splits if_splits)
  moreover have short': thesis if "length r < length ?r" using that le by (intro short) simp
  ultimately show ?thesis
  proof cases
    case 5
    then show ?thesis using sub2 by (intro short) simp
  next
    case 7
    then show ?thesis using sub2 by (intro short) simp
  qed (use nil sub in \<open>blast intro: arr obj short' strip_prefix_shrinks parse_string_shrinks
      parse_number_shrinks\<close>)+
qed

lemma loops_shrink:
  "parse_value n r0 = Some (v, r) \<Longrightarrow> length r < length r0"
  "array_loop n items r0 = Some (v, r) \<Longrightarrow> length r < length r0"
  "object_loop n ms r0 = Some (v, r) \<Longrightarrow> length r < length r0"
proof (induction n arbitrary: items ms r0 v r)
  case (Suc n)
  {
    case 1
    then show ?case by (cases rule: parse_value_cases) (auto dest: Suc.IH(2,3))
  next
    case 2
    then obtain x r1 where x: "parse_value n r0 = Some (x, r1)"
      by (auto split: option.splits)
    have "length r1 < length r0" by (rule Suc.IH(1) [OF x])
    then have d: "length (drop 1 (skip_ws r1)) < length r0" using length_skip_ws [of r1] by simp
    from 2 x consider "array_loop n (items @ [x]) (drop 1 (skip_ws r1)) = Some (v, r)"
      | "r = drop 1 (skip_ws r1)"
      by (auto simp: Let_def split: if_splits)
    then show ?case using d Suc.IH(2) by cases (force, simp)
  next
    case 3
    then obtain k q x r1 where k: "parse_string (skip_ws r0) = Some (k, q)"
        and x: "parse_value n (drop 1 (skip_ws q)) = Some (x, r1)"
      by (auto simp: Let_def split: option.splits if_splits)
    have "length q < length r0" using parse_string_shrinks [OF k] length_skip_ws [of r0] by simp
    then have "length r1 < length r0" using Suc.IH(1) [OF x] length_skip_ws [of q] by simp
    then have d: "length (drop 1 (skip_ws r1)) < length r0" using length_skip_ws [of r1] by simp
    from 3 k x consider "object_loop n (ms @ [(k, x)]) (drop 1 (skip_ws r1)) = Some (v, r)"
      | "r = drop 1 (skip_ws r1)"
      by (auto simp: Let_def split: if_splits)
    then show ?case using d Suc.IH(3) by cases (force, simp)
  }
qed simp_all

text \<open>Past twice the length of the text, more fuel changes nothing: the parser never stops for lack
  of it.\<close>

lemma fuel_enough:
  "2 * length r0 + 1 \<le> n \<Longrightarrow> parse_value (Suc n) r0 = parse_value n r0"
  "2 * length r0 + 2 \<le> n \<Longrightarrow> array_loop (Suc n) items r0 = array_loop n items r0"
  "2 * length r0 + 2 \<le> n \<Longrightarrow> object_loop (Suc n) ms r0 = object_loop n ms r0"
proof (induction n arbitrary: items ms r0)
  case (Suc n)
  {
    case 1
    let ?r = "skip_ws (drop 1 (skip_ws r0))"
    have "2 * length ?r + 2 \<le> n" if "starts c (skip_ws r0)" for c
      using drop_after_start [OF that] length_skip_ws [of "drop 1 (skip_ws r0)"]
        length_skip_ws [of r0] 1 by linarith
    then have "starts c (skip_ws r0) \<Longrightarrow> array_loop (Suc n) [] ?r = array_loop n [] ?r"
      and "starts c (skip_ws r0) \<Longrightarrow> object_loop (Suc n) [] ?r = object_loop n [] ?r" for c
      using Suc.IH(2,3) by blast+
    then show ?case
      unfolding parse_value.simps(2) [of "Suc n"] parse_value.simps(2) [of n] Let_def
      by (simp only: cong: if_cong option.case_cong)
  next
    case 2
    have p: "parse_value (Suc n) r0 = parse_value n r0" using 2 by (intro Suc.IH(1)) simp
    have "array_loop (Suc n) (items @ [v]) (drop 1 (skip_ws r)) =
        array_loop n (items @ [v]) (drop 1 (skip_ws r))"
      if "parse_value n r0 = Some (v, r)" "starts 44 (skip_ws r)" for v r
      using loops_shrink(1) [OF that(1)] length_skip_ws [of r] drop_after_start [OF that(2)] 2
      by (intro Suc.IH(2)) simp
    then show ?case
      unfolding array_loop.simps(2) [of "Suc n"] array_loop.simps(2) [of n] p Let_def
      by (auto split: option.split)
  next
    case 3
    have q: "2 * length (drop 1 (skip_ws r)) + 1 \<le> n"
      if "parse_string (skip_ws r0) = Some (k, r)" for k r
      using parse_string_shrinks [OF that] length_skip_ws [of r0] length_skip_ws [of r] 3 by simp
    then have p: "parse_value (Suc n) (drop 1 (skip_ws r)) = parse_value n (drop 1 (skip_ws r))"
      if "parse_string (skip_ws r0) = Some (k, r)" for k r
      using that Suc.IH(1) by blast
    have "object_loop (Suc n) (ms @ [(k, v)]) (drop 1 (skip_ws r')) =
        object_loop n (ms @ [(k, v)]) (drop 1 (skip_ws r'))"
      if "parse_string (skip_ws r0) = Some (k, r)" "parse_value n (drop 1 (skip_ws r)) = Some (v, r')"
      for k r v r'
      using q [OF that(1)] loops_shrink(1) [OF that(2)] length_skip_ws [of r']
      by (intro Suc.IH(3)) simp
    with p show ?case
      unfolding object_loop.simps(2) [of "Suc n"] object_loop.simps(2) [of n] Let_def
      by (auto split: option.split)
  }
qed simp_all

lemma fuel_irrelevant:
  assumes "2 * length r0 + 1 \<le> n"
  shows "parse_value n r0 = parse_value (2 * length r0 + 1) r0"
  using assms by (induction n rule: dec_induct) (simp_all add: fuel_enough(1) del: parse_value.simps(2))

end
