(* ===== verification/Sample_Suite.thy ===== *)
theory Sample_Suite
  imports Chain Rfc8785
begin

text \<open>
  A concrete suite, on which the laws of the ports hold: base64url stands for a two-letters-a-byte
  ASCII code, the AEAD appends the first half of the key as its tag, the compressor appends a
  terminator, JSON is the adapter of \<open>Rfc8785\<close>. It shows that the hypotheses of the theorems about
  packets can hold together, and instantiates them.
\<close>

definition letter :: "nat \<Rightarrow> char" where
  "letter n = char_of (65 + n)"

fun sample_encode :: "bytes \<Rightarrow> string" where
  "sample_encode [] = []"
| "sample_encode (b # bs) = letter (unat b div 16) # letter (unat b mod 16) # sample_encode bs"

fun sample_decode :: "string \<Rightarrow> bytes option" where
  "sample_decode [] = Some []"
| "sample_decode (a # b # s) =
     map_option ((#) (of_nat ((of_char a - 65) * 16 + (of_char b - 65)))) (sample_decode s)"
| "sample_decode [a] = None"

definition sample_open :: "aead_key \<Rightarrow> bytes \<Rightarrow> bytes \<Rightarrow> bytes \<Rightarrow> bytes option" where
  "sample_open k n a c =
     (let p = take (length c - 16) c in
      if drop (length c - 16) c = take 16 (as_bytes k) then Some p else None)"

definition sample_decompress :: "bytes \<Rightarrow> nat \<Rightarrow> compress_error + bytes" where
  "sample_decompress c mx =
     (if c = [] then Inl Codec else if length (butlast c) \<le> mx then Inr (butlast c) else Inl Oversize)"

definition sample_hmac :: "hmac_key \<Rightarrow> bytes \<Rightarrow> hmac_mac" where
  "sample_hmac k m = from_array (take 32 (rev m @ replicate 32 0))"

definition sample_suite :: suite where
  "sample_suite = \<lparr>
     st_hmac = sample_hmac,
     st_compress = \<lambda>x. x @ [1],
     st_decompress = sample_decompress,
     st_b64u = \<lparr>b64_encode = sample_encode, b64_decode = sample_decode\<rparr>,
     st_seal = \<lambda>k n a p. p @ take 16 (as_bytes k),
     st_open = sample_open,
     st_json_encode = json_encode,
     st_json_decode = json_decode,
     st_kem_generate = \<lambda>p _. Inr \<lparr>kp_public = replicate (kem_pk_len p) 0,
                                   kp_secret = replicate (kem_sk_len p) 0\<rparr>,
     st_kem_wrap = \<lambda>p _ _. Inr (replicate 32 0, replicate (kem_ct_len p) 0),
     st_kem_unwrap = \<lambda>_ _ _. Inr (replicate 32 0),
     st_sign_generate = \<lambda>p _. Inr \<lparr>skp_public = replicate (sign_pk_len p) 0,
                                    skp_secret = replicate (sign_sk_len p) 0\<rparr>,
     st_sign = \<lambda>p _ _ _. Inr (replicate (sign_sig_len p) 0),
     st_verify = \<lambda>_ _ _ _. Inr (),
     st_hash = \<lambda>_. zero32,
     st_argon = \<lambda>_ _ _ _ _. Some zero32\<rparr>"

lemma letter_code: "n < 16 \<Longrightarrow> of_char (letter n) = (65 + n :: nat)"
  by (simp add: letter_def)

lemma sample_decode_encode: "sample_decode (sample_encode bs) = Some bs"
proof (induction bs)
  case (Cons b bs)
  have "unat b div 16 < 16" using unat_u8_less [of b] by simp
  moreover have "of_nat (unat b div 16 * 16 + unat b mod 16) = b" by simp
  ultimately show ?case using Cons by (simp add: letter_code del: of_nat_add of_nat_mult)
qed simp

lemma sample_b64u_ok: "b64u_ok (st_b64u sample_suite)"
proof -
  have "ascii_str (sample_encode bs)" for bs
  proof (induction bs)
    case (Cons b bs)
    have "unat b div 16 < 16" using unat_u8_less [of b] by simp
    with Cons show ?case by (simp add: ascii_str_def letter_code)
  qed (simp add: ascii_str_def)
  then show ?thesis by (simp add: b64u_ok_def sample_suite_def sample_decode_encode)
qed

lemma sample_packet_suite_ok: "packet_suite_ok sample_suite"
proof -
  have "canonical_json_ok sample_suite"
    by (rule rfc8785_canonical) (simp_all add: sample_suite_def)
  moreover have "aead_ok sample_suite"
    by (simp add: aead_ok_def sample_suite_def sample_open_def)
  moreover have "compress_ok sample_suite"
    by (simp add: compress_ok_def sample_suite_def unpad_eq_self sample_decompress_def)
  ultimately show ?thesis using sample_b64u_ok by (simp add: packet_suite_ok_def)
qed

definition sample_packet :: "u64 \<Rightarrow> packet_plain" where
  "sample_packet n = Presence \<lparr>ppr_actor_id = [], ppr_packet_seq = n, ppr_conversation_id = zero32\<rparr>"

subsection \<open>Lengths of plain values\<close>

definition plain_str :: "string \<Rightarrow> bool" where
  "plain_str s = list_all (\<lambda>a. (35 :: nat) \<le> of_char a \<and> of_char a < (92 :: nat) \<or>
     (92 :: nat) < of_char a \<and> of_char a < (128 :: nat)) s"

lemma write_plain: "plain_str s \<Longrightarrow> write_string s = 34 # map of_char s @ [34]"
proof -
  assume p: "plain_str s"
  then have "chars s = map of_char s"
    by (intro chars_ascii) (auto simp: plain_str_def list_all_iff)
  moreover have "escape (of_char a) = [of_char a]" if "a \<in> set s" for a
    using p that by (auto simp: plain_str_def list_all_iff escape_def)
  then have "concat (map escape (map of_char s)) = map of_char s" by (induction s) simp_all
  ultimately show ?thesis by (simp add: write_string_def)
qed

lemma plain_ascii: "plain_str s \<Longrightarrow> list_all (\<lambda>c. c < 128) (write_string s)"
  by (auto simp: write_plain) (auto simp: plain_str_def list_all_iff)

lemma length_ascii_text: "list_all (\<lambda>c. c < 128) cs \<Longrightarrow> length (string_of_scalars cs) = length cs"
  by (induction cs) (simp_all add: encode_utf8_def)

lemma comma_all: "list_all (list_all P) xs \<Longrightarrow> P 44 \<Longrightarrow> list_all P (comma xs)"
  by (induction xs rule: comma.induct) simp_all

lemma length_comma: "length (comma xs) = sum_list (map length xs) + (length xs - 1)"
  by (induction xs rule: comma.induct) simp_all

lemma sum_list_sort_members: "sum_list (map f (sort_members m)) = sum_list (map f m)"
  for f :: "_ \<Rightarrow> nat"
  unfolding sort_members_def sum_mset_sum_list [symmetric] mset_map mset_sort ..

lemma length_sort_members: "length (sort_members m) = length m"
  by (simp add: sort_members_def)

lemma length_flat_object:
  assumes "list_all (\<lambda>(k, v). plain_str k \<and> list_all (\<lambda>c. c < 128) (write_json v)) m"
  shows "length (json_encode (JObject m)) =
    2 + (length m - 1) + sum_list (map (\<lambda>(k, v). 3 + length k + length (write_json v)) m)"
proof -
  have w: "list_all (\<lambda>c. c < 128) (write_member kv) \<and>
      length (write_member kv) = (case kv of (k, v) \<Rightarrow> 3 + length k + length (write_json v))"
    if "kv \<in> set m" for kv
  proof -
    obtain k v where kv: "kv = (k, v)" by (cases kv)
    with assms that have p: "plain_str k" "list_all (\<lambda>c. c < 128) (write_json v)"
      unfolding list_all_iff [of _ m] by auto
    from plain_ascii [OF p(1)] p(2) show ?thesis
      by (simp add: kv write_member_def write_plain [OF p(1)])
  qed
  have "list_all (\<lambda>c. c < 128) (comma (map write_member (sort_members m)))"
    using w by (intro comma_all) (auto simp: list_all_iff [of _ "map _ _"])
  moreover have "sum_list (map (\<lambda>kv. length (write_member kv)) m) =
      sum_list (map (\<lambda>(k, v). 3 + length k + length (write_json v)) m)"
    using w by (intro arg_cong [of _ _ sum_list] map_cong) auto
  ultimately show ?thesis
    by (simp add: json_encode_def write_json_object length_ascii_text length_comma
        length_sort_members comp_def sum_list_sort_members encode_utf8_def)
qed

text \<open>A bound of the length of a JSON value whose strings need no escapes.\<close>

fun plain_json :: "json \<Rightarrow> bool" where
  "plain_json (JString s) = plain_str s"
| "plain_json (JArray xs) = list_all plain_json xs"
| "plain_json (JObject m) = list_all (\<lambda>(k, v). plain_str k \<and> plain_json v) m"
| "plain_json (JNumber n) = True"
| "plain_json JNull = True"
| "plain_json (JBool b) = True"

fun json_bound :: "json \<Rightarrow> nat" where
  "json_bound (JString s) = 2 + length s"
| "json_bound (JArray xs) = 2 + sum_list (map (\<lambda>v. 1 + json_bound v) xs)"
| "json_bound (JObject m) = 2 + sum_list (map (\<lambda>(k, v). 4 + length k + json_bound v) m)"
| "json_bound _ = 20"

lemma length_decimal: "n < 10 ^ k \<Longrightarrow> length (decimal n) \<le> max 1 k"
proof (induction n arbitrary: k rule: decimal.induct)
  case (1 n)
  show ?case
  proof (cases "n < 10")
    case False
    then obtain j where k: "k = Suc j" using 1(2) by (cases k) auto
    then have "n div 10 < 10 ^ j" using 1(2) by (simp add: less_mult_imp_div_less mult.commute)
    moreover from this False have "j \<noteq> 0" by (cases j) auto
    ultimately show ?thesis using 1(1) [OF False] False k by (subst decimal.simps) force
  qed (subst decimal.simps, simp)
qed

lemma write_json_plain:
  "plain_json v \<Longrightarrow> list_all (\<lambda>c. c < 128) (write_json v) \<and> length (write_json v) \<le> json_bound v"
proof (induction v rule: plain_json.induct)
  case (1 s)
  then show ?case using plain_ascii [of s] by (simp add: write_plain)
next
  case (2 xs)
  then have "list_all (list_all (\<lambda>c. c < 128)) (map write_json xs)"
    and "sum_list (map (length \<circ> write_json) xs) \<le> sum_list (map json_bound xs)"
    by (auto simp: list_all_iff intro!: sum_list_mono)
  then show ?case by (simp add: comma_all length_comma sum_list_Suc)
next
  case (3 m)
  have w: "list_all (\<lambda>c. c < 128) (write_member kv) \<and>
      length (write_member kv) \<le> (case kv of (k, v) \<Rightarrow> 3 + length k + json_bound v)"
    if "kv \<in> set m" for kv
  proof -
    obtain k v where kv: "kv = (k, v)" by (cases kv)
    with 3(2) that have p: "plain_str k" "plain_json v" by (auto simp: list_all_iff)
    from plain_ascii [OF p(1)] 3(1) [OF that [unfolded kv] refl p(2)] show ?thesis
      by (simp add: kv write_member_def write_plain [OF p(1)])
  qed
  have "list_all (list_all (\<lambda>c. c < 128)) (map write_member (sort_members m))"
    using w by (auto simp: list_all_iff [of _ "map _ _"] sort_members_def)
  moreover have "sum_list (map (length \<circ> write_member) m) \<le> sum_list (map (\<lambda>(k, v). 3 + length k + json_bound v) m)"
    using w by (auto intro!: sum_list_mono)
  moreover have "sum_list (map (\<lambda>(k, v). 4 + length k + json_bound v) m) =
      sum_list (map (\<lambda>(k, v). 3 + length k + json_bound v) m) + length m"
    by (induction m) auto
  ultimately show ?case
    by (simp add: write_json_object comma_all length_comma length_sort_members sum_list_sort_members comp_def)
next
  case (4 n)
  have "unat n < 2 ^ 64" using unsigned_less [of n] by simp
  then have "unat n < 10 ^ 20" by simp
  from length_decimal [OF this] show ?case
    using decimal_digits [of "unat n"] by (auto simp: list_all_iff is_digit_def)
qed (auto simp: lit_def)

lemma length_json_bound: "plain_json v \<Longrightarrow> length (json_encode v) \<le> json_bound v"
  using write_json_plain [of v] by (simp add: json_encode_def length_ascii_text)

lemma plain_letters: "plain_str (sample_encode bs) \<and> length (sample_encode bs) = 2 * length bs"
proof (induction bs)
  case (Cons b bs)
  have "unat b div 16 < 16" using unat_u8_less [of b] by simp
  moreover have "unat b mod 16 < 27" by (rule less_trans [of _ 16]) simp_all
  ultimately show ?case using Cons by (simp add: plain_str_def letter_code)
qed (simp add: plain_str_def)

subsection \<open>A packet that can be sent\<close>

lemma sample_encode_zeros: "sample_encode (replicate n 0) = concat (replicate n ''AA'')"
proof -
  have "letter 0 = CHR ''A''" by code_simp
  then show ?thesis by (induction n) simp_all
qed

definition sample_json :: json where
  "sample_json = JObject [(''type'', JString ''v1-packet-presence''), (''version'', JNumber 1),
     (''actor_id'', JString []), (''packet_seq'', JNumber 7),
     (''conversation_id'', JString (concat (replicate 32 ''AA'')))]"

lemma sample_packet_json: "packet_to_json (st_b64u sample_suite) (sample_packet 7) = sample_json"
  by (simp add: sample_packet_def packet_to_json_def bstr_def sample_suite_def sample_json_def
      sample_encode_zeros)

lemma sample_json_length: "length (json_encode sample_json) \<le> 400"
proof -
  have "plain_str (concat (replicate 32 ''AA''))" by (auto simp: plain_str_def list_all_iff)
  moreover have "length (concat (replicate 32 ''AA'')) = 64" by (simp add: length_concat sum_list_replicate)
  moreover have "list_all (\<lambda>c. c < (128::nat)) (map of_char (concat (replicate 32 ''AA'')))"
    by (auto simp: list_all_iff)
  moreover have "decimal 1 = [49]" "decimal 7 = [55]" by (subst decimal.simps; simp)+
  ultimately show ?thesis
    unfolding sample_json_def
    by (subst length_flat_object) (simp_all add: write_plain plain_str_def)
qed

lemma sample_sendable: "packet_sendable sample_suite (sample_packet 7)"
proof -
  have "packet_wf (sample_packet 7)" by (simp add: sample_packet_def packet_wf_def)
  then show ?thesis
    unfolding packet_sendable_def sample_packet_json Let_def
    using sample_json_length
    by (simp add: sample_suite_def PACKET_MAX_UNCOMPRESSED_def PACKET_PAD_LEN_def)
qed

end
