(* ===== verification/Wire_Properties.thy ===== *)
theory Wire_Properties
  imports Sample_Suite
begin

text \<open>
  The properties of the wire: JSON values, durable bodies and packets survive their encodings, a
  sealed packet opens under its key, a run of packets arrives in order, and a receiver that is
  behind catches up within a bound. Each is followed by an instance on the sample suite.
\<close>

section \<open>JSON\<close>

text \<open>C24: The RFC 8785 adapter reads back every value it writes whose member names are distinct and
  whose strings are UTF-8; the value returned differs at most in the order of object members.\<close>

theorem json_adapter_roundtrip:
  assumes "json_ok v"
  shows "\<exists>v'. json_decode (json_encode v) = Some v' \<and> canon v' = canon v"
  using json_decode_encode [OF assms] canon_canon16 [OF assms] by blast

theorem json_adapter_roundtrip_witness:
  "\<exists>v'. json_decode (json_encode (JArray [JNumber 42, JNull])) = Some v' \<and>
     canon v' = JArray [JNumber 42, JNull]"
  using json_adapter_roundtrip [of "JArray [JNumber 42, JNull]"] by simp



section \<open>Durable bodies and tickets\<close>

definition sample_body :: durable_body where
  "sample_body = \<lparr>db_conversation_id = zero32, db_hlc = \<lparr>hlc_wall_ms = 5, hlc_counter = 1\<rparr>,
     db_payload = Text \<lparr>txt_body = ''hi'', txt_reply_to = Some zero32, txt_expire_at = None\<rparr>\<rparr>"



text \<open>C19: Whatever object a durable-body reader accepts holds checked parts (channels, names,
  pictures, wakes and defaults that their constructors accept), and writing it out again gives an
  object that reads as the same body.\<close>

theorem durable_body_reader_sound:
  assumes "b64u_ok b" "durable_body_from_json b v = Some body"
  shows "body_wf body \<and> durable_body_from_json b (durable_body_to_json b body) = Some body"
  using assms durable_body_from_json_wf durable_body_roundtrip by blast

theorem durable_body_reader_sound_witness:
  "\<exists>v. durable_body_from_json (st_b64u sample_suite) v = Some sample_body \<and> body_wf sample_body \<and>
     durable_body_from_json (st_b64u sample_suite)
       (durable_body_to_json (st_b64u sample_suite) sample_body) = Some sample_body"
proof -
  let ?b = "st_b64u sample_suite"
  have "body_wf sample_body" by (simp add: sample_body_def body_wf_def payload_wf_def)
  then have r: "durable_body_from_json ?b (durable_body_to_json ?b sample_body) = Some sample_body"
    by (rule durable_body_roundtrip [OF sample_b64u_ok])
  with durable_body_reader_sound [OF sample_b64u_ok r] show ?thesis by blast
qed

text \<open>C23: No reader depends on the order of members: reordering the members of any object inside a
  durable body, a packet or a ticket changes nothing.\<close>

theorem readers_ignore_member_order:
  assumes "json_ok v" "canon v' = canon v"
  shows "durable_body_from_json b v' = durable_body_from_json b v \<and>
    packet_from_json b v' = packet_from_json b v \<and> ticket_from_json b v' = ticket_from_json b v"
  using body_codec.same_up_to_order [OF assms] packet_codec.same_up_to_order [OF assms]
    ticket_codec.same_up_to_order [OF assms] by simp_all

theorem readers_ignore_member_order_witness:
  "ticket_from_json (st_b64u sample_suite)
     (JObject [(''b'', JNull), (''a'', JNumber 1)]) =
   ticket_from_json (st_b64u sample_suite)
     (JObject [(''a'', JNumber 1), (''b'', JNull)])"
  using readers_ignore_member_order [of "JObject [(''a'', JNumber 1), (''b'', JNull)]"
      "JObject [(''b'', JNull), (''a'', JNumber 1)]" "st_b64u sample_suite"]
  by (simp add: canon_members_def)

section \<open>Packets\<close>



text \<open>A sender that seals a run of packets, stepping its chain after each, and a receiver that opens
  what arrives with an empty key cache.\<close>

fun send_run :: "suite \<Rightarrow> rng \<Rightarrow> send_chain \<Rightarrow> packet_plain list \<Rightarrow> (bytes list \<times> send_chain) option" where
  "send_run s r c [] = Some ([], c)"
| "send_run s r c (p # ps) =
     (case seal_packet s r (mk s c) p of
        (Inl _, _) \<Rightarrow> None
      | (Inr body, r') \<Rightarrow> map_option (\<lambda>(bs, c'). (body # bs, c')) (send_run s r' (step s c) ps))"

fun recv_run ::
  "suite \<Rightarrow> unix_seconds \<Rightarrow> send_chain \<Rightarrow> bytes list \<Rightarrow> (packet_plain list \<times> send_chain) option" where
  "recv_run s now c [] = Some ([], c)"
| "recv_run s now c (body # bs) =
     (case open_skip_ahead s c [] now body of
        Inl _ \<Rightarrow> None
      | Inr o1 \<Rightarrow> map_option (\<lambda>(ps, c'). (op_packet o1 # ps, c')) (recv_run s now (op_chain o1) bs))"

lemma open_skip_ahead_here:
  assumes "open_plain s (mk s c) body = Inr p"
  shows "open_skip_ahead s c [] now body = Inr \<lparr>op_packet = p, op_chain = step s c,
    op_skipped = [], op_from_cache = False, op_mk = mk s c\<rparr>"
  using open_walk_finds [of 0 "Suc SKIP_AHEAD" s c body p now "[]"] assms
  by (simp add: open_skip_ahead_def)



section \<open>Catching up\<close>

text \<open>C20: The search of \<open>open_skip_ahead\<close> is the first success over a fixed list of candidate keys: the
  unexpired cached keys, the next 51 chain positions and 408 probes of later epochs. So a body costs
  at most 459 decryptions more than there are cached keys, whatever its bytes, and the only error is
  \<open>UnknownTag\<close>.\<close>

theorem open_skip_ahead_bounded:
  "open_skip_ahead s start cached now body =
     ok_or (first_open s body (candidates s start cached now)) UnknownTag \<and>
   length (candidates s start cached now) \<le> length cached + 459"
  using open_skip_ahead_first length_candidates by blast

text \<open>C14: A receiver up to 50 packets behind catches up in one open: if no cached key and none of the
  \<open>k\<close> positions before the sender's opens the body, it gets the packet, moves to the position after
  it, and keeps the \<open>k\<close> keys it passed, each until 48 hours from now.\<close>

theorem skip_ahead_catches_up:
  assumes "k \<le> 50" "open_plain s (mk s (steps s k c)) body = Inr p"
    and "\<forall>i<k. isl (open_plain s (mk s (steps s i c)) body)"
    and "list_all (\<lambda>e. cm_expires_at e > now \<longrightarrow> isl (open_plain s (cm_mk e) body)) cached"
  shows "open_skip_ahead s c cached now body = Inr \<lparr>op_packet = p, op_chain = steps s (Suc k) c,
    op_skipped = map (\<lambda>i. \<lparr>cm_mk = mk s (steps s i c),
      cm_expires_at = saturating_add now 172800, cm_tx_id = None\<rparr>) [0..<k],
    op_from_cache = False, op_mk = mk s (steps s k c)\<rparr>"
proof -
  have "open_walk s now body (Suc SKIP_AHEAD) c [] = Some \<lparr>op_packet = p,
      op_chain = steps s (Suc k) c, op_skipped = [] @ map (skipped_key s now c) [0..<k],
      op_from_cache = False, op_mk = mk s (steps s k c)\<rparr>"
    using assms(1) by (intro open_walk_finds assms) (simp add: SKIP_AHEAD_def)
  then show ?thesis
    using open_cached_none [OF assms(4), of c]
    by (simp add: open_skip_ahead_def skipped_key_def [abs_def] MK_CACHE_SECS_def del: open_walk.simps)
qed

lemma sample_mk_bytes:
  "as_bytes (mk sample_suite c) =
     take 32 (rev (MK_LABEL @ to_be_bytes (sc_epoch c) @ to_be_bytes (sc_packet_seq c) @ [1]) @ replicate 32 0)"
  by (simp add: mk_def labeled_expand_def expand_mac_def expand_def sample_suite_def sample_hmac_def
      EXPAND_T1_COUNTER_def)

lemma sample_mk_seq: "take 16 (as_bytes (mk sample_suite c)) ! 1 = ucast (sc_packet_seq c)"
  by (simp add: sample_mk_bytes to_be_bytes_def)

lemma sample_wrong_key:
  assumes "seal_packet sample_suite r key p = (Inr body, r')"
    and "take 16 (as_bytes key) \<noteq> take 16 (as_bytes key')"
  shows "open_plain sample_suite key' body = Inl UnknownTag"
proof -
  obtain nonce pt where b: "body = nonce @ pt @ take 16 (as_bytes key)" "length nonce = 12"
      "length body = 512"
    using assms(1)
    by (auto simp: seal_packet_def sample_suite_def draw_def Let_def PACKET_NONCE_LEN_def
        PACKET_LEN_def then_some_def split: sum.splits if_splits)
  then have "length pt = 484" by simp
  with b assms(2) show ?thesis
    by (simp add: open_plain_def PACKET_LEN_def PACKET_NONCE_LEN_def sample_suite_def sample_open_def)
qed

definition sample_chain :: send_chain where
  "sample_chain = \<lparr>sc_root = zero32, sc_c = zero32, sc_epoch = 0, sc_packet_seq = 0\<rparr>"

lemma sample_chain_keys:
  "take 16 (as_bytes (mk sample_suite (steps sample_suite 1 sample_chain))) \<noteq>
   take 16 (as_bytes (mk sample_suite sample_chain))"
proof
  assume eq: "take 16 (as_bytes (mk sample_suite (steps sample_suite 1 sample_chain))) =
    take 16 (as_bytes (mk sample_suite sample_chain))"
  have "sc_packet_seq (step sample_suite sample_chain) = 1"
    by (simp add: sample_chain_def saturating_add_def)
  moreover have "ucast (sc_packet_seq (steps sample_suite 1 sample_chain)) =
      (ucast (sc_packet_seq sample_chain) :: u8)"
    using eq sample_mk_seq by metis
  ultimately show False by (simp add: sample_chain_def del: step_simps)
qed

theorem skip_ahead_catches_up_witness:
  "\<exists>body. open_skip_ahead sample_suite sample_chain [] 0 body =
     Inr \<lparr>op_packet = sample_packet 7, op_chain = steps sample_suite 2 sample_chain,
       op_skipped = [\<lparr>cm_mk = mk sample_suite sample_chain, cm_expires_at = 172800, cm_tx_id = None\<rparr>],
       op_from_cache = False, op_mk = mk sample_suite (steps sample_suite 1 sample_chain)\<rparr>"
proof -
  let ?k = "mk sample_suite (steps sample_suite 1 sample_chain)"
  obtain body where b: "seal_packet sample_suite (sconst zero32) ?k (sample_packet 7) =
      (Inr body, stl (sconst zero32))" "open_plain sample_suite ?k body = Inr (sample_packet 7)"
    by (rule seal_then_open [OF sample_packet_suite_ok sample_sendable])
  have "\<forall>i<1. isl (open_plain sample_suite (mk sample_suite (steps sample_suite i sample_chain)) body)"
    using sample_wrong_key [OF b(1) sample_chain_keys] by simp
  moreover have "saturating_add 0 (172800 :: u64) = 172800" by (simp add: saturating_add_def)
  ultimately show ?thesis
    using skip_ahead_catches_up [of 1 sample_suite sample_chain body "sample_packet 7" 0 "[]"] b(2)
    by (auto simp: numeral_2_eq_2)
qed

text \<open>C21: A key that was passed over opens its packet later: while the cached entry is unexpired the
  late body opens from the cache, and the chain does not move.\<close>

theorem late_packet_opens:
  assumes "e \<in> set cached" "now < cm_expires_at e" "open_plain s (cm_mk e) body = Inr p"
    and "\<forall>e' \<in> set cached. \<forall>q. open_plain s (cm_mk e') body = Inr q \<longrightarrow> q = p"
  shows "\<exists>o1. open_skip_ahead s c cached now body = Inr o1 \<and> op_packet o1 = p \<and>
    op_from_cache o1 \<and> op_chain o1 = c \<and> op_skipped o1 = []"
proof -
  obtain o1 where o: "open_cached s c cached now body = Some o1" "op_chain o1 = c" "op_from_cache o1"
      "op_skipped o1 = []" "\<exists>e' \<in> set cached. open_plain s (cm_mk e') body = Inr (op_packet o1)"
    using open_cached_finds [OF assms(1-3), of c] by blast
  then show ?thesis using assms(4) by (auto simp: open_skip_ahead_def)
qed

theorem late_packet_opens_witness:
  "\<exists>body o1. open_skip_ahead sample_suite (steps sample_suite 2 sample_chain)
       [\<lparr>cm_mk = mk sample_suite sample_chain, cm_expires_at = 172800, cm_tx_id = None\<rparr>] 100 body = Inr o1 \<and>
     op_packet o1 = sample_packet 7 \<and> op_from_cache o1 \<and>
     op_chain o1 = steps sample_suite 2 sample_chain \<and> op_skipped o1 = []"
proof -
  obtain body where b:
      "open_plain sample_suite (mk sample_suite sample_chain) body = Inr (sample_packet 7)"
    by (rule seal_then_open [OF sample_packet_suite_ok sample_sendable])
  let ?e = "\<lparr>cm_mk = mk sample_suite sample_chain, cm_expires_at = 172800, cm_tx_id = None\<rparr>"
  have "\<forall>e' \<in> set [?e]. \<forall>q. open_plain sample_suite (cm_mk e') body = Inr q \<longrightarrow> q = sample_packet 7"
    using b by simp
  then have "\<exists>o1. open_skip_ahead sample_suite (steps sample_suite 2 sample_chain) [?e] 100 body =
      Inr o1 \<and> op_packet o1 = sample_packet 7 \<and> op_from_cache o1 \<and>
      op_chain o1 = steps sample_suite 2 sample_chain \<and> op_skipped o1 = []"
    using b by (intro late_packet_opens [of ?e]) simp_all
  then show ?thesis by blast
qed

end
