(* ===== verification/Fragment.thy ===== *)
theory Fragment
  imports Chain "HOL-Library.Multiset"
begin

text \<open>
  Cutting a durable body into packets, the fingerprint of a transaction set and the stored form of a
  chain (\<open>chain.rs\<close>). \<open>largest_frag\<close> is a binary search, \<open>fragment_body\<close> a loop that ends because a
  fragment index of 64 is refused; both are total functions with their termination proofs.
\<close>

section \<open>The largest fragment\<close>

definition frag_fits :: "suite \<Rightarrow> (bytes \<Rightarrow> packet_plain) \<Rightarrow> nat \<Rightarrow> bool" where
  "frag_fits s build n =
     (case packed_packet s (build (replicate n 0x5a)) of
        Inr p \<Rightarrow> length p \<le> PACKET_PAD_LEN
      | Inl _ \<Rightarrow> False)"

definition div_ceil2 :: "nat \<Rightarrow> nat" where
  "div_ceil2 n = (n + 1) div 2"

function largest_loop :: "suite \<Rightarrow> (bytes \<Rightarrow> packet_plain) \<Rightarrow> nat \<Rightarrow> nat \<Rightarrow> nat" where
  "largest_loop s build lo hi =
     (if lo < hi then
        let mid = lo + div_ceil2 (hi - lo) in
        if frag_fits s build mid then largest_loop s build mid hi
        else largest_loop s build lo (mid - 1)
      else lo)"
  by pat_completeness auto
termination
  by (relation "measure (\<lambda>(s, build, lo, hi). hi - lo)") (auto simp: div_ceil2_def)

declare largest_loop.simps [simp del]

definition largest_frag :: "suite \<Rightarrow> (bytes \<Rightarrow> packet_plain) \<Rightarrow> nat" where
  "largest_frag s build = largest_loop s build 0 PACKET_PAD_LEN"

lemma largest_loop_range: "lo \<le> hi \<Longrightarrow> lo \<le> largest_loop s build lo hi \<and> largest_loop s build lo hi \<le> hi"
proof (induction s build lo hi rule: largest_loop.induct)
  case (1 s build lo hi)
  show ?case
  proof (cases "lo < hi")
    case True
    define mid where "mid = lo + div_ceil2 (hi - lo)"
    have mid: "lo \<le> mid - 1" "mid - 1 \<le> hi" "lo \<le> mid" "mid \<le> hi"
      using True by (auto simp: mid_def div_ceil2_def)
    show ?thesis
    proof (cases "frag_fits s build mid")
      case True
      then show ?thesis using 1(1) [OF \<open>lo < hi\<close> mid_def] mid \<open>lo < hi\<close>
        by (subst (1 2) largest_loop.simps) (auto simp: Let_def mid_def [symmetric])
    next
      case False
      then have "lo \<le> largest_loop s build lo (mid - 1)" "largest_loop s build lo (mid - 1) \<le> mid - 1"
        using 1(2) [OF \<open>lo < hi\<close> mid_def] mid by auto
      with False show ?thesis using mid \<open>lo < hi\<close>
        by (subst (1 2) largest_loop.simps) (simp add: Let_def mid_def [symmetric])
    qed
  next
    case False
    with 1 show ?thesis by (simp add: largest_loop.simps)
  qed
qed

lemma largest_loop_fits:
  "lo \<le> hi \<Longrightarrow> frag_fits s build lo \<Longrightarrow> frag_fits s build (largest_loop s build lo hi)"
proof (induction s build lo hi rule: largest_loop.induct)
  case (1 s build lo hi)
  have "lo \<le> lo + div_ceil2 (hi - lo) - 1" if "lo < hi" using that by (simp add: div_ceil2_def)
  moreover have "lo + div_ceil2 (hi - lo) \<le> hi" if "lo < hi" using that by (simp add: div_ceil2_def)
  ultimately show ?case using 1 by (subst largest_loop.simps) (auto simp: Let_def)
qed

lemma largest_loop_greatest:
  "lo \<le> hi \<Longrightarrow> (\<forall>n m. n \<le> m \<longrightarrow> frag_fits s build m \<longrightarrow> frag_fits s build n) \<Longrightarrow>
     n \<le> hi \<Longrightarrow> frag_fits s build n \<Longrightarrow> n \<le> largest_loop s build lo hi"
proof (induction s build lo hi rule: largest_loop.induct)
  case (1 s build lo hi)
  show ?case
  proof (cases "lo < hi")
    case True
    define mid where "mid = lo + div_ceil2 (hi - lo)"
    have mid: "lo \<le> mid - 1" "mid \<le> hi" "0 < mid" using True by (auto simp: mid_def div_ceil2_def)
    show ?thesis
    proof (cases "frag_fits s build mid")
      case True
      then show ?thesis using 1(1) [OF \<open>lo < hi\<close> mid_def] 1 mid \<open>lo < hi\<close>
        by (subst largest_loop.simps) (auto simp: Let_def mid_def [symmetric])
    next
      case False
      then have "n < mid" using 1(4,6) by (meson not_less)
      then show ?thesis using 1(2) [OF \<open>lo < hi\<close> mid_def] 1 mid \<open>lo < hi\<close> False
        by (subst largest_loop.simps) (auto simp: Let_def mid_def [symmetric])
    qed
  next
    case False
    with 1 show ?thesis by (simp add: largest_loop.simps)
  qed
qed

section \<open>Fragments\<close>

definition next_fragment ::
  "suite \<Rightarrow> bytes \<Rightarrow> tag \<Rightarrow> tag \<Rightarrow> u64 \<Rightarrow> u64 \<Rightarrow> bytes \<Rightarrow> engine_error + (packet_plain \<times> nat)" where
  "next_fragment s remaining tx_id set_xor packet_seq frag_i actor_id =
     (if frag_i \<ge> MAX_FRAGS then Inl BodyTooLarge
      else
        let last = (\<lambda>frag. TxFragLast \<lparr>pfl_actor_id = actor_id, pfl_packet_seq = packet_seq,
              pfl_tx_id = tx_id, pfl_frag_i = frag_i, pfl_frag = frag, pfl_set_xor = set_xor\<rparr>);
            more = (\<lambda>frag. TxFragMore \<lparr>pfm_actor_id = actor_id, pfm_packet_seq = packet_seq,
              pfm_tx_id = tx_id, pfm_frag_i = frag_i, pfm_frag = frag\<rparr>);
            max_last = largest_frag s last
        in if length remaining \<le> max_last then Inr (last remaining, length remaining)
           else
             let max_more = largest_frag s more
             in if max_more = 0 then Inl BodyTooLarge
                else
                  let n = min (length remaining) max_more
                  in Inr (more (take n remaining), n))"

fun is_last :: "packet_plain \<Rightarrow> bool" where
  "is_last (TxFragLast _) = True"
| "is_last _ = False"

lemma next_fragment_index:
  "next_fragment s r t x q (u64_of_len n) a = Inr y \<Longrightarrow> n < 64"
  by (auto simp: next_fragment_def MAX_FRAGS_def not_le split: if_splits dest!: u64_of_len_less)

function fragment_loop ::
  "suite \<Rightarrow> tag \<Rightarrow> tag \<Rightarrow> u64 \<Rightarrow> bytes \<Rightarrow> bytes \<Rightarrow> packet_plain list
     \<Rightarrow> engine_error + packet_plain list" where
  "fragment_loop s tx_id set_xor start_seq actor_id remaining packets =
     (let frag_i = u64_of_len (length packets);
          packet_seq = saturating_add start_seq
            (if length packets < 2 ^ 64 then of_nat (length packets) else 0)
      in case next_fragment s remaining tx_id set_xor packet_seq frag_i actor_id of
           Inl e \<Rightarrow> Inl e
         | Inr (packet, n) \<Rightarrow>
             if is_last packet then Inr (packets @ [packet])
             else fragment_loop s tx_id set_xor start_seq actor_id (drop n remaining)
                    (packets @ [packet]))"
  by pat_completeness auto
termination
  by (relation "measure (\<lambda>(s, t, x, q, a, r, ps). 64 - length ps)")
    (auto dest!: next_fragment_index)

declare fragment_loop.simps [simp del]

definition fragment_body ::
  "suite \<Rightarrow> bytes \<Rightarrow> tag \<Rightarrow> tag \<Rightarrow> u64 \<Rightarrow> bytes \<Rightarrow> engine_error + packet_plain list" where
  "fragment_body s packed_body tx_id set_xor start_seq actor_id =
     fragment_loop s tx_id set_xor start_seq actor_id packed_body []"

text \<open>The bytes a packet carries, and its place in the body.\<close>

fun frag_bytes :: "packet_plain \<Rightarrow> bytes" where
  "frag_bytes (TxFragMore p) = pfm_frag p"
| "frag_bytes (TxFragLast p) = pfl_frag p"
| "frag_bytes _ = []"

fun packet_frag_i :: "packet_plain \<Rightarrow> u64" where
  "packet_frag_i (TxFragMore p) = pfm_frag_i p"
| "packet_frag_i (TxFragLast p) = pfl_frag_i p"
| "packet_frag_i _ = 0"

fun frag_tx :: "packet_plain \<Rightarrow> tag option" where
  "frag_tx (TxFragMore p) = Some (pfm_tx_id p)"
| "frag_tx (TxFragLast p) = Some (pfl_tx_id p)"
| "frag_tx _ = None"

lemma next_fragment_cases:
  assumes "next_fragment s r t x q i a = Inr (p, n)"
  shows "i < 64 \<and> packet_frag_i p = i \<and> frag_tx p = Some t \<and> frag_bytes p = take n r \<and>
    (is_last p \<longrightarrow> n = length r) \<and> (\<not> is_last p \<longrightarrow> 0 < n)"
  using assms
  by (auto simp: next_fragment_def Let_def MAX_FRAGS_def not_le split: if_splits)

lemma next_fragment_error: "next_fragment s r t x q i a = Inl e \<Longrightarrow> e = BodyTooLarge"
  by (auto simp: next_fragment_def Let_def split: if_splits)

text \<open>The loop appends to what it has: the packets it adds carry the remaining bytes, in order, under
  consecutive indices, and only the last of them is a last fragment.\<close>

lemma fragment_loop_spec:
  assumes "fragment_loop s t x q a r ps = Inr out" "length ps \<le> 64"
  shows "\<exists>qs. out = ps @ qs \<and> qs \<noteq> [] \<and> length out \<le> 64 \<and> concat (map frag_bytes qs) = r \<and>
    map packet_frag_i qs = map of_nat [length ps..<length out] \<and>
    list_all (\<lambda>p. frag_tx p = Some t) qs \<and>
    is_last (last qs) \<and> list_all (\<lambda>p. \<not> is_last p) (butlast qs)"
  using assms
proof (induction s t x q a r ps rule: fragment_loop.induct)
  case (1 s t x q a r ps)
  define i where "i = u64_of_len (length ps)"
  define sq where "sq = saturating_add q (if length ps < 2 ^ 64 then of_nat (length ps) else 0)"
  obtain p n where p: "next_fragment s r t x sq i a = Inr (p, n)"
    using 1(2) by (subst (asm) fragment_loop.simps) (auto simp: Let_def i_def sq_def split: sum.splits)
  have len: "length ps < 64" using p next_fragment_index unfolding i_def by blast
  then have i: "i = of_nat (length ps)" by (simp add: i_def u64_of_len_def)
  note c = next_fragment_cases [OF p]
  show ?case
  proof (cases "is_last p")
    case True
    then have "out = ps @ [p]"
      using 1(2) p by (subst (asm) fragment_loop.simps) (simp add: Let_def i_def sq_def)
    with True c i len show ?thesis by (intro exI [of _ "[p]"]) auto
  next
    case False
    then have rec: "fragment_loop s t x q a (drop n r) (ps @ [p]) = Inr out"
      using 1(2) p by (subst (asm) fragment_loop.simps) (simp add: Let_def i_def sq_def)
    obtain qs where qs: "out = (ps @ [p]) @ qs" "qs \<noteq> []" "length out \<le> 64"
        "concat (map frag_bytes qs) = drop n r"
        "map packet_frag_i qs = map of_nat [length (ps @ [p])..<length out]"
        "list_all (\<lambda>p. frag_tx p = Some t) qs" "is_last (last qs)"
        "list_all (\<lambda>p. \<not> is_last p) (butlast qs)"
      using 1(1) [OF i_def sq_def p refl False rec] len by auto
    have "[length ps..<length out] = length ps # [Suc (length ps)..<length out]"
      using qs(1) by (intro upt_conv_Cons) simp
    with qs c i False show ?thesis by (intro exI [of _ "p # qs"]) auto
  qed
qed

lemma fragment_loop_error: "fragment_loop s t x q a r ps = Inl e \<Longrightarrow> e = BodyTooLarge"
proof (induction s t x q a r ps rule: fragment_loop.induct)
  case (1 s t x q a r ps)
  define i where "i = u64_of_len (length ps)"
  define sq where "sq = saturating_add q (if length ps < 2 ^ 64 then of_nat (length ps) else 0)"
  have unf: "fragment_loop s t x q a r ps = (case next_fragment s r t x sq i a of
      Inl e \<Rightarrow> Inl e
    | Inr (p, n) \<Rightarrow> if is_last p then Inr (ps @ [p])
        else fragment_loop s t x q a (drop n r) (ps @ [p]))"
    by (subst fragment_loop.simps) (simp add: Let_def i_def sq_def)
  show ?case
  proof (cases "next_fragment s r t x sq i a")
    case (Inl e')
    with unf 1(2) next_fragment_error show ?thesis by auto
  next
    case (Inr pn)
    obtain p n where "pn = (p, n)" by (cases pn)
    with Inr unf 1(2) 1(1) [OF i_def sq_def _ refl] show ?thesis by (auto split: if_splits)
  qed
qed

section \<open>The fingerprint of a set\<close>

definition set_xor_for :: "(tag \<times> durable_body) list \<Rightarrow> conversation_id \<Rightarrow> tag" where
  "set_xor_for txs cid =
     foldl (\<lambda>acc (i, body). if db_conversation_id body = cid then xor32 acc i else acc) zero32 txs"

definition ids_in :: "(tag \<times> durable_body) list \<Rightarrow> conversation_id \<Rightarrow> tag list" where
  "ids_in txs cid = map fst (filter (\<lambda>(_, body). db_conversation_id body = cid) txs)"

text \<open>The exclusive or of a list of ids.\<close>

definition xor_ids :: "tag list \<Rightarrow> tag" where
  "xor_ids ids = foldr xor32 ids zero32"

lemma xor_ids_simps [simp]:
  "xor_ids [] = zero32" "xor_ids (i # is) = xor32 i (xor_ids is)"
  "xor_ids (is @ js) = xor32 (xor_ids is) (xor_ids js)"
  by (induction "is") (simp_all add: xor_ids_def xor32_assoc)

lemma xor_ids_mset: "mset is = mset js \<Longrightarrow> xor_ids is = xor_ids js"
proof (induction "is" arbitrary: js)
  case (Cons i "is")
  then obtain as bs where js: "js = as @ i # bs"
    by (metis list.set_intros(1) set_mset_mset split_list)
  with Cons have "xor_ids is = xor_ids (as @ bs)" by (intro Cons.IH) simp
  then show ?case by (simp add: js xor32_left_commute)
qed simp

lemma set_xor_for_ids: "set_xor_for txs cid = xor_ids (ids_in txs cid)"
proof -
  have "foldl (\<lambda>acc (i, body). if db_conversation_id body = cid then xor32 acc i else acc) a txs =
      xor32 a (xor_ids (ids_in txs cid))" for a
    by (induction txs arbitrary: a) (auto simp: ids_in_def xor32_assoc)
  then show ?thesis by (simp add: set_xor_for_def)
qed

section \<open>The stored form of a chain\<close>

definition chain_to_json :: "b64u \<Rightarrow> conversation_id \<Rightarrow> actor \<Rightarrow> send_chain \<Rightarrow> json" where
  "chain_to_json b cid actor_id chain = JObject [
     (''conversation_id'', bstr b (as_bytes cid)),
     (''actor_id'', bstr b (actor_as_bytes actor_id)),
     (''actor_role'', JString (actor_role actor_id)),
     (''root'', bstr b (as_bytes (sc_root chain))),
     (''c'', bstr b (as_bytes (sc_c chain))),
     (''epoch'', JNumber (sc_epoch chain)),
     (''packet_seq'', JNumber (sc_packet_seq chain))]"

fun decode_bstr :: "b64u \<Rightarrow> json \<Rightarrow> engine_error + bytes" where
  "decode_bstr b (JString s) = ok_or (b64_decode b s) MalformedPersist"
| "decode_bstr b _ = Inl MalformedPersist"

definition decode32 :: "b64u \<Rightarrow> json \<Rightarrow> engine_error + 'r b32" where
  "decode32 b value =
     and_then (decode_bstr b value) (\<lambda>bs. ok_or (try_from_bytes bs) MalformedPersist)"

fun as_number :: "json \<Rightarrow> engine_error + u64" where
  "as_number (JNumber n) = Inr n"
| "as_number _ = Inl MalformedPersist"

definition chain_from_json ::
  "b64u \<Rightarrow> json \<Rightarrow> engine_error + (conversation_id \<times> actor \<times> send_chain)" where
  "chain_from_json b value =
     (case value of
        JObject members \<Rightarrow>
          and_then (ok_or (get members ''conversation_id'') MalformedPersist) (\<lambda>cv.
          and_then (decode_bstr b cv) (\<lambda>cid.
          if length cid \<noteq> 32 then Inl MalformedPersist
          else
          and_then (ok_or (get members ''actor_id'') MalformedPersist) (\<lambda>av.
          and_then (decode_bstr b av) (\<lambda>actor_id.
          and_then (case get members ''actor_role'' of
              Some (JString role) \<Rightarrow> Inr (Some role)
            | Some _ \<Rightarrow> Inl MalformedPersist
            | None \<Rightarrow> Inr None) (\<lambda>role.
          and_then (ok_or (get members ''root'') MalformedPersist) (\<lambda>rv.
          and_then (decode32 b rv) (\<lambda>root.
          and_then (ok_or (get members ''c'') MalformedPersist) (\<lambda>kv.
          and_then (decode32 b kv) (\<lambda>c.
          and_then (and_then (ok_or (get members ''epoch'') MalformedPersist) as_number) (\<lambda>epoch.
          and_then (and_then (ok_or (get members ''packet_seq'') MalformedPersist) as_number) (\<lambda>seq.
          and_then (ok_or (try_from_bytes cid) MalformedPersist) (\<lambda>cid.
          and_then (ok_or (actor_from_stored role actor_id) MalformedPersist) (\<lambda>actor.
            Inr (cid, actor, \<lparr>sc_root = root, sc_c = c, sc_epoch = epoch,
                              sc_packet_seq = seq\<rparr>))))))))))))))
      | _ \<Rightarrow> Inl MalformedPersist)"

lemma chain_json_roundtrip:
  assumes "b64u_ok b" "actor \<noteq> Signing (SigningPublicKey [])"
  shows "chain_from_json b (chain_to_json b cid actor chain) = Inr (cid, actor, chain)"
  using actor_from_stored_roundtrip [OF assms(2)] b64u_okD [OF assms(1)]
  by (simp add: chain_from_json_def chain_to_json_def bstr_def decode32_def)

end
