(* ===== verification/Reassembly.thy ===== *)
theory Reassembly
  imports Fragment
begin

text \<open>
  Putting a durable body together from its fragments: \<open>frag_parts\<close> of \<open>engine/helpers.rs\<close> and the
  fragment bookkeeping that \<open>open_and_merge\<close> of \<open>engine/handshake.rs\<close> and the live path do on
  \<open>state.frags\<close>. The fragments of one body may arrive in any order and more than once.
\<close>

record frag_part =
  fp_tx_id :: tag
  fp_frag_i :: frag_index
  fp_frag :: bytes
  fp_last_i :: "frag_index option"

record frag_set =
  fs_conversation_id :: conversation_id
  fs_parts :: "frag_index \<rightharpoonup> bytes"
  fs_last_i :: "frag_index option"

type_synonym frags = "tag \<rightharpoonup> frag_set"

fun frag_parts :: "packet_plain \<Rightarrow> frag_part option" where
  "frag_parts (TxFragMore p) = Some \<lparr>fp_tx_id = pfm_tx_id p, fp_frag_i = pfm_frag_i p,
     fp_frag = pfm_frag p, fp_last_i = None\<rparr>"
| "frag_parts (TxFragLast p) = Some \<lparr>fp_tx_id = pfl_tx_id p, fp_frag_i = pfl_frag_i p,
     fp_frag = pfl_frag p, fp_last_i = Some (pfl_frag_i p)\<rparr>"
| "frag_parts _ = None"

definition frag_entry :: "frags \<Rightarrow> tag \<Rightarrow> conversation_id \<Rightarrow> frag_set" where
  "frag_entry frags t cid = (case frags t of
       Some st \<Rightarrow> st
     | None \<Rightarrow> \<lparr>fs_conversation_id = cid, fs_parts = Map.empty, fs_last_i = None\<rparr>)"

definition equivocates :: "frag_set \<Rightarrow> frag_part \<Rightarrow> bool" where
  "equivocates st part \<longleftrightarrow>
     (case fs_parts st (fp_frag_i part) of Some existing \<Rightarrow> existing \<noteq> fp_frag part | None \<Rightarrow> False) \<or>
     (case (fs_last_i st, fp_last_i part) of
        (Some prev_last, Some new_last) \<Rightarrow> prev_last \<noteq> new_last
      | _ \<Rightarrow> False)"

definition frag_insert :: "frag_set \<Rightarrow> frag_part \<Rightarrow> frag_set" where
  "frag_insert st part = st\<lparr>fs_parts := (fs_parts st)(fp_frag_i part \<mapsto> fp_frag part),
     fs_last_i := (case fp_last_i part of Some n \<Rightarrow> Some n | None \<Rightarrow> fs_last_i st)\<rparr>"

text \<open>The indices \<open>0..=last\<close>.\<close>

definition upto_last :: "frag_index \<Rightarrow> frag_index list" where
  "upto_last l = map of_nat [0..<Suc (unat l)]"

definition frag_complete :: "frag_set \<Rightarrow> bytes option" where
  "frag_complete st =
     (case fs_last_i st of
        None \<Rightarrow> None
      | Some l \<Rightarrow>
          if list_all (\<lambda>i. fs_parts st i \<noteq> None) (upto_last l)
          then Some (concat (map (\<lambda>i. the (fs_parts st i)) (upto_last l)))
          else None)"

text \<open>One part: an error when it contradicts what is stored, the packed body when it completes it,
  nothing yet otherwise. A completed set is removed.\<close>

definition merge_frag ::
  "conversation_id \<Rightarrow> frag_part \<Rightarrow> frags \<Rightarrow> (engine_error + bytes option) \<times> frags" where
  "merge_frag cid part frags =
     (let st = frag_entry frags (fp_tx_id part) cid in
      if equivocates st part then (Inl Equivocation, frags(fp_tx_id part \<mapsto> st))
      else
        let st' = frag_insert st part in
        case frag_complete st' of
          Some packed \<Rightarrow> (Inr (Some packed), frags(fp_tx_id part := None))
        | None \<Rightarrow> (Inr None, frags(fp_tx_id part \<mapsto> st')))"

fun merge_all ::
  "conversation_id \<Rightarrow> frag_part list \<Rightarrow> frags \<Rightarrow> (engine_error + bytes option) list \<times> frags" where
  "merge_all cid [] frags = ([], frags)"
| "merge_all cid (p # ps) frags =
     (let (r, frags') = merge_frag cid p frags; (rs, frags'') = merge_all cid ps frags'
      in (r # rs, frags''))"

section \<open>Arrival in any order\<close>

text \<open>Part \<open>i\<close> of a body cut into \<open>chunks\<close>: chunk \<open>i\<close> under index \<open>i\<close>, the last one flagged.\<close>

definition body_part :: "tag \<Rightarrow> bytes list \<Rightarrow> nat \<Rightarrow> frag_part" where
  "body_part t chunks i = \<lparr>fp_tx_id = t, fp_frag_i = of_nat i, fp_frag = chunks ! i,
     fp_last_i = (if Suc i = length chunks then Some (of_nat i) else None)\<rparr>"

text \<open>The set stored when the parts with indices in \<open>S\<close> have arrived.\<close>

definition stored :: "conversation_id \<Rightarrow> bytes list \<Rightarrow> nat set \<Rightarrow> frag_set" where
  "stored cid chunks S = \<lparr>fs_conversation_id = cid,
     fs_parts = (\<lambda>i. if unat i \<in> S then Some (chunks ! unat i) else None),
     fs_last_i = (if length chunks - 1 \<in> S then Some (of_nat (length chunks - 1)) else None)\<rparr>"

lemma unat_index: "i < 64 \<Longrightarrow> unat (of_nat i :: u64) = i"
  by (simp add: unat_of_nat take_bit_nat_eq_self)

lemma stored_insert:
  assumes "i < length chunks" "length chunks \<le> 64"
  shows "\<not> equivocates (stored cid chunks S) (body_part t chunks i)"
    and "frag_insert (stored cid chunks S) (body_part t chunks i) = stored cid chunks (insert i S)"
proof -
  have i: "unat (of_nat i :: u64) = i" using assms by (intro unat_index) simp
  have last: "Suc i = length chunks \<longleftrightarrow> i = length chunks - 1" using assms(1) by auto
  show "\<not> equivocates (stored cid chunks S) (body_part t chunks i)"
    by (auto simp: equivocates_def stored_def body_part_def i last simp del: of_nat_diff split: if_splits)
  have "(fs_parts (stored cid chunks S))(of_nat i \<mapsto> chunks ! i) =
      fs_parts (stored cid chunks (insert i S))"
  proof
    fix k :: u64
    show "((fs_parts (stored cid chunks S))(of_nat i \<mapsto> chunks ! i)) k =
        fs_parts (stored cid chunks (insert i S)) k"
      using i by (cases "k = of_nat i") (auto simp: stored_def)
  qed
  then show "frag_insert (stored cid chunks S) (body_part t chunks i) = stored cid chunks (insert i S)"
    using last by (auto simp: frag_insert_def body_part_def stored_def simp del: of_nat_diff)
qed

lemma stored_complete:
  assumes "S \<subseteq> {..<length chunks}" "chunks \<noteq> []" "length chunks \<le> 64"
  shows "frag_complete (stored cid chunks S) =
    (if S = {..<length chunks} then Some (concat chunks) else None)"
proof -
  let ?n = "length chunks"
  have n: "0 < ?n" using assms(2) by simp
  have up: "upto_last (of_nat (?n - 1)) = map of_nat [0..<?n]"
    using unat_index [of "?n - 1"] assms(3) n
    by (simp only: upto_last_def) (simp del: of_nat_diff upt_Suc)
  have idx: "unat (of_nat i :: u64) = i" if "i < ?n" for i using that assms(3) by (intro unat_index) simp
  have all: "list_all (\<lambda>i. fs_parts (stored cid chunks S) i \<noteq> None) (map of_nat [0..<?n]) \<longleftrightarrow>
      {..<?n} \<subseteq> S"
    by (auto simp: list_all_iff stored_def idx)
  have "map (\<lambda>i. the (fs_parts (stored cid chunks S) i)) (map of_nat [0..<?n]) = chunks"
    if "{..<?n} \<subseteq> S"
    using that by (intro nth_equalityI) (auto simp: stored_def idx)
  moreover have "fs_last_i (stored cid chunks S) =
      (if ?n - 1 \<in> S then Some (of_nat (?n - 1)) else None)"
    by (simp add: stored_def)
  ultimately show ?thesis
    using all up assms(1) n by (auto simp: frag_complete_def simp del: map_map of_nat_diff)
qed

lemma merge_part:
  assumes "frag_entry frags t cid = stored cid chunks S" "S \<subseteq> {..<length chunks}"
    and "i < length chunks" "length chunks \<le> 64"
  shows "merge_frag cid (body_part t chunks i) frags =
    (if insert i S = {..<length chunks} then (Inr (Some (concat chunks)), frags(t := None))
     else (Inr None, frags(t \<mapsto> stored cid chunks (insert i S))))"
proof -
  have t: "fp_tx_id (body_part t chunks i) = t" by (simp add: body_part_def)
  have "chunks \<noteq> []" "insert i S \<subseteq> {..<length chunks}" using assms(2,3) by auto
  then show ?thesis
    using stored_insert [OF assms(3,4), of cid S t] stored_complete [of "insert i S" chunks cid] assms(1,4)
    by (simp add: merge_frag_def t)
qed

lemma merge_pending:
  assumes "frag_entry frags t cid = stored cid chunks S" "S \<union> set is \<subset> {..<length chunks}"
    and "length chunks \<le> 64"
  obtains frags' where "merge_all cid (map (body_part t chunks) is) frags =
      (replicate (length is) (Inr None), frags')"
    and "frag_entry frags' t cid = stored cid chunks (S \<union> set is)" "\<And>u. u \<noteq> t \<Longrightarrow> frags' u = frags u"
  using assms
proof (induction "is" arbitrary: frags S thesis)
  case (Cons i "is")
  have i: "i < length chunks" "S \<subseteq> {..<length chunks}" "insert i S \<noteq> {..<length chunks}"
    using Cons.prems(3) by auto
  let ?f = "frags(t \<mapsto> stored cid chunks (insert i S))"
  have m: "merge_frag cid (body_part t chunks i) frags = (Inr None, ?f)"
    using merge_part [OF Cons.prems(2) i(2,1) assms(3)] i(3) by simp
  have "frag_entry ?f t cid = stored cid chunks (insert i S)" by (simp add: frag_entry_def)
  moreover have "insert i S \<union> set is \<subset> {..<length chunks}" using Cons.prems(3) by auto
  ultimately obtain frags' where "merge_all cid (map (body_part t chunks) is) ?f =
      (replicate (length is) (Inr None), frags')"
      "frag_entry frags' t cid = stored cid chunks (insert i S \<union> set is)"
      "\<And>u. u \<noteq> t \<Longrightarrow> frags' u = ?f u"
    using Cons.IH assms(3) by blast
  with m show ?case by (intro Cons.prems(1) [of frags']) simp_all
qed simp

lemma merge_all_append:
  "merge_all cid (ps @ qs) frags =
     (let (rs, frags') = merge_all cid ps frags; (rs', frags'') = merge_all cid qs frags'
      in (rs @ rs', frags''))"
  by (induction ps arbitrary: frags) (auto simp: Let_def split: prod.split)

text \<open>All parts but one, in any order and with repeats, and then the missing one.\<close>

lemma merge_completes:
  assumes "frags t = None" "length chunks \<le> 64" "j \<notin> set is" "insert j (set is) = {..<length chunks}"
  shows "\<exists>frags'. merge_all cid (map (body_part t chunks) (is @ [j])) frags =
      (replicate (length is) (Inr None) @ [Inr (Some (concat chunks))], frags') \<and>
    frags' t = None \<and> (\<forall>u. u \<noteq> t \<longrightarrow> frags' u = frags u)"
proof -
  have "frag_entry frags t cid = stored cid chunks {}"
    using assms(1) by (simp add: frag_entry_def stored_def)
  moreover have "{} \<union> set is \<subset> {..<length chunks}" using assms(3,4) by auto
  ultimately obtain frags' where f: "merge_all cid (map (body_part t chunks) is) frags =
      (replicate (length is) (Inr None), frags')"
      "frag_entry frags' t cid = stored cid chunks (set is)" "\<And>u. u \<noteq> t \<Longrightarrow> frags' u = frags u"
    using merge_pending [OF _ _ assms(2), of frags t cid "{}" "is"] by auto
  have j: "j < length chunks" "set is \<subseteq> {..<length chunks}" using assms(4) by auto
  have "merge_frag cid (body_part t chunks j) frags' = (Inr (Some (concat chunks)), frags'(t := None))"
    using merge_part [OF f(2) j(2,1) assms(2)] assms(4) by simp
  with f show ?thesis by (simp add: merge_all_append)
qed

text \<open>The packets \<open>fragment_body\<close> cuts are the parts of their own chunks.\<close>

lemma fragment_body_parts:
  assumes "fragment_body s packed t x q a = Inr packets" "i < length packets"
  shows "frag_parts (packets ! i) = Some (body_part t (map frag_bytes packets) i)"
proof -
  obtain qs where "packets = [] @ qs" and qs: "length packets \<le> 64"
      "map packet_frag_i qs = map of_nat [length ([] :: packet_plain list)..<length packets]"
      "list_all (\<lambda>p. frag_tx p = Some t) qs" "is_last (last qs)"
      "list_all (\<lambda>p. \<not> is_last p) (butlast qs)" "qs \<noteq> []"
    using fragment_loop_spec [of s t x q a packed "[]" packets] assms(1)
    by (auto simp: fragment_body_def)
  then have eq: "packets = qs" by simp
  have idx: "packet_frag_i (packets ! i) = of_nat i"
    using arg_cong [OF qs(2), of "\<lambda>l. l ! i"] assms(2) eq by simp
  have tx: "frag_tx (packets ! i) = Some t" using qs(3) assms(2) eq by (simp add: list_all_length)
  have last: "is_last (packets ! i) \<longleftrightarrow> Suc i = length packets"
  proof (cases "Suc i = length packets")
    case True
    then have "packets ! i = last packets" using assms(2) by (metis diff_Suc_1 last_conv_nth list.size(3) not_less_zero)
    with True qs(4) eq show ?thesis by simp
  next
    case False
    then have "packets ! i = butlast packets ! i" "i < length (butlast packets)"
      using assms(2) by (simp_all add: nth_butlast)
    with False qs(5) eq show ?thesis by (simp add: list_all_length)
  qed
  show ?thesis
    using idx tx last assms(2)
    by (cases "packets ! i") (auto simp: body_part_def nth_map)
qed

end
