(* ===== verification/Transport_Properties.thy ===== *)
theory Transport_Properties
  imports Reassembly Sample_Suite
begin

text \<open>
  Properties of fragmentation, reassembly, the set fingerprint and the stored chain.
\<close>

section \<open>Cutting a body\<close>

lemma fragment_body_spec:
  assumes "fragment_body s packed t x q a = Inr packets"
  shows "packets \<noteq> [] \<and> length packets \<le> 64 \<and> concat (map frag_bytes packets) = packed \<and>
    map packet_frag_i packets = map of_nat [0..<length packets] \<and>
    list_all (\<lambda>p. frag_tx p = Some t) packets \<and>
    is_last (last packets) \<and> list_all (\<lambda>p. \<not> is_last p) (butlast packets)"
  using fragment_loop_spec [of s t x q a packed "[]" packets] assms by (auto simp: fragment_body_def)

lemma fragment_packets_wf:
  assumes "fragment_body s packed t x q a = Inr packets" shows "list_all packet_wf packets"
  unfolding list_all_length
proof (intro allI impI)
  fix i assume i: "i < length packets"
  have len: "length packets \<le> 64" using fragment_body_spec [OF assms] by simp
  have part: "frag_parts (packets ! i) = Some (body_part t (map frag_bytes packets) i)"
    by (rule fragment_body_parts [OF assms i])
  have u: "unat (of_nat i :: u64) = i" using i len by (intro unat_index) simp
  show "packet_wf (packets ! i)"
    using part i len u
    by (cases "packets ! i") (auto simp: packet_wf_def body_part_def word_le_nat_alt split: if_splits)
qed

text \<open>C22: Cutting a packed body always ends. Either the body is refused as too large, or at most 64
  packets carry it: their bytes concatenate to the body, their indices count from zero, all name the
  transaction, only the last is a last fragment, and every one passes the packet reader's bounds.\<close>

theorem fragment_body_correct:
  "case fragment_body s packed tx_id set_xor start_seq actor_id of
     Inl e \<Rightarrow> e = BodyTooLarge
   | Inr packets \<Rightarrow> packets \<noteq> [] \<and> length packets \<le> 64 \<and>
       concat (map frag_bytes packets) = packed \<and>
       map packet_frag_i packets = map of_nat [0..<length packets] \<and>
       list_all (\<lambda>p. frag_tx p = Some tx_id) packets \<and> is_last (last packets) \<and>
       list_all (\<lambda>p. \<not> is_last p) (butlast packets) \<and> list_all packet_wf packets"
proof (cases "fragment_body s packed tx_id set_xor start_seq actor_id")
  case (Inl e)
  then show ?thesis using fragment_loop_error by (simp add: fragment_body_def)
next
  case (Inr packets)
  then show ?thesis using fragment_body_spec [OF Inr] fragment_packets_wf [OF Inr] by simp
qed

text \<open>C32: The binary search for a fragment size ends within the padded length at a size whose filler
  packet fits (if the empty one does), and when fitting is monotone in the size it finds the largest
  one.\<close>

theorem largest_frag_correct:
  "largest_frag s build \<le> 484 \<and>
   (frag_fits s build 0 \<longrightarrow> frag_fits s build (largest_frag s build)) \<and>
   ((\<forall>n m. n \<le> m \<longrightarrow> frag_fits s build m \<longrightarrow> frag_fits s build n) \<longrightarrow>
      (\<forall>n \<le> 484. frag_fits s build n \<longrightarrow> n \<le> largest_frag s build))"
  using largest_loop_range [of 0 PACKET_PAD_LEN s build]
    largest_loop_fits [of 0 PACKET_PAD_LEN s build]
    largest_loop_greatest [of 0 PACKET_PAD_LEN s build]
  by (simp add: largest_frag_def PACKET_PAD_LEN_def)

text \<open>A suite whose compressor gives one byte, so that every fragment fits.\<close>

definition tiny_suite :: suite where
  "tiny_suite = sample_suite\<lparr>st_compress := \<lambda>_. [1]\<rparr>"

lemma tiny_fits: "frag_fits tiny_suite build n"
  by (simp add: frag_fits_def packed_packet_cases tiny_suite_def PACKET_PAD_LEN_def)

lemma tiny_largest: "largest_frag tiny_suite build = 484"
  using largest_loop_greatest [of 0 484 tiny_suite build 484]
    largest_loop_range [of 0 484 tiny_suite build]
  by (simp add: largest_frag_def PACKET_PAD_LEN_def tiny_fits)

theorem largest_frag_correct_witness:
  "largest_frag tiny_suite (\<lambda>frag. XorAck \<lparr>pxa_actor_id = frag, pxa_packet_seq = 0,
     pxa_set_xor = zero32\<rparr>) = 484"
proof -
  let ?b = "\<lambda>frag. XorAck \<lparr>pxa_actor_id = frag, pxa_packet_seq = 0, pxa_set_xor = zero32\<rparr>"
  have "largest_frag tiny_suite ?b \<le> 484" "484 \<le> largest_frag tiny_suite ?b"
    using largest_frag_correct [of tiny_suite ?b] tiny_fits by auto
  then show ?thesis by simp
qed

section \<open>Putting it together\<close>

lemma fragments_merge:
  assumes "fragment_body s packed tx_id set_xor start_seq actor_id = Inr packets"
    and "frags tx_id = None" "j \<notin> set is" "insert j (set is) = {..<length packets}"
  shows "\<exists>frags'. merge_all cid (map (\<lambda>i. the (frag_parts (packets ! i))) (is @ [j])) frags =
      (replicate (length is) (Inr None) @ [Inr (Some packed)], frags') \<and>
    frags' tx_id = None \<and> (\<forall>u. u \<noteq> tx_id \<longrightarrow> frags' u = frags u)"
proof -
  let ?c = "map frag_bytes packets"
  have eq: "map (\<lambda>i. the (frag_parts (packets ! i))) (is @ [j]) = map (body_part tx_id ?c) (is @ [j])"
    using fragment_body_parts [OF assms(1)] assms(4) by (intro map_cong) auto
  have c: "concat ?c = packed" and len: "length ?c \<le> 64"
    using fragment_body_spec [OF assms(1)] by simp_all
  have ins: "insert j (set is) = {..<length ?c}" unfolding length_map by (rule assms(4))
  show ?thesis
    using merge_completes [of frags tx_id ?c j "is" cid, OF assms(2) len assms(3) ins]
    unfolding eq c .
qed

text \<open>C5: The packets of a body may arrive in any order and more than once: as long as one index is
  missing nothing is delivered and nothing is refused, the packet that brings the missing index
  delivers exactly the packed body, the entry is removed, and no other transaction is touched.\<close>

theorem fragments_reassemble:
  assumes "fragment_body s packed tx_id set_xor start_seq actor_id = Inr packets"
    and "frags tx_id = None" "j \<notin> set is" "insert j (set is) = {..<length packets}"
  shows "\<exists>frags'. merge_all cid (map (\<lambda>i. the (frag_parts (packets ! i))) (is @ [j])) frags =
      (replicate (length is) (Inr None) @ [Inr (Some packed)], frags') \<and>
    frags' tx_id = None \<and> (\<forall>u. u \<noteq> tx_id \<longrightarrow> frags' u = frags u)"
  using assms by (rule fragments_merge)

lemma tiny_fragments:
  "\<exists>p q. fragment_body tiny_suite (replicate 600 1) zero32 zero32 0 [] = Inr [p, q]"
  unfolding fragment_body_def
  by (subst fragment_loop.simps, subst fragment_loop.simps)
    (simp add: next_fragment_def Let_def tiny_largest MAX_FRAGS_def u64_of_len_def word_le_nat_alt)

theorem fragments_reassemble_witness:
  "\<exists>packets frags'. length packets = 2 \<and>
     merge_all zero32 (map (\<lambda>i. the (frag_parts (packets ! i))) [1, 1, 0]) Map.empty =
       ([Inr None, Inr None, Inr (Some (replicate 600 1))], frags') \<and> frags' zero32 = None"
proof -
  obtain p q where pq: "fragment_body tiny_suite (replicate 600 1) zero32 zero32 0 [] = Inr [p, q]"
    using tiny_fragments by blast
  have "insert 0 (set [1, 1]) = {..<length [p, q]}" by auto
  from fragments_reassemble [OF pq _ _ this, of Map.empty zero32] show ?thesis
    by (intro exI [of _ "[p, q]"]) auto
qed

text \<open>A part that contradicts what is stored, in its bytes or in which index is last, is refused
  as equivocation, and what is stored stays.\<close>

lemma contradicting_part_refused:
  assumes "frags (fp_tx_id part) = Some st"
    and "(\<exists>old. fs_parts st (fp_frag_i part) = Some old \<and> old \<noteq> fp_frag part) \<or>
      (\<exists>a b. fs_last_i st = Some a \<and> fp_last_i part = Some b \<and> a \<noteq> b)"
  shows "merge_frag cid part frags = (Inl Equivocation, frags)"
proof -
  have "equivocates st part" using assms(2) by (auto simp: equivocates_def)
  with assms(1) show ?thesis by (simp add: merge_frag_def frag_entry_def map_upd_triv)
qed

theorem contradicting_part_refused_witness:
  "\<exists>frags :: frags. merge_frag zero32 \<lparr>fp_tx_id = zero32, fp_frag_i = 0, fp_frag = [2], fp_last_i = None\<rparr> frags =
     (Inl Equivocation, frags)"
proof -
  let ?p = "\<lparr>fp_tx_id = zero32, fp_frag_i = 0, fp_frag = [2], fp_last_i = None\<rparr> :: frag_part"
  let ?st = "\<lparr>fs_conversation_id = zero32, fs_parts = [0 \<mapsto> [1]], fs_last_i = None\<rparr> :: frag_set"
  have "merge_frag zero32 ?p [zero32 \<mapsto> ?st] = (Inl Equivocation, [zero32 \<mapsto> ?st])"
    by (rule contradicting_part_refused) (simp, rule disjI1, simp)
  then show ?thesis by blast
qed

section \<open>The fingerprint\<close>

text \<open>C31: The set fingerprint is the exclusive or of the conversation's ids, so it does not depend on
  the order of the log, and two logs of a conversation that differ by one id with any non-zero byte
  have different fingerprints.\<close>

theorem set_xor_fingerprint:
  "set_xor_for txs cid = xor_ids (ids_in txs cid) \<and>
   (mset (ids_in txs cid) = mset (ids_in txs' cid) \<longrightarrow> set_xor_for txs cid = set_xor_for txs' cid) \<and>
   (i \<noteq> zero32 \<longrightarrow> mset (ids_in txs' cid) = add_mset i (mset (ids_in txs cid)) \<longrightarrow>
      set_xor_for txs' cid \<noteq> set_xor_for txs cid)"
proof (intro conjI impI)
  show "set_xor_for txs cid = xor_ids (ids_in txs cid)" by (rule set_xor_for_ids)
  show "set_xor_for txs cid = set_xor_for txs' cid"
    if "mset (ids_in txs cid) = mset (ids_in txs' cid)"
    unfolding set_xor_for_ids by (rule xor_ids_mset [OF that])
  assume i: "i \<noteq> zero32" and m: "mset (ids_in txs' cid) = add_mset i (mset (ids_in txs cid))"
  have "xor_ids (ids_in txs' cid) = xor_ids (i # ids_in txs cid)"
    by (rule xor_ids_mset) (simp add: m)
  then have "set_xor_for txs' cid = xor32 (set_xor_for txs cid) i"
    unfolding set_xor_for_ids xor_ids_simps xor32_commute [of i] .
  with i show "set_xor_for txs' cid \<noteq> set_xor_for txs cid" by simp
qed

definition one32 :: "'r b32" where
  "one32 = from_array (1 # replicate 31 0)"

lemma one32_not_zero: "one32 \<noteq> zero32"
proof
  assume "one32 = (zero32 :: 'a b32)"
  then have "hd (as_bytes (one32 :: 'a b32)) = hd (as_bytes (zero32 :: 'a b32))" by simp
  then show False by (simp add: one32_def)
qed

theorem set_xor_fingerprint_witness:
  "set_xor_for [(one32, \<lparr>db_conversation_id = zero32, db_hlc = \<lparr>hlc_wall_ms = 0, hlc_counter = 0\<rparr>,
     db_payload = Confirm\<rparr>)] zero32 \<noteq> set_xor_for [] zero32"
  using set_xor_fingerprint [of "[]" zero32 "[(one32, \<lparr>db_conversation_id = zero32,
      db_hlc = \<lparr>hlc_wall_ms = 0, hlc_counter = 0\<rparr>, db_payload = Confirm\<rparr>)]" one32] one32_not_zero
  unfolding ids_in_def by auto

section \<open>Stored chains\<close>

text \<open>A chain written to a fold and read back is the same chain of the same conversation and
  actor, for every actor but a signing key of no bytes.\<close>

lemma stored_chain_roundtrip:
  assumes "b64u_ok b" "actor \<noteq> Signing (SigningPublicKey [])"
  shows "chain_from_json b (chain_to_json b cid actor chain) = Inr (cid, actor, chain)"
  by (rule chain_json_roundtrip [OF assms])

theorem stored_chain_roundtrip_witness:
  "chain_from_json (st_b64u sample_suite) (chain_to_json (st_b64u sample_suite) zero32 Handshake
     \<lparr>sc_root = zero32, sc_c = zero32, sc_epoch = 3, sc_packet_seq = 4\<rparr>) =
   Inr (zero32, Handshake, \<lparr>sc_root = zero32, sc_c = zero32, sc_epoch = 3, sc_packet_seq = 4\<rparr>)"
  by (rule stored_chain_roundtrip [OF sample_b64u_ok]) simp

end
