(* ===== verification/Party.thy ===== *)
theory Party
  imports Payload
begin

text \<open>
  The handshake phases (\<open>engine/party.rs\<close>). Each variant holds the secrets that exist in that phase;
  a method that takes \<open>&mut self\<close> is a function to the new phase, and one that also returns a boolean
  returns the pair. The steps of a handshake are an inductive relation, and the locale
  \<open>handshake_phase\<close> states what both roles promise about it.
\<close>

datatype handshake_failure =
    PolicyNotAccepted policy
  | InviteExpired unix_seconds
  | NoticeUnlockFailed
  | NoticeConflict
  | IntroUnlockFailed
  | IntroVerifyFailed
  | DuplicateIntro
  | ConfirmationRejected
  | FailureEquivocation

section \<open>The inviter\<close>

datatype inviter_phase =
    InviteCreated ticket key_pair time_bin
  | NoticePinned ticket key_pair time_bin
  | InviterIntroMinted ticket key_pair secret secret time_bin
  | InviterConfirming ticket key_pair secret secret time_bin
  | InviterFailed ticket time_bin handshake_failure

fun inviter_ticket :: "inviter_phase \<Rightarrow> ticket" where
  "inviter_ticket (InviteCreated t _ _) = t"
| "inviter_ticket (NoticePinned t _ _) = t"
| "inviter_ticket (InviterIntroMinted t _ _ _ _) = t"
| "inviter_ticket (InviterConfirming t _ _ _ _) = t"
| "inviter_ticket (InviterFailed t _ _) = t"

fun inviter_list_from :: "inviter_phase \<Rightarrow> time_bin" where
  "inviter_list_from (InviteCreated _ _ l) = l"
| "inviter_list_from (NoticePinned _ _ l) = l"
| "inviter_list_from (InviterIntroMinted _ _ _ _ l) = l"
| "inviter_list_from (InviterConfirming _ _ _ _ l) = l"
| "inviter_list_from (InviterFailed _ l _) = l"

fun inviter_intake :: "inviter_phase \<Rightarrow> key_pair option" where
  "inviter_intake (InviteCreated _ k _) = Some k"
| "inviter_intake (NoticePinned _ k _) = Some k"
| "inviter_intake (InviterIntroMinted _ k _ _ _) = Some k"
| "inviter_intake (InviterConfirming _ k _ _ _) = Some k"
| "inviter_intake (InviterFailed _ _ _) = None"

fun inviter_shared_inviter :: "inviter_phase \<Rightarrow> secret option" where
  "inviter_shared_inviter (InviterIntroMinted _ _ s _ _) = Some s"
| "inviter_shared_inviter (InviterConfirming _ _ s _ _) = Some s"
| "inviter_shared_inviter _ = None"

fun inviter_shared_invitee :: "inviter_phase \<Rightarrow> secret option" where
  "inviter_shared_invitee (InviterIntroMinted _ _ _ s _) = Some s"
| "inviter_shared_invitee (InviterConfirming _ _ _ s _) = Some s"
| "inviter_shared_invitee _ = None"

fun inviter_failure :: "inviter_phase \<Rightarrow> handshake_failure option" where
  "inviter_failure (InviterFailed _ _ r) = Some r"
| "inviter_failure _ = None"

fun inviter_ack_notice :: "inviter_phase \<Rightarrow> inviter_phase" where
  "inviter_ack_notice (InviteCreated t k l) = NoticePinned t k l"
| "inviter_ack_notice p = p"

fun inviter_ack_intro :: "inviter_phase \<Rightarrow> inviter_phase" where
  "inviter_ack_intro (InviterIntroMinted t k si se l) = InviterConfirming t k si se l"
| "inviter_ack_intro p = p"

fun inviter_mint_intro :: "secret \<Rightarrow> secret \<Rightarrow> inviter_phase \<Rightarrow> bool \<times> inviter_phase" where
  "inviter_mint_intro si se (NoticePinned t k l) = (True, InviterIntroMinted t k si se l)"
| "inviter_mint_intro si se p = (False, p)"

fun inviter_fail :: "handshake_failure \<Rightarrow> inviter_phase \<Rightarrow> inviter_phase" where
  "inviter_fail r (InviterFailed t l r') = InviterFailed t l r'"
| "inviter_fail r p = InviterFailed (inviter_ticket p) (inviter_list_from p) r"

section \<open>The invitee\<close>

datatype invitee_phase =
    TicketReceived ticket time_bin
  | InviteReceived ticket time_bin policy
  | InviteeIntroMinted ticket time_bin policy key_pair secret
  | IntroductionSent ticket time_bin policy key_pair secret
  | InviteeConfirming ticket time_bin policy key_pair secret secret
  | InviteeFailed ticket time_bin handshake_failure

fun invitee_ticket :: "invitee_phase \<Rightarrow> ticket" where
  "invitee_ticket (TicketReceived t _) = t"
| "invitee_ticket (InviteReceived t _ _) = t"
| "invitee_ticket (InviteeIntroMinted t _ _ _ _) = t"
| "invitee_ticket (IntroductionSent t _ _ _ _) = t"
| "invitee_ticket (InviteeConfirming t _ _ _ _ _) = t"
| "invitee_ticket (InviteeFailed t _ _) = t"

fun invitee_list_from :: "invitee_phase \<Rightarrow> time_bin" where
  "invitee_list_from (TicketReceived _ l) = l"
| "invitee_list_from (InviteReceived _ l _) = l"
| "invitee_list_from (InviteeIntroMinted _ l _ _ _) = l"
| "invitee_list_from (IntroductionSent _ l _ _ _) = l"
| "invitee_list_from (InviteeConfirming _ l _ _ _ _) = l"
| "invitee_list_from (InviteeFailed _ l _) = l"

fun invitee_policy :: "invitee_phase \<Rightarrow> policy option" where
  "invitee_policy (InviteReceived _ _ p) = Some p"
| "invitee_policy (InviteeIntroMinted _ _ p _ _) = Some p"
| "invitee_policy (IntroductionSent _ _ p _ _) = Some p"
| "invitee_policy (InviteeConfirming _ _ p _ _ _) = Some p"
| "invitee_policy _ = None"

fun invitee_intake :: "invitee_phase \<Rightarrow> key_pair option" where
  "invitee_intake (InviteeIntroMinted _ _ _ k _) = Some k"
| "invitee_intake (IntroductionSent _ _ _ k _) = Some k"
| "invitee_intake (InviteeConfirming _ _ _ k _ _) = Some k"
| "invitee_intake _ = None"

fun invitee_shared_inviter :: "invitee_phase \<Rightarrow> secret option" where
  "invitee_shared_inviter (InviteeIntroMinted _ _ _ _ s) = Some s"
| "invitee_shared_inviter (IntroductionSent _ _ _ _ s) = Some s"
| "invitee_shared_inviter (InviteeConfirming _ _ _ _ s _) = Some s"
| "invitee_shared_inviter _ = None"

fun invitee_shared_invitee :: "invitee_phase \<Rightarrow> secret option" where
  "invitee_shared_invitee (InviteeConfirming _ _ _ _ _ s) = Some s"
| "invitee_shared_invitee _ = None"

fun invitee_failure :: "invitee_phase \<Rightarrow> handshake_failure option" where
  "invitee_failure (InviteeFailed _ _ r) = Some r"
| "invitee_failure _ = None"

fun invitee_receive_notice :: "policy \<Rightarrow> invitee_phase \<Rightarrow> bool \<times> invitee_phase" where
  "invitee_receive_notice pol (TicketReceived t l) = (True, InviteReceived t l pol)"
| "invitee_receive_notice pol p = (False, p)"

fun invitee_ack_intro :: "invitee_phase \<Rightarrow> invitee_phase" where
  "invitee_ack_intro (InviteeIntroMinted t l pol k s) = IntroductionSent t l pol k s"
| "invitee_ack_intro p = p"

fun invitee_mint_intro :: "key_pair \<Rightarrow> secret \<Rightarrow> invitee_phase \<Rightarrow> bool \<times> invitee_phase" where
  "invitee_mint_intro k s (InviteReceived t l pol) = (True, InviteeIntroMinted t l pol k s)"
| "invitee_mint_intro k s p = (False, p)"

fun invitee_confirm_peer :: "secret \<Rightarrow> invitee_phase \<Rightarrow> bool \<times> invitee_phase" where
  "invitee_confirm_peer se (InviteeIntroMinted t l pol k si) = (True, InviteeConfirming t l pol k si se)"
| "invitee_confirm_peer se (IntroductionSent t l pol k si) = (True, InviteeConfirming t l pol k si se)"
| "invitee_confirm_peer se p = (False, p)"

fun invitee_fail :: "handshake_failure \<Rightarrow> invitee_phase \<Rightarrow> invitee_phase" where
  "invitee_fail r (InviteeFailed t l r') = InviteeFailed t l r'"
| "invitee_fail r p = InviteeFailed (invitee_ticket p) (invitee_list_from p) r"

section \<open>Parties\<close>

text \<open>\<open>DmParty\<close> and \<open>SyncParty\<close> are the same type, generated twice by \<open>party_impl!\<close>. A reference to
  either is a \<open>party_ref\<close>.\<close>

datatype party = Inviter inviter_phase | Invitee invitee_phase

datatype party_ref = Dm party | Sync party

fun party_ticket :: "party \<Rightarrow> ticket" where
  "party_ticket (Inviter p) = inviter_ticket p"
| "party_ticket (Invitee p) = invitee_ticket p"

fun party_list_from :: "party \<Rightarrow> time_bin" where
  "party_list_from (Inviter p) = inviter_list_from p"
| "party_list_from (Invitee p) = invitee_list_from p"

fun party_intake :: "party \<Rightarrow> key_pair option" where
  "party_intake (Inviter p) = inviter_intake p"
| "party_intake (Invitee p) = invitee_intake p"

fun party_shared_inviter :: "party \<Rightarrow> secret option" where
  "party_shared_inviter (Inviter p) = inviter_shared_inviter p"
| "party_shared_inviter (Invitee p) = invitee_shared_inviter p"

fun party_shared_invitee :: "party \<Rightarrow> secret option" where
  "party_shared_invitee (Inviter p) = inviter_shared_invitee p"
| "party_shared_invitee (Invitee p) = invitee_shared_invitee p"

fun party_failure :: "party \<Rightarrow> handshake_failure option" where
  "party_failure (Inviter p) = inviter_failure p"
| "party_failure (Invitee p) = invitee_failure p"

fun is_inviter :: "party \<Rightarrow> bool" where
  "is_inviter (Inviter _) = True"
| "is_inviter (Invitee _) = False"

fun party_ack_posted :: "party \<Rightarrow> party" where
  "party_ack_posted (Inviter p) = Inviter (inviter_ack_intro (inviter_ack_notice p))"
| "party_ack_posted (Invitee p) = Invitee (invitee_ack_intro p)"

fun party_fail :: "handshake_failure \<Rightarrow> party \<Rightarrow> party" where
  "party_fail r (Inviter p) = Inviter (inviter_fail r p)"
| "party_fail r (Invitee p) = Invitee (invitee_fail r p)"

fun ref_party :: "party_ref \<Rightarrow> party" where
  "ref_party (Dm p) = p"
| "ref_party (Sync p) = p"

fun party_invitee_policy :: "party \<Rightarrow> policy option" where
  "party_invitee_policy (Invitee p) = invitee_policy p"
| "party_invitee_policy (Inviter _) = None"

datatype phase_kind =
    KInviteCreated
  | KNoticePinned
  | KInviterIntroMinted
  | KConfirming
  | KTicketReceived
  | KInviteReceived
  | KInviteeIntroMinted
  | KIntroductionSent
  | KFailed handshake_failure

fun party_kind :: "party \<Rightarrow> phase_kind" where
  "party_kind (Inviter (InviteCreated _ _ _)) = KInviteCreated"
| "party_kind (Inviter (NoticePinned _ _ _)) = KNoticePinned"
| "party_kind (Inviter (InviterIntroMinted _ _ _ _ _)) = KInviterIntroMinted"
| "party_kind (Inviter (InviterConfirming _ _ _ _ _)) = KConfirming"
| "party_kind (Inviter (InviterFailed _ _ r)) = KFailed r"
| "party_kind (Invitee (TicketReceived _ _)) = KTicketReceived"
| "party_kind (Invitee (InviteReceived _ _ _)) = KInviteReceived"
| "party_kind (Invitee (InviteeIntroMinted _ _ _ _ _)) = KInviteeIntroMinted"
| "party_kind (Invitee (IntroductionSent _ _ _ _ _)) = KIntroductionSent"
| "party_kind (Invitee (InviteeConfirming _ _ _ _ _ _)) = KConfirming"
| "party_kind (Invitee (InviteeFailed _ _ r)) = KFailed r"

section \<open>Steps\<close>

text \<open>What the engine does to a phase: the acknowledgement of posted writes, a failure, and the
  transitions the handshake handlers make. A refused transition leaves the phase.\<close>

inductive inviter_step :: "inviter_phase \<Rightarrow> inviter_phase \<Rightarrow> bool" where
  inviter_acked: "inviter_step p (inviter_ack_intro (inviter_ack_notice p))"
| inviter_minted: "inviter_step p (snd (inviter_mint_intro si se p))"
| inviter_failed: "inviter_step p (inviter_fail r p)"

inductive invitee_step :: "invitee_phase \<Rightarrow> invitee_phase \<Rightarrow> bool" where
  invitee_noticed: "invitee_step p (snd (invitee_receive_notice pol p))"
| invitee_minted: "invitee_step p (snd (invitee_mint_intro k s p))"
| invitee_acked: "invitee_step p (invitee_ack_intro p)"
| invitee_confirmed: "invitee_step p (snd (invitee_confirm_peer s p))"
| invitee_failed: "invitee_step p (invitee_fail r p)"

inductive party_step :: "party \<Rightarrow> party \<Rightarrow> bool" where
  party_inviter: "inviter_step p q \<Longrightarrow> party_step (Inviter p) (Inviter q)"
| party_invitee: "invitee_step p q \<Longrightarrow> party_step (Invitee p) (Invitee q)"

inductive_cases party_stepE: "party_step p q"

fun inviter_rank :: "inviter_phase \<Rightarrow> nat" where
  "inviter_rank (InviteCreated _ _ _) = 0"
| "inviter_rank (NoticePinned _ _ _) = 1"
| "inviter_rank (InviterIntroMinted _ _ _ _ _) = 2"
| "inviter_rank (InviterConfirming _ _ _ _ _) = 3"
| "inviter_rank (InviterFailed _ _ _) = 4"

fun invitee_rank :: "invitee_phase \<Rightarrow> nat" where
  "invitee_rank (TicketReceived _ _) = 0"
| "invitee_rank (InviteReceived _ _ _) = 1"
| "invitee_rank (InviteeIntroMinted _ _ _ _ _) = 2"
| "invitee_rank (IntroductionSent _ _ _ _ _) = 3"
| "invitee_rank (InviteeConfirming _ _ _ _ _ _) = 4"
| "invitee_rank (InviteeFailed _ _ _) = 5"

fun party_rank :: "party \<Rightarrow> nat" where
  "party_rank (Inviter p) = inviter_rank p"
| "party_rank (Invitee p) = invitee_rank p"

section \<open>What both roles promise\<close>

text \<open>A step keeps the ticket and the list origin, only moves forward, keeps a secret once it is there
  unless the handshake fails, and does not leave a failure.\<close>

locale handshake_phase =
  fixes next_phase :: "'p \<Rightarrow> 'p \<Rightarrow> bool"
    and ticket_of :: "'p \<Rightarrow> ticket" and list_of :: "'p \<Rightarrow> time_bin"
    and failure_of :: "'p \<Rightarrow> handshake_failure option"
    and inviter_secret :: "'p \<Rightarrow> secret option" and invitee_secret :: "'p \<Rightarrow> secret option"
    and rank :: "'p \<Rightarrow> nat"
  assumes step_ticket: "next_phase p q \<Longrightarrow> ticket_of q = ticket_of p"
    and step_list: "next_phase p q \<Longrightarrow> list_of q = list_of p"
    and step_failed: "next_phase p q \<Longrightarrow> failure_of p = Some r \<Longrightarrow> q = p"
    and step_secrets: "next_phase p q \<Longrightarrow> failure_of q = None \<Longrightarrow>
      (inviter_secret p = Some s \<longrightarrow> inviter_secret q = Some s) \<and>
      (invitee_secret p = Some s \<longrightarrow> invitee_secret q = Some s)"
    and step_rank: "next_phase p q \<Longrightarrow> p = q \<or> rank p < rank q"
begin

lemma reach_ticket: "next_phase\<^sup>*\<^sup>* p q \<Longrightarrow> ticket_of q = ticket_of p \<and> list_of q = list_of p"
  by (induction rule: rtranclp_induct) (auto simp: step_ticket step_list)

lemma reach_failed: "next_phase\<^sup>*\<^sup>* p q \<Longrightarrow> failure_of p = Some r \<Longrightarrow> q = p"
  by (induction rule: rtranclp_induct) (auto dest: step_failed)

lemma reach_rank: "next_phase\<^sup>*\<^sup>* p q \<Longrightarrow> p = q \<or> rank p < rank q"
  by (induction rule: rtranclp_induct) (auto dest: step_rank)

lemma reach_antisym: "next_phase\<^sup>*\<^sup>* p q \<Longrightarrow> next_phase\<^sup>*\<^sup>* q p \<Longrightarrow> p = q"
  using reach_rank [of p q] reach_rank [of q p] by auto

lemma reach_secrets:
  assumes "next_phase\<^sup>*\<^sup>* p q" "failure_of q = None"
  shows "(inviter_secret p = Some s \<longrightarrow> inviter_secret q = Some s) \<and>
    (invitee_secret p = Some s \<longrightarrow> invitee_secret q = Some s)"
  using assms
proof (induction rule: rtranclp_induct)
  case (step q q')
  then have "failure_of q = None" using step_failed by (metis not_Some_eq)
  with step show ?case using step_secrets [OF step.hyps(2)] by blast
qed simp

end

lemma inviter_step_laws:
  assumes "inviter_step p q"
  shows "inviter_ticket q = inviter_ticket p" "inviter_list_from q = inviter_list_from p"
    "p = q \<or> inviter_rank p < inviter_rank q" "inviter_failure p = Some r \<Longrightarrow> q = p"
    "inviter_failure q = None \<Longrightarrow>
      (inviter_shared_inviter p = Some s \<longrightarrow> inviter_shared_inviter q = Some s) \<and>
      (inviter_shared_invitee p = Some s \<longrightarrow> inviter_shared_invitee q = Some s)"
  by (insert assms) (erule inviter_step.cases; cases p; clarsimp)+

interpretation inviter: handshake_phase inviter_step inviter_ticket inviter_list_from inviter_failure
  inviter_shared_inviter inviter_shared_invitee inviter_rank
  by unfold_locales (rule inviter_step_laws; assumption)+

lemma invitee_step_laws:
  assumes "invitee_step p q"
  shows "invitee_ticket q = invitee_ticket p" "invitee_list_from q = invitee_list_from p"
    "p = q \<or> invitee_rank p < invitee_rank q" "invitee_failure p = Some r \<Longrightarrow> q = p"
    "invitee_failure q = None \<Longrightarrow>
      (invitee_shared_inviter p = Some s \<longrightarrow> invitee_shared_inviter q = Some s) \<and>
      (invitee_shared_invitee p = Some s \<longrightarrow> invitee_shared_invitee q = Some s)"
  by (insert assms) (erule invitee_step.cases; cases p; clarsimp)+

interpretation invitee: handshake_phase invitee_step invitee_ticket invitee_list_from invitee_failure
  invitee_shared_inviter invitee_shared_invitee invitee_rank
  by unfold_locales (rule invitee_step_laws; assumption)+

interpretation party: handshake_phase party_step party_ticket party_list_from party_failure
  party_shared_inviter party_shared_invitee party_rank
proof
  fix p q :: party and r s
  assume st: "party_step p q"
  then show "party_ticket q = party_ticket p" "party_list_from q = party_list_from p"
      "p = q \<or> party_rank p < party_rank q"
    by (auto elim!: party_stepE dest: inviter.step_ticket inviter.step_list inviter.step_rank
        invitee.step_ticket invitee.step_list invitee.step_rank)
  show "q = p" if "party_failure p = Some r"
    using st that by (auto elim!: party_stepE dest: inviter.step_failed invitee.step_failed)
  show "(party_shared_inviter p = Some s \<longrightarrow> party_shared_inviter q = Some s) \<and>
      (party_shared_invitee p = Some s \<longrightarrow> party_shared_invitee q = Some s)"
    if "party_failure q = None"
    using st that by (auto elim!: party_stepE dest: inviter.step_secrets invitee.step_secrets)
qed

text \<open>The two operations the engine state applies to whichever role the row has are steps.\<close>

lemma party_ack_step: "party_step p (party_ack_posted p)"
  by (cases p) (auto intro: party_step.intros inviter_step.intros invitee_step.intros)

lemma party_fail_step: "party_step p (party_fail r p)"
  by (cases p) (auto intro: party_step.intros inviter_step.intros invitee_step.intros)

lemma party_failed_erased:
  "party_failure p = Some r \<Longrightarrow>
     party_intake p = None \<and> party_shared_inviter p = None \<and> party_shared_invitee p = None"
proof (cases p)
  case (Inviter q)
  then show "party_failure p = Some r \<Longrightarrow> ?thesis" by (cases q) auto
next
  case (Invitee q)
  then show "party_failure p = Some r \<Longrightarrow> ?thesis" by (cases q) auto
qed

text \<open>How an invitee comes to confirm: the invitations it has seen on the way.\<close>

lemma invitee_step_policy:
  "invitee_step q q' \<Longrightarrow> invitee_policy q' = Some pol \<Longrightarrow>
     invitee_policy q = Some pol \<or> (\<exists>t l. q = TicketReceived t l \<and> q' = InviteReceived t l pol)"
  by (erule invitee_step.cases; cases q; clarsimp)

lemma invitee_passes_notice:
  assumes "invitee_step\<^sup>*\<^sup>* (TicketReceived t l) q" "invitee_policy q = Some pol"
  shows "invitee_step\<^sup>*\<^sup>* (TicketReceived t l) (InviteReceived t l pol) \<and>
    invitee_step\<^sup>*\<^sup>* (InviteReceived t l pol) q"
  using assms
proof (induction rule: rtranclp_induct)
  case base
  then show ?case by simp
next
  case (step q q')
  from invitee_step_policy [OF step.hyps(2) step.prems] show ?case
  proof
    assume "invitee_policy q = Some pol"
    with step show ?thesis by (auto intro: rtranclp.rtrancl_into_rtrancl)
  next
    assume "\<exists>t l. q = TicketReceived t l \<and> q' = InviteReceived t l pol"
    with invitee.reach_ticket [OF step.hyps(1)] have "q' = InviteReceived t l pol" by auto
    with step.hyps show ?thesis by (auto intro: rtranclp.rtrancl_into_rtrancl)
  qed
qed

end
