(* ===== verification/Row_Log.thy ===== *)
theory Row_Log
  imports Payload BTree
begin

text \<open>
  What a conversation row may store (\<open>engine/row_log.rs\<close>): one transaction type per kind of row, each
  with a partial reader from the wire payload and a total writer back. The contract the engine state
  relies on is the locale \<open>tx_sort\<close>, and every one of the nine types is an interpretation of it.
\<close>

record 't tx_row =
  row_conversation_id :: conversation_id
  row_hlc :: hlc
  row_payload :: 't

type_synonym 't tx_log = "(tag, 't tx_row) btree"

datatype dm_handshake_tx =
    DhNotice tx_notice
  | DhInviterIntro tx_inviter_intro
  | DhInviteeIntro tx_invitee_intro
  | DhConfirm
  | DhReject

datatype sync_handshake_tx =
    ShNotice tx_notice
  | ShInviterIntro sync_inviter_intro
  | ShInviteeIntro sync_invitee_intro
  | ShConfirm
  | ShReject
  | ShDek bytes

datatype chat_tx =
    CText tx_text
  | CEdit tx_edit
  | CRemove tag
  | CReaction tx_reaction
  | CRead tag
  | CDelivered tag
  | CMedia tx_media
  | CName display_name
  | CPhoto "profile_pic option"
  | CPrefs on_wire_prefs

datatype ratchet_tx = RAdvertise encryption_public_key | RWrap bytes | RAck tag

datatype group_tx =
    GRoster tx_group_roster | GWrap tx_group_wrap | GLeave | GKick signing_public_key

datatype dm_tx =
    DmChat chat_tx
  | DmRatchet ratchet_tx
  | DmGroupInvite tx_group_invite
  | DmGroupAccept conversation_id
  | DmGroupReject conversation_id

datatype live_group_tx = LgChat chat_tx | LgRatchet ratchet_tx | LgGroup group_tx

datatype engine_tx =
    Init
  | SetDefaults defaults
  | CreateUser user_id
  | CreateIdentity user_id identity_id policy key_pair signing_key_pair
  | DeleteUser user_id
  | DeleteIdentity user_id identity_id
  | SetDisplayName user_id identity_id display_name
  | UnsetDisplayName user_id identity_id
  | SetProfilePic user_id identity_id "profile_pic option"
  | SetDeviceName display_name
  | KickDevice device_id

datatype sync_tx = SyEngine engine_tx | SyName display_name

section \<open>Readers and writers\<close>

fun dm_handshake_from :: "tx_payload \<Rightarrow> dm_handshake_tx option" where
  "dm_handshake_from (Notice notice) = Some (DhNotice notice)"
| "dm_handshake_from (InviterIntro intro) = Some (DhInviterIntro intro)"
| "dm_handshake_from (InviteeIntro intro) = Some (DhInviteeIntro intro)"
| "dm_handshake_from Confirm = Some DhConfirm"
| "dm_handshake_from Reject = Some DhReject"
| "dm_handshake_from _ = None"

fun dm_handshake_to :: "dm_handshake_tx \<Rightarrow> tx_payload" where
  "dm_handshake_to (DhNotice notice) = Notice notice"
| "dm_handshake_to (DhInviterIntro intro) = InviterIntro intro"
| "dm_handshake_to (DhInviteeIntro intro) = InviteeIntro intro"
| "dm_handshake_to DhConfirm = Confirm"
| "dm_handshake_to DhReject = Reject"

fun sync_handshake_from :: "tx_payload \<Rightarrow> sync_handshake_tx option" where
  "sync_handshake_from (Notice notice) = Some (ShNotice notice)"
| "sync_handshake_from (SyncInviterIntro intro) = Some (ShInviterIntro intro)"
| "sync_handshake_from (SyncInviteeIntro intro) = Some (ShInviteeIntro intro)"
| "sync_handshake_from Confirm = Some ShConfirm"
| "sync_handshake_from Reject = Some ShReject"
| "sync_handshake_from (SyncDek ct) = Some (ShDek ct)"
| "sync_handshake_from _ = None"

fun sync_handshake_to :: "sync_handshake_tx \<Rightarrow> tx_payload" where
  "sync_handshake_to (ShNotice notice) = Notice notice"
| "sync_handshake_to (ShInviterIntro intro) = SyncInviterIntro intro"
| "sync_handshake_to (ShInviteeIntro intro) = SyncInviteeIntro intro"
| "sync_handshake_to ShConfirm = Confirm"
| "sync_handshake_to ShReject = Reject"
| "sync_handshake_to (ShDek ct) = SyncDek ct"

fun chat_from :: "tx_payload \<Rightarrow> chat_tx option" where
  "chat_from (Text t) = Some (CText t)"
| "chat_from (Edit edit) = Some (CEdit edit)"
| "chat_from (Remove target) = Some (CRemove target)"
| "chat_from (Reaction reaction) = Some (CReaction reaction)"
| "chat_from (Read up_to) = Some (CRead up_to)"
| "chat_from (Delivered up_to) = Some (CDelivered up_to)"
| "chat_from (Media media) = Some (CMedia media)"
| "chat_from (Name name) = Some (CName name)"
| "chat_from (Photo profile_pic) = Some (CPhoto profile_pic)"
| "chat_from (Prefs prefs) = Some (CPrefs prefs)"
| "chat_from _ = None"

fun chat_to :: "chat_tx \<Rightarrow> tx_payload" where
  "chat_to (CText t) = Text t"
| "chat_to (CEdit edit) = Edit edit"
| "chat_to (CRemove target) = Remove target"
| "chat_to (CReaction reaction) = Reaction reaction"
| "chat_to (CRead up_to) = Read up_to"
| "chat_to (CDelivered up_to) = Delivered up_to"
| "chat_to (CMedia media) = Media media"
| "chat_to (CName name) = Name name"
| "chat_to (CPhoto profile_pic) = Photo profile_pic"
| "chat_to (CPrefs prefs) = Prefs prefs"

fun ratchet_from :: "tx_payload \<Rightarrow> ratchet_tx option" where
  "ratchet_from (Advertise encaps_pk) = Some (RAdvertise encaps_pk)"
| "ratchet_from (Wrap kem_ct) = Some (RWrap kem_ct)"
| "ratchet_from (Ack ratchet_ack) = Some (RAck ratchet_ack)"
| "ratchet_from _ = None"

fun ratchet_to :: "ratchet_tx \<Rightarrow> tx_payload" where
  "ratchet_to (RAdvertise encaps_pk) = Advertise encaps_pk"
| "ratchet_to (RWrap kem_ct) = Wrap kem_ct"
| "ratchet_to (RAck ratchet_ack) = Ack ratchet_ack"

fun group_from :: "tx_payload \<Rightarrow> group_tx option" where
  "group_from (GroupRoster roster) = Some (GRoster roster)"
| "group_from (GroupWrap wrap) = Some (GWrap wrap)"
| "group_from GroupLeave = Some GLeave"
| "group_from (GroupKick signing_pk) = Some (GKick signing_pk)"
| "group_from _ = None"

fun group_to :: "group_tx \<Rightarrow> tx_payload" where
  "group_to (GRoster roster) = GroupRoster roster"
| "group_to (GWrap wrap) = GroupWrap wrap"
| "group_to GLeave = GroupLeave"
| "group_to (GKick signing_pk) = GroupKick signing_pk"

definition dm_from :: "tx_payload \<Rightarrow> dm_tx option" where
  "dm_from payload =
     (case chat_from payload of
        Some chat \<Rightarrow> Some (DmChat chat)
      | None \<Rightarrow>
        (case ratchet_from payload of
           Some ratchet \<Rightarrow> Some (DmRatchet ratchet)
         | None \<Rightarrow>
           (case payload of
              GroupInvite invite \<Rightarrow> Some (DmGroupInvite invite)
            | GroupAccept group_id \<Rightarrow> Some (DmGroupAccept group_id)
            | GroupReject group_id \<Rightarrow> Some (DmGroupReject group_id)
            | _ \<Rightarrow> None)))"

fun dm_to :: "dm_tx \<Rightarrow> tx_payload" where
  "dm_to (DmChat chat) = chat_to chat"
| "dm_to (DmRatchet ratchet) = ratchet_to ratchet"
| "dm_to (DmGroupInvite invite) = GroupInvite invite"
| "dm_to (DmGroupAccept group_id) = GroupAccept group_id"
| "dm_to (DmGroupReject group_id) = GroupReject group_id"

definition live_group_from :: "tx_payload \<Rightarrow> live_group_tx option" where
  "live_group_from payload =
     (case chat_from payload of
        Some chat \<Rightarrow> Some (LgChat chat)
      | None \<Rightarrow>
        (case ratchet_from payload of
           Some ratchet \<Rightarrow> Some (LgRatchet ratchet)
         | None \<Rightarrow> map_option LgGroup (group_from payload)))"

fun live_group_to :: "live_group_tx \<Rightarrow> tx_payload" where
  "live_group_to (LgChat chat) = chat_to chat"
| "live_group_to (LgRatchet ratchet) = ratchet_to ratchet"
| "live_group_to (LgGroup g) = group_to g"

fun engine_from :: "tx_payload \<Rightarrow> engine_tx option" where
  "engine_from EngineInit = Some Init"
| "engine_from (EngineSetDefaults defaults) = Some (SetDefaults defaults)"
| "engine_from (EngineCreateUser user_id) = Some (CreateUser user_id)"
| "engine_from (EngineCreateIdentity user_id identity_id policy encryption signing) =
     Some (CreateIdentity user_id identity_id policy encryption signing)"
| "engine_from (EngineDeleteUser user_id) = Some (DeleteUser user_id)"
| "engine_from (EngineDeleteIdentity user_id identity_id) = Some (DeleteIdentity user_id identity_id)"
| "engine_from (EngineSetDisplayName user_id identity_id name) =
     Some (SetDisplayName user_id identity_id name)"
| "engine_from (EngineUnsetDisplayName user_id identity_id) =
     Some (UnsetDisplayName user_id identity_id)"
| "engine_from (EngineSetProfilePic user_id identity_id profile_pic) =
     Some (SetProfilePic user_id identity_id profile_pic)"
| "engine_from (EngineSetDeviceName name) = Some (SetDeviceName name)"
| "engine_from (EngineKickDevice device_id) = Some (KickDevice device_id)"
| "engine_from _ = None"

fun engine_to :: "engine_tx \<Rightarrow> tx_payload" where
  "engine_to Init = EngineInit"
| "engine_to (SetDefaults defaults) = EngineSetDefaults defaults"
| "engine_to (CreateUser user_id) = EngineCreateUser user_id"
| "engine_to (CreateIdentity user_id identity_id policy encryption signing) =
     EngineCreateIdentity user_id identity_id policy encryption signing"
| "engine_to (DeleteUser user_id) = EngineDeleteUser user_id"
| "engine_to (DeleteIdentity user_id identity_id) = EngineDeleteIdentity user_id identity_id"
| "engine_to (SetDisplayName user_id identity_id name) = EngineSetDisplayName user_id identity_id name"
| "engine_to (UnsetDisplayName user_id identity_id) = EngineUnsetDisplayName user_id identity_id"
| "engine_to (SetProfilePic user_id identity_id profile_pic) =
     EngineSetProfilePic user_id identity_id profile_pic"
| "engine_to (SetDeviceName name) = EngineSetDeviceName name"
| "engine_to (KickDevice device_id) = EngineKickDevice device_id"

definition sync_from :: "tx_payload \<Rightarrow> sync_tx option" where
  "sync_from payload =
     (case engine_from payload of
        Some engine \<Rightarrow> Some (SyEngine engine)
      | None \<Rightarrow> (case payload of Name name \<Rightarrow> Some (SyName name) | _ \<Rightarrow> None))"

fun sync_to :: "sync_tx \<Rightarrow> tx_payload" where
  "sync_to (SyEngine engine) = engine_to engine"
| "sync_to (SyName name) = Name name"

definition durable :: "conversation_id \<Rightarrow> hlc \<Rightarrow> tx_payload \<Rightarrow> durable_body" where
  "durable cid h payload = \<lparr>db_conversation_id = cid, db_hlc = h, db_payload = payload\<rparr>"

text \<open>A row of a log as a durable body, the body stored under an id, and the log with a body added,
  when the payload is legal there.\<close>

definition row_body :: "('t \<Rightarrow> tx_payload) \<Rightarrow> 't tx_row \<Rightarrow> durable_body" where
  "row_body to_payload r = durable (row_conversation_id r) (row_hlc r) (to_payload (row_payload r))"

definition log_get :: "('t \<Rightarrow> tx_payload) \<Rightarrow> 't tx_log \<Rightarrow> tag \<Rightarrow> durable_body option" where
  "log_get to_payload lg i = map_option (row_body to_payload) (bt_get lg i)"

definition tx_row_of :: "conversation_id \<Rightarrow> hlc \<Rightarrow> 't \<Rightarrow> 't tx_row" where
  "tx_row_of cid h payload = \<lparr>row_conversation_id = cid, row_hlc = h, row_payload = payload\<rparr>"

definition log_put :: "(tx_payload \<Rightarrow> 't option) \<Rightarrow> tag \<Rightarrow> durable_body \<Rightarrow> 't tx_log \<Rightarrow> 't tx_log option" where
  "log_put from_payload i b lg =
     map_option (\<lambda>tx. bt_insert i (tx_row_of (db_conversation_id b) (db_hlc b) tx) lg) (from_payload (db_payload b))"

lemma log_get_remove [simp]: "log_get to (bt_remove i lg) j = (if j = i then None else log_get to lg j)"
  by (simp add: log_get_def)

lemma log_get_empty [simp]: "log_get to [] i = None"
  by (simp add: log_get_def)

lemma log_put_ok: "log_put fro i b lg = Some lg' \<Longrightarrow> bt_ok lg \<Longrightarrow> bt_ok lg'"
  by (auto simp: log_put_def)

section \<open>The contract of a transaction type\<close>

text \<open>Writing a stored transaction and reading it back gives it, and reading loses nothing: what the
  row keeps is the payload it was given. A log then returns the body that was inserted.\<close>

locale tx_sort =
  fixes from_payload :: "tx_payload \<Rightarrow> 't option"
    and to_payload :: "'t \<Rightarrow> tx_payload"
  assumes from_to: "from_payload (to_payload t) = Some t"
    and to_from: "from_payload p = Some t \<Longrightarrow> to_payload t = p"
begin

lemma to_payload_inject: "to_payload s = to_payload t \<longleftrightarrow> s = t"
  by (metis from_to option.inject)

lemma from_payload_Some: "from_payload p = Some t \<longleftrightarrow> p = to_payload t"
  using from_to to_from by metis

lemma log_get_put:
  assumes "log_put from_payload i b lg = Some lg'"
  shows "log_get to_payload lg' j = (if j = i then Some b else log_get to_payload lg j)"
  using assms
  by (auto simp: log_put_def log_get_def row_body_def tx_row_of_def from_payload_Some durable_def)

lemma log_put_readable: "log_get to_payload lg j = Some b \<Longrightarrow> \<exists>lg'. log_put from_payload i b lg = Some lg'"
  by (auto simp: log_get_def log_put_def row_body_def durable_def from_to)

end

interpretation dm_handshake: tx_sort dm_handshake_from dm_handshake_to
proof
  show "dm_handshake_from (dm_handshake_to t) = Some t" for t by (cases t) simp_all
  show "dm_handshake_from p = Some t \<Longrightarrow> dm_handshake_to t = p" for p t
    by (cases p rule: dm_handshake_from.cases) auto
qed

interpretation sync_handshake: tx_sort sync_handshake_from sync_handshake_to
proof
  show "sync_handshake_from (sync_handshake_to t) = Some t" for t by (cases t) simp_all
  show "sync_handshake_from p = Some t \<Longrightarrow> sync_handshake_to t = p" for p t
    by (cases p rule: sync_handshake_from.cases) auto
qed

interpretation chat: tx_sort chat_from chat_to
proof
  show "chat_from (chat_to t) = Some t" for t by (cases t) simp_all
  show "chat_from p = Some t \<Longrightarrow> chat_to t = p" for p t by (cases p rule: chat_from.cases) auto
qed

interpretation ratchet: tx_sort ratchet_from ratchet_to
proof
  show "ratchet_from (ratchet_to t) = Some t" for t by (cases t) simp_all
  show "ratchet_from p = Some t \<Longrightarrow> ratchet_to t = p" for p t by (cases p rule: ratchet_from.cases) auto
qed

interpretation group: tx_sort group_from group_to
proof
  show "group_from (group_to t) = Some t" for t by (cases t) simp_all
  show "group_from p = Some t \<Longrightarrow> group_to t = p" for p t by (cases p rule: group_from.cases) auto
qed

interpretation engine: tx_sort engine_from engine_to
proof
  show "engine_from (engine_to t) = Some t" for t by (cases t) simp_all
  show "engine_from p = Some t \<Longrightarrow> engine_to t = p" for p t by (cases p rule: engine_from.cases) auto
qed

text \<open>The composed types try their parts in order, so the parts must not overlap.\<close>

lemma parts_disjoint:
  "chat_from (ratchet_to r) = None" "chat_from (group_to g) = None" "ratchet_from (group_to g) = None"
  by (cases r; simp) (cases g; simp)+

interpretation dm: tx_sort dm_from dm_to
proof
  show "dm_from (dm_to t) = Some t" for t
    by (cases t) (simp_all add: dm_from_def chat.from_to ratchet.from_to parts_disjoint)
  show "dm_from p = Some t \<Longrightarrow> dm_to t = p" for p t
    by (auto simp: dm_from_def chat.to_from ratchet.to_from split: option.splits tx_payload.splits)
qed

interpretation live_group: tx_sort live_group_from live_group_to
proof
  show "live_group_from (live_group_to t) = Some t" for t
    by (cases t) (simp_all add: live_group_from_def chat.from_to ratchet.from_to group.from_to parts_disjoint)
  show "live_group_from p = Some t \<Longrightarrow> live_group_to t = p" for p t
    by (auto simp: live_group_from_def chat.to_from ratchet.to_from group.to_from split: option.splits)
qed

interpretation sync: tx_sort sync_from sync_to
proof
  show "sync_from (sync_to t) = Some t" for t
    by (cases t) (simp_all add: sync_from_def engine.from_to)
  show "sync_from p = Some t \<Longrightarrow> sync_to t = p" for p t
    by (auto simp: sync_from_def engine.to_from split: option.splits tx_payload.splits)
qed

end
