(* ===== verification/Chains.thy ===== *)
theory Chains
  imports Chain Party Row_Log
begin

text \<open>
  The rows of the engine state: the packet chains of a handshake, what an established conversation
  adds (\<open>engine/chains.rs\<close>), and the conversations an identity and a device store (the end of
  \<open>engine/party.rs\<close>). Actors are ordered as the derived \<open>Ord\<close> does, so that maps keyed by them iterate
  in the source's order.
\<close>

fun actor_key :: "actor \<Rightarrow> nat \<times> bytes" where
  "actor_key Handshake = (0, [])"
| "actor_key (Signing pk) = (1, sign_pk_bytes pk)"
| "actor_key (Device i) = (2, as_bytes i)"

lemma actor_key_inject: "actor_key a = actor_key b \<longleftrightarrow> a = b"
proof (cases a; cases b)
  fix p q assume "a = Signing p" "b = Signing q"
  then show ?thesis by (cases p; cases q) simp
qed (auto simp: b32_eq_iff)

instantiation actor :: linorder
begin

definition less_eq_actor :: "actor \<Rightarrow> actor \<Rightarrow> bool" where
  "less_eq_actor a b \<longleftrightarrow>
     fst (actor_key a) < fst (actor_key b) \<or>
     fst (actor_key a) = fst (actor_key b) \<and> snd (actor_key a) \<le> snd (actor_key b)"

definition less_actor :: "actor \<Rightarrow> actor \<Rightarrow> bool" where
  "less_actor a b \<longleftrightarrow>
     fst (actor_key a) < fst (actor_key b) \<or>
     fst (actor_key a) = fst (actor_key b) \<and> snd (actor_key a) < snd (actor_key b)"

instance
proof
  fix a b c :: actor
  show "a < b \<longleftrightarrow> a \<le> b \<and> \<not> b \<le> a" by (auto simp: less_eq_actor_def less_actor_def)
  show "a \<le> a" by (simp add: less_eq_actor_def)
  show "a \<le> b \<Longrightarrow> b \<le> c \<Longrightarrow> a \<le> c" by (auto simp: less_eq_actor_def)
  show "a \<le> b \<Longrightarrow> b \<le> a \<Longrightarrow> a = b"
    by (auto simp: less_eq_actor_def prod_eq_iff simp flip: actor_key_inject)
  show "a \<le> b \<or> b \<le> a" by (auto simp: less_eq_actor_def)
qed

end

section \<open>Chains\<close>

record unused_sk =
  usk_tx_id :: tag
  usk_pk :: encryption_public_key
  usk_sk :: bytes

record known_shared =
  ks_wrap_tx :: tag
  ks_shared :: secret
  ks_ct_hash :: tag
  ks_from_us :: bool
  ks_encaps_pk :: encryption_public_key

record ratchet =
  rt_since :: u64
  rt_minted :: "tag set"
  rt_unused :: "unused_sk list"
  rt_known :: "known_shared list"

datatype heal_probe =
    Half tag tag
  | Want tag tag "tag list"
  | Have tag tag "tag list"

record live_pending =
  lp_set_xor :: tag
  lp_sent_at :: unix_seconds
  lp_bodies :: "bytes list"
  lp_sealed_to :: send_chain
  lp_actor :: actor
  lp_acks :: u8
  lp_needed :: u8

record heal =
  hl_probes :: "heal_probe list"
  hl_sent_at :: "unix_seconds option"
  hl_on_ephemeral :: bool
  hl_fell_back :: bool
  hl_ready :: "bytes list"
  hl_sealed_from :: "send_chain option"
  hl_sealed_to :: "send_chain option"
  hl_needs_reseal :: bool

record typing_note =
  tn_composing :: bool
  tn_at :: unix_seconds

record packet_chains =
  pc_send :: "(actor, send_chain) btree"
  pc_recv :: "(actor, send_chain) btree"
  pc_skipped_mks :: "(actor, cached_mk list) btree"
  pc_last_acks :: "(actor, tag set) btree"
  pc_heal :: heal
  pc_live_until :: "unix_seconds option"
  pc_live_pending :: "live_pending list"

record established_chains =
  ec_packet :: packet_chains
  ec_ratchet :: ratchet
  ec_presence_sent :: bool
  ec_chat_senders :: "(tag, actor) btree"
  ec_typing :: "typing_note option"
  ec_presence_at :: "unix_seconds option"

definition heal_default :: heal where
  "heal_default = \<lparr>hl_probes = [], hl_sent_at = None, hl_on_ephemeral = False, hl_fell_back = False,
     hl_ready = [], hl_sealed_from = None, hl_sealed_to = None, hl_needs_reseal = False\<rparr>"

definition packet_chains_default :: packet_chains where
  "packet_chains_default = \<lparr>pc_send = [], pc_recv = [], pc_skipped_mks = [], pc_last_acks = [],
     pc_heal = heal_default, pc_live_until = None, pc_live_pending = []\<rparr>"

definition ratchet_default :: ratchet where
  "ratchet_default = \<lparr>rt_since = 0, rt_minted = {}, rt_unused = [], rt_known = []\<rparr>"

definition established_chains_default :: established_chains where
  "established_chains_default = \<lparr>ec_packet = packet_chains_default, ec_ratchet = ratchet_default,
     ec_presence_sent = False, ec_chat_senders = [], ec_typing = None, ec_presence_at = None\<rparr>"

section \<open>Conversations\<close>

record group_pending =
  gpe_signing_pk :: signing_public_key
  gpe_encryption_pk :: encryption_public_key
  gpe_from_conversation_id :: conversation_id
  gpe_name :: display_name
  gpe_photo :: "profile_pic option"

record group_offer =
  gof_secret :: secret
  gof_name :: display_name
  gof_photo :: "profile_pic option"
  gof_owner_signing_pk :: signing_public_key
  gof_from_conversation_id :: conversation_id

record group_live =
  gl_secret :: secret
  gl_name :: display_name
  gl_photo :: "profile_pic option"
  gl_owner_signing_pk :: signing_public_key
  gl_persistents :: "durable_channel list"
  gl_ephemerals :: "ephemeral_channel list"
  gl_members :: "group_member list"
  gl_pending :: "group_pending list"
  gl_epoch :: u64
  gl_log :: "live_group_tx tx_log"
  gl_chains :: established_chains

datatype group_end = OfferRejected | Kicked | Left

datatype group_phase = Live group_live | Offer group_offer | GroupFailed group_end

datatype identity_conversation =
    DmHandshakeRow party "dm_handshake_tx tx_log" packet_chains
  | DirectMessageRow secret conversation_id "dm_tx tx_log" established_chains
  | GroupRow group_phase

datatype device_conversation =
    SyncHandshakeRow party "sync_handshake_tx tx_log" packet_chains
  | SynchronizationRow secret conversation_id device_id "sync_tx tx_log" established_chains

end
