(* ===== verification/State.thy ===== *)
theory State
  imports Chains Reassembly
begin

text \<open>
  The engine state (\<open>engine/state.rs\<close>): users with their identities and conversations, this device
  with its sync conversations, the vault log, the index of where each transaction is stored, and the
  outstanding writes. A reader that walks \<open>users.values()\<close> and then the identities is a search in key
  order; an accessor that returns a mutable reference takes the change to make and returns the new
  state, or \<open>None\<close> where the source returns \<open>None\<close>. Maps that are only looked up by key are HOL maps.
\<close>

record bin_key =
  bk_channel :: durable_channel
  bk_tag_key :: tag_key

record bin_progress =
  bp_channel :: durable_channel
  bp_tag_key :: tag_key
  bp_watermark :: "time_bin option"
  bp_completed :: "time_bin set"

record durable_write =
  dw_channel :: durable_channel
  dw_tag :: tag
  dw_body :: bytes

record ephemeral_write =
  ew_channel :: ephemeral_channel
  ew_tag :: tag
  ew_body :: bytes

record blob_put =
  blp_kind :: kind
  blp_address :: address
  blp_tag :: tag
  blp_body :: bytes

record identity =
  idn_name :: "display_name option"
  idn_pic :: "profile_pic option"
  idn_conversations :: "(conversation_id, identity_conversation) btree"

record user =
  usr_identities :: "(identity_id, identity) btree"

record device_keys =
  dk_id :: device_id
  dk_enc :: key_pair
  dk_sign :: signing_key_pair

record device =
  dev_name :: "display_name option"
  dev_keys :: "device_keys option"
  dev_conversations :: "(conversation_id, device_conversation) btree"
  dev_dek_ct :: "bytes option"
  dev_kicked :: "device_id list"

datatype spawn_peer = SpawnDirect | SpawnSync device_id

datatype conversation_scope = ScopeIdentity user_id identity_id | ScopeDevice

datatype tx_place =
    PlaceEngine
  | PlaceIdentity user_id identity_id conversation_id
  | PlaceDevice conversation_id

record engine_state =
  es_engine_log :: "engine_tx tx_log"
  es_tx_place :: "(tag, tx_place) btree"
  es_next_seq :: persist_seq
  es_ticked :: "unix_seconds option"
  es_writes :: "durable_write list"
  es_eph_writes :: "ephemeral_write list"
  es_blob_puts :: "blob_put list"
  es_frags :: frags
  es_bin_progress :: "bin_key \<rightharpoonup> bin_progress"
  es_persist_log :: "(persist_seq, tag) btree"
  es_users :: "(user_id, user) btree"
  es_device :: device

definition identity_default :: identity where
  "identity_default = \<lparr>idn_name = None, idn_pic = None, idn_conversations = []\<rparr>"

definition user_default :: user where
  "user_default = \<lparr>usr_identities = []\<rparr>"

definition device_default :: device where
  "device_default = \<lparr>dev_name = None, dev_keys = None, dev_conversations = [], dev_dek_ct = None,
     dev_kicked = []\<rparr>"

definition state_new :: engine_state where
  "state_new = \<lparr>es_engine_log = [], es_tx_place = [], es_next_seq = 0, es_ticked = None,
     es_writes = [], es_eph_writes = [], es_blob_puts = [], es_frags = Map.empty,
     es_bin_progress = Map.empty, es_persist_log = [], es_users = [], es_device = device_default\<rparr>"

section \<open>Searching and changing rows\<close>

text \<open>\<open>find_map\<close> over the entries of a map, and the first entry that a change applies to.\<close>

fun find_map :: "('a \<Rightarrow> 'b option) \<Rightarrow> 'a list \<Rightarrow> 'b option" where
  "find_map f [] = None"
| "find_map f (x # xs) = (case f x of Some y \<Rightarrow> Some y | None \<Rightarrow> find_map f xs)"

fun update_first :: "('v \<Rightarrow> 'v option) \<Rightarrow> ('k, 'v) btree \<Rightarrow> ('k, 'v) btree option" where
  "update_first f [] = None"
| "update_first f ((k, v) # m) =
     (case f v of
        Some v' \<Rightarrow> Some ((k, v') # m)
      | None \<Rightarrow> map_option ((#) (k, v)) (update_first f m))"

definition update_at :: "'k \<Rightarrow> ('v \<Rightarrow> 'v option) \<Rightarrow> ('k, 'v) btree \<Rightarrow> ('k, 'v) btree option" where
  "update_at k f m = do {
     v \<leftarrow> bt_get m k;
     v' \<leftarrow> f v;
     Some (bt_update k (\<lambda>_. v') m)
   }"

text \<open>The identities of all users, in the order of the nested loops.\<close>

definition identities :: "engine_state \<Rightarrow> ((user_id \<times> identity_id) \<times> identity) list" where
  "identities st =
     concat (map (\<lambda>(u, usr). map (\<lambda>(i, ident). ((u, i), ident)) (usr_identities usr)) (es_users st))"

text \<open>The first identity whose conversation \<open>cid\<close> admits a change, and the device's conversation.\<close>

definition identity_row_mut ::
  "(identity_conversation \<Rightarrow> identity_conversation option) \<Rightarrow> conversation_id \<Rightarrow> engine_state \<Rightarrow>
     engine_state option" where
  "identity_row_mut f cid st = do {
     users \<leftarrow> update_first (\<lambda>usr. do {
       ids \<leftarrow> update_first (\<lambda>ident. do {
         convs \<leftarrow> update_at cid f (idn_conversations ident);
         Some (ident\<lparr>idn_conversations := convs\<rparr>)
       }) (usr_identities usr);
       Some (usr\<lparr>usr_identities := ids\<rparr>)
     }) (es_users st);
     Some (st\<lparr>es_users := users\<rparr>)
   }"

definition device_row_mut ::
  "(device_conversation \<Rightarrow> device_conversation option) \<Rightarrow> conversation_id \<Rightarrow> engine_state \<Rightarrow>
     engine_state option" where
  "device_row_mut f cid st = do {
     convs \<leftarrow> update_at cid f (dev_conversations (es_device st));
     Some (st\<lparr>es_device := (es_device st)\<lparr>dev_conversations := convs\<rparr>\<rparr>)
   }"

definition or_else :: "'a option \<Rightarrow> 'a option \<Rightarrow> 'a option" where
  "or_else x y = (case x of Some a \<Rightarrow> Some a | None \<Rightarrow> y)"

section \<open>Rows\<close>

fun packet_of_identity :: "identity_conversation \<Rightarrow> packet_chains option" where
  "packet_of_identity (DmHandshakeRow _ _ ch) = Some ch"
| "packet_of_identity (DirectMessageRow _ _ _ ch) = Some (ec_packet ch)"
| "packet_of_identity (GroupRow (Live live)) = Some (ec_packet (gl_chains live))"
| "packet_of_identity (GroupRow _) = None"

fun packet_mut_of_identity ::
  "(packet_chains \<Rightarrow> packet_chains) \<Rightarrow> identity_conversation \<Rightarrow> identity_conversation option" where
  "packet_mut_of_identity f (DmHandshakeRow p lg ch) = Some (DmHandshakeRow p lg (f ch))"
| "packet_mut_of_identity f (DirectMessageRow s par lg ch) =
     Some (DirectMessageRow s par lg (ch\<lparr>ec_packet := f (ec_packet ch)\<rparr>))"
| "packet_mut_of_identity f (GroupRow (Live live)) =
     Some (GroupRow (Live (live\<lparr>gl_chains := (gl_chains live)\<lparr>ec_packet := f (ec_packet (gl_chains live))\<rparr>\<rparr>)))"
| "packet_mut_of_identity f (GroupRow _) = None"

fun established_of_identity :: "identity_conversation \<Rightarrow> established_chains option" where
  "established_of_identity (DirectMessageRow _ _ _ ch) = Some ch"
| "established_of_identity (GroupRow (Live live)) = Some (gl_chains live)"
| "established_of_identity _ = None"

fun established_mut_of_identity ::
  "(established_chains \<Rightarrow> established_chains) \<Rightarrow> identity_conversation \<Rightarrow> identity_conversation option" where
  "established_mut_of_identity f (DirectMessageRow s par lg ch) =
     Some (DirectMessageRow s par lg (f ch))"
| "established_mut_of_identity f (GroupRow (Live live)) =
     Some (GroupRow (Live (live\<lparr>gl_chains := f (gl_chains live)\<rparr>)))"
| "established_mut_of_identity f _ = None"

fun packet_of_device :: "device_conversation \<Rightarrow> packet_chains option" where
  "packet_of_device (SyncHandshakeRow _ _ ch) = Some ch"
| "packet_of_device (SynchronizationRow _ _ _ _ ch) = Some (ec_packet ch)"

fun packet_mut_of_device ::
  "(packet_chains \<Rightarrow> packet_chains) \<Rightarrow> device_conversation \<Rightarrow> device_conversation option" where
  "packet_mut_of_device f (SyncHandshakeRow p lg ch) = Some (SyncHandshakeRow p lg (f ch))"
| "packet_mut_of_device f (SynchronizationRow s par peer lg ch) =
     Some (SynchronizationRow s par peer lg (ch\<lparr>ec_packet := f (ec_packet ch)\<rparr>))"

fun established_of_device :: "device_conversation \<Rightarrow> established_chains option" where
  "established_of_device (SynchronizationRow _ _ _ _ ch) = Some ch"
| "established_of_device (SyncHandshakeRow _ _ _) = None"

fun established_mut_of_device ::
  "(established_chains \<Rightarrow> established_chains) \<Rightarrow> device_conversation \<Rightarrow> device_conversation option" where
  "established_mut_of_device f (SynchronizationRow s par peer lg ch) =
     Some (SynchronizationRow s par peer lg (f ch))"
| "established_mut_of_device f (SyncHandshakeRow _ _ _) = None"

fun party_of_identity :: "identity_conversation \<Rightarrow> party option" where
  "party_of_identity (DmHandshakeRow p _ _) = Some p"
| "party_of_identity _ = None"

fun party_of_device :: "device_conversation \<Rightarrow> party option" where
  "party_of_device (SyncHandshakeRow p _ _) = Some p"
| "party_of_device _ = None"

fun party_mut_of_identity :: "(party \<Rightarrow> party) \<Rightarrow> identity_conversation \<Rightarrow> identity_conversation option" where
  "party_mut_of_identity f (DmHandshakeRow p lg ch) = Some (DmHandshakeRow (f p) lg ch)"
| "party_mut_of_identity f _ = None"

fun party_mut_of_device :: "(party \<Rightarrow> party) \<Rightarrow> device_conversation \<Rightarrow> device_conversation option" where
  "party_mut_of_device f (SyncHandshakeRow p lg ch) = Some (SyncHandshakeRow (f p) lg ch)"
| "party_mut_of_device f _ = None"

section \<open>Accessors\<close>

definition dev_convs :: "engine_state \<Rightarrow> (conversation_id, device_conversation) btree" where
  "dev_convs st = dev_conversations (es_device st)"

text \<open>The first identity that has a conversation \<open>cid\<close>, whatever it is.\<close>

definition first_row :: "engine_state \<Rightarrow> conversation_id \<Rightarrow> identity_conversation option" where
  "first_row st cid = find_map (\<lambda>(_, ident). bt_get (idn_conversations ident) cid) (identities st)"

definition packet_of :: "engine_state \<Rightarrow> conversation_id \<Rightarrow> packet_chains option" where
  "packet_of st cid =
     (case first_row st cid of
        Some node \<Rightarrow> packet_of_identity node
      | None \<Rightarrow> Option.bind (bt_get (dev_convs st) cid) packet_of_device)"

definition packet_mut_of ::
  "(packet_chains \<Rightarrow> packet_chains) \<Rightarrow> conversation_id \<Rightarrow> engine_state \<Rightarrow> engine_state option" where
  "packet_mut_of f cid st =
     or_else (identity_row_mut (packet_mut_of_identity f) cid st)
       (device_row_mut (packet_mut_of_device f) cid st)"

definition established_of :: "engine_state \<Rightarrow> conversation_id \<Rightarrow> established_chains option" where
  "established_of st cid =
     (case first_row st cid of
        Some node \<Rightarrow> established_of_identity node
      | None \<Rightarrow> Option.bind (bt_get (dev_convs st) cid) established_of_device)"

definition established_mut_of ::
  "(established_chains \<Rightarrow> established_chains) \<Rightarrow> conversation_id \<Rightarrow> engine_state \<Rightarrow> engine_state option" where
  "established_mut_of f cid st =
     or_else (identity_row_mut (established_mut_of_identity f) cid st)
       (device_row_mut (established_mut_of_device f) cid st)"

definition chains_of :: "engine_state \<Rightarrow> conversation_id \<Rightarrow> packet_chains option" where
  "chains_of st cid = packet_of st cid"

definition chains_mut ::
  "(packet_chains \<Rightarrow> packet_chains) \<Rightarrow> conversation_id \<Rightarrow> engine_state \<Rightarrow> engine_state option" where
  "chains_mut f cid st = packet_mut_of f cid st"

text \<open>\<open>if let Some(chains) = state.chains_mut(cid)\<close> and nothing otherwise.\<close>

definition with_chains ::
  "(packet_chains \<Rightarrow> packet_chains) \<Rightarrow> conversation_id \<Rightarrow> engine_state \<Rightarrow> engine_state" where
  "with_chains f cid st = (case chains_mut f cid st of Some st' \<Rightarrow> st' | None \<Rightarrow> st)"

definition for_each_chains :: "engine_state \<Rightarrow> (conversation_id \<times> packet_chains) list" where
  "for_each_chains st =
     concat (map (\<lambda>(_, ident). List.map_filter (\<lambda>(cid, node). map_option (Pair cid) (packet_of_identity node))
       (idn_conversations ident)) (identities st)) @
     List.map_filter (\<lambda>(cid, node). map_option (Pair cid) (packet_of_device node)) (dev_convs st)"

definition dm_party :: "engine_state \<Rightarrow> conversation_id \<Rightarrow> party option" where
  "dm_party st cid =
     find_map (\<lambda>(_, ident). Option.bind (bt_get (idn_conversations ident) cid) party_of_identity) (identities st)"

definition sync_party :: "engine_state \<Rightarrow> conversation_id \<Rightarrow> party option" where
  "sync_party st cid = Option.bind (bt_get (dev_convs st) cid) party_of_device"

definition party :: "engine_state \<Rightarrow> conversation_id \<Rightarrow> party_ref option" where
  "party st cid =
     (case dm_party st cid of
        Some p \<Rightarrow> Some (Dm p)
      | None \<Rightarrow> map_option Sync (sync_party st cid))"

definition party_mut ::
  "(party \<Rightarrow> party) \<Rightarrow> conversation_id \<Rightarrow> engine_state \<Rightarrow> engine_state option" where
  "party_mut f cid st =
     or_else (identity_row_mut (party_mut_of_identity f) cid st)
       (device_row_mut (party_mut_of_device f) cid st)"

definition ticket_of :: "engine_state \<Rightarrow> conversation_id \<Rightarrow> ticket option" where
  "ticket_of st cid =
     (case dm_party st cid of
        Some p \<Rightarrow> Some (party_ticket p)
      | None \<Rightarrow> map_option party_ticket (sync_party st cid))"

definition is_sync :: "engine_state \<Rightarrow> conversation_id \<Rightarrow> bool" where
  "is_sync st cid = bt_contains (dev_convs st) cid"

definition state_fail :: "conversation_id \<Rightarrow> handshake_failure \<Rightarrow> engine_state \<Rightarrow> engine_state" where
  "state_fail cid reason st = (case party_mut (party_fail reason) cid st of Some st' \<Rightarrow> st' | None \<Rightarrow> st)"

definition state_ack_posted :: "conversation_id \<Rightarrow> engine_state \<Rightarrow> engine_state" where
  "state_ack_posted cid st = (case party_mut party_ack_posted cid st of Some st' \<Rightarrow> st' | None \<Rightarrow> st)"

section \<open>Creating rows\<close>

definition ensure_user :: "user_id \<Rightarrow> engine_state \<Rightarrow> engine_state" where
  "ensure_user u st =
     (if bt_contains (es_users st) u then st
      else st\<lparr>es_users := bt_insert u user_default (es_users st)\<rparr>)"

definition ensure_identity :: "user_id \<Rightarrow> identity_id \<Rightarrow> engine_state \<Rightarrow> engine_state" where
  "ensure_identity u i st =
     (let st = ensure_user u st in
      st\<lparr>es_users := bt_update u (\<lambda>usr.
        if bt_contains (usr_identities usr) i then usr
        else usr\<lparr>usr_identities := bt_insert i identity_default (usr_identities usr)\<rparr>) (es_users st)\<rparr>)"

definition identity_at :: "engine_state \<Rightarrow> user_id \<Rightarrow> identity_id \<Rightarrow> identity option" where
  "identity_at st u i = Option.bind (bt_get (es_users st) u) (\<lambda>usr. bt_get (usr_identities usr) i)"

definition identity_mut ::
  "(identity \<Rightarrow> identity) \<Rightarrow> user_id \<Rightarrow> identity_id \<Rightarrow> engine_state \<Rightarrow> engine_state" where
  "identity_mut f u i st =
     st\<lparr>es_users := bt_update u (\<lambda>usr. usr\<lparr>usr_identities := bt_update i f (usr_identities usr)\<rparr>) (es_users st)\<rparr>"

definition dm_handshake_node :: "party \<Rightarrow> identity_conversation" where
  "dm_handshake_node p = DmHandshakeRow p [] packet_chains_default"

definition direct_node :: "secret \<Rightarrow> conversation_id \<Rightarrow> identity_conversation" where
  "direct_node s parent = DirectMessageRow s parent [] established_chains_default"

definition sync_handshake_node :: "party \<Rightarrow> device_conversation" where
  "sync_handshake_node p = SyncHandshakeRow p [] packet_chains_default"

definition sync_node :: "secret \<Rightarrow> conversation_id \<Rightarrow> device_id \<Rightarrow> device_conversation" where
  "sync_node s parent peer = SynchronizationRow s parent peer [] established_chains_default"

definition put_dm ::
  "user_id \<Rightarrow> identity_id \<Rightarrow> conversation_id \<Rightarrow> identity_conversation \<Rightarrow> engine_state \<Rightarrow> engine_state" where
  "put_dm u i cid node st =
     identity_mut (\<lambda>ident. ident\<lparr>idn_conversations := bt_insert cid node (idn_conversations ident)\<rparr>) u i
       (ensure_identity u i st)"

definition put_sync :: "conversation_id \<Rightarrow> device_conversation \<Rightarrow> engine_state \<Rightarrow> engine_state" where
  "put_sync cid node st =
     st\<lparr>es_device := (es_device st)\<lparr>dev_conversations := bt_insert cid node (dev_convs st)\<rparr>\<rparr>"

definition put_dm_inviter ::
  "user_id \<Rightarrow> identity_id \<Rightarrow> conversation_id \<Rightarrow> inviter_phase \<Rightarrow> engine_state \<Rightarrow> engine_state" where
  "put_dm_inviter u i cid phase = put_dm u i cid (dm_handshake_node (Inviter phase))"

definition put_dm_invitee ::
  "user_id \<Rightarrow> identity_id \<Rightarrow> conversation_id \<Rightarrow> invitee_phase \<Rightarrow> engine_state \<Rightarrow> engine_state" where
  "put_dm_invitee u i cid phase = put_dm u i cid (dm_handshake_node (Invitee phase))"

definition put_sync_inviter :: "conversation_id \<Rightarrow> inviter_phase \<Rightarrow> engine_state \<Rightarrow> engine_state" where
  "put_sync_inviter cid phase = put_sync cid (sync_handshake_node (Inviter phase))"

definition put_sync_invitee :: "conversation_id \<Rightarrow> invitee_phase \<Rightarrow> engine_state \<Rightarrow> engine_state" where
  "put_sync_invitee cid phase = put_sync cid (sync_handshake_node (Invitee phase))"

section \<open>Questions about rows\<close>

definition display_name_of :: "engine_state \<Rightarrow> identity_id \<Rightarrow> display_name option" where
  "display_name_of st i = find_map (\<lambda>(_, usr). Option.bind (bt_get (usr_identities usr) i) idn_name) (es_users st)"

definition profile_pic_of :: "engine_state \<Rightarrow> identity_id \<Rightarrow> profile_pic option" where
  "profile_pic_of st i = find_map (\<lambda>(_, usr). Option.bind (bt_get (usr_identities usr) i) idn_pic) (es_users st)"

definition scope_of :: "engine_state \<Rightarrow> conversation_id \<Rightarrow> conversation_scope option" where
  "scope_of st cid =
     (case find_map (\<lambda>((u, i), ident).
        then_some (bt_contains (idn_conversations ident) cid) (ScopeIdentity u i)) (identities st) of
        Some s \<Rightarrow> Some s
      | None \<Rightarrow> then_some (bt_contains (dev_convs st) cid) ScopeDevice)"

definition owner :: "engine_state \<Rightarrow> conversation_id \<Rightarrow> (user_id \<times> identity_id) option" where
  "owner st cid =
     (case scope_of st cid of Some (ScopeIdentity u i) \<Rightarrow> Some (u, i) | _ \<Rightarrow> None)"

definition intake_secret :: "engine_state \<Rightarrow> conversation_id \<Rightarrow> bytes option" where
  "intake_secret st cid =
     Option.bind (party st cid) (\<lambda>p. map_option kp_secret (party_intake (ref_party p)))"

definition list_from_of :: "engine_state \<Rightarrow> conversation_id \<Rightarrow> time_bin option" where
  "list_from_of st cid = map_option (party_list_from \<circ> ref_party) (party st cid)"

definition is_inviter_at :: "engine_state \<Rightarrow> conversation_id \<Rightarrow> bool" where
  "is_inviter_at st cid = (case party st cid of Some p \<Rightarrow> is_inviter (ref_party p) | None \<Rightarrow> False)"

definition failed :: "engine_state \<Rightarrow> conversation_id \<Rightarrow> handshake_failure option" where
  "failed st cid = Option.bind (party st cid) (\<lambda>p. party_failure (ref_party p))"

fun sort_of_device :: "device_conversation \<Rightarrow> conversation_sort" where
  "sort_of_device (SyncHandshakeRow _ _ _) = HandshakeSync"
| "sort_of_device (SynchronizationRow _ _ _ _ _) = Synchronization"

fun sort_of_identity :: "identity_conversation \<Rightarrow> conversation_sort" where
  "sort_of_identity (DmHandshakeRow _ _ _) = HandshakeDm"
| "sort_of_identity (DirectMessageRow _ _ _ _) = DirectMessage"
| "sort_of_identity (GroupRow _) = Group"

definition sort_of :: "engine_state \<Rightarrow> conversation_id \<Rightarrow> conversation_sort option" where
  "sort_of st cid =
     (case bt_get (dev_convs st) cid of
        Some node \<Rightarrow> Some (sort_of_device node)
      | None \<Rightarrow> map_option sort_of_identity (first_row st cid))"

definition has_sync_handshake :: "engine_state \<Rightarrow> bool" where
  "has_sync_handshake st \<longleftrightarrow> list_ex (\<lambda>(_, n). sort_of_device n = HandshakeSync) (dev_convs st)"

fun secret_of_identity :: "identity_conversation \<Rightarrow> secret option" where
  "secret_of_identity (DirectMessageRow s _ _ _) = Some s"
| "secret_of_identity (GroupRow (Live live)) = Some (gl_secret live)"
| "secret_of_identity _ = None"

fun secret_of_device :: "device_conversation \<Rightarrow> secret option" where
  "secret_of_device (SynchronizationRow s _ _ _ _) = Some s"
| "secret_of_device _ = None"

definition established_secret :: "engine_state \<Rightarrow> conversation_id \<Rightarrow> secret option" where
  "established_secret st cid =
     or_else (find_map (\<lambda>(_, ident). Option.bind (bt_get (idn_conversations ident) cid) secret_of_identity) (identities st))
       (Option.bind (bt_get (dev_convs st) cid) secret_of_device)"

fun parent_of_identity :: "identity_conversation \<Rightarrow> conversation_id option" where
  "parent_of_identity (DirectMessageRow _ parent _ _) = Some parent"
| "parent_of_identity _ = None"

fun parent_of_device :: "device_conversation \<Rightarrow> conversation_id option" where
  "parent_of_device (SynchronizationRow _ parent _ _ _) = Some parent"
| "parent_of_device _ = None"

definition child_of :: "engine_state \<Rightarrow> conversation_id \<Rightarrow> conversation_id option" where
  "child_of st h =
     or_else
       (find_map (\<lambda>(_, ident). find_map (\<lambda>(cid, node). then_some (parent_of_identity node = Some h) cid)
          (idn_conversations ident)) (identities st))
       (find_map (\<lambda>(cid, node). then_some (parent_of_device node = Some h) cid) (dev_convs st))"

definition established_parent :: "engine_state \<Rightarrow> conversation_id \<Rightarrow> conversation_id option" where
  "established_parent st cid =
     or_else (find_map (\<lambda>(_, ident). Option.bind (bt_get (idn_conversations ident) cid) parent_of_identity) (identities st))
       (Option.bind (bt_get (dev_convs st) cid) parent_of_device)"

definition spawn_established ::
  "conversation_id \<Rightarrow> conversation_id \<Rightarrow> secret \<Rightarrow> spawn_peer \<Rightarrow> engine_state \<Rightarrow> engine_state" where
  "spawn_established h child s peer st =
     (if child_of st h \<noteq> None then st
      else
        (case (scope_of st h, peer) of
           (Some (ScopeIdentity u i), SpawnDirect) \<Rightarrow> put_dm u i child (direct_node s h) st
         | (Some ScopeDevice, SpawnSync p) \<Rightarrow> put_sync child (sync_node s h p) st
         | _ \<Rightarrow> st))"

record handshake_entry =
  he_cid :: conversation_id
  he_party :: party_ref
  he_sort :: conversation_sort

definition handshake_entries :: "engine_state \<Rightarrow> handshake_entry list" where
  "handshake_entries st =
     concat (map (\<lambda>(_, ident). List.map_filter (\<lambda>(cid, node). map_option (\<lambda>p.
        \<lparr>he_cid = cid, he_party = Dm p, he_sort = HandshakeDm\<rparr>) (party_of_identity node))
          (idn_conversations ident)) (identities st)) @
     List.map_filter (\<lambda>(cid, node). map_option (\<lambda>p.
        \<lparr>he_cid = cid, he_party = Sync p, he_sort = HandshakeSync\<rparr>) (party_of_device node)) (dev_convs st)"

definition conversation_ids_for :: "engine_state \<Rightarrow> user_id \<Rightarrow> identity_id \<Rightarrow> conversation_id list" where
  "conversation_ids_for st u i =
     (case identity_at st u i of Some ident \<Rightarrow> bt_keys (idn_conversations ident) | None \<Rightarrow> []) @
     bt_keys (dev_convs st)"

section \<open>Moving and dropping rows\<close>

definition map_identities :: "(identity \<Rightarrow> identity) \<Rightarrow> engine_state \<Rightarrow> engine_state" where
  "map_identities f st =
     st\<lparr>es_users := bt_map (\<lambda>usr. usr\<lparr>usr_identities := bt_map f (usr_identities usr)\<rparr>) (es_users st)\<rparr>"

definition each_chains_mut :: "(packet_chains \<Rightarrow> packet_chains) \<Rightarrow> engine_state \<Rightarrow> engine_state" where
  "each_chains_mut f st =
     (let st = map_identities (\<lambda>ident. ident\<lparr>idn_conversations := bt_map (\<lambda>node.
            case packet_mut_of_identity f node of Some n \<Rightarrow> n | None \<Rightarrow> node) (idn_conversations ident)\<rparr>) st
      in st\<lparr>es_device := (es_device st)\<lparr>dev_conversations := bt_map (\<lambda>node.
            case packet_mut_of_device f node of Some n \<Rightarrow> n | None \<Rightarrow> node) (dev_convs st)\<rparr>\<rparr>)"

definition rekey_map ::
  "conversation_id \<Rightarrow> conversation_id \<Rightarrow> (conversation_id, 'v) btree \<Rightarrow> (conversation_id, 'v) btree" where
  "rekey_map frm to m =
     (case bt_get m frm of Some v \<Rightarrow> bt_insert to v (bt_remove frm m) | None \<Rightarrow> m)"

fun reparent_identity :: "conversation_id \<Rightarrow> conversation_id \<Rightarrow> identity_conversation \<Rightarrow> identity_conversation" where
  "reparent_identity frm to (DirectMessageRow s parent lg ch) =
     DirectMessageRow s (if parent = frm then to else parent) lg ch"
| "reparent_identity frm to node = node"

fun reparent_device :: "conversation_id \<Rightarrow> conversation_id \<Rightarrow> device_conversation \<Rightarrow> device_conversation" where
  "reparent_device frm to (SynchronizationRow s parent peer lg ch) =
     SynchronizationRow s (if parent = frm then to else parent) peer lg ch"
| "reparent_device frm to node = node"

definition rekey_row :: "conversation_id \<Rightarrow> conversation_id \<Rightarrow> engine_state \<Rightarrow> engine_state" where
  "rekey_row frm to st =
     (let st = map_identities (\<lambda>ident. ident\<lparr>idn_conversations :=
            bt_map (reparent_identity frm to) (rekey_map frm to (idn_conversations ident))\<rparr>) st
      in st\<lparr>es_device := (es_device st)\<lparr>dev_conversations :=
            bt_map (reparent_device frm to) (rekey_map frm to (dev_convs st))\<rparr>\<rparr>)"

definition rekey_cid :: "conversation_id \<Rightarrow> conversation_id \<Rightarrow> conversation_id \<Rightarrow> conversation_id" where
  "rekey_cid cid frm to = (if cid = frm then to else cid)"

definition rekey_conversation :: "conversation_id \<Rightarrow> conversation_id \<Rightarrow> engine_state \<Rightarrow> engine_state" where
  "rekey_conversation frm to st =
     (let st = rekey_row frm to st in
      st\<lparr>es_frags := (\<lambda>t. map_option (\<lambda>f. f\<lparr>fs_conversation_id := rekey_cid (fs_conversation_id f) frm to\<rparr>)
        (es_frags st t))\<rparr>)"

definition drop_conversation :: "conversation_id \<Rightarrow> engine_state \<Rightarrow> bool \<times> engine_state" where
  "drop_conversation cid st =
     (let dropped = update_first (\<lambda>usr. do {
            ids \<leftarrow> update_first (\<lambda>ident.
              then_some (bt_contains (idn_conversations ident) cid)
                (ident\<lparr>idn_conversations := bt_remove cid (idn_conversations ident)\<rparr>)) (usr_identities usr);
            Some (usr\<lparr>usr_identities := ids\<rparr>)
          }) (es_users st);
          users = (case dropped of Some m \<Rightarrow> m | None \<Rightarrow> es_users st);
          dev = bt_contains (dev_convs st) cid
      in (dropped \<noteq> None \<or> dev,
          st\<lparr>es_users := users,
             es_device := (es_device st)\<lparr>dev_conversations := bt_remove cid (dev_convs st)\<rparr>\<rparr>))"

end
