(* ===== verification/Tx_Store.thy ===== *)
theory Tx_Store
  imports State
begin

text \<open>
  The transaction store of the engine state (the second half of \<open>engine/state.rs\<close>): each conversation
  keeps the transactions legal for its phase, vault transactions have a log of their own, and
  \<open>tx_place\<close> says where a transaction is. The store is shown to be one finite map from transaction
  ids to bodies, whatever the rows they are spread over.
\<close>

section \<open>Reading\<close>

fun identity_body :: "identity_conversation \<Rightarrow> tag \<Rightarrow> durable_body option" where
  "identity_body (DmHandshakeRow _ lg _) i = log_get dm_handshake_to lg i"
| "identity_body (DirectMessageRow _ _ lg _) i = log_get dm_to lg i"
| "identity_body (GroupRow (Live live)) i = log_get live_group_to (gl_log live) i"
| "identity_body (GroupRow _) i = None"

fun device_body :: "device_conversation \<Rightarrow> tag \<Rightarrow> durable_body option" where
  "device_body (SyncHandshakeRow _ lg _) i = log_get sync_handshake_to lg i"
| "device_body (SynchronizationRow _ _ _ lg _) i = log_get sync_to lg i"

definition identity_row :: "engine_state \<Rightarrow> user_id \<Rightarrow> identity_id \<Rightarrow> conversation_id \<Rightarrow> identity_conversation option" where
  "identity_row st u i cid = Option.bind (identity_at st u i) (\<lambda>ident. bt_get (idn_conversations ident) cid)"

fun body_at :: "engine_state \<Rightarrow> tag \<Rightarrow> tx_place \<Rightarrow> durable_body option" where
  "body_at st t PlaceEngine = log_get engine_to (es_engine_log st) t"
| "body_at st t (PlaceIdentity u i cid) =
     Option.bind (identity_row st u i cid) (\<lambda>node. identity_body node t)"
| "body_at st t (PlaceDevice cid) = Option.bind (bt_get (dev_convs st) cid) (\<lambda>node. device_body node t)"

definition body :: "engine_state \<Rightarrow> tag \<Rightarrow> durable_body option" where
  "body st t = Option.bind (bt_get (es_tx_place st) t) (body_at st t)"

text \<open>\<open>body_pairs\<close> inserts every row of every log into one map, in the order of the loops.\<close>

definition push_log ::
  "('t \<Rightarrow> tx_payload) \<Rightarrow> 't tx_log \<Rightarrow> (tag, durable_body) btree \<Rightarrow> (tag, durable_body) btree" where
  "push_log to_payload lg out = foldl (\<lambda>out (i, r). bt_insert i (row_body to_payload r) out) out lg"

fun push_identity ::
  "identity_conversation \<Rightarrow> (tag, durable_body) btree \<Rightarrow> (tag, durable_body) btree" where
  "push_identity (DmHandshakeRow _ lg _) out = push_log dm_handshake_to lg out"
| "push_identity (DirectMessageRow _ _ lg _) out = push_log dm_to lg out"
| "push_identity (GroupRow (Live live)) out = push_log live_group_to (gl_log live) out"
| "push_identity (GroupRow _) out = out"

fun push_device :: "device_conversation \<Rightarrow> (tag, durable_body) btree \<Rightarrow> (tag, durable_body) btree" where
  "push_device (SyncHandshakeRow _ lg _) out = push_log sync_handshake_to lg out"
| "push_device (SynchronizationRow _ _ _ lg _) out = push_log sync_to lg out"

definition body_pairs :: "engine_state \<Rightarrow> (tag, durable_body) btree" where
  "body_pairs st =
     (let out = push_log engine_to (es_engine_log st) [];
          out = foldl (\<lambda>out (_, ident). foldl (\<lambda>out (_, node). push_identity node out) out (idn_conversations ident))
            out (identities st)
      in foldl (\<lambda>out (_, node). push_device node out) out (dev_convs st))"

definition bodies :: "engine_state \<Rightarrow> durable_body list" where
  "bodies st = map snd (body_pairs st)"

definition tx_count :: "engine_state \<Rightarrow> nat" where
  "tx_count st = length (body_pairs st)"

section \<open>Changing\<close>

definition place_of :: "engine_state \<Rightarrow> conversation_id \<Rightarrow> tx_place option" where
  "place_of st cid =
     (case find_map (\<lambda>((u, i), ident).
        then_some (bt_contains (idn_conversations ident) cid) (PlaceIdentity u i cid)) (identities st) of
        Some p \<Rightarrow> Some p
      | None \<Rightarrow> then_some (bt_contains (dev_convs st) cid) (PlaceDevice cid))"

fun identity_log_remove :: "tag \<Rightarrow> identity_conversation \<Rightarrow> identity_conversation" where
  "identity_log_remove t (DmHandshakeRow p lg ch) = DmHandshakeRow p (bt_remove t lg) ch"
| "identity_log_remove t (DirectMessageRow s par lg ch) = DirectMessageRow s par (bt_remove t lg) ch"
| "identity_log_remove t (GroupRow (Live live)) = GroupRow (Live (live\<lparr>gl_log := bt_remove t (gl_log live)\<rparr>))"
| "identity_log_remove t (GroupRow g) = GroupRow g"

fun device_log_remove :: "tag \<Rightarrow> device_conversation \<Rightarrow> device_conversation" where
  "device_log_remove t (SyncHandshakeRow p lg ch) = SyncHandshakeRow p (bt_remove t lg) ch"
| "device_log_remove t (SynchronizationRow s par peer lg ch) = SynchronizationRow s par peer (bt_remove t lg) ch"

definition set_identity_row ::
  "user_id \<Rightarrow> identity_id \<Rightarrow> conversation_id \<Rightarrow> (identity_conversation \<Rightarrow> identity_conversation) \<Rightarrow> engine_state \<Rightarrow> engine_state" where
  "set_identity_row u i cid f =
     identity_mut (\<lambda>ident. ident\<lparr>idn_conversations := bt_update cid f (idn_conversations ident)\<rparr>) u i"

definition set_device_row ::
  "conversation_id \<Rightarrow> (device_conversation \<Rightarrow> device_conversation) \<Rightarrow> engine_state \<Rightarrow> engine_state" where
  "set_device_row cid f st =
     st\<lparr>es_device := (es_device st)\<lparr>dev_conversations := bt_update cid f (dev_convs st)\<rparr>\<rparr>"

definition remove_body :: "tag \<Rightarrow> engine_state \<Rightarrow> engine_state" where
  "remove_body t st =
     (case bt_get (es_tx_place st) t of
        None \<Rightarrow> st
      | Some place \<Rightarrow>
          let st = st\<lparr>es_tx_place := bt_remove t (es_tx_place st)\<rparr> in
          (case place of
             PlaceEngine \<Rightarrow> st\<lparr>es_engine_log := bt_remove t (es_engine_log st)\<rparr>
           | PlaceIdentity u i cid \<Rightarrow> set_identity_row u i cid (identity_log_remove t) st
           | PlaceDevice cid \<Rightarrow> set_device_row cid (device_log_remove t) st))"

fun identity_log_put :: "tag \<Rightarrow> durable_body \<Rightarrow> identity_conversation \<Rightarrow> identity_conversation option" where
  "identity_log_put t b (DmHandshakeRow p lg ch) =
     map_option (\<lambda>lg. DmHandshakeRow p lg ch) (log_put dm_handshake_from t b lg)"
| "identity_log_put t b (DirectMessageRow s par lg ch) =
     map_option (\<lambda>lg. DirectMessageRow s par lg ch) (log_put dm_from t b lg)"
| "identity_log_put t b (GroupRow (Live live)) =
     map_option (\<lambda>lg. GroupRow (Live (live\<lparr>gl_log := lg\<rparr>))) (log_put live_group_from t b (gl_log live))"
| "identity_log_put t b (GroupRow _) = None"

fun device_log_put :: "tag \<Rightarrow> durable_body \<Rightarrow> device_conversation \<Rightarrow> device_conversation option" where
  "device_log_put t b (SyncHandshakeRow p lg ch) =
     map_option (\<lambda>lg. SyncHandshakeRow p lg ch) (log_put sync_handshake_from t b lg)"
| "device_log_put t b (SynchronizationRow s par peer lg ch) =
     map_option (\<lambda>lg. SynchronizationRow s par peer lg ch) (log_put sync_from t b lg)"

definition place_body :: "tag \<Rightarrow> tx_place \<Rightarrow> engine_state \<Rightarrow> engine_state" where
  "place_body t p st = st\<lparr>es_tx_place := bt_insert t p (es_tx_place st)\<rparr>"

definition insert_body :: "tag \<Rightarrow> durable_body \<Rightarrow> engine_state \<Rightarrow> (engine_error + unit) \<times> engine_state" where
  "insert_body t b st =
     (let st = (if bt_contains (es_tx_place st) t then remove_body t st else st) in
      case place_of st (db_conversation_id b) of
        Some (PlaceIdentity u i cid) \<Rightarrow>
          (case Option.bind (identity_row st u i cid) (identity_log_put t b) of
             Some node \<Rightarrow> (Inr (), place_body t (PlaceIdentity u i cid) (set_identity_row u i cid (\<lambda>_. node) st))
           | None \<Rightarrow> (Inl WrongPhase, st))
      | Some (PlaceDevice cid) \<Rightarrow>
          (case Option.bind (bt_get (dev_convs st) cid) (device_log_put t b) of
             Some node \<Rightarrow> (Inr (), place_body t (PlaceDevice cid) (set_device_row cid (\<lambda>_. node) st))
           | None \<Rightarrow> (Inl WrongPhase, st))
      | _ \<Rightarrow>
          (case log_put engine_from t b (es_engine_log st) of
             Some lg \<Rightarrow> (Inr (), place_body t PlaceEngine (st\<lparr>es_engine_log := lg\<rparr>))
           | None \<Rightarrow> (Inl WrongPhase, st)))"

section \<open>Lookups after a change\<close>

lemma identity_at_mut:
  "identity_at (identity_mut f u i st) u' i' =
     (if u' = u \<and> i' = i then map_option f (identity_at st u i) else identity_at st u' i')"
  by (cases "bt_get (es_users st) u") (auto simp: identity_at_def identity_mut_def)

lemma identity_row_set [simp]:
  "identity_row (set_identity_row u i cid f st) u' i' cid' =
     (if u' = u \<and> i' = i \<and> cid' = cid then map_option f (identity_row st u i cid)
      else identity_row st u' i' cid')"
  by (cases "identity_at st u i") (auto simp: identity_row_def set_identity_row_def identity_at_mut)

lemma identity_row_device [simp]: "identity_row (set_device_row cid f st) = identity_row st"
  by (simp add: fun_eq_iff identity_row_def identity_at_def set_device_row_def)

lemma dev_convs_set [simp]:
  "bt_get (dev_convs (set_device_row cid f st)) cid' =
     (if cid' = cid then map_option f (bt_get (dev_convs st) cid) else bt_get (dev_convs st) cid')"
  by (simp add: dev_convs_def set_device_row_def)

lemma set_identity_row_frame [simp]:
  "dev_convs (set_identity_row u i cid f st) = dev_convs st"
  "es_engine_log (set_identity_row u i cid f st) = es_engine_log st"
  "es_tx_place (set_identity_row u i cid f st) = es_tx_place st"
  by (simp_all add: set_identity_row_def identity_mut_def dev_convs_def)

lemma set_device_row_frame [simp]:
  "es_engine_log (set_device_row cid f st) = es_engine_log st"
  "es_tx_place (set_device_row cid f st) = es_tx_place st"
  by (simp_all add: set_device_row_def)

lemma identity_row_frame [simp]:
  "identity_row (st\<lparr>es_tx_place := pl\<rparr>) = identity_row st"
  "identity_row (st\<lparr>es_engine_log := lg\<rparr>) = identity_row st"
  by (simp_all add: fun_eq_iff identity_row_def identity_at_def)

lemma dev_convs_frame [simp]:
  "dev_convs (st\<lparr>es_tx_place := pl\<rparr>) = dev_convs st" "dev_convs (st\<lparr>es_engine_log := lg\<rparr>) = dev_convs st"
  by (simp_all add: dev_convs_def)

lemma identity_body_remove [simp]:
  "identity_body (identity_log_remove t node) j = (if j = t then None else identity_body node j)"
  by (induction t node rule: identity_log_remove.induct) simp_all

lemma device_body_remove [simp]:
  "device_body (device_log_remove t node) j = (if j = t then None else device_body node j)"
  by (cases node) simp_all

lemma identity_body_put:
  assumes "identity_log_put t b node = Some node'"
  shows "identity_body node' j = (if j = t then Some b else identity_body node j)"
  using assms by (induction t b node rule: identity_log_put.induct)
    (auto simp: dm_handshake.log_get_put dm.log_get_put live_group.log_get_put)

lemma device_body_put:
  assumes "device_log_put t b node = Some node'"
  shows "device_body node' j = (if j = t then Some b else device_body node j)"
  using assms by (cases node) (auto simp: sync_handshake.log_get_put sync.log_get_put)

section \<open>The index\<close>

text \<open>What is stored somewhere is indexed there. An id is then stored at most once, whatever the row.\<close>

definition indexed :: "engine_state \<Rightarrow> bool" where
  "indexed st \<longleftrightarrow> (\<forall>p t. body_at st t p \<noteq> None \<longrightarrow> bt_get (es_tx_place st) t = Some p)"

lemma indexedI: "(\<And>p t b. body_at st t p = Some b \<Longrightarrow> bt_get (es_tx_place st) t = Some p) \<Longrightarrow> indexed st"
  by (auto simp: indexed_def)

lemma indexedD: "indexed st \<Longrightarrow> body_at st t p = Some b \<Longrightarrow> bt_get (es_tx_place st) t = Some p"
  by (auto simp: indexed_def)

lemma indexed_None: "indexed st \<Longrightarrow> bt_get (es_tx_place st) t \<noteq> Some p \<Longrightarrow> body_at st t p = None"
  using indexedD by fastforce

lemma body_eq: "indexed st \<Longrightarrow> body st t = Some b \<longleftrightarrow> (\<exists>p. body_at st t p = Some b)"
  by (fastforce simp: body_def indexed_def bind_eq_Some_conv)

lemma remove_body_place:
  "bt_get (es_tx_place (remove_body t st)) j = (if j = t then None else bt_get (es_tx_place st) j)"
  by (auto simp: remove_body_def Let_def split: option.splits tx_place.splits)

lemma remove_body_at:
  assumes "indexed st"
  shows "body_at (remove_body t st) j q = (if j = t then None else body_at st j q)"
proof (cases "bt_get (es_tx_place st) t")
  case None
  then show ?thesis using assms by (auto simp: remove_body_def indexed_None)
next
  case (Some p)
  with assms have "body_at st t q = None" if "q \<noteq> p" using that by (auto simp: indexed_None)
  then show ?thesis using Some
    by (cases p; cases q) (auto simp: remove_body_def Let_def bind_map_option comp_def)
qed

lemma indexed_remove: "indexed st \<Longrightarrow> indexed (remove_body t st)"
  by (rule indexedI) (auto simp: remove_body_at remove_body_place split: if_splits dest: indexedD)

lemma body_remove: "indexed st \<Longrightarrow> body (remove_body t st) j = (if j = t then None else body st j)"
  by (auto simp: body_def remove_body_at remove_body_place split: Option.bind_split)

text \<open>A successful insertion stores the body at one place and nowhere else.\<close>

lemma place_body_frame [simp]:
  "body_at (place_body t p st) j q = body_at st j q"
  "bt_get (es_tx_place (place_body t p st)) j = (if j = t then Some p else bt_get (es_tx_place st) j)"
  by (cases q; simp add: place_body_def)+

lemma body_at_set_identity:
  assumes "identity_row st u i cid = Some node" "identity_log_put t b node = Some node'"
  shows "body_at (set_identity_row u i cid (\<lambda>_. node') st) j q =
    (if j = t \<and> q = PlaceIdentity u i cid then Some b else body_at st j q)"
  using assms by (cases q) (auto simp: identity_body_put [OF assms(2)])

lemma body_at_set_device:
  assumes "bt_get (dev_convs st) cid = Some node" "device_log_put t b node = Some node'"
  shows "body_at (set_device_row cid (\<lambda>_. node') st) j q =
    (if j = t \<and> q = PlaceDevice cid then Some b else body_at st j q)"
  using assms by (cases q) (auto simp: device_body_put [OF assms(2)])

lemma body_at_set_engine:
  assumes "log_put engine_from t b (es_engine_log st) = Some lg"
  shows "body_at (st\<lparr>es_engine_log := lg\<rparr>) j q = (if j = t \<and> q = PlaceEngine then Some b else body_at st j q)"
  by (cases q) (auto simp: engine.log_get_put [OF assms])

lemma insert_body_at:
  assumes ix: "indexed st" and ins: "insert_body t b st = (Inr (), st')"
  obtains p where
    "\<And>j. bt_get (es_tx_place st') j = (if j = t then Some p else bt_get (es_tx_place st) j)"
    "\<And>j q. body_at st' j q = (if j = t then (if q = p then Some b else None) else body_at st j q)"
proof -
  define st0 where "st0 = (if bt_contains (es_tx_place st) t then remove_body t st else st)"
  have at0: "body_at st0 j q = (if j = t then None else body_at st j q)" for j q
    using ix by (auto simp: st0_def remove_body_at bt_contains_def indexed_None)
  have pl0: "j \<noteq> t \<Longrightarrow> bt_get (es_tx_place st0) j = bt_get (es_tx_place st) j" for j
    by (simp add: st0_def remove_body_place)
  note ins' = ins [unfolded insert_body_def Let_def, folded st0_def]
  consider (I) u i cid node node' where "identity_row st0 u i cid = Some node"
      "identity_log_put t b node = Some node'"
      "st' = place_body t (PlaceIdentity u i cid) (set_identity_row u i cid (\<lambda>_. node') st0)"
    | (D) cid node node' where "bt_get (dev_convs st0) cid = Some node" "device_log_put t b node = Some node'"
      "st' = place_body t (PlaceDevice cid) (set_device_row cid (\<lambda>_. node') st0)"
    | (E) lg where "log_put engine_from t b (es_engine_log st0) = Some lg"
      "st' = place_body t PlaceEngine (st0\<lparr>es_engine_log := lg\<rparr>)"
    using ins' by (auto split: option.splits tx_place.splits simp: bind_eq_Some_conv)
  then show ?thesis
  proof cases
    case I
    then show ?thesis
      by (intro that [of "PlaceIdentity u i cid"]) (simp_all add: pl0 at0 body_at_set_identity)
  next
    case D
    then show ?thesis by (intro that [of "PlaceDevice cid"]) (simp_all add: pl0 at0 body_at_set_device)
  next
    case E
    then show ?thesis by (intro that [of PlaceEngine]) (simp_all add: pl0 at0 body_at_set_engine)
  qed
qed

lemma indexed_insert:
  assumes "indexed st" "insert_body t b st = (Inr (), st')"
  shows "indexed st'"
  by (rule insert_body_at [OF assms], rule indexedI)
    (auto split: if_splits dest: indexedD [OF assms(1)])

lemma body_insert:
  assumes "indexed st" "insert_body t b st = (Inr (), st')"
  shows "body st' j = (if j = t then Some b else body st j)"
  by (rule insert_body_at [OF assms]) (auto simp: body_def split: Option.bind_split)

text \<open>A refused insertion has already removed what was stored under the id.\<close>

lemma insert_body_error:
  assumes "insert_body t b st = (Inl e, st')"
  shows "e = WrongPhase \<and> st' = (if bt_contains (es_tx_place st) t then remove_body t st else st)"
  using assms by (auto simp: insert_body_def Let_def split: option.splits tx_place.splits if_splits)

section \<open>Well-formed maps\<close>

text \<open>Every map of the state has its keys in order.\<close>

fun identity_wf :: "identity_conversation \<Rightarrow> bool" where
  "identity_wf (DmHandshakeRow _ lg _) = bt_ok lg"
| "identity_wf (DirectMessageRow _ _ lg _) = bt_ok lg"
| "identity_wf (GroupRow (Live live)) = bt_ok (gl_log live)"
| "identity_wf (GroupRow _) = True"

fun device_wf :: "device_conversation \<Rightarrow> bool" where
  "device_wf (SyncHandshakeRow _ lg _) = bt_ok lg"
| "device_wf (SynchronizationRow _ _ _ lg _) = bt_ok lg"

definition wf_state :: "engine_state \<Rightarrow> bool" where
  "wf_state st \<longleftrightarrow>
     bt_ok (es_tx_place st) \<and> bt_ok (es_engine_log st) \<and> bt_ok (es_users st) \<and> bt_ok (dev_convs st) \<and>
     (\<forall>u usr. bt_get (es_users st) u = Some usr \<longrightarrow> bt_ok (usr_identities usr)) \<and>
     (\<forall>u i ident. identity_at st u i = Some ident \<longrightarrow> bt_ok (idn_conversations ident)) \<and>
     (\<forall>u i cid node. identity_row st u i cid = Some node \<longrightarrow> identity_wf node) \<and>
     (\<forall>cid node. bt_get (dev_convs st) cid = Some node \<longrightarrow> device_wf node)"

lemma wf_stateD:
  assumes "wf_state st"
  shows "bt_ok (es_tx_place st)" "bt_ok (es_engine_log st)" "bt_ok (es_users st)" "bt_ok (dev_convs st)"
    "bt_get (es_users st) u = Some usr \<Longrightarrow> bt_ok (usr_identities usr)"
    "identity_at st u i = Some ident \<Longrightarrow> bt_ok (idn_conversations ident)"
    "identity_row st u i cid = Some node \<Longrightarrow> identity_wf node"
    "bt_get (dev_convs st) cid = Some dnode \<Longrightarrow> device_wf dnode"
  using assms by (auto simp: wf_state_def)

lemma identity_wf_remove [simp]: "identity_wf node \<Longrightarrow> identity_wf (identity_log_remove t node)"
  by (induction t node rule: identity_log_remove.induct) simp_all

lemma device_wf_remove [simp]: "device_wf node \<Longrightarrow> device_wf (device_log_remove t node)"
  by (cases node) simp_all

lemma identity_wf_put: "identity_log_put t b node = Some node' \<Longrightarrow> identity_wf node \<Longrightarrow> identity_wf node'"
  by (induction t b node rule: identity_log_put.induct) (auto dest: log_put_ok)

lemma device_wf_put: "device_log_put t b node = Some node' \<Longrightarrow> device_wf node \<Longrightarrow> device_wf node'"
  by (cases node) (auto dest: log_put_ok)

lemma wf_set_identity_row:
  assumes "wf_state st" "\<And>node. identity_row st u i cid = Some node \<Longrightarrow> identity_wf (f node)"
  shows "wf_state (set_identity_row u i cid f st)"
proof -
  have ids: "identity_at (set_identity_row u i cid f st) u' i' =
      (if u' = u \<and> i' = i then map_option (\<lambda>ident. ident\<lparr>idn_conversations := bt_update cid f (idn_conversations ident)\<rparr>)
         (identity_at st u i) else identity_at st u' i')" for u' i'
    by (simp add: set_identity_row_def identity_at_mut)
  have users: "bt_ok (es_users (set_identity_row u i cid f st))"
      "bt_get (es_users (set_identity_row u i cid f st)) u' = Some usr \<Longrightarrow> bt_ok (usr_identities usr)" for u' usr
    using wf_stateD(3,5) [OF assms(1)] by (auto simp: set_identity_row_def identity_mut_def split: if_splits)
  show ?thesis unfolding wf_state_def
    using users wf_stateD [OF assms(1)] assms(2) by (auto simp: ids split: if_splits)
qed

lemma wf_set_device_row:
  assumes "wf_state st" "\<And>node. bt_get (dev_convs st) cid = Some node \<Longrightarrow> device_wf (f node)"
  shows "wf_state (set_device_row cid f st)"
proof -
  have "bt_ok (dev_convs (set_device_row cid f st))"
    using wf_stateD(4) [OF assms(1)] by (simp add: dev_convs_def set_device_row_def)
  moreover have "es_users (set_device_row cid f st) = es_users st" by (simp add: set_device_row_def)
  moreover then have "identity_at (set_device_row cid f st) = identity_at st"
    by (simp add: fun_eq_iff identity_at_def)
  ultimately show ?thesis unfolding wf_state_def
    using wf_stateD [OF assms(1)] assms(2) by (auto split: if_splits)
qed

lemma identity_at_frame [simp]:
  "identity_at (st\<lparr>es_tx_place := pl\<rparr>) = identity_at st" "identity_at (st\<lparr>es_engine_log := lg\<rparr>) = identity_at st"
  by (simp_all add: fun_eq_iff identity_at_def)

lemma wf_set_place: "wf_state st \<Longrightarrow> bt_ok pl \<Longrightarrow> wf_state (st\<lparr>es_tx_place := pl\<rparr>)"
  by (simp add: wf_state_def)

lemma wf_set_engine: "wf_state st \<Longrightarrow> bt_ok lg \<Longrightarrow> wf_state (st\<lparr>es_engine_log := lg\<rparr>)"
  by (simp add: wf_state_def)

lemma wf_remove: "wf_state st \<Longrightarrow> wf_state (remove_body t st)"
  by (auto simp: remove_body_def Let_def wf_stateD wf_set_place intro!: wf_set_engine wf_set_identity_row
      wf_set_device_row split: option.splits tx_place.splits)

lemma wf_insert:
  assumes "wf_state st" "insert_body t b st = (r, st')"
  shows "wf_state st'"
proof -
  define st0 where "st0 = (if bt_contains (es_tx_place st) t then remove_body t st else st)"
  have wf: "wf_state st0" using assms(1) wf_remove by (simp add: st0_def)
  have place: "wf_state s \<Longrightarrow> wf_state (place_body t p s)" for s p
    by (simp add: place_body_def wf_set_place wf_stateD)
  from assms(2) [unfolded insert_body_def Let_def, folded st0_def] wf show ?thesis
    by (auto simp: bind_eq_Some_conv wf_stateD split: option.splits tx_place.splits
        intro!: place wf_set_identity_row wf_set_device_row wf_set_engine
        intro: identity_wf_put device_wf_put log_put_ok)
qed

section \<open>The store as one map\<close>

lemma find_map_Some: "find_map f xs = Some y \<Longrightarrow> \<exists>x\<in>set xs. f x = Some y"
  by (induction xs) (auto split: option.splits)

lemma find_map_None: "find_map f xs = None \<longleftrightarrow> (\<forall>x\<in>set xs. f x = None)"
  by (induction xs) (auto split: option.splits)

lemma find_map_member: "x \<in> set xs \<Longrightarrow> f x \<noteq> None \<Longrightarrow> find_map f xs \<noteq> None"
  by (auto simp: find_map_None)

lemma find_map_append: "find_map f (xs @ ys) = or_else (find_map f xs) (find_map f ys)"
  by (induction xs) (auto simp: or_else_def split: option.splits)

lemma or_else_simps [simp]: "or_else None y = y" "or_else (Some a) y = Some a" "or_else y None = y"
  by (simp_all add: or_else_def split: option.splits)

lemma or_else_assoc: "or_else (or_else x y) z = or_else x (or_else y z)"
  by (cases x) simp_all

text \<open>A loop whose steps add what \<open>g\<close> says, later ones overriding.\<close>

lemma get_foldl:
  assumes "\<And>x out. x \<in> set xs \<Longrightarrow> bt_get (f x out) t = or_else (g x) (bt_get out t)"
  shows "bt_get (foldl (\<lambda>out x. f x out) out xs) t = or_else (find_map g (rev xs)) (bt_get out t)"
  using assms by (induction xs arbitrary: out) (simp_all add: find_map_append or_else_assoc split: option.splits)

lemma get_push_log:
  assumes "bt_ok lg"
  shows "bt_get (push_log to lg out) t = or_else (log_get to lg t) (bt_get out t)"
  using assms
proof (induction lg arbitrary: out)
  case (Cons e lg)
  obtain i r where e: "e = (i, r)" by fastforce
  have "i = t \<Longrightarrow> bt_get lg t = None" using Cons.prems by (auto simp: e bt_get_None)
  then show ?case using Cons by (auto simp: e push_log_def log_get_def or_else_def split: option.splits)
qed (simp add: push_log_def)

lemma get_push_identity:
  "identity_wf node \<Longrightarrow> bt_get (push_identity node out) t = or_else (identity_body node t) (bt_get out t)"
  by (induction node out rule: push_identity.induct) (simp_all add: get_push_log)

lemma get_push_device:
  "device_wf node \<Longrightarrow> bt_get (push_device node out) t = or_else (device_body node t) (bt_get out t)"
  by (cases node) (simp_all add: get_push_log)

lemma in_identities:
  assumes "wf_state st"
  shows "((u, i), ident) \<in> set (identities st) \<longleftrightarrow> identity_at st u i = Some ident"
proof -
  have "((u, i), ident) \<in> set (identities st) \<longleftrightarrow>
      (\<exists>usr. (u, usr) \<in> set (es_users st) \<and> (i, ident) \<in> set (usr_identities usr))"
    by (force simp: identities_def)
  also have "\<dots> \<longleftrightarrow> identity_at st u i = Some ident"
    using wf_stateD(3,5) [OF assms]
    by (auto simp: identity_at_def bind_eq_Some_conv simp flip: bt_get_iff)
  finally show ?thesis .
qed

lemma in_conversations:
  assumes "wf_state st" "((u, i), ident) \<in> set (identities st)"
  shows "(cid, node) \<in> set (idn_conversations ident) \<longleftrightarrow> identity_row st u i cid = Some node"
  using assms in_identities [OF assms(1)] wf_stateD(6) [OF assms(1)]
  by (simp add: identity_row_def bt_get_iff)

lemma in_device_conversations:
  "wf_state st \<Longrightarrow> (cid, node) \<in> set (dev_convs st) \<longleftrightarrow> bt_get (dev_convs st) cid = Some node"
  by (simp add: bt_get_iff wf_stateD)

definition identities_body :: "engine_state \<Rightarrow> tag \<Rightarrow> durable_body option" where
  "identities_body st t = find_map (\<lambda>(_, ident). find_map (\<lambda>(_, node). identity_body node t)
     (rev (idn_conversations ident))) (rev (identities st))"

definition device_bodies :: "engine_state \<Rightarrow> tag \<Rightarrow> durable_body option" where
  "device_bodies st t = find_map (\<lambda>(_, node). device_body node t) (rev (dev_convs st))"

lemma get_body_pairs:
  assumes wf: "wf_state st"
  shows "bt_get (body_pairs st) t =
    or_else (device_bodies st t) (or_else (identities_body st t) (log_get engine_to (es_engine_log st) t))"
proof -
  have row: "bt_get (foldl (\<lambda>out (_, node). push_identity node out) out (idn_conversations ident)) t =
      or_else (find_map (\<lambda>(_, node). identity_body node t) (rev (idn_conversations ident))) (bt_get out t)"
    if "(k, ident) \<in> set (identities st)" for k ident out
  proof -
    obtain u i where "k = (u, i)" by fastforce
    with that have "\<And>cid node. (cid, node) \<in> set (idn_conversations ident) \<Longrightarrow> identity_wf node"
      using in_conversations [OF wf] wf_stateD(7) [OF wf] by blast
    then show ?thesis by (intro get_foldl) (auto simp: get_push_identity split: prod.splits)
  qed
  have ids: "bt_get (foldl (\<lambda>out (_, ident). foldl (\<lambda>out (_, node). push_identity node out) out
        (idn_conversations ident)) out (identities st)) t = or_else (identities_body st t) (bt_get out t)" for out
    unfolding identities_body_def by (intro get_foldl) (auto simp: row split: prod.splits)
  have dev: "bt_get (foldl (\<lambda>out (_, node). push_device node out) out (dev_convs st)) t =
      or_else (device_bodies st t) (bt_get out t)" for out
    unfolding device_bodies_def using wf_stateD(8) [OF wf] in_device_conversations [OF wf]
    by (intro get_foldl) (auto simp: get_push_device split: prod.splits)
  show ?thesis
    by (simp add: body_pairs_def Let_def dev ids get_push_log wf_stateD(2) [OF wf])
qed

lemma body_pairs_at:
  assumes wf: "wf_state st"
  shows "bt_get (body_pairs st) t = Some b \<Longrightarrow> \<exists>p. body_at st t p = Some b"
    and "body_at st t p = Some b \<Longrightarrow> bt_get (body_pairs st) t \<noteq> None"
proof -
  show "\<exists>p. body_at st t p = Some b" if "bt_get (body_pairs st) t = Some b"
  proof -
    from that consider "device_bodies st t = Some b" | "identities_body st t = Some b"
      | "log_get engine_to (es_engine_log st) t = Some b"
      by (auto simp: get_body_pairs [OF wf] or_else_def split: option.splits)
    then show ?thesis
    proof cases
      case 1
      then obtain cid node where "(cid, node) \<in> set (dev_convs st)" "device_body node t = Some b"
        by (auto simp: device_bodies_def dest!: find_map_Some)
      then have "body_at st t (PlaceDevice cid) = Some b" by (simp add: in_device_conversations [OF wf])
      then show ?thesis ..
    next
      case 2
      then obtain u i ident cid node where "((u, i), ident) \<in> set (identities st)"
          "(cid, node) \<in> set (idn_conversations ident)" "identity_body node t = Some b"
        by (fastforce simp: identities_body_def dest!: find_map_Some)
      then have "body_at st t (PlaceIdentity u i cid) = Some b" by (simp add: in_conversations [OF wf])
      then show ?thesis ..
    next
      case 3
      then have "body_at st t PlaceEngine = Some b" by simp
      then show ?thesis ..
    qed
  qed
  show "bt_get (body_pairs st) t \<noteq> None" if at: "body_at st t p = Some b"
  proof (cases p)
    case PlaceEngine
    with at show ?thesis by (auto simp: get_body_pairs [OF wf] or_else_def split: option.splits)
  next
    case (PlaceIdentity u i cid)
    with at obtain ident node where mem: "((u, i), ident) \<in> set (identities st)"
        "(cid, node) \<in> set (idn_conversations ident)" "identity_body node t = Some b"
      by (auto simp: bind_eq_Some_conv identity_row_def in_identities [OF wf] dest: bt_get_Some)
    have "find_map (\<lambda>(_, node). identity_body node t) (rev (idn_conversations ident)) \<noteq> None"
      by (rule find_map_member [of "(cid, node)"]) (simp_all add: mem)
    then have "identities_body st t \<noteq> None"
      unfolding identities_body_def by (intro find_map_member [of "((u, i), ident)"]) (simp_all add: mem)
    then show ?thesis by (auto simp: get_body_pairs [OF wf] or_else_def split: option.splits)
  next
    case (PlaceDevice cid)
    with at obtain node where "(cid, node) \<in> set (dev_convs st)" "device_body node t = Some b"
      by (auto simp: bind_eq_Some_conv dest: bt_get_Some)
    then have "device_bodies st t \<noteq> None"
      unfolding device_bodies_def by (intro find_map_member [of "(cid, node)"]) simp_all
    then show ?thesis by (auto simp: get_body_pairs [OF wf] or_else_def split: option.splits)
  qed
qed

lemma get_body_pairs_body:
  assumes "wf_state st" "indexed st"
  shows "bt_get (body_pairs st) t = body st t"
proof (cases "bt_get (body_pairs st) t")
  case None
  then have "body_at st t p = None" for p using body_pairs_at(2) [OF assms(1)] by fastforce
  then show ?thesis using None by (simp add: body_def split: Option.bind_split)
next
  case (Some b)
  then have "body st t = Some b" using body_pairs_at(1) [OF assms(1)] body_eq [OF assms(2)] by blast
  with Some show ?thesis by simp
qed

text \<open>The pairs are in the order of their ids, so they list the map.\<close>

lemma bt_ok_foldl: "(\<And>x out. bt_ok out \<Longrightarrow> bt_ok (f out x)) \<Longrightarrow> bt_ok out \<Longrightarrow> bt_ok (foldl f out xs)"
  by (induction xs arbitrary: out) simp_all

lemma bt_ok_push_log: "bt_ok out \<Longrightarrow> bt_ok (push_log to lg out)"
  unfolding push_log_def by (rule bt_ok_foldl) (auto split: prod.splits)

lemma bt_ok_push_identity: "bt_ok out \<Longrightarrow> bt_ok (push_identity node out)"
  by (induction node out rule: push_identity.induct) (simp_all add: bt_ok_push_log)

lemma bt_ok_push_device: "bt_ok out \<Longrightarrow> bt_ok (push_device node out)"
  by (cases node) (simp_all add: bt_ok_push_log)

lemma bt_ok_body_pairs: "bt_ok (body_pairs st)"
  unfolding body_pairs_def Let_def
  by (intro bt_ok_foldl bt_ok_push_log) (auto intro!: bt_ok_foldl bt_ok_push_identity bt_ok_push_device split: prod.splits)

end
