(* ===== verification/Store_Steps.thy ===== *)
theory Store_Steps
  imports Tx_Store
begin

text \<open>
  Everything that changes rows or transactions of the engine state, as one transition relation, and
  the invariant it keeps: every map is in order and every stored transaction is indexed where it is.
  The mutable accessors of \<open>engine/state.rs\<close> reduce to a change of one row.
\<close>

section \<open>Changing the first matching row\<close>

lemma bt_update_other: "k \<notin> fst ` set m \<Longrightarrow> bt_update k f m = m"
  by (induction m) (auto simp: bt_update_def)

lemma bt_update_cong:
  assumes "bt_ok m" "bt_get m k = Some v" "f v = g v"
  shows "bt_update k f m = bt_update k g m"
proof -
  have "w = v" if "(k, w) \<in> set m" for w using that assms(1,2) by (simp flip: bt_get_iff)
  then show ?thesis using assms(3) by (auto simp: bt_update_def intro!: map_cong)
qed

lemma update_first_update:
  assumes "bt_ok m" "update_first f m = Some m'"
  shows "\<exists>k v v'. bt_get m k = Some v \<and> f v = Some v' \<and> m' = bt_update k (\<lambda>_. v') m"
  using assms
proof (induction m arbitrary: m')
  case (Cons e m)
  obtain k v where e: "e = (k, v)" by fastforce
  show ?case
  proof (cases "f v")
    case (Some v')
    with Cons.prems have "m' = (k, v') # m" by (simp add: e)
    also have "\<dots> = bt_update k (\<lambda>_. v') (e # m)"
    proof -
      have "k \<notin> fst ` set m" using Cons.prems(1) by (auto simp: e)
      from bt_update_other [OF this] show ?thesis by (simp add: e bt_update_def)
    qed
    finally show ?thesis using Some by (auto simp: e)
  next
    case None
    with Cons.prems obtain m'' where m'': "update_first f m = Some m''" "m' = (k, v) # m''"
      by (auto simp: e)
    with Cons.IH [OF _ m''(1)] Cons.prems obtain k' v1 v2 where
      *: "bt_get m k' = Some v1" "f v1 = Some v2" "m'' = bt_update k' (\<lambda>_. v2) m" by (auto simp: e)
    then have "k \<noteq> k'" using Cons.prems by (auto simp: e dest!: bt_get_Some)
    then show ?thesis using * m''(2)
      by (intro exI [of _ k'] exI [of _ v1] exI [of _ v2]) (auto simp: e bt_update_def)
  qed
qed simp

lemma update_at_update:
  "update_at k f m = Some m' \<longleftrightarrow>
     (\<exists>v v'. bt_get m k = Some v \<and> f v = Some v' \<and> m' = bt_update k (\<lambda>_. v') m)"
  by (auto simp: update_at_def bind_eq_Some_conv)

text \<open>Two levels: the first user and identity that \<open>f\<close> applies to.\<close>

lemma nested_update:
  assumes wf: "wf_state st"
    and upd: "update_first (\<lambda>usr. do {
        ids \<leftarrow> update_first f (usr_identities usr);
        Some (usr\<lparr>usr_identities := ids\<rparr>) }) (es_users st) = Some users"
  shows "\<exists>u i ident ident'. identity_at st u i = Some ident \<and> f ident = Some ident' \<and>
    st\<lparr>es_users := users\<rparr> = identity_mut (\<lambda>_. ident') u i st"
proof -
  from update_first_update [OF wf_stateD(3) [OF wf] upd] obtain u usr ids where
    u: "bt_get (es_users st) u = Some usr" "update_first f (usr_identities usr) = Some ids"
       "users = bt_update u (\<lambda>_. usr\<lparr>usr_identities := ids\<rparr>) (es_users st)"
    by (auto simp: bind_eq_Some_conv)
  from update_first_update [OF wf_stateD(5) [OF wf u(1)] u(2)] obtain i ident ident' where
    i: "bt_get (usr_identities usr) i = Some ident" "f ident = Some ident'"
       "ids = bt_update i (\<lambda>_. ident') (usr_identities usr)" by blast
  have "identity_at st u i = Some ident" using u i by (simp add: identity_at_def)
  moreover have "st\<lparr>es_users := users\<rparr> = identity_mut (\<lambda>_. ident') u i st"
    unfolding identity_mut_def u(3) i(3)
    by (rule arg_cong [where f = "\<lambda>m. st\<lparr>es_users := m\<rparr>"], rule bt_update_cong [OF wf_stateD(3) [OF wf] u(1)]) simp
  ultimately show ?thesis using i(2) by blast
qed

lemma identity_mut_cong:
  assumes "wf_state st" "identity_at st u i = Some ident" "f ident = g ident"
  shows "identity_mut f u i st = identity_mut g u i st"
proof -
  from assms(2) obtain usr where u: "bt_get (es_users st) u = Some usr" "bt_get (usr_identities usr) i = Some ident"
    by (auto simp: identity_at_def bind_eq_Some_conv)
  have "bt_update i f (usr_identities usr) = bt_update i g (usr_identities usr)"
    by (rule bt_update_cong [where v = ident]) (use wf_stateD(5) [OF assms(1) u(1)] u(2) assms(3) in auto)
  then show ?thesis unfolding identity_mut_def
    by (intro arg_cong [where f = "\<lambda>m. st\<lparr>es_users := m\<rparr>"] bt_update_cong [OF wf_stateD(3) [OF assms(1)] u(1)]) simp
qed

lemma identity_row_mut_set:
  assumes wf: "wf_state st" and "identity_row_mut f cid st = Some st'"
  shows "\<exists>u i node node'. identity_row st u i cid = Some node \<and> f node = Some node' \<and>
    st' = set_identity_row u i cid (\<lambda>_. node') st"
proof -
  from assms(2) obtain users where users: "st' = st\<lparr>es_users := users\<rparr>"
      "update_first (\<lambda>usr. do { ids \<leftarrow> update_first (\<lambda>ident. do {
         convs \<leftarrow> update_at cid f (idn_conversations ident);
         Some (ident\<lparr>idn_conversations := convs\<rparr>) }) (usr_identities usr);
       Some (usr\<lparr>usr_identities := ids\<rparr>) }) (es_users st) = Some users"
    by (auto simp: identity_row_mut_def bind_eq_Some_conv)
  from nested_update [OF wf users(2)] obtain u i ident ident' where
    *: "identity_at st u i = Some ident" "st' = identity_mut (\<lambda>_. ident') u i st"
       "do { convs \<leftarrow> update_at cid f (idn_conversations ident); Some (ident\<lparr>idn_conversations := convs\<rparr>) } = Some ident'"
    using users(1) by blast
  then obtain node node' where n: "bt_get (idn_conversations ident) cid = Some node" "f node = Some node'"
      "ident' = ident\<lparr>idn_conversations := bt_update cid (\<lambda>_. node') (idn_conversations ident)\<rparr>"
    by (auto simp: bind_eq_Some_conv update_at_update)
  then have "st' = set_identity_row u i cid (\<lambda>_. node') st"
    unfolding *(2) set_identity_row_def by (intro identity_mut_cong [OF wf *(1)]) simp
  moreover have "identity_row st u i cid = Some node" using * n by (simp add: identity_row_def)
  ultimately show ?thesis using n(2) by blast
qed

lemma device_row_mut_set:
  assumes "device_row_mut f cid st = Some st'"
  shows "\<exists>node node'. bt_get (dev_convs st) cid = Some node \<and> f node = Some node' \<and>
    st' = set_device_row cid (\<lambda>_. node') st"
  using assms by (auto simp: device_row_mut_def bind_eq_Some_conv update_at_update set_device_row_def dev_convs_def)

section \<open>Changes that leave the transactions alone\<close>

definition keeps_identity :: "(identity_conversation \<Rightarrow> identity_conversation option) \<Rightarrow> bool" where
  "keeps_identity f \<longleftrightarrow> (\<forall>node node'. f node = Some node' \<longrightarrow>
     identity_body node' = identity_body node \<and> identity_wf node' = identity_wf node)"

definition keeps_device :: "(device_conversation \<Rightarrow> device_conversation option) \<Rightarrow> bool" where
  "keeps_device f \<longleftrightarrow> (\<forall>node node'. f node = Some node' \<longrightarrow>
     device_body node' = device_body node \<and> device_wf node' = device_wf node)"

lemma keeps_rows:
  "keeps_identity (packet_mut_of_identity f)" "keeps_identity (established_mut_of_identity g)"
  "keeps_identity (party_mut_of_identity h)"
  "keeps_device (packet_mut_of_device f)" "keeps_device (established_mut_of_device g)"
  "keeps_device (party_mut_of_device h)"
proof -
  show "keeps_identity (packet_mut_of_identity f)" unfolding keeps_identity_def
  proof (intro allI)
    show "packet_mut_of_identity f node = Some node' \<longrightarrow>
        identity_body node' = identity_body node \<and> identity_wf node' = identity_wf node" for node node'
      by (induction f node rule: packet_mut_of_identity.induct) (auto simp: fun_eq_iff)
  qed
  show "keeps_identity (established_mut_of_identity g)" unfolding keeps_identity_def
  proof (intro allI)
    show "established_mut_of_identity g node = Some node' \<longrightarrow>
        identity_body node' = identity_body node \<and> identity_wf node' = identity_wf node" for node node'
      by (induction g node rule: established_mut_of_identity.induct) (auto simp: fun_eq_iff)
  qed
  show "keeps_identity (party_mut_of_identity h)" unfolding keeps_identity_def
  proof (intro allI)
    show "party_mut_of_identity h node = Some node' \<longrightarrow>
        identity_body node' = identity_body node \<and> identity_wf node' = identity_wf node" for node node'
      by (cases node) (auto simp: fun_eq_iff)
  qed
  show "keeps_device (packet_mut_of_device f)" "keeps_device (established_mut_of_device g)"
      "keeps_device (party_mut_of_device h)" unfolding keeps_device_def
    by (intro allI, case_tac node; force simp: fun_eq_iff)+
qed

text \<open>The store of one state is the store of another: every place holds the same bodies.\<close>

definition same_store :: "engine_state \<Rightarrow> engine_state \<Rightarrow> bool" where
  "same_store st st' \<longleftrightarrow> es_tx_place st' = es_tx_place st \<and> (\<forall>t p. body_at st' t p = body_at st t p)"

lemma same_store_refl [simp]: "same_store st st"
  by (simp add: same_store_def)

lemma same_store_body: "same_store st st' \<Longrightarrow> body st' t = body st t"
  by (auto simp: same_store_def body_def split: Option.bind_split)

lemma indexed_same: "same_store st st' \<Longrightarrow> indexed st \<Longrightarrow> indexed st'"
  by (simp add: same_store_def indexed_def)

lemma same_set_identity:
  assumes "identity_row st u i cid = Some node" "identity_body node' = identity_body node"
  shows "same_store st (set_identity_row u i cid (\<lambda>_. node') st)"
  unfolding same_store_def
proof (intro conjI allI)
  show "body_at (set_identity_row u i cid (\<lambda>_. node') st) t p = body_at st t p" for t p
    using assms by (cases p) auto
qed simp

lemma same_set_device:
  assumes "bt_get (dev_convs st) cid = Some node" "device_body node' = device_body node"
  shows "same_store st (set_device_row cid (\<lambda>_. node') st)"
  unfolding same_store_def
proof (intro conjI allI)
  show "body_at (set_device_row cid (\<lambda>_. node') st) t p = body_at st t p" for t p
    using assms by (cases p) auto
qed simp

lemma identity_row_mut_same:
  assumes "wf_state st" "identity_row_mut f cid st = Some st'" "keeps_identity f"
  shows "wf_state st' \<and> same_store st st'"
proof -
  from identity_row_mut_set [OF assms(1,2)] obtain u i node node' where
    *: "identity_row st u i cid = Some node" "f node = Some node'"
       "st' = set_identity_row u i cid (\<lambda>_. node') st" by blast
  with assms(3) have "identity_body node' = identity_body node" "identity_wf node' = identity_wf node"
    by (auto simp: keeps_identity_def)
  with * wf_stateD(7) [OF assms(1) *(1)] show ?thesis
    by (auto intro!: wf_set_identity_row [OF assms(1)] same_set_identity)
qed

lemma device_row_mut_same:
  assumes "wf_state st" "device_row_mut f cid st = Some st'" "keeps_device f"
  shows "wf_state st' \<and> same_store st st'"
proof -
  from device_row_mut_set [OF assms(2)] obtain node node' where
    *: "bt_get (dev_convs st) cid = Some node" "f node = Some node'"
       "st' = set_device_row cid (\<lambda>_. node') st" by blast
  with assms(3) have "device_body node' = device_body node" "device_wf node' = device_wf node"
    by (auto simp: keeps_device_def)
  with * wf_stateD(8) [OF assms(1) *(1)] show ?thesis
    by (auto intro!: wf_set_device_row [OF assms(1)] same_set_device)
qed

lemma or_else_Some: "or_else x y = Some z \<longleftrightarrow> x = Some z \<or> x = None \<and> y = Some z"
  by (cases x) auto

lemma row_mut_same:
  assumes "wf_state st" "keeps_identity f" "keeps_device g"
    and "or_else (identity_row_mut f cid st) (device_row_mut g cid st) = Some st'"
  shows "wf_state st' \<and> same_store st st'"
proof -
  from assms(4) consider "identity_row_mut f cid st = Some st'" | "device_row_mut g cid st = Some st'"
    by (auto simp: or_else_Some)
  then show ?thesis
    by cases (rule identity_row_mut_same [OF assms(1) _ assms(2)] device_row_mut_same [OF assms(1) _ assms(3)]; assumption)+
qed

lemma accessors_same:
  assumes "wf_state st"
  shows "packet_mut_of f cid st = Some st' \<Longrightarrow> wf_state st' \<and> same_store st st'"
    "established_mut_of g cid st = Some st' \<Longrightarrow> wf_state st' \<and> same_store st st'"
    "party_mut h cid st = Some st' \<Longrightarrow> wf_state st' \<and> same_store st st'"
  unfolding packet_mut_of_def established_mut_of_def party_mut_def
  using row_mut_same [OF assms keeps_rows(1) keeps_rows(4)] row_mut_same [OF assms keeps_rows(2) keeps_rows(5)]
    row_mut_same [OF assms keeps_rows(3) keeps_rows(6)] by blast+

lemma with_chains_same:
  assumes "wf_state st"
  shows "wf_state (with_chains f cid st) \<and> same_store st (with_chains f cid st)"
  using accessors_same(1) [OF assms] assms
  by (cases "packet_mut_of f cid st") (simp_all add: with_chains_def chains_mut_def)

lemma fail_same:
  assumes "wf_state st"
  shows "wf_state (state_fail cid r st) \<and> same_store st (state_fail cid r st)"
  using accessors_same(3) [OF assms] assms by (cases "party_mut (party_fail r) cid st") (simp_all add: state_fail_def)

lemma ack_same:
  assumes "wf_state st"
  shows "wf_state (state_ack_posted cid st) \<and> same_store st (state_ack_posted cid st)"
  using accessors_same(3) [OF assms] assms
  by (cases "party_mut party_ack_posted cid st") (simp_all add: state_ack_posted_def)

section \<open>New and dropped rows\<close>

lemma identity_at_ensure:
  "identity_at (ensure_identity u i st) u' i' =
     (if u' = u \<and> i' = i then Some (case identity_at st u i of Some ident \<Rightarrow> ident | None \<Rightarrow> identity_default)
      else identity_at st u' i')"
  by (cases "bt_get (es_users st) u")
    (auto simp: ensure_identity_def ensure_user_def Let_def identity_at_def bt_contains_def user_default_def
      split: option.splits)

lemma ensure_identity_frame [simp]:
  "es_tx_place (ensure_identity u i st) = es_tx_place st" "es_engine_log (ensure_identity u i st) = es_engine_log st"
  "dev_convs (ensure_identity u i st) = dev_convs st"
  by (simp_all add: ensure_identity_def ensure_user_def Let_def dev_convs_def)

lemma put_dm_frame [simp]:
  "es_tx_place (put_dm u i cid node st) = es_tx_place st" "es_engine_log (put_dm u i cid node st) = es_engine_log st"
  "dev_convs (put_dm u i cid node st) = dev_convs st"
  using ensure_identity_frame by (simp_all add: put_dm_def identity_mut_def dev_convs_def)

lemma identity_at_put_dm:
  "identity_at (put_dm u i cid node st) u' i' =
     (if u' = u \<and> i' = i then
        (let ident = (case identity_at st u i of Some ident \<Rightarrow> ident | None \<Rightarrow> identity_default)
         in Some (ident\<lparr>idn_conversations := bt_insert cid node (idn_conversations ident)\<rparr>))
      else identity_at st u' i')"
  by (simp add: put_dm_def identity_at_mut identity_at_ensure Let_def)

lemma identity_row_put_dm [simp]:
  "identity_row (put_dm u i cid node st) u' i' cid' =
     (if u' = u \<and> i' = i \<and> cid' = cid then Some node else identity_row st u' i' cid')"
  by (auto simp: identity_row_def identity_at_put_dm Let_def identity_default_def split: option.splits)

lemma users_ok_put_dm:
  assumes "wf_state st"
  shows "bt_ok (es_users (put_dm u i cid node st))"
    "bt_get (es_users (put_dm u i cid node st)) u' = Some usr \<Longrightarrow> bt_ok (usr_identities usr)"
  using wf_stateD(3,5) [OF assms]
  by (auto simp: put_dm_def identity_mut_def ensure_identity_def ensure_user_def Let_def user_default_def
      split: if_splits)

lemma wf_put_dm:
  assumes "wf_state st" "identity_wf node"
  shows "wf_state (put_dm u i cid node st)"
  unfolding wf_state_def
  using users_ok_put_dm [OF assms(1)] wf_stateD [OF assms(1)] assms(2)
  by (auto simp: identity_at_put_dm Let_def identity_default_def split: if_splits option.splits)

lemma identity_row_put_sync [simp]: "identity_row (put_sync cid node st) = identity_row st"
  by (simp add: fun_eq_iff identity_row_def identity_at_def put_sync_def)

lemma put_sync_frame [simp]:
  "es_tx_place (put_sync cid node st) = es_tx_place st" "es_engine_log (put_sync cid node st) = es_engine_log st"
  "dev_convs (put_sync cid node st) = bt_insert cid node (dev_convs st)" "es_users (put_sync cid node st) = es_users st"
  by (simp_all add: put_sync_def dev_convs_def)

lemma wf_put_sync:
  assumes "wf_state st" "device_wf node"
  shows "wf_state (put_sync cid node st)"
proof -
  have "identity_at (put_sync cid node st) = identity_at st" by (simp add: fun_eq_iff identity_at_def)
  then show ?thesis unfolding wf_state_def using wf_stateD [OF assms(1)] assms(2) by (auto split: if_splits)
qed

text \<open>Every place holds at most what it held.\<close>

definition smaller_store :: "engine_state \<Rightarrow> engine_state \<Rightarrow> bool" where
  "smaller_store st st' \<longleftrightarrow> es_tx_place st' = es_tx_place st \<and>
     (\<forall>t p b. body_at st' t p = Some b \<longrightarrow> body_at st t p = Some b)"

lemma indexed_smaller: "smaller_store st st' \<Longrightarrow> indexed st \<Longrightarrow> indexed st'"
  unfolding smaller_store_def by (rule indexedI) (metis indexedD)

lemma same_smaller: "same_store st st' \<Longrightarrow> smaller_store st st'"
  by (simp add: same_store_def smaller_store_def)

lemma smaller_put_dm: "(\<And>t. identity_body node t = None) \<Longrightarrow> smaller_store st (put_dm u i cid node st)"
  unfolding smaller_store_def
proof (intro conjI allI impI)
  show "body_at st t p = Some b"
    if "body_at (put_dm u i cid node st) t p = Some b" "\<And>t. identity_body node t = None" for t p b
    using that by (cases p) (auto split: if_splits)
qed simp_all

lemma smaller_put_sync: "(\<And>t. device_body node t = None) \<Longrightarrow> smaller_store st (put_sync cid node st)"
  unfolding smaller_store_def
proof (intro conjI allI impI)
  show "body_at st t p = Some b"
    if "body_at (put_sync cid node st) t p = Some b" "\<And>t. device_body node t = None" for t p b
    using that by (cases p) (auto split: if_splits)
qed simp_all

lemma new_nodes [simp]:
  "identity_body (dm_handshake_node p) t = None" "identity_body (direct_node s c) t = None"
  "device_body (sync_handshake_node p) t = None" "device_body (sync_node s c d) t = None"
  "identity_wf (dm_handshake_node p)" "identity_wf (direct_node s c)"
  "device_wf (sync_handshake_node p)" "device_wf (sync_node s c d)"
  by (simp_all add: dm_handshake_node_def direct_node_def sync_handshake_node_def sync_node_def)

lemma put_smaller:
  assumes "wf_state st"
  shows "wf_state (put_dm_inviter u i cid q st) \<and> smaller_store st (put_dm_inviter u i cid q st)"
    "wf_state (put_dm_invitee u i cid r st) \<and> smaller_store st (put_dm_invitee u i cid r st)"
    "wf_state (put_sync_inviter cid q st) \<and> smaller_store st (put_sync_inviter cid q st)"
    "wf_state (put_sync_invitee cid r st) \<and> smaller_store st (put_sync_invitee cid r st)"
    "wf_state (spawn_established h c s peer st) \<and> smaller_store st (spawn_established h c s peer st)"
  using assms
  by (auto simp: put_dm_inviter_def put_dm_invitee_def put_sync_inviter_def put_sync_invitee_def
      spawn_established_def wf_put_dm wf_put_sync smaller_put_dm smaller_put_sync same_smaller
      split: option.splits conversation_scope.splits spawn_peer.splits)

lemma wf_identity_mut:
  assumes "wf_state st"
    and "\<And>ident. identity_at st u i = Some ident \<Longrightarrow> bt_ok (idn_conversations (f ident)) \<and>
      (\<forall>cid node. bt_get (idn_conversations (f ident)) cid = Some node \<longrightarrow> identity_wf node)"
  shows "wf_state (identity_mut f u i st)"
proof -
  have users: "bt_ok (es_users (identity_mut f u i st))"
      "bt_get (es_users (identity_mut f u i st)) u' = Some usr \<Longrightarrow> bt_ok (usr_identities usr)" for u' usr
    using wf_stateD(3,5) [OF assms(1)] by (auto simp: identity_mut_def split: if_splits)
  have frame: "es_tx_place (identity_mut f u i st) = es_tx_place st"
      "es_engine_log (identity_mut f u i st) = es_engine_log st" "dev_convs (identity_mut f u i st) = dev_convs st"
    by (simp_all add: identity_mut_def dev_convs_def)
  have rows: "identity_wf node" if "identity_row (identity_mut f u i st) u' i' cid = Some node" for u' i' cid node
    using that wf_stateD(7) [OF assms(1), of u' i' cid node] assms(2)
    by (auto simp: identity_row_def identity_at_mut bind_eq_Some_conv split: if_splits)
  show ?thesis unfolding wf_state_def
    using users rows wf_stateD [OF assms(1)] assms(2) by (auto simp: identity_at_mut frame split: if_splits)
qed

lemma smaller_identity_mut:
  assumes "\<And>ident cid node. identity_at st u i = Some ident \<Longrightarrow>
      bt_get (idn_conversations (f ident)) cid = Some node \<Longrightarrow> bt_get (idn_conversations ident) cid = Some node"
  shows "smaller_store st (identity_mut f u i st)"
  unfolding smaller_store_def
proof (intro conjI allI impI)
  show "es_tx_place (identity_mut f u i st) = es_tx_place st" by (simp add: identity_mut_def)
  fix t p b
  assume at: "body_at (identity_mut f u i st) t p = Some b"
  show "body_at st t p = Some b"
  proof (cases p)
    case (PlaceIdentity u' i' cid)
    with at assms show ?thesis
      by (fastforce simp: bind_eq_Some_conv identity_row_def identity_at_mut split: if_splits)
  qed (use at in \<open>simp_all add: identity_mut_def dev_convs_def\<close>)
qed

lemma drop_device:
  fixes cid :: conversation_id
  assumes "wf_state st"
  defines "st' \<equiv> st\<lparr>es_device := (es_device st)\<lparr>dev_conversations := bt_remove cid (dev_convs st)\<rparr>\<rparr>"
  shows "wf_state st' \<and> smaller_store st st'"
proof -
  have frame: "identity_at st' = identity_at st" "identity_row st' = identity_row st"
      "dev_convs st' = bt_remove cid (dev_convs st)" "es_tx_place st' = es_tx_place st"
      "es_engine_log st' = es_engine_log st" "es_users st' = es_users st"
    by (simp_all add: st'_def fun_eq_iff identity_at_def identity_row_def dev_convs_def)
  have "wf_state st'" unfolding wf_state_def frame
    using wf_stateD [OF assms(1)] by (auto split: if_splits)
  moreover have "body_at st t p = Some b" if "body_at st' t p = Some b" for t p b
    using that by (cases p) (auto simp: frame bind_eq_Some_conv split: if_splits)
  ultimately show ?thesis by (simp add: smaller_store_def frame)
qed

lemma smaller_trans: "smaller_store a b \<Longrightarrow> smaller_store b c \<Longrightarrow> smaller_store a c"
  by (simp add: smaller_store_def)

lemma drop_smaller:
  assumes "wf_state st" "drop_conversation cid st = (r, st')"
  shows "wf_state st' \<and> smaller_store st st'"
proof -
  define dropped where "dropped = update_first (\<lambda>usr. do {
      ids \<leftarrow> update_first (\<lambda>ident. then_some (bt_contains (idn_conversations ident) cid)
        (ident\<lparr>idn_conversations := bt_remove cid (idn_conversations ident)\<rparr>)) (usr_identities usr);
      Some (usr\<lparr>usr_identities := ids\<rparr>) }) (es_users st)"
  define st1 where "st1 = st\<lparr>es_users := (case dropped of Some m \<Rightarrow> m | None \<Rightarrow> es_users st)\<rparr>"
  have st': "st' = st1\<lparr>es_device := (es_device st1)\<lparr>dev_conversations := bt_remove cid (dev_convs st1)\<rparr>\<rparr>"
    using assms(2) by (simp add: drop_conversation_def Let_def st1_def dropped_def dev_convs_def)
  have "wf_state st1 \<and> smaller_store st st1"
  proof (cases dropped)
    case None
    then show ?thesis using assms(1) same_smaller [OF same_store_refl] by (simp add: st1_def)
  next
    case (Some users)
    from nested_update [OF assms(1) Some [unfolded dropped_def]] obtain u i ident where
      *: "identity_at st u i = Some ident"
         "st1 = identity_mut (\<lambda>_. ident\<lparr>idn_conversations := bt_remove cid (idn_conversations ident)\<rparr>) u i st"
      by (auto simp: st1_def Some)
    have row: "bt_get (idn_conversations ident) c = Some node \<Longrightarrow> identity_wf node" for c node
      using wf_stateD(7) [OF assms(1), of u i c node] *(1) by (simp add: identity_row_def)
    have "wf_state st1" unfolding *(2)
      by (rule wf_identity_mut [OF assms(1)]) (use *(1) row wf_stateD(6) [OF assms(1)] in \<open>auto split: if_splits\<close>)
    moreover have "smaller_store st st1" unfolding *(2)
      by (rule smaller_identity_mut) (use *(1) in \<open>auto split: if_splits\<close>)
    ultimately show ?thesis ..
  qed
  with drop_device [of st1 cid] smaller_trans show ?thesis unfolding st' by blast
qed

lemma identity_at_map: "identity_at (map_identities f st) u i = map_option f (identity_at st u i)"
  by (cases "bt_get (es_users st) u") (simp_all add: identity_at_def map_identities_def)

text \<open>\<open>each_chains_mut\<close> goes over every row.\<close>

lemma each_chains_same:
  assumes "wf_state st"
  shows "wf_state (each_chains_mut f st) \<and> same_store st (each_chains_mut f st)"
proof -
  define gi where "gi = (\<lambda>node. case packet_mut_of_identity f node of Some n \<Rightarrow> n | None \<Rightarrow> node)"
  define gd where "gd = (\<lambda>node. case packet_mut_of_device f node of Some n \<Rightarrow> n | None \<Rightarrow> node)"
  define st' where "st' = each_chains_mut f st"
  have g: "identity_body (gi n) = identity_body n" "identity_wf (gi n) = identity_wf n"
      "device_body (gd m) = device_body m" "device_wf (gd m) = device_wf m" for n m
    using keeps_rows(1,4) [of f] unfolding keeps_identity_def keeps_device_def gi_def gd_def
    by (auto split: option.splits)
  have at: "identity_at st' u i = map_option (\<lambda>ident. ident\<lparr>idn_conversations := bt_map gi (idn_conversations ident)\<rparr>)
      (identity_at st u i)" for u i
    unfolding st'_def each_chains_mut_def Let_def gi_def
    by (simp add: identity_at_def map_identities_def Option.bind_map_option comp_def map_option_bind)
  have row: "identity_row st' u i cid = map_option gi (identity_row st u i cid)" for u i cid
    by (cases "identity_at st u i") (simp_all add: identity_row_def at)
  have dev: "dev_convs st' = bt_map gd (dev_convs st)"
    by (simp add: st'_def each_chains_mut_def Let_def gd_def dev_convs_def map_identities_def)
  have frame: "es_tx_place st' = es_tx_place st" "es_engine_log st' = es_engine_log st"
    by (simp_all add: st'_def each_chains_mut_def Let_def map_identities_def)
  have users: "bt_ok (es_users st')" "bt_get (es_users st') u = Some usr \<Longrightarrow> bt_ok (usr_identities usr)" for u usr
    using wf_stateD(3,5) [OF assms] by (auto simp: st'_def each_chains_mut_def Let_def map_identities_def)
  have "wf_state st'" unfolding wf_state_def
    using users wf_stateD [OF assms] by (auto simp: at row dev frame g)
  moreover have "body_at st' t p = body_at st t p" for t p
    by (cases p) (auto simp: row dev frame g Option.bind_map_option comp_def)
  ultimately show ?thesis by (simp add: same_store_def frame flip: st'_def)
qed

section \<open>Group rows\<close>

text \<open>\<open>group_phase\<close>, \<open>group_phase_mut\<close>, \<open>group_live\<close> and \<open>live_mut\<close> of \<open>engine/group.rs\<close>.\<close>

fun phase_of_identity :: "identity_conversation \<Rightarrow> group_phase option" where
  "phase_of_identity (GroupRow phase) = Some phase"
| "phase_of_identity _ = None"

fun phase_mut_of_identity ::
  "(group_phase \<Rightarrow> group_phase) \<Rightarrow> identity_conversation \<Rightarrow> identity_conversation option" where
  "phase_mut_of_identity f (GroupRow phase) = Some (GroupRow (f phase))"
| "phase_mut_of_identity f _ = None"

definition group_phase_at :: "engine_state \<Rightarrow> conversation_id \<Rightarrow> group_phase option" where
  "group_phase_at st cid =
     find_map (\<lambda>(_, ident). Option.bind (bt_get (idn_conversations ident) cid) phase_of_identity) (identities st)"

definition group_phase_mut ::
  "(group_phase \<Rightarrow> group_phase) \<Rightarrow> conversation_id \<Rightarrow> engine_state \<Rightarrow> engine_state option" where
  "group_phase_mut f = identity_row_mut (phase_mut_of_identity f)"

fun live_of :: "group_phase \<Rightarrow> group_live option" where
  "live_of (Live live) = Some live"
| "live_of _ = None"

definition group_live_at :: "engine_state \<Rightarrow> conversation_id \<Rightarrow> group_live option" where
  "group_live_at st cid = Option.bind (group_phase_at st cid) live_of"

fun on_live :: "(group_live \<Rightarrow> group_live) \<Rightarrow> group_phase \<Rightarrow> group_phase" where
  "on_live f (Live live) = Live (f live)"
| "on_live f phase = phase"

fun phase_log :: "group_phase \<Rightarrow> live_group_tx tx_log" where
  "phase_log (Live live) = gl_log live"
| "phase_log _ = []"

lemma group_row_body: "identity_body (GroupRow phase) t = log_get live_group_to (phase_log phase) t"
  by (cases phase) (simp_all add: log_get_def)

lemma group_row_wf: "identity_wf (GroupRow phase) = bt_ok (phase_log phase)"
  by (cases phase) simp_all

section \<open>Changes that only lose rows\<close>

lemma users_smaller:
  assumes wf: "wf_state st"
    and frame: "es_engine_log st' = es_engine_log st" "es_tx_place st' = es_tx_place st" "dev_convs st' = dev_convs st"
    and users: "bt_ok (es_users st')" "\<And>u usr. bt_get (es_users st') u = Some usr \<Longrightarrow> bt_ok (usr_identities usr)"
    and ids: "\<And>u i ident. identity_at st' u i = Some ident \<Longrightarrow> bt_ok (idn_conversations ident)"
    and rows: "\<And>u i cid node. identity_row st' u i cid = Some node \<Longrightarrow> identity_row st u i cid = Some node"
  shows "wf_state st' \<and> smaller_store st st'"
proof
  show "wf_state st'" unfolding wf_state_def
    using wf_stateD [OF wf] users ids rows by (simp add: frame) blast
  show "smaller_store st st'" unfolding smaller_store_def
  proof (intro conjI allI impI)
    fix t p b
    assume at: "body_at st' t p = Some b"
    show "body_at st t p = Some b"
    proof (cases p)
      case (PlaceIdentity u i cid)
      with at obtain node where "identity_row st' u i cid = Some node" "identity_body node t = Some b"
        by (auto simp: bind_eq_Some_conv)
      with rows [OF this(1)] show ?thesis by (simp add: PlaceIdentity)
    qed (use at frame in simp_all)
  qed (simp add: frame)
qed

lemma devices_smaller:
  assumes wf: "wf_state st"
    and frame: "es_engine_log st' = es_engine_log st" "es_tx_place st' = es_tx_place st" "es_users st' = es_users st"
    and ok: "bt_ok (dev_convs st')"
    and rows: "\<And>cid node. bt_get (dev_convs st') cid = Some node \<Longrightarrow>
      device_wf node \<and> (\<forall>t b. device_body node t = Some b \<longrightarrow>
        Option.bind (bt_get (dev_convs st) cid) (\<lambda>n. device_body n t) = Some b)"
  shows "wf_state st' \<and> smaller_store st st'"
proof
  have at: "identity_at st' = identity_at st" "identity_row st' = identity_row st"
    using frame by (simp_all add: fun_eq_iff identity_at_def identity_row_def)
  show "wf_state st'" unfolding wf_state_def
    using wf_stateD [OF wf] ok rows by (auto simp: frame at)
  show "smaller_store st st'" unfolding smaller_store_def
  proof (intro conjI allI impI)
    fix t p b
    assume b: "body_at st' t p = Some b"
    show "body_at st t p = Some b"
    proof (cases p)
      case (PlaceDevice cid)
      with b obtain node where "bt_get (dev_convs st') cid = Some node" "device_body node t = Some b"
        by (auto simp: bind_eq_Some_conv)
      with rows [OF this(1)] show ?thesis by (simp add: PlaceDevice)
    qed (use b frame at in simp_all)
  qed (simp add: frame)
qed

lemma group_smaller:
  assumes wf: "wf_state st" and upd: "group_phase_mut f cid st = Some st'"
    and f: "\<And>p. phase_log (f p) = phase_log p \<or> phase_log (f p) = []"
  shows "wf_state st' \<and> smaller_store st st'"
proof -
  from identity_row_mut_set [OF wf upd [unfolded group_phase_mut_def]] obtain u i node node' where
    *: "identity_row st u i cid = Some node" "phase_mut_of_identity f node = Some node'"
       "st' = set_identity_row u i cid (\<lambda>_. node') st" by blast
  then obtain p where p: "node = GroupRow p" "node' = GroupRow (f p)" by (cases node) auto
  have wfn: "bt_ok (phase_log p)" using wf_stateD(7) [OF wf *(1)] by (simp add: p group_row_wf)
  then have "identity_wf node'" using f [of p] by (auto simp: p group_row_wf)
  then have "wf_state st'" unfolding *(3) by (intro wf_set_identity_row [OF wf]) simp
  moreover have "body_at st t q = Some b" if "body_at st' t q = Some b" for t q b
    using that f [of p] *(1) by (cases q) (auto simp: *(3) p group_row_body log_get_def split: if_splits)
  moreover have "es_tx_place st' = es_tx_place st" by (simp add: *(3))
  ultimately show ?thesis by (simp add: smaller_store_def)
qed

lemma ensure_user_at [simp]: "identity_at (ensure_user u st) = identity_at st"
  by (auto simp: fun_eq_iff ensure_user_def identity_at_def bt_contains_def user_default_def split: option.splits)

lemma ensure_user_frame [simp]:
  "es_tx_place (ensure_user u st) = es_tx_place st" "es_engine_log (ensure_user u st) = es_engine_log st"
  "dev_convs (ensure_user u st) = dev_convs st"
  by (simp_all add: ensure_user_def dev_convs_def)

lemma ensure_user_row [simp]: "identity_row (ensure_user u st) = identity_row st"
  by (simp add: fun_eq_iff identity_row_def)

lemma ensure_user_smaller:
  assumes "wf_state st"
  shows "wf_state (ensure_user u st) \<and> smaller_store st (ensure_user u st)"
proof (rule users_smaller [OF assms])
  show "bt_ok (es_users (ensure_user u st))"
    "\<And>v usr. bt_get (es_users (ensure_user u st)) v = Some usr \<Longrightarrow> bt_ok (usr_identities usr)"
    using wf_stateD(3,5) [OF assms] by (auto simp: ensure_user_def user_default_def split: if_splits)
qed (use wf_stateD(6) [OF assms] in simp_all)

lemma ensure_identity_users:
  assumes "wf_state st"
  shows "bt_ok (es_users (ensure_identity u i st))"
    "bt_get (es_users (ensure_identity u i st)) v = Some usr \<Longrightarrow> bt_ok (usr_identities usr)"
  using conjunct1 [OF ensure_user_smaller [OF assms, of u], THEN wf_stateD(3)]
    conjunct1 [OF ensure_user_smaller [OF assms, of u], THEN wf_stateD(5)]
  by (auto simp: ensure_identity_def Let_def split: if_splits)

lemma ensure_identity_row: "identity_row (ensure_identity u i st) = identity_row st"
  by (auto simp: fun_eq_iff identity_row_def identity_at_ensure identity_default_def split: option.splits)

lemma ensure_identity_smaller:
  assumes "wf_state st"
  shows "wf_state (ensure_identity u i st) \<and> smaller_store st (ensure_identity u i st)"
proof (rule users_smaller [OF assms])
  show "bt_ok (idn_conversations ident)" if "identity_at (ensure_identity u i st) v j = Some ident" for v j ident
    using that wf_stateD(6) [OF assms] by (auto simp: identity_at_ensure identity_default_def split: if_splits option.splits)
qed (use ensure_identity_users [OF assms] in \<open>auto simp: ensure_identity_row\<close>)

lemma rename_smaller:
  assumes "wf_state st" "\<And>ident. idn_conversations (f ident) = idn_conversations ident"
  shows "wf_state (identity_mut f u i st) \<and> smaller_store st (identity_mut f u i st)"
proof
  have row: "bt_get (idn_conversations ident) c = Some node \<Longrightarrow> identity_wf node"
    if "identity_at st u i = Some ident" for ident c node
    using wf_stateD(7) [OF assms(1), of u i c node] that by (simp add: identity_row_def)
  show "wf_state (identity_mut f u i st)"
    by (rule wf_identity_mut [OF assms(1)]) (use row wf_stateD(6) [OF assms(1)] in \<open>auto simp: assms(2)\<close>)
  show "smaller_store st (identity_mut f u i st)"
    by (rule smaller_identity_mut) (simp add: assms(2))
qed

text \<open>\<open>state.users.remove\<close> and \<open>user.identities.remove\<close>.\<close>

definition remove_user :: "user_id \<Rightarrow> engine_state \<Rightarrow> engine_state" where
  "remove_user u st = st\<lparr>es_users := bt_remove u (es_users st)\<rparr>"

definition remove_identity :: "user_id \<Rightarrow> identity_id \<Rightarrow> engine_state \<Rightarrow> engine_state" where
  "remove_identity u i st =
     st\<lparr>es_users := bt_update u (\<lambda>usr. usr\<lparr>usr_identities := bt_remove i (usr_identities usr)\<rparr>) (es_users st)\<rparr>"

lemma removed_at:
  "identity_at (remove_user u st) v j = (if v = u then None else identity_at st v j)"
  "identity_at (remove_identity u i st) v j = (if v = u \<and> j = i then None else identity_at st v j)"
  by (cases "bt_get (es_users st) u"; auto simp: remove_user_def remove_identity_def identity_at_def)+

lemma removed_row:
  "identity_row (remove_user u st) v j cid = Some node \<Longrightarrow> identity_row st v j cid = Some node"
  "identity_row (remove_identity u i st) v j cid = Some node \<Longrightarrow> identity_row st v j cid = Some node"
  by (auto simp: identity_row_def removed_at split: if_splits)

lemma removed_frame [simp]:
  "es_tx_place (remove_user u st) = es_tx_place st" "es_engine_log (remove_user u st) = es_engine_log st"
  "dev_convs (remove_user u st) = dev_convs st"
  "es_tx_place (remove_identity u i st) = es_tx_place st" "es_engine_log (remove_identity u i st) = es_engine_log st"
  "dev_convs (remove_identity u i st) = dev_convs st"
  by (simp_all add: remove_user_def remove_identity_def dev_convs_def)

lemma removed_users:
  assumes "wf_state st"
  shows "bt_ok (es_users (remove_user u st))" "bt_ok (es_users (remove_identity u i st))"
    "bt_get (es_users (remove_user u st)) v = Some usr \<Longrightarrow> bt_ok (usr_identities usr)"
    "bt_get (es_users (remove_identity u i st)) v = Some usr \<Longrightarrow> bt_ok (usr_identities usr)"
  using wf_stateD(3,5) [OF assms] by (auto simp: remove_user_def remove_identity_def split: if_splits)

lemma remove_smaller:
  assumes "wf_state st"
  shows "wf_state (remove_user u st) \<and> smaller_store st (remove_user u st)"
    "wf_state (remove_identity u i st) \<and> smaller_store st (remove_identity u i st)"
proof -
  show "wf_state (remove_user u st) \<and> smaller_store st (remove_user u st)"
    by (rule users_smaller [OF assms _ _ _ removed_users(1,3) [OF assms] _ removed_row(1)])
      (use wf_stateD(6) [OF assms] in \<open>auto simp: removed_at split: if_splits\<close>)
  show "wf_state (remove_identity u i st) \<and> smaller_store st (remove_identity u i st)"
    by (rule users_smaller [OF assms _ _ _ removed_users(2,4) [OF assms] _ removed_row(2)])
      (use wf_stateD(6) [OF assms] in \<open>auto simp: removed_at split: if_splits\<close>)
qed

text \<open>\<open>BTreeMap::retain\<close> on the device's rows followed by a change of the rows left, and a change of one row.\<close>

definition retain_device ::
  "(device_conversation \<Rightarrow> bool) \<Rightarrow> (device_conversation \<Rightarrow> device_conversation) \<Rightarrow> engine_state \<Rightarrow> engine_state" where
  "retain_device keep f st = st\<lparr>es_device := (es_device st)\<lparr>dev_conversations :=
     bt_map f (filter (\<lambda>(_, node). keep node) (dev_convs st))\<rparr>\<rparr>"

lemma bt_ok_filter: "bt_ok m \<Longrightarrow> bt_ok (filter P m)"
  by (induction m) auto

lemma bt_get_filter: "bt_ok m \<Longrightarrow> bt_get (filter P m) k = Some v \<longleftrightarrow> bt_get m k = Some v \<and> P (k, v)"
  by (simp add: bt_get_iff bt_ok_filter)

lemma retain_smaller:
  assumes "wf_state st" "\<And>node. device_body (f node) = device_body node \<and> device_wf (f node) = device_wf node"
  shows "wf_state (retain_device keep f st) \<and> smaller_store st (retain_device keep f st)"
proof (rule devices_smaller [OF assms(1)])
  have convs: "dev_convs (retain_device keep f st) = bt_map f (filter (\<lambda>(_, node). keep node) (dev_convs st))"
    by (simp add: retain_device_def dev_convs_def)
  show "bt_ok (dev_convs (retain_device keep f st))"
    using bt_ok_filter [OF wf_stateD(4) [OF assms(1)]] by (simp add: convs)
  show "device_wf node \<and> (\<forall>t b. device_body node t = Some b \<longrightarrow>
      Option.bind (bt_get (dev_convs st) cid) (\<lambda>n. device_body n t) = Some b)"
    if "bt_get (dev_convs (retain_device keep f st)) cid = Some node" for cid node
    using that wf_stateD(8) [OF assms(1), of cid] assms(2)
    by (auto simp: convs bt_get_filter [OF wf_stateD(4) [OF assms(1)]])
qed (simp_all add: retain_device_def)

lemma set_device_smaller:
  assumes "wf_state st" "\<And>node. device_body (f node) = device_body node \<and> device_wf (f node) = device_wf node"
  shows "wf_state (set_device_row cid f st) \<and> smaller_store st (set_device_row cid f st)"
  by (rule devices_smaller [OF assms(1)])
    (use wf_stateD [OF assms(1)] assms(2) in \<open>auto simp: set_device_row_def dev_convs_def split: if_splits\<close>)

section \<open>The clock and the sequence number\<close>

definition forward :: "engine_state \<Rightarrow> engine_state \<Rightarrow> bool" where
  "forward st st' \<longleftrightarrow> es_next_seq st \<le> es_next_seq st' \<and>
     (case es_ticked st of None \<Rightarrow> True | Some t \<Rightarrow> (case es_ticked st' of None \<Rightarrow> False | Some t' \<Rightarrow> t \<le> t'))"

lemma forward_same [simp]: "es_ticked st' = es_ticked st \<Longrightarrow> es_next_seq st' = es_next_seq st \<Longrightarrow> forward st st'"
  by (simp add: forward_def split: option.split)

lemma forward_trans: "forward a b \<Longrightarrow> forward b c \<Longrightarrow> forward a c"
  by (auto simp: forward_def split: option.splits)

section \<open>The steps\<close>

text \<open>A step is one call that touches rows or transactions, or a change of the other fields. A handler
  changes a party along the phases only.\<close>

inductive store_step :: "engine_state \<Rightarrow> engine_state \<Rightarrow> bool" where
  s_insert: "insert_body t b st = (r, st') \<Longrightarrow> store_step st st'"
| s_remove: "store_step st (remove_body t st)"
| s_chains: "store_step st (with_chains f cid st)"
| s_established: "established_mut_of g cid st = Some st' \<Longrightarrow> store_step st st'"
| s_each: "store_step st (each_chains_mut f st)"
| s_party: "(\<And>p. party_step\<^sup>*\<^sup>* p (h p)) \<Longrightarrow> party_mut h cid st = Some st' \<Longrightarrow> store_step st st'"
| s_fail: "store_step st (state_fail cid reason st)"
| s_ack: "store_step st (state_ack_posted cid st)"
| s_put_dm: "identity_wf node \<Longrightarrow> (\<And>t. identity_body node t = None) \<Longrightarrow> store_step st (put_dm u i cid node st)"
| s_put_sync: "device_wf dnode \<Longrightarrow> (\<And>t. device_body dnode t = None) \<Longrightarrow> store_step st (put_sync cid dnode st)"
| s_spawn: "store_step st (spawn_established h' child s peer st)"
| s_drop: "drop_conversation cid st = (dropped, st') \<Longrightarrow> store_step st st'"
| s_group: "group_phase_mut gf cid st = Some st' \<Longrightarrow>
    (\<And>p. phase_log (gf p) = phase_log p \<or> phase_log (gf p) = []) \<Longrightarrow> store_step st st'"
| s_user: "store_step st (ensure_user u st)"
| s_identity: "store_step st (ensure_identity u i st)"
| s_rename: "(\<And>ident. idn_conversations (nf ident) = idn_conversations ident) \<Longrightarrow> store_step st (identity_mut nf u i st)"
| s_remove_user: "store_step st (remove_user u st)"
| s_remove_identity: "store_step st (remove_identity u i st)"
| s_retain: "(\<And>node. device_body (df node) = device_body node \<and> device_wf (df node) = device_wf node) \<Longrightarrow>
    store_step st (retain_device keep df st)"
| s_device: "(\<And>node. device_body (df node) = device_body node \<and> device_wf (df node) = device_wf node) \<Longrightarrow>
    store_step st (set_device_row cid df st)"
| s_other: "es_engine_log st' = es_engine_log st \<Longrightarrow> es_tx_place st' = es_tx_place st \<Longrightarrow>
    es_users st' = es_users st \<Longrightarrow> dev_convs st' = dev_convs st \<Longrightarrow> forward st st' \<Longrightarrow> store_step st st'"

lemma other_same:
  assumes "es_engine_log st' = es_engine_log st" "es_tx_place st' = es_tx_place st"
    "es_users st' = es_users st" "dev_convs st' = dev_convs st" "wf_state st"
  shows "wf_state st' \<and> same_store st st'"
proof -
  have at: "identity_at st' = identity_at st" "identity_row st' = identity_row st"
    using assms by (simp_all add: fun_eq_iff identity_at_def identity_row_def)
  moreover have "body_at st' t p = body_at st t p" for t p by (cases p) (simp_all add: assms at)
  ultimately show ?thesis using assms by (simp add: same_store_def wf_state_def)
qed

lemma insert_indexed:
  assumes "indexed st" "insert_body t b st = (r, st')"
  shows "indexed st'"
proof (cases r)
  case (Inl e)
  with insert_body_error [of t b st e st'] assms indexed_remove show ?thesis by auto
next
  case (Inr x)
  with assms indexed_insert show ?thesis by simp
qed

lemma kept_same: "wf_state st' \<and> same_store st st' \<Longrightarrow> wf_state st' \<and> (indexed st \<longrightarrow> indexed st')"
  using indexed_same by blast

lemma kept_smaller: "wf_state st' \<and> smaller_store st st' \<Longrightarrow> wf_state st' \<and> (indexed st \<longrightarrow> indexed st')"
  using indexed_smaller by blast

lemma store_step_invariant:
  assumes "store_step st st'" "wf_state st"
  shows "wf_state st' \<and> (indexed st \<longrightarrow> indexed st')"
  using assms(1)
proof cases
  case (s_insert t b r)
  then show ?thesis using wf_insert [OF assms(2)] insert_indexed [OF] by blast
next
  case (s_remove t)
  then show ?thesis using assms by (simp add: wf_remove indexed_remove)
next
  case (s_chains f cid)
  show ?thesis unfolding s_chains by (rule kept_same [OF with_chains_same [OF assms(2)]])
next
  case (s_established g cid)
  show ?thesis by (rule kept_same [OF accessors_same(2) [OF assms(2) s_established]])
next
  case (s_each f)
  show ?thesis unfolding s_each by (rule kept_same [OF each_chains_same [OF assms(2)]])
next
  case (s_party h cid)
  show ?thesis by (rule kept_same [OF accessors_same(3) [OF assms(2) s_party(2)]])
next
  case (s_fail cid reason)
  show ?thesis unfolding s_fail by (rule kept_same [OF fail_same [OF assms(2)]])
next
  case (s_ack cid)
  show ?thesis unfolding s_ack by (rule kept_same [OF ack_same [OF assms(2)]])
next
  case (s_put_dm node u i cid)
  then have "wf_state st' \<and> smaller_store st st'" using wf_put_dm [OF assms(2)] smaller_put_dm by simp
  then show ?thesis by (rule kept_smaller)
next
  case (s_put_sync node cid)
  then have "wf_state st' \<and> smaller_store st st'" using wf_put_sync [OF assms(2)] smaller_put_sync by simp
  then show ?thesis by (rule kept_smaller)
next
  case (s_group gf cid)
  show ?thesis by (rule kept_smaller [OF group_smaller [OF assms(2) s_group]])
next
  case (s_user u)
  show ?thesis unfolding s_user by (rule kept_smaller [OF ensure_user_smaller [OF assms(2)]])
next
  case (s_identity u i)
  show ?thesis unfolding s_identity by (rule kept_smaller [OF ensure_identity_smaller [OF assms(2)]])
next
  case (s_rename nf u i)
  show ?thesis unfolding s_rename(1) by (rule kept_smaller [OF rename_smaller [OF assms(2) s_rename(2)]])
next
  case (s_remove_user u)
  show ?thesis unfolding s_remove_user by (rule kept_smaller [OF remove_smaller(1) [OF assms(2)]])
next
  case (s_remove_identity u i)
  show ?thesis unfolding s_remove_identity by (rule kept_smaller [OF remove_smaller(2) [OF assms(2)]])
next
  case (s_retain df keep)
  show ?thesis unfolding s_retain(1) by (rule kept_smaller [OF retain_smaller [OF assms(2) s_retain(2)]])
next
  case (s_device df cid)
  show ?thesis unfolding s_device(1) by (rule kept_smaller [OF set_device_smaller [OF assms(2) s_device(2)]])
next
  case (s_spawn h child s peer)
  show ?thesis unfolding s_spawn by (rule kept_smaller [OF put_smaller(5) [OF assms(2)]])
next
  case (s_drop cid dropped)
  show ?thesis by (rule kept_smaller [OF drop_smaller [OF assms(2) s_drop]])
next
  case s_other
  show ?thesis by (rule kept_same [OF other_same [OF s_other(1-4) assms(2)]])
qed

lemma store_steps_wf: "store_step\<^sup>*\<^sup>* st st' \<Longrightarrow> wf_state st \<Longrightarrow> wf_state st'"
  by (induction rule: rtranclp_induct) (blast dest: store_step_invariant)+

lemma store_steps_invariant:
  "store_step\<^sup>*\<^sup>* st st' \<Longrightarrow> wf_state st \<and> indexed st \<Longrightarrow> wf_state st' \<and> indexed st'"
  by (induction rule: rtranclp_induct) (blast dest: store_step_invariant)+

text \<open>No step turns the clock or the sequence number back.\<close>

lemma row_mut_side:
  "identity_row_mut f cid st = Some st' \<Longrightarrow> es_ticked st' = es_ticked st \<and> es_next_seq st' = es_next_seq st"
  "device_row_mut df cid st = Some st' \<Longrightarrow> es_ticked st' = es_ticked st \<and> es_next_seq st' = es_next_seq st"
  by (auto simp: identity_row_mut_def device_row_mut_def bind_eq_Some_conv)

lemma mut_side:
  "packet_mut_of pf cid st = Some st' \<Longrightarrow> es_ticked st' = es_ticked st \<and> es_next_seq st' = es_next_seq st"
  "established_mut_of g cid st = Some st' \<Longrightarrow> es_ticked st' = es_ticked st \<and> es_next_seq st' = es_next_seq st"
  "party_mut h cid st = Some st' \<Longrightarrow> es_ticked st' = es_ticked st \<and> es_next_seq st' = es_next_seq st"
  by (auto simp: packet_mut_of_def established_mut_of_def party_mut_def or_else_Some dest: row_mut_side)

lemma put_side:
  "es_ticked (ensure_user u st) = es_ticked st" "es_next_seq (ensure_user u st) = es_next_seq st"
  "es_ticked (ensure_identity u i st) = es_ticked st" "es_next_seq (ensure_identity u i st) = es_next_seq st"
  "es_ticked (put_dm u i cid node st) = es_ticked st" "es_next_seq (put_dm u i cid node st) = es_next_seq st"
  "es_ticked (put_sync cid dnode st) = es_ticked st" "es_next_seq (put_sync cid dnode st) = es_next_seq st"
  by (simp_all add: ensure_user_def ensure_identity_def put_dm_def put_sync_def identity_mut_def Let_def)

lemma remove_body_side:
  "es_ticked (remove_body t st) = es_ticked st" "es_next_seq (remove_body t st) = es_next_seq st"
  by (simp_all add: remove_body_def set_identity_row_def set_device_row_def identity_mut_def Let_def split: option.split tx_place.split)

lemma insert_body_side:
  assumes "insert_body t b st = (r, st')"
  shows "es_ticked st' = es_ticked st \<and> es_next_seq st' = es_next_seq st"
  using assms
  by (auto simp: insert_body_def place_body_def set_identity_row_def set_device_row_def identity_mut_def Let_def remove_body_side
      split: option.splits tx_place.splits if_splits)

lemma store_step_forward:
  assumes "store_step st st'" shows "forward st st'"
proof -
  have "forward st st' \<or> es_ticked st' = es_ticked st \<and> es_next_seq st' = es_next_seq st"
    using assms
    by cases
      (auto dest: insert_body_side mut_side row_mut_side
        simp: remove_body_side put_side with_chains_def chains_mut_def state_fail_def state_ack_posted_def
          spawn_established_def drop_conversation_def group_phase_mut_def identity_mut_def remove_user_def
          remove_identity_def retain_device_def set_device_row_def each_chains_mut_def map_identities_def Let_def
        split: option.splits conversation_scope.splits spawn_peer.splits if_splits)
  then show ?thesis by auto
qed

lemma store_steps_forward: "store_step\<^sup>*\<^sup>* st st' \<Longrightarrow> forward st st'"
  by (induction rule: rtranclp_induct) (auto dest: store_step_forward intro: forward_trans)

lemma new_invariant: "wf_state state_new \<and> indexed state_new"
proof -
  have "identity_at state_new u i = None" "identity_row state_new u i cid = None" for u i cid
    by (simp_all add: state_new_def identity_at_def identity_row_def)
  moreover have "dev_convs state_new = []" by (simp add: state_new_def device_default_def dev_convs_def)
  moreover have "body_at state_new t p = None" for t p
    using calculation by (cases p) (simp_all add: state_new_def)
  ultimately show ?thesis by (simp add: wf_state_def indexed_def) (simp add: state_new_def)
qed

end
