(* ===== verification/Helpers.thy ===== *)
theory Helpers
  imports Store_Steps Codec
begin

text \<open>
  The shared helpers of the engine (\<open>engine/helpers.rs\<close>): what a handshake has logged, the hour bins
  still to list, the order of what a poll returns, small codecs of the fold, and the acknowledgement
  watermark. \<open>BTreeSet\<close>s that are never iterated are HOL sets.
\<close>

section \<open>What a handshake has logged\<close>

fun dm_log_of :: "identity_conversation \<Rightarrow> dm_handshake_tx tx_log option" where
  "dm_log_of (DmHandshakeRow _ lg _) = Some lg"
| "dm_log_of _ = None"

fun sync_log_of :: "device_conversation \<Rightarrow> sync_handshake_tx tx_log option" where
  "sync_log_of (SyncHandshakeRow _ lg _) = Some lg"
| "sync_log_of _ = None"

definition dm_handshake_log :: "engine_state \<Rightarrow> conversation_id \<Rightarrow> dm_handshake_tx tx_log option" where
  "dm_handshake_log st cid =
     find_map (\<lambda>(_, ident). Option.bind (bt_get (idn_conversations ident) cid) dm_log_of) (identities st)"

definition sync_handshake_log :: "engine_state \<Rightarrow> conversation_id \<Rightarrow> sync_handshake_tx tx_log option" where
  "sync_handshake_log st cid = Option.bind (bt_get (dev_convs st) cid) sync_log_of"

text \<open>The first row whose payload matches, in a DM handshake or else in a sync handshake.\<close>

definition find_row :: "('t \<Rightarrow> 'a option) \<Rightarrow> 't tx_log \<Rightarrow> 'a option" where
  "find_row f lg = find_map (\<lambda>(_, r). f (row_payload r)) lg"

definition find_handshake ::
  "(dm_handshake_tx \<Rightarrow> 'a option) \<Rightarrow> (sync_handshake_tx \<Rightarrow> 'a option) \<Rightarrow> engine_state \<Rightarrow> conversation_id \<Rightarrow> 'a option" where
  "find_handshake f g st cid =
     (case dm_handshake_log st cid of
        Some lg \<Rightarrow> find_row f lg
      | None \<Rightarrow> Option.bind (sync_handshake_log st cid) (find_row g))"

definition notice_for :: "engine_state \<Rightarrow> conversation_id \<Rightarrow> tx_notice option" where
  "notice_for = find_handshake
     (\<lambda>tx. case tx of DhNotice notice \<Rightarrow> Some notice | _ \<Rightarrow> None)
     (\<lambda>tx. case tx of ShNotice notice \<Rightarrow> Some notice | _ \<Rightarrow> None)"

definition invitee_intro_for :: "engine_state \<Rightarrow> conversation_id \<Rightarrow> tx_invitee_intro option" where
  "invitee_intro_for = find_handshake
     (\<lambda>tx. case tx of DhInviteeIntro intro \<Rightarrow> Some intro | _ \<Rightarrow> None)
     (\<lambda>tx. case tx of ShInviteeIntro intro \<Rightarrow> Some (sei_intro intro) | _ \<Rightarrow> None)"

definition inviter_intro_for :: "engine_state \<Rightarrow> conversation_id \<Rightarrow> tx_inviter_intro option" where
  "inviter_intro_for = find_handshake
     (\<lambda>tx. case tx of DhInviterIntro intro \<Rightarrow> Some intro | _ \<Rightarrow> None)
     (\<lambda>tx. case tx of ShInviterIntro intro \<Rightarrow> Some (sri_intro intro) | _ \<Rightarrow> None)"

definition invitee_intro_tx_id :: "engine_state \<Rightarrow> conversation_id \<Rightarrow> tag option" where
  "invitee_intro_tx_id st cid = find_map (\<lambda>(i, t).
     case db_payload t of
       InviteeIntro _ \<Rightarrow> then_some (db_conversation_id t = cid) i
     | SyncInviteeIntro _ \<Rightarrow> then_some (db_conversation_id t = cid) i
     | _ \<Rightarrow> None) (body_pairs st)"

definition sync_peer_device :: "engine_state \<Rightarrow> conversation_id \<Rightarrow> device_id option" where
  "sync_peer_device st handshake =
     (let ours = map_option dk_id (dev_keys (es_device st)) in
      find_map (\<lambda>tx.
        if db_conversation_id tx \<noteq> handshake then None
        else case db_payload tx of
            SyncInviterIntro intro \<Rightarrow> then_some (ours \<noteq> Some (sri_device_id intro)) (sri_device_id intro)
          | SyncInviteeIntro intro \<Rightarrow> then_some (ours \<noteq> Some (sei_device_id intro)) (sei_device_id intro)
          | _ \<Rightarrow> None) (bodies st))"

definition intro_keys_ok :: "policy \<Rightarrow> bytes \<Rightarrow> bytes \<Rightarrow> bytes option \<Rightarrow> bytes \<Rightarrow> bool" where
  "intro_keys_ok pol encryption_pk signing_pk intake_pk seed_ct \<longleftrightarrow>
     length encryption_pk = kem_pk_len pol \<and>
     length signing_pk = sign_pk_len pol \<and>
     length seed_ct = kem_ct_len pol \<and>
     (case intake_pk of Some pk \<Rightarrow> length pk = kem_pk_len pol | None \<Rightarrow> True)"

definition store_unlock_failed :: "conversation_id \<Rightarrow> engine_state \<Rightarrow> engine_state" where
  "store_unlock_failed cid st =
     (if failed st cid \<noteq> None then st
      else
        let reason = (if notice_for st cid \<noteq> None \<or> is_inviter_at st cid
                      then IntroUnlockFailed else NoticeUnlockFailed)
        in state_fail cid reason st)"

definition handshake_rows :: "engine_state \<Rightarrow> (conversation_id \<times> ticket \<times> conversation_sort) list" where
  "handshake_rows st =
     map (\<lambda>row. (he_cid row, party_ticket (ref_party (he_party row)), he_sort row)) (handshake_entries st)"

section \<open>Hour bins\<close>

definition catch_up_start :: "bin_progress option \<Rightarrow> time_bin \<Rightarrow> time_bin" where
  "catch_up_start progress list_from =
     (case Option.bind progress bp_watermark of
        Some w \<Rightarrow> saturating_add w 1
      | None \<Rightarrow> list_from)"

definition listen_bins :: "time_bin \<Rightarrow> time_bin list" where
  "listen_bins w = [saturating_sub w 1, w, saturating_add w 1]"

definition handshake_tag_key :: "suite \<Rightarrow> secret \<Rightarrow> tag_key" where
  "handshake_tag_key s secret = expand_mac s secret (label ''chuchotez/1/handshake-invite'')"

definition invite_tag :: "suite \<Rightarrow> secret \<Rightarrow> time_bin \<Rightarrow> tag" where
  "invite_tag s secret bin =
     expand_mac s secret (label ''chuchotez/1/handshake-invite'' @ to_be_bytes bin)"

definition progress_key :: "durable_channel \<Rightarrow> tag_key \<Rightarrow> bin_key" where
  "progress_key channel tag_key = \<lparr>bk_channel = channel, bk_tag_key = tag_key\<rparr>"

definition bin_complete :: "bin_progress option \<Rightarrow> time_bin \<Rightarrow> bool" where
  "bin_complete progress bin =
     (case progress of
        None \<Rightarrow> False
      | Some p \<Rightarrow>
          (case bp_watermark p of Some w \<Rightarrow> bin \<le> w | None \<Rightarrow> False) \<or> bin \<in> bp_completed p)"

text \<open>\<open>advance_progress\<close>: the loop takes the next bin out of the completed ones while it is there.\<close>

definition next_bin :: "time_bin option \<Rightarrow> time_bin \<Rightarrow> time_bin" where
  "next_bin watermark list_from = (case watermark of None \<Rightarrow> list_from | Some w \<Rightarrow> saturating_add w 1)"

function advance_loop ::
  "time_bin \<Rightarrow> time_bin option \<Rightarrow> time_bin set \<Rightarrow> time_bin option \<times> time_bin set" where
  "advance_loop list_from watermark completed =
     (let next = next_bin watermark list_from in
      if next \<in> completed then advance_loop list_from (Some next) (completed - {next})
      else (watermark, completed))"
  by pat_completeness auto
termination
proof (relation "measure (\<lambda>(_, _, completed). card completed)")
  fix list_from :: time_bin and watermark completed nxt
  assume "nxt = next_bin watermark list_from" "nxt \<in> completed"
  then show "((list_from, Some nxt, completed - {nxt}), list_from, watermark, completed)
      \<in> measure (\<lambda>(_, _, completed). card completed)"
    using card_Diff1_less [of completed nxt] by simp
qed simp

declare advance_loop.simps [simp del]

definition advance_progress :: "bin_progress \<Rightarrow> time_bin \<Rightarrow> bin_progress" where
  "advance_progress p list_from =
     (let (w, c) = advance_loop list_from (bp_watermark p) (bp_completed p)
      in p\<lparr>bp_watermark := w, bp_completed := c\<rparr>)"

section \<open>Locators and their order\<close>

record durable_locator =
  dl_channel :: durable_channel
  dl_tag :: tag

definition channel_key :: "kind \<Rightarrow> address \<Rightarrow> tag \<Rightarrow> nat list list" where
  "channel_key k a t = [map of_char (kind_str k), map of_char (address_str a), map unat (as_bytes t)]"

definition locator_key :: "durable_locator \<Rightarrow> nat list list" where
  "locator_key l = channel_key (dch_kind (dl_channel l)) (dch_address (dl_channel l)) (dl_tag l)"

text \<open>\<open>locator_ord\<close> compares kind, address and tag in turn; \<open>sort_by\<close> is stable.\<close>

definition locator_le :: "durable_locator \<Rightarrow> durable_locator \<Rightarrow> bool" where
  "locator_le a b \<longleftrightarrow> locator_key a \<le> locator_key b"

definition sort_durable_locators :: "durable_locator list \<Rightarrow> durable_locator list" where
  "sort_durable_locators ls = sort_key locator_key ls"

definition sort_durable_writes :: "durable_write list \<Rightarrow> durable_write list" where
  "sort_durable_writes ws =
     sort_key (\<lambda>w. locator_key \<lparr>dl_channel = dw_channel w, dl_tag = dw_tag w\<rparr>) ws"

definition sort_ephemeral_writes :: "ephemeral_write list \<Rightarrow> ephemeral_write list" where
  "sort_ephemeral_writes ws =
     sort_key (\<lambda>w. channel_key (ech_kind (ew_channel w)) (ech_address (ew_channel w)) (ew_tag w)) ws"

section \<open>Small codecs\<close>

definition sort32 :: "'a b32 \<Rightarrow> 'a b32 \<Rightarrow> bytes" where
  "sort32 a b = (if a \<le> b then as_bytes a @ as_bytes b else as_bytes b @ as_bytes a)"

definition take_shared32 :: "bytes \<Rightarrow> secret" where
  "take_shared32 shared =
     (let n = min (length shared) KEM_SHARED_LEN
      in from_array (take n shared @ replicate (KEM_SHARED_LEN - n) 0))"

fun decode_fold_bstr :: "b64u \<Rightarrow> json \<Rightarrow> engine_error + bytes" where
  "decode_fold_bstr b (JString s) = ok_or (b64_decode b s) MalformedPersist"
| "decode_fold_bstr b _ = Inl MalformedPersist"

definition decode_fold32 :: "b64u \<Rightarrow> json \<Rightarrow> engine_error + 'r b32" where
  "decode_fold32 b value =
     and_then (decode_fold_bstr b value) (\<lambda>bs. ok_or (try_from_bytes bs) MalformedPersist)"

definition keypair_json :: "b64u \<Rightarrow> bytes \<Rightarrow> bytes \<Rightarrow> json" where
  "keypair_json b pk sk = JObject [(''pk'', bstr b pk), (''sk'', bstr b sk)]"

definition parse_fold_keypair :: "b64u \<Rightarrow> json \<Rightarrow> engine_error + (bytes \<times> bytes)" where
  "parse_fold_keypair b value =
     (case value of
        JObject m \<Rightarrow>
          and_then (ok_or (get m ''pk'') MalformedPersist) (\<lambda>pv.
          and_then (decode_fold_bstr b pv) (\<lambda>pk.
          and_then (ok_or (get m ''sk'') MalformedPersist) (\<lambda>sv.
          and_then (decode_fold_bstr b sv) (\<lambda>sk. Inr (pk, sk)))))
      | _ \<Rightarrow> Inl MalformedPersist)"

definition parse_fold_channel :: "json \<Rightarrow> engine_error + durable_channel" where
  "parse_fold_channel value =
     (case value of
        JObject m \<Rightarrow>
          (case get m ''kind'' of
             Some (JString k) \<Rightarrow>
               (case get m ''address'' of
                  Some (JString a) \<Rightarrow>
                    and_then (map_err (\<lambda>_. MalformedPersist) (kind_try_from k)) (\<lambda>k.
                    and_then (map_err (\<lambda>_. MalformedPersist) (address_try_from a)) (\<lambda>a.
                      Inr \<lparr>dch_kind = k, dch_address = a\<rparr>))
                | _ \<Rightarrow> Inl MalformedPersist)
           | _ \<Rightarrow> Inl MalformedPersist)
      | _ \<Rightarrow> Inl MalformedPersist)"

fun actor_for :: "conversation_sort \<Rightarrow> bytes \<Rightarrow> actor option" where
  "actor_for HandshakeDm bs = then_some (bs = []) Handshake"
| "actor_for HandshakeSync bs = then_some (bs = []) Handshake"
| "actor_for DirectMessage bs = then_some (bs \<noteq> []) (actor_signing bs)"
| "actor_for Group bs = then_some (bs \<noteq> []) (actor_signing bs)"
| "actor_for Synchronization bs = map_option Device (try_from_bytes bs)"
| "actor_for Engine bs = None"

section \<open>Acknowledgements\<close>

definition conversation_tx_ids :: "engine_state \<Rightarrow> conversation_id \<Rightarrow> tag set" where
  "conversation_tx_ids st cid = set (map fst (filter (\<lambda>(_, b). db_conversation_id b = cid) (body_pairs st)))"

definition watermark_of :: "engine_state \<Rightarrow> conversation_id \<Rightarrow> tag set" where
  "watermark_of st cid =
     (case chains_of st cid of
        None \<Rightarrow> conversation_tx_ids st cid
      | Some ch \<Rightarrow>
          (case filter (\<lambda>s. s \<noteq> {}) (bt_values (pc_last_acks ch)) of
             [] \<Rightarrow> conversation_tx_ids st cid
           | first # rest \<Rightarrow> foldl (\<lambda>acc s. acc \<inter> s) first rest))"

definition tx_watermarked :: "engine_state \<Rightarrow> tag \<Rightarrow> bool" where
  "tx_watermarked st tx_id =
     (case body st tx_id of
        Some b \<Rightarrow> tx_id \<in> watermark_of st (db_conversation_id b)
      | None \<Rightarrow> False)"

fun payload_expire_at :: "tx_payload \<Rightarrow> unix_seconds option" where
  "payload_expire_at (Text t) = txt_expire_at t"
| "payload_expire_at (Media m) = med_expire_at m"
| "payload_expire_at _ = None"

definition persist_outside_watermark :: "engine_state \<Rightarrow> bool" where
  "persist_outside_watermark st =
     (let now = (case es_ticked st of Some n \<Rightarrow> n | None \<Rightarrow> 0) in
      list_ex (\<lambda>tx_id.
        case body st tx_id of
          None \<Rightarrow> False
        | Some b \<Rightarrow>
            if (case payload_expire_at (db_payload b) of Some expires \<Rightarrow> expires \<le> now | None \<Rightarrow> False) then False
            else \<not> tx_watermarked st tx_id) (bt_values (es_persist_log st)))"

definition store_durable_last_ack ::
  "conversation_id \<Rightarrow> bytes \<Rightarrow> tag \<Rightarrow> engine_state \<Rightarrow> engine_state" where
  "store_durable_last_ack cid actor_id set_xor st =
     (if set_xor_for (body_pairs st) cid \<noteq> set_xor then st
      else
        (case sort_of st cid of
           None \<Rightarrow> st
         | Some srt \<Rightarrow>
             (case actor_for srt actor_id of
                None \<Rightarrow> st
              | Some actor \<Rightarrow>
                  let ids = conversation_tx_ids st cid
                  in with_chains (\<lambda>ch. ch\<lparr>pc_last_acks := bt_insert actor ids (pc_last_acks ch)\<rparr>) cid st)))"

text \<open>Keep the entries of the skipped-key cache that \<open>keep\<close> accepts; an actor left without any goes.\<close>

definition retain_mks :: "(cached_mk \<Rightarrow> bool) \<Rightarrow> packet_chains \<Rightarrow> packet_chains" where
  "retain_mks keep ch =
     ch\<lparr>pc_skipped_mks := filter (\<lambda>(_, e). e \<noteq> []) (bt_map (filter keep) (pc_skipped_mks ch))\<rparr>"

definition cached_tx_ids :: "engine_state \<Rightarrow> tag list" where
  "cached_tx_ids st =
     concat (map (\<lambda>(_, ch). List.map_filter cm_tx_id (concat (bt_values (pc_skipped_mks ch)))) (for_each_chains st))"

definition prune_cached_mks :: "engine_state \<Rightarrow> engine_state" where
  "prune_cached_mks st =
     (let dropped = set (filter (tx_watermarked st) (cached_tx_ids st))
      in each_chains_mut (retain_mks (\<lambda>e. case cm_tx_id e of None \<Rightarrow> True | Some i \<Rightarrow> i \<notin> dropped)) st)"

definition annotate_cached_mk ::
  "conversation_id \<Rightarrow> actor \<Rightarrow> message_key \<Rightarrow> tag \<Rightarrow> engine_state \<Rightarrow> engine_state" where
  "annotate_cached_mk cid actor key tx_id st =
     with_chains (\<lambda>ch. ch\<lparr>pc_skipped_mks := bt_update actor (map (\<lambda>e.
       if cm_mk e = key then e\<lparr>cm_tx_id := Some tx_id\<rparr> else e)) (pc_skipped_mks ch)\<rparr>) cid st"

definition intro_watermarked :: "engine_state \<Rightarrow> conversation_id \<Rightarrow> bool" where
  "intro_watermarked st cid =
     (case invitee_intro_tx_id st cid of
        None \<Rightarrow> False
      | Some tx_id \<Rightarrow>
          (case chains_of st cid of
             Some ch \<Rightarrow> list_ex (\<lambda>s. s \<noteq> {}) (bt_values (pc_last_acks ch))
           | None \<Rightarrow> False) \<and> tx_id \<in> watermark_of st cid)"

end
