(* ===== verification/Engine_Monad.thy ===== *)
theory Engine_Monad
  imports Helpers
begin

text \<open>
  Methods of \<open>Engine\<close> that take \<open>&mut EngineState\<close>, draw from the host's random source and return a
  \<open>Result\<close>: an action runs on the state and the source and returns the result together with both. As
  in the source, an error keeps the changes made before it. An action that only makes steps of the
  engine state is one that \<open>acts\<close>; the property is compositional, and every handler has it.
\<close>

record engine =
  en_suite :: suite
  en_defaults :: defaults
  en_dek :: "aead_key option"

text \<open>A failed \<open>expect\<close> is \<open>Panic\<close>, which nothing catches.\<close>

datatype fault = Err engine_error | Panic

type_synonym world = "engine_state \<times> rng"
type_synonym 'a act = "world \<Rightarrow> (fault + 'a) \<times> world"

definition ret :: "'a \<Rightarrow> 'a act" where
  "ret x w = (Inr x, w)"

definition throw :: "engine_error \<Rightarrow> 'a act" where
  "throw e w = (Inl (Err e), w)"

definition panic :: "'a act" where
  "panic w = (Inl Panic, w)"

definition act_then :: "'a act \<Rightarrow> ('a \<Rightarrow> 'b act) \<Rightarrow> 'b act" where
  "act_then m k w = (case m w of (Inl e, w') \<Rightarrow> (Inl e, w') | (Inr x, w') \<Rightarrow> k x w')"

definition on_error :: "'a act \<Rightarrow> (engine_error \<Rightarrow> 'a act) \<Rightarrow> 'a act" where
  "on_error m h w = (case m w of (Inl (Err e), w') \<Rightarrow> h e w' | (Inl Panic, w') \<Rightarrow> (Inl Panic, w') | (Inr x, w') \<Rightarrow> (Inr x, w'))"

definition reading :: "(engine_state \<Rightarrow> 'a act) \<Rightarrow> 'a act" where
  "reading f w = f (fst w) w"

definition modify :: "(engine_state \<Rightarrow> engine_state) \<Rightarrow> unit act" where
  "modify f w = (Inr (), f (fst w), snd w)"

definition lift :: "engine_error + 'a \<Rightarrow> 'a act" where
  "lift r w = (map_err Err r, w)"

definition random32 :: "random32 act" where
  "random32 w = (let (x, r) = draw (snd w) in (Inr x, fst w, r))"

fun each :: "('a \<Rightarrow> unit act) \<Rightarrow> 'a list \<Rightarrow> unit act" where
  "each f [] = ret ()"
| "each f (x # xs) = act_then (f x) (\<lambda>_. each f xs)"

fun collect :: "('a \<Rightarrow> 'b list act) \<Rightarrow> 'a list \<Rightarrow> 'b list act" where
  "collect f [] = ret []"
| "collect f (x # xs) = act_then (f x) (\<lambda>ys. act_then (collect f xs) (\<lambda>zs. ret (ys @ zs)))"

text \<open>\<open>if let Some(x) = ... else { return Ok(d) }\<close>, and the same with an error.\<close>

definition opt_or :: "'a option \<Rightarrow> 'b act \<Rightarrow> ('a \<Rightarrow> 'b act) \<Rightarrow> 'b act" where
  "opt_or x m k = (case x of Some a \<Rightarrow> k a | None \<Rightarrow> m)"

definition expect :: "'a option \<Rightarrow> ('a \<Rightarrow> 'b act) \<Rightarrow> 'b act" where
  "expect x k = opt_or x panic k"

definition require :: "'a option \<Rightarrow> engine_error \<Rightarrow> ('a \<Rightarrow> 'b act) \<Rightarrow> 'b act" where
  "require x e k = opt_or x (throw e) k"

text \<open>An engine method that is given the sealing of a packet: it draws the nonce.\<close>

definition seal :: "suite \<Rightarrow> 'k b32 \<Rightarrow> packet_plain \<Rightarrow> bytes act" where
  "seal s key plain w = (let (r, rng) = seal_packet s (snd w) key plain in (map_err Err r, fst w, rng))"

definition require_tick :: "engine_state \<Rightarrow> engine_error + unix_seconds" where
  "require_tick st = ok_or (es_ticked st) NotTicked"

definition require_dek :: "engine \<Rightarrow> engine_error + aead_key" where
  "require_dek en = ok_or (en_dek en) Locked"

section \<open>Actions are runs of the state machine\<close>

text \<open>\<open>rekeyed\<close> adds the one change the index does not survive.\<close>

inductive engine_step :: "engine_state \<Rightarrow> engine_state \<Rightarrow> bool" where
  e_store: "store_step st st' \<Longrightarrow> engine_step st st'"
| e_rekey: "engine_step st (rekey_conversation frm to st)"

definition acts_by :: "(engine_state \<Rightarrow> engine_state \<Rightarrow> bool) \<Rightarrow> 'a act \<Rightarrow> bool" where
  "acts_by R m \<longleftrightarrow> (\<forall>w r w'. m w = (r, w') \<longrightarrow> R\<^sup>*\<^sup>* (fst w) (fst w'))"

abbreviation acts :: "'a act \<Rightarrow> bool" where
  "acts \<equiv> acts_by store_step"

named_theorems acting \<open>actions that are runs of the state machine\<close>

lemma acts_byI: "(\<And>st g r st' g'. m (st, g) = (r, st', g') \<Longrightarrow> R\<^sup>*\<^sup>* st st') \<Longrightarrow> acts_by R m"
  by (auto simp: acts_by_def)

lemma acts_byD: "acts_by R m \<Longrightarrow> m (st, g) = (r, st', g') \<Longrightarrow> R\<^sup>*\<^sup>* st st'"
  by (fastforce simp: acts_by_def)

lemma acts_ret [acting]: "acts_by R (ret x)" and acts_throw [acting]: "acts_by R (throw e)"
  and acts_lift [acting]: "acts_by R (lift r)" and acts_panic [acting]: "acts_by R panic"
  by (simp_all add: acts_by_def ret_def throw_def lift_def panic_def)

lemma acts_then [acting]:
  assumes "acts_by R m" "\<And>x. acts_by R (k x)"
  shows "acts_by R (act_then m k)"
  unfolding acts_by_def
proof (intro allI impI)
  fix w r w'
  assume run: "act_then m k w = (r, w')"
  obtain r1 w1 where m: "m w = (r1, w1)" by (cases "m w")
  then have 1: "R\<^sup>*\<^sup>* (fst w) (fst w1)" using assms(1) unfolding acts_by_def by blast
  show "R\<^sup>*\<^sup>* (fst w) (fst w')"
  proof (cases r1)
    case (Inl e)
    with run m 1 show ?thesis by (simp add: act_then_def)
  next
    case (Inr x)
    with run m have "k x w1 = (r, w')" by (simp add: act_then_def)
    then have "R\<^sup>*\<^sup>* (fst w1) (fst w')" using assms(2) unfolding acts_by_def by blast
    with 1 show ?thesis by simp
  qed
qed

lemma acts_on_error [acting]:
  assumes "acts_by R m" "\<And>e. acts_by R (h e)"
  shows "acts_by R (on_error m h)"
  unfolding acts_by_def
proof (intro allI impI)
  fix w r w'
  assume run: "on_error m h w = (r, w')"
  obtain r1 w1 where m: "m w = (r1, w1)" by (cases "m w")
  then have 1: "R\<^sup>*\<^sup>* (fst w) (fst w1)" using assms(1) unfolding acts_by_def by blast
  show "R\<^sup>*\<^sup>* (fst w) (fst w')"
  proof (cases r1)
    case (Inl f)
    show ?thesis
    proof (cases f)
      case (Err e)
      with run m Inl have "h e w1 = (r, w')" by (simp add: on_error_def)
      then have "R\<^sup>*\<^sup>* (fst w1) (fst w')" using assms(2) unfolding acts_by_def by blast
      with 1 show ?thesis by simp
    next
      case Panic
      with run m Inl 1 show ?thesis by (simp add: on_error_def)
    qed
  next
    case (Inr x)
    with run m 1 show ?thesis by (simp add: on_error_def)
  qed
qed

lemma acts_reading [acting]: "(\<And>st. acts_by R (f st)) \<Longrightarrow> acts_by R (reading f)"
  by (simp add: acts_by_def reading_def)

lemma acts_random32 [acting]: "acts_by R random32"
  by (simp add: acts_by_def random32_def draw_def)

lemma acts_seal [acting]: "acts_by R (seal s key plain)"
  by (auto simp: acts_by_def seal_def split: prod.splits)

lemma acts_each [acting]: "(\<And>x. acts_by R (f x)) \<Longrightarrow> acts_by R (each f xs)"
  by (induction xs) (auto intro: acting)

lemma acts_collect [acting]: "(\<And>x. acts_by R (f x)) \<Longrightarrow> acts_by R (collect f xs)"
  by (induction xs) (auto intro!: acting)

lemma acts_opt_or [acting]:
  "acts_by R m \<Longrightarrow> (\<And>a. x = Some a \<Longrightarrow> acts_by R (k a)) \<Longrightarrow> acts_by R (opt_or x m k)"
  by (simp add: opt_or_def split: option.splits)

lemma acts_require [acting]: "(\<And>a. x = Some a \<Longrightarrow> acts_by R (k a)) \<Longrightarrow> acts_by R (require x e k)"
  by (simp add: require_def acts_opt_or acts_throw)

lemma acts_expect [acting]: "(\<And>a. x = Some a \<Longrightarrow> acts_by R (k a)) \<Longrightarrow> acts_by R (expect x k)"
  by (simp add: expect_def acts_opt_or acts_panic)

lemma acts_cases [acting]:
  "acts_by R m \<Longrightarrow> (\<And>a. acts_by R (k a)) \<Longrightarrow> acts_by R (case x of None \<Rightarrow> m | Some a \<Rightarrow> k a)"
  "(\<And>a. acts_by R (f a)) \<Longrightarrow> (\<And>b. acts_by R (g b)) \<Longrightarrow> acts_by R (case y of Inl a \<Rightarrow> f a | Inr b \<Rightarrow> g b)"
  "(\<And>a b. acts_by R (h a b)) \<Longrightarrow> acts_by R (case z of (a, b) \<Rightarrow> h a b)"
  by (simp_all split: option.splits sum.splits prod.splits)

lemma acts_if [acting]: "acts_by R m \<Longrightarrow> acts_by R n \<Longrightarrow> acts_by R (if b then m else n)"
  by simp

lemma acts_let [acting]: "acts_by R (f x) \<Longrightarrow> acts_by R (Let x f)"
  by (simp add: Let_def)

lemma acts_modify: "(\<And>st. R\<^sup>*\<^sup>* st (f st)) \<Longrightarrow> acts_by R (modify f)"
  by (simp add: acts_by_def modify_def)

text \<open>The changes handlers make.\<close>

lemma acts_with_chains [acting]: "acts (modify (with_chains f cid))"
  by (rule acts_modify) (blast intro: s_chains)

lemma acts_each_chains [acting]: "acts (modify (each_chains_mut f))"
  by (rule acts_modify) (blast intro: s_each)

lemma acts_fail [acting]: "acts (modify (state_fail cid r))"
  by (rule acts_modify) (blast intro: s_fail)

lemma acts_ack [acting]: "acts (modify (state_ack_posted cid))"
  by (rule acts_modify) (blast intro: s_ack)

definition set_writes :: "(durable_write list \<Rightarrow> durable_write list) \<Rightarrow> engine_state \<Rightarrow> engine_state" where
  "set_writes f st = st\<lparr>es_writes := f (es_writes st)\<rparr>"

definition set_eph_writes :: "(ephemeral_write list \<Rightarrow> ephemeral_write list) \<Rightarrow> engine_state \<Rightarrow> engine_state" where
  "set_eph_writes f st = st\<lparr>es_eph_writes := f (es_eph_writes st)\<rparr>"

definition set_blob_puts :: "(blob_put list \<Rightarrow> blob_put list) \<Rightarrow> engine_state \<Rightarrow> engine_state" where
  "set_blob_puts f st = st\<lparr>es_blob_puts := f (es_blob_puts st)\<rparr>"

definition set_frags :: "(frags \<Rightarrow> frags) \<Rightarrow> engine_state \<Rightarrow> engine_state" where
  "set_frags f st = st\<lparr>es_frags := f (es_frags st)\<rparr>"

definition set_progress ::
  "((bin_key \<rightharpoonup> bin_progress) \<Rightarrow> (bin_key \<rightharpoonup> bin_progress)) \<Rightarrow> engine_state \<Rightarrow> engine_state" where
  "set_progress f st = st\<lparr>es_bin_progress := f (es_bin_progress st)\<rparr>"

definition set_ticked :: "unix_seconds option \<Rightarrow> engine_state \<Rightarrow> engine_state" where
  "set_ticked now st = st\<lparr>es_ticked := now\<rparr>"

text \<open>\<open>state.persist_log.insert(seq, tx_id)\<close> and \<open>state.next_seq = state.next_seq.saturating_add(1)\<close>.\<close>

definition log_persist :: "persist_seq \<Rightarrow> tag \<Rightarrow> engine_state \<Rightarrow> engine_state" where
  "log_persist seq tx_id st = st\<lparr>es_persist_log := bt_insert seq tx_id (es_persist_log st)\<rparr>"

definition bump_seq :: "engine_state \<Rightarrow> engine_state" where
  "bump_seq st = st\<lparr>es_next_seq := saturating_add (es_next_seq st) 1\<rparr>"

text \<open>The device's own fields.\<close>

definition set_device_name :: "display_name option \<Rightarrow> engine_state \<Rightarrow> engine_state" where
  "set_device_name name st = st\<lparr>es_device := (es_device st)\<lparr>dev_name := name\<rparr>\<rparr>"

definition set_device_keys :: "device_keys option \<Rightarrow> engine_state \<Rightarrow> engine_state" where
  "set_device_keys keys st = st\<lparr>es_device := (es_device st)\<lparr>dev_keys := keys\<rparr>\<rparr>"

definition set_dek_ct :: "bytes option \<Rightarrow> engine_state \<Rightarrow> engine_state" where
  "set_dek_ct ct st = st\<lparr>es_device := (es_device st)\<lparr>dev_dek_ct := ct\<rparr>\<rparr>"

definition push_kicked :: "device_id \<Rightarrow> engine_state \<Rightarrow> engine_state" where
  "push_kicked i st = st\<lparr>es_device := (es_device st)\<lparr>dev_kicked := dev_kicked (es_device st) @ [i]\<rparr>\<rparr>"

lemmas field_defs = set_writes_def set_eph_writes_def set_blob_puts_def set_frags_def set_progress_def set_ticked_def
  log_persist_def bump_seq_def set_device_name_def set_device_keys_def set_dek_ct_def push_kicked_def

lemma forward_bump: "forward st (st\<lparr>es_next_seq := saturating_add (es_next_seq st) 1\<rparr>)"
  by (simp add: forward_def saturating_add_ge split: option.split)

lemma acts_fields [acting]:
  "acts (modify (set_writes f1))" "acts (modify (set_eph_writes f2))" "acts (modify (set_blob_puts f3))"
  "acts (modify (set_frags f4))" "acts (modify (set_progress f5))"
  "acts (modify (log_persist seq tx_id))" "acts (modify bump_seq)" "acts (modify (set_device_name name))"
  "acts (modify (set_device_keys keys))" "acts (modify (set_dek_ct ct))" "acts (modify (push_kicked i))"
  by (rule acts_modify, rule r_into_rtranclp, rule s_other; simp add: field_defs dev_convs_def forward_bump)+

text \<open>Rows: \<open>if let Some(x) = ..._mut(cid) { ... }\<close> changes the row that is there.\<close>

definition with_established ::
  "(established_chains \<Rightarrow> established_chains) \<Rightarrow> conversation_id \<Rightarrow> engine_state \<Rightarrow> engine_state" where
  "with_established g cid st = (case established_mut_of g cid st of Some st' \<Rightarrow> st' | None \<Rightarrow> st)"

definition with_party :: "(party \<Rightarrow> party) \<Rightarrow> conversation_id \<Rightarrow> engine_state \<Rightarrow> engine_state" where
  "with_party h cid st = (case party_mut h cid st of Some st' \<Rightarrow> st' | None \<Rightarrow> st)"

definition with_group :: "(group_phase \<Rightarrow> group_phase) \<Rightarrow> conversation_id \<Rightarrow> engine_state \<Rightarrow> engine_state" where
  "with_group f cid st = (case group_phase_mut f cid st of Some st' \<Rightarrow> st' | None \<Rightarrow> st)"

definition drop_row :: "conversation_id \<Rightarrow> engine_state \<Rightarrow> engine_state" where
  "drop_row cid st = snd (drop_conversation cid st)"

text \<open>\<open>state.insert_body(tx_id, body)?\<close>.\<close>

definition storing :: "tag \<Rightarrow> durable_body \<Rightarrow> unit act" where
  "storing t b w = (let (r, st') = insert_body t b (fst w) in (map_err Err r, st', snd w))"

lemma acts_storing [acting]: "acts (storing t b)"
  by (rule acts_byI) (auto simp: storing_def split: prod.splits intro: s_insert)

lemma acts_with_established [acting]: "acts (modify (with_established g cid))"
  by (rule acts_modify) (auto simp: with_established_def split: option.splits intro: s_established)

lemma acts_with_party: "(\<And>p. party_step\<^sup>*\<^sup>* p (h p)) \<Longrightarrow> acts (modify (with_party h cid))"
  by (rule acts_modify) (auto simp: with_party_def split: option.splits intro: s_party)

lemma acts_with_group:
  "(\<And>p. phase_log (f p) = phase_log p \<or> phase_log (f p) = []) \<Longrightarrow> acts (modify (with_group f cid))"
  by (rule acts_modify) (auto simp: with_group_def split: option.splits intro: s_group)

lemma acts_on_live:
  "(\<And>live. gl_log (f live) = gl_log live) \<Longrightarrow> acts (modify (with_group (on_live f) cid))"
  by (rule acts_with_group, case_tac p) simp_all

lemma acts_drop [acting]: "acts (modify (drop_row cid))"
  by (rule acts_modify, rule r_into_rtranclp, unfold drop_row_def) (rule s_drop, rule prod.collapse [symmetric])

lemma acts_rows [acting]:
  "acts (modify (remove_body t))" "acts (modify (ensure_user u))"
  "acts (modify (ensure_identity u i))" "acts (modify (remove_user u))" "acts (modify (remove_identity u i))"
  "acts (modify (spawn_established h child s peer))"
  by (rule acts_modify, rule r_into_rtranclp, rule s_remove s_user s_identity s_remove_user s_remove_identity s_spawn)+

lemma acts_put:
  "identity_wf node \<Longrightarrow> (\<And>t. identity_body node t = None) \<Longrightarrow> acts (modify (put_dm u i cid node))"
  "device_wf dnode \<Longrightarrow> (\<And>t. device_body dnode t = None) \<Longrightarrow> acts (modify (put_sync cid dnode))"
  by (rule acts_modify, blast intro: s_put_dm s_put_sync)+

lemma acts_put_party [acting]:
  "acts (modify (put_dm_inviter u i cid q))" "acts (modify (put_dm_invitee u i cid q'))"
  "acts (modify (put_sync_inviter cid q))" "acts (modify (put_sync_invitee cid q'))"
  by (rule acts_modify, simp add: put_dm_inviter_def put_dm_invitee_def put_sync_inviter_def put_sync_invitee_def,
      blast intro!: r_into_rtranclp s_put_dm s_put_sync new_nodes)+

lemma acts_rename: "(\<And>ident. idn_conversations (f ident) = idn_conversations ident) \<Longrightarrow> acts (modify (identity_mut f u i))"
  by (rule acts_modify) (blast intro: s_rename)

lemma acts_device:
  "(\<And>node. device_body (df node) = device_body node \<and> device_wf (df node) = device_wf node) \<Longrightarrow>
     acts (modify (retain_device keep df))"
  "(\<And>node. device_body (df node) = device_body node \<and> device_wf (df node) = device_wf node) \<Longrightarrow>
     acts (modify (set_device_row cid df))"
  by (rule acts_modify, blast intro: s_retain s_device)+

lemma acts_weaken: "acts m \<Longrightarrow> acts_by engine_step m"
proof (rule acts_byI)
  fix st g r st' g'
  assume "acts m" "m (st, g) = (r, st', g')"
  then have "store_step\<^sup>*\<^sup>* st st'" by (rule acts_byD)
  then show "engine_step\<^sup>*\<^sup>* st st'" by (induction rule: rtranclp_induct) (auto intro: e_store rtranclp.rtrancl_into_rtrancl)
qed

text \<open>Hence the invariant of the store.\<close>

lemma acts_invariant:
  assumes "acts m" "m (st, g) = (r, st', g')" "wf_state st" "indexed st"
  shows "wf_state st' \<and> indexed st'"
  using store_steps_invariant [OF acts_byD [OF assms(1,2)]] assms(3,4) by blast

end
