(* ===== verification/Heal.thy ===== *)
theory Heal
  imports Fragment Engine_Monad
begin

text \<open>
  The search for the ids two sides do not share (\<open>engine/heal.rs\<close>): the exclusive or of the ids in a
  half-open range, the arithmetic that splits a range, and what a side answers to a probe. The
  loops of \<open>midpoint\<close> and \<open>successor\<close> are recursions over the bytes, from the least significant one
  where the source counts down.
\<close>

definition FALLBACK_SECS :: u64 where "FALLBACK_SECS = 3"
definition LIVE_SECS :: u64 where "LIVE_SECS = 30"
definition ID_CAP :: nat where "ID_CAP = 32"

section \<open>Ranges of ids\<close>

definition inf32 :: tag where
  "inf32 = from_array (replicate 32 0xff)"

definition is_inf :: "tag \<Rightarrow> bool" where
  "is_inf hi \<longleftrightarrow> as_bytes hi = replicate 32 0xff"

definition in_range :: "tag \<Rightarrow> tag \<Rightarrow> tag \<Rightarrow> bool" where
  "in_range i lo hi \<longleftrightarrow> i \<ge> lo \<and> (is_inf hi \<or> i < hi)"

definition range_xor :: "tag list \<Rightarrow> tag \<Rightarrow> tag \<Rightarrow> tag" where
  "range_xor ids lo hi = foldl (\<lambda>acc i. if in_range i lo hi then xor32 acc i else acc) zero32 ids"

text \<open>\<open>successor\<close>: increment from the last byte, carrying over \<open>0xff\<close> bytes.\<close>

fun succ_rev :: "bytes \<Rightarrow> bytes option" where
  "succ_rev [] = None"
| "succ_rev (b # bs) = (if b \<noteq> 0xff then Some ((b + 1) # bs) else map_option ((#) 0) (succ_rev bs))"

definition successor :: "tag \<Rightarrow> tag option" where
  "successor lo = map_option (\<lambda>bs. from_array (rev bs)) (succ_rev (rev (as_bytes lo)))"

definition single_id :: "tag \<Rightarrow> tag \<Rightarrow> bool" where
  "single_id lo hi \<longleftrightarrow> (case successor lo of Some n \<Rightarrow> n = hi | None \<Rightarrow> False)"

section \<open>Splitting a range\<close>

text \<open>The sum of the bounds, least significant byte first, with its carry in 16 bits.\<close>

fun add_rev :: "16 word \<Rightarrow> bytes \<Rightarrow> bytes \<Rightarrow> bytes \<times> 16 word" where
  "add_rev carry (a # as) (b # bs) =
     (let sum = ucast a + ucast b + carry;
          (rest, c) = add_rev (drop_bit 8 sum) as bs
      in (ucast (sum AND 0xff) # rest, c))"
| "add_rev carry _ _ = ([], carry)"

text \<open>The halving loop over the 33 bytes, most significant first: each output byte takes the low bit
  of the byte before it.\<close>

fun shift_loop :: "u8 \<Rightarrow> bytes \<Rightarrow> bytes" where
  "shift_loop b [] = []"
| "shift_loop b (v # vs) = (push_bit 7 b OR drop_bit 1 v) # shift_loop (v AND 1) vs"

definition wide_sum :: "bytes \<Rightarrow> bytes \<Rightarrow> bytes" where
  "wide_sum lo hi = (let (sum, carry) = add_rev 0 (rev lo) (rev hi) in ucast carry # rev sum)"

definition mid_finite :: "bytes \<Rightarrow> bytes \<Rightarrow> bytes" where
  "mid_finite lo hi = (let wide = wide_sum lo hi in shift_loop (hd wide AND 1) (tl wide))"

text \<open>The loop for an unbounded range runs from the last byte to the first and hands the low bit of a
  byte to the byte before it.\<close>

fun inf_rev :: "u8 \<Rightarrow> bytes \<Rightarrow> bytes" where
  "inf_rev carry [] = []"
| "inf_rev carry (v # vs) = (drop_bit 1 v OR push_bit 7 carry) # inf_rev (v AND 1) vs"

definition mid_inf :: "bytes \<Rightarrow> bytes" where
  "mid_inf lo = (let out = rev (inf_rev 0 (rev lo)) in (hd out OR 0x80) # tl out)"

definition midpoint :: "tag \<Rightarrow> tag \<Rightarrow> tag option" where
  "midpoint lo hi =
     (let inf = is_inf hi;
          mid = from_array (if inf then mid_inf (as_bytes lo) else mid_finite (as_bytes lo) (as_bytes hi))
      in then_some (mid > lo \<and> (inf \<or> mid < hi)) mid)"

section \<open>Answers\<close>

text \<open>The probes \<open>on_half\<close> puts in place of those in flight: nothing when the range agrees, the one id when it has one,
  two halves when it can be split, and otherwise the ids held there (\<open>have_local\<close>).\<close>

definition have_local :: "tag list \<Rightarrow> tag \<Rightarrow> tag \<Rightarrow> heal_probe list" where
  "have_local ids lo hi = [Have lo hi (take ID_CAP (filter (\<lambda>i. in_range i lo hi) ids))]"

definition half_answer :: "tag list \<Rightarrow> tag \<Rightarrow> tag \<Rightarrow> tag \<Rightarrow> heal_probe list option" where
  "half_answer ids lo hi theirs =
     (let ours = range_xor ids lo hi in
      if ours = theirs then None
      else if single_id lo hi then
        Some (if ours = lo then [Have lo hi [lo]] else [Want lo hi [lo]])
      else
        (case midpoint lo hi of
           None \<Rightarrow> Some (have_local ids lo hi)
         | Some mid \<Rightarrow> Some [Half lo mid, Half mid hi]))"

text \<open>\<open>on_want\<close> answers with the transactions it has, \<open>on_have\<close> asks for those it has not; a list of
  more than 32 ids is ignored. \<open>held\<close> is whether the conversation's log has the id.\<close>

definition want_answer :: "(tag \<Rightarrow> bool) \<Rightarrow> tag list \<Rightarrow> tag list option" where
  "want_answer held ids = (if length ids > ID_CAP then None else Some (filter held ids))"

definition have_answer :: "(tag \<Rightarrow> bool) \<Rightarrow> tag \<Rightarrow> tag \<Rightarrow> tag list \<Rightarrow> heal_probe list option" where
  "have_answer held lo hi ids =
     (if length ids > ID_CAP then None
      else
        let missing = take ID_CAP (filter (\<lambda>i. \<not> held i) ids)
        in Some (if missing = [] then [] else [Want lo hi missing]))"

fun probe_plain :: "heal_probe \<Rightarrow> u64 \<Rightarrow> bytes \<Rightarrow> packet_plain" where
  "probe_plain (Half lo hi) seq a = HealHalfXor \<lparr>phx_actor_id = a, phx_packet_seq = seq,
     phx_lo = lo, phx_hi = hi, phx_xor = zero32\<rparr>"
| "probe_plain (Want lo hi ids) seq a = HealWant \<lparr>phw_actor_id = a, phw_packet_seq = seq,
     phw_lo = lo, phw_hi = hi, phw_ids = ids\<rparr>"
| "probe_plain (Have lo hi ids) seq a = HealHave \<lparr>phh_actor_id = a, phh_packet_seq = seq,
     phh_lo = lo, phh_hi = hi, phh_ids = ids\<rparr>"

section \<open>The arithmetic\<close>

definition val_le :: "bytes \<Rightarrow> nat" where
  "val_le bs = be_val (rev bs)"

lemma val_le_simps [simp]: "val_le [] = 0" "val_le (b # bs) = unat b + 256 * val_le bs"
  by (simp_all add: val_le_def be_val_append)

lemma length_add_rev [simp]: "length as = length bs \<Longrightarrow> length (fst (add_rev c as bs)) = length as"
  by (induction as bs arbitrary: c rule: list_induct2) (simp_all add: Let_def case_prod_beta)

lemma add_byte:
  fixes a b :: u8 and c :: "16 word"
  assumes "c \<le> 1"
  defines "sm \<equiv> ucast a + ucast b + c"
  shows "unat sm = unat a + unat b + unat c" "unat (ucast (sm AND 0xff) :: u8) = unat sm mod 256"
    "unat (drop_bit 8 sm) = unat sm div 256" "drop_bit 8 sm \<le> 1"
proof -
  have ab: "unat a < 256" "unat b < 256" by (rule unat_u8_less)+
  have c: "unat c \<le> 1" using assms(1) by (simp add: word_le_nat_alt)
  have u: "unat (ucast a :: 16 word) = unat a" "unat (ucast b :: 16 word) = unat b"
    using ab by (simp_all add: unsigned_ucast_eq take_bit_nat_eq_self)
  show sm: "unat sm = unat a + unat b + unat c"
    unfolding sm_def using ab c u by (simp add: unat_word_ariths)
  have "sm AND 0xff = take_bit 8 sm" by (simp add: take_bit_eq_mask mask_eq_exp_minus_1)
  then show "unat (ucast (sm AND 0xff) :: u8) = unat sm mod 256"
    by (simp add: unsigned_ucast_eq unsigned_take_bit_eq take_bit_eq_mod unat_mod)
  show d: "unat (drop_bit 8 sm) = unat sm div 256"
    by (simp add: drop_bit_eq_div unat_div)
  show "drop_bit 8 sm \<le> 1" using ab c by (simp add: word_le_nat_alt d sm)
qed

lemma add_rev_val:
  assumes "length as = length bs" "c \<le> 1" "add_rev c as bs = (out, d)"
  shows "length out = length as" "d \<le> 1"
    "val_le out + unat d * 256 ^ length as = val_le as + val_le bs + unat c"
proof -
  have "length out = length as \<and> d \<le> 1 \<and>
      val_le out + unat d * 256 ^ length as = val_le as + val_le bs + unat c"
    using assms
  proof (induction as bs arbitrary: c out rule: list_induct2)
    case Nil
    then show ?case by simp
  next
    case (Cons a as b bs)
    define sm :: "16 word" where "sm = ucast a + ucast b + c"
    note sm = add_byte [OF Cons.prems(1), of a b, folded sm_def]
    obtain rest where rest: "add_rev (drop_bit 8 sm) as bs = (rest, d)"
        "out = ucast (sm AND 0xff) # rest"
      using Cons.prems(2) by (auto simp: sm_def Let_def split: prod.splits)
    have ih: "length rest = length as" "d \<le> 1"
        "val_le rest + unat d * 256 ^ length as = val_le as + val_le bs + unat sm div 256"
      using Cons.IH [OF sm(4) rest(1)] by (simp_all add: sm(3))
    have "val_le out + unat d * 256 ^ length (a # as) =
        unat sm mod 256 + 256 * (val_le rest + unat d * 256 ^ length as)"
      by (simp add: rest(2) sm(2) algebra_simps)
    also have "\<dots> = val_le (a # as) + val_le (b # bs) + unat c"
      unfolding ih(3) using div_mult_mod_eq [of "unat sm" 256] by (simp add: sm(1))
    finally show ?case using ih by (simp add: rest(2))
  qed
  then show "length out = length as" "d \<le> 1"
      "val_le out + unat d * 256 ^ length as = val_le as + val_le bs + unat c" by auto
qed

lemma wide_sum:
  assumes "length lo = n" "length hi = n"
  shows "length (wide_sum lo hi) = Suc n" "be_val (wide_sum lo hi) = be_val lo + be_val hi"
    "hd (wide_sum lo hi) \<le> 1"
proof -
  obtain out d where o: "add_rev 0 (rev lo) (rev hi) = (out, d)" by fastforce
  note v = add_rev_val [OF _ _ o]
  have d: "unat (ucast d :: u8) = unat d" using v(2) assms
    by (simp add: unsigned_ucast_eq take_bit_nat_eq_self word_le_nat_alt)
  show "length (wide_sum lo hi) = Suc n" using v(1) assms by (simp add: wide_sum_def o)
  show "be_val (wide_sum lo hi) = be_val lo + be_val hi"
    using v(1,3) assms d by (simp add: wide_sum_def o val_le_def)
  show "hd (wide_sum lo hi) \<le> 1" using v(2) assms d by (simp add: wide_sum_def o word_le_nat_alt)
qed

lemma low_bit: "unat (v AND 1 :: u8) = unat v mod 2"
  by (simp add: and_one_eq unat_mod)

lemma shift_byte:
  fixes b v :: u8
  assumes "b \<le> 1"
  shows "unat (push_bit 7 b OR drop_bit 1 v) = 128 * unat b + unat v div 2"
proof -
  have b: "b = 0 \<or> b = 1" using assms by (simp add: word_le_nat_alt word_unat_eq_iff) linarith
  have "(push_bit 7 b :: u8) AND drop_bit 1 v = 0"
  proof (rule bit_word_eqI)
    fix n assume "n < LENGTH(8)"
    then show "bit (push_bit 7 b AND drop_bit 1 v) n = bit (0 :: u8) n"
      by (auto simp: bit_simps not_le dest: bit_imp_le_length)
  qed
  then have "push_bit 7 b OR drop_bit 1 v = push_bit 7 b + drop_bit 1 v"
    by (simp add: disjunctive_add_eq_or)
  moreover have "unat (push_bit 7 b :: u8) = 128 * unat b" using b by auto
  moreover have "unat (drop_bit 1 v) = unat v div 2" by (simp add: drop_bit_eq_div unat_div)
  moreover have "128 * unat b + unat v div 2 < 256" using b unat_u8_less [of v] by auto
  ultimately show "unat (push_bit 7 b OR drop_bit 1 v) = 128 * unat b + unat v div 2"
    by (simp add: unat_word_ariths)
qed

lemma shift_loop_val:
  "b \<le> 1 \<Longrightarrow> be_val (shift_loop b vs) = (unat b * 256 ^ length vs + be_val vs) div 2"
proof (induction vs arbitrary: b)
  case Nil
  then show ?case by (simp add: word_le_nat_alt)
next
  case (Cons v vs)
  have 1: "v AND 1 \<le> 1" by (simp add: word_le_nat_alt low_bit)
  have len: "length (shift_loop c vs) = length vs" for c by (induction vs arbitrary: c) simp_all
  define p q r where "p = (256 :: nat) ^ length vs" and "q = unat v div 2" and "r = unat v mod 2"
  have v: "unat v = 2 * q + r" by (simp add: q_def r_def)
  have "be_val (shift_loop b (v # vs)) = (128 * unat b + q) * p + (r * p + be_val vs) div 2"
    using Cons.IH [OF 1]
    by (simp add: shift_byte [OF Cons.prems] low_bit len p_def q_def r_def del: One_nat_def)
  also have "\<dots> = (2 * ((128 * unat b + q) * p) + (r * p + be_val vs)) div 2"
    by simp
  also have "2 * ((128 * unat b + q) * p) + (r * p + be_val vs) =
      unat b * 256 ^ length (v # vs) + be_val (v # vs)"
    by (simp add: v p_def algebra_simps)
  finally show ?case .
qed

lemma mid_finite:
  assumes "length lo = n" "length hi = n"
  shows "length (mid_finite lo hi) = n" "be_val (mid_finite lo hi) = (be_val lo + be_val hi) div 2"
proof -
  note w = wide_sum [OF assms]
  obtain h t where ht: "wide_sum lo hi = h # t" using w(1) by (cases "wide_sum lo hi") auto
  have len: "length (shift_loop c vs) = length vs" for c vs by (induction vs arbitrary: c) simp_all
  have h: "h \<le> 1" "h AND 1 = h" using w(3) ht
    by (simp_all add: word_le_nat_alt and_one_eq word_unat_eq_iff unat_mod)
  show "length (mid_finite lo hi) = n" using w(1) by (simp add: mid_finite_def ht len)
  show "be_val (mid_finite lo hi) = (be_val lo + be_val hi) div 2"
    using w(1,2) h by (simp add: mid_finite_def ht shift_loop_val)
qed

lemma succ_rev_val:
  "succ_rev bs = Some out \<Longrightarrow> length out = length bs \<and> val_le out = val_le bs + 1"
  "succ_rev bs = None \<Longrightarrow> val_le bs + 1 = 256 ^ length bs"
proof -
  have ff: "unat (b :: u8) = 255 \<longleftrightarrow> b = 0xff" for b by (simp add: word_unat_eq_iff)
  have inc: "b \<noteq> 0xff \<Longrightarrow> unat (b + 1 :: u8) = unat b + 1" for b
    using unat_u8_less [of b] ff [of b] by (simp add: unat_word_ariths)
  show "succ_rev bs = Some out \<Longrightarrow> length out = length bs \<and> val_le out = val_le bs + 1" for bs out
    by (induction bs arbitrary: out) (auto simp: inc split: if_splits)
  show "succ_rev bs = None \<Longrightarrow> val_le bs + 1 = 256 ^ length bs" for bs
    by (induction bs) (auto split: if_splits)
qed

lemma val_from_array: "length bs = 32 \<Longrightarrow> val (from_array bs) = be_val bs"
  by (simp add: val_def)

lemma successor_val:
  "successor lo = Some n \<Longrightarrow> val n = val lo + 1"
  "successor lo = None \<Longrightarrow> val lo + 1 = 2 ^ 256"
proof -
  show "val n = val lo + 1" if "successor lo = Some n"
  proof -
    from that obtain out where out: "succ_rev (rev (as_bytes lo)) = Some out" "n = from_array (rev out)"
      by (auto simp: successor_def)
    from succ_rev_val(1) [OF out(1)] show ?thesis
      by (simp add: out(2) val_from_array) (simp add: val_le_def val_def)
  qed
  show "val lo + 1 = 2 ^ 256" if "successor lo = None"
    using that succ_rev_val(2) [of "rev (as_bytes lo)"]
    by (simp add: successor_def val_le_def val_def)
qed

lemma single_id_val: "single_id lo hi \<longleftrightarrow> val hi = val lo + 1"
proof (cases "successor lo")
  case None
  with successor_val(2) [OF None] val_less_max [of hi] show ?thesis by (simp add: single_id_def)
next
  case (Some n)
  then show ?thesis using successor_val(1) [OF Some] val_inj [of n hi] by (auto simp: single_id_def)
qed

lemma midpoint_finite_val:
  assumes "\<not> is_inf hi"
  shows "midpoint lo hi = Some m \<Longrightarrow> val m = (val lo + val hi) div 2 \<and> val lo < val m \<and> val m < val hi"
    "midpoint lo hi = None \<Longrightarrow> val hi \<le> val lo + 1"
  using assms mid_finite [of "as_bytes lo" 32 "as_bytes hi"]
  by (auto simp: midpoint_def Let_def then_some_def less_val val_from_array val_def split: if_splits)

lemma midpoint_above: "midpoint lo hi = Some m \<Longrightarrow> lo < m"
  by (auto simp: midpoint_def Let_def)

lemma is_inf_iff: "is_inf hi \<longleftrightarrow> hi = inf32"
  by (auto simp: is_inf_def inf32_def b32_eq_iff)

lemma val_inf32: "val inf32 + 1 = 2 ^ 256"
proof -
  have "be_val (replicate n 0xff) + 1 = 256 ^ n" for n by (induction n) simp_all
  from this [of 32] show ?thesis by (simp add: val_def inf32_def)
qed

lemma is_inf_greatest:
  assumes "is_inf m"
  shows "x \<le> m"
  using assms val_inf32 val_less_max [of x] by (simp add: le_val is_inf_iff)

lemma midpoint_not_inf:
  assumes "midpoint lo hi = Some m"
  shows "\<not> is_inf m"
proof (cases "is_inf hi")
  case True
  have "length (rev (as_bytes lo)) = 32" by simp
  then obtain v vs where v: "rev (as_bytes lo) = v # vs" "length vs = 31"
    by (cases "rev (as_bytes lo)") (simp_all del: length_rev)
  have len: "length (inf_rev c bs) = length bs" for c bs by (induction bs arbitrary: c) simp_all
  define out where "out = rev (inf_rev 0 (rev (as_bytes lo)))"
  have out: "out \<noteq> []" "length out = 32" "last out = drop_bit 1 v"
    by (simp_all add: out_def v len last_rev flip: length_0_conv)
  then have "tl out \<noteq> []" "length (mid_inf (as_bytes lo)) = 32"
    by (cases out; auto simp: mid_inf_def simp flip: out_def)+
  moreover from this out have "last (mid_inf (as_bytes lo)) = drop_bit 1 v"
    by (cases out) (auto simp: mid_inf_def simp flip: out_def)
  moreover have "drop_bit 1 v \<noteq> (0xff :: u8)"
  proof
    assume "drop_bit 1 v = 0xff"
    then have "unat (drop_bit 1 v) = 255" by simp
    then show False using unat_u8_less [of v] by (simp add: drop_bit_eq_div unat_div)
  qed
  ultimately show ?thesis using assms True
    by (auto simp: midpoint_def is_inf_def Let_def)
next
  case False
  with assms have "m < hi" by (auto simp: midpoint_def Let_def)
  then show ?thesis using is_inf_greatest [of m hi] by auto
qed

section \<open>Fingerprints of ranges\<close>

lemma range_xor_ids: "range_xor ids lo hi = xor_ids (filter (\<lambda>i. in_range i lo hi) ids)"
proof -
  have "foldl (\<lambda>acc i. if in_range i lo hi then xor32 acc i else acc) a ids =
      xor32 a (xor_ids (filter (\<lambda>i. in_range i lo hi) ids))" for a
    by (induction ids arbitrary: a) (auto simp: xor32_assoc)
  then show ?thesis by (simp add: range_xor_def)
qed

lemma range_xor_split:
  assumes "lo \<le> m" "\<not> is_inf m" "is_inf hi \<or> m \<le> hi"
  shows "range_xor ids lo hi = xor32 (range_xor ids lo m) (range_xor ids m hi)"
  using assms by (induction ids) (auto simp: range_xor_ids in_range_def xor32_ac)

lemma range_xor_midpoint:
  assumes "midpoint lo hi = Some m"
  shows "range_xor ids lo hi = xor32 (range_xor ids lo m) (range_xor ids m hi)"
  using assms midpoint_not_inf [OF assms]
  by (intro range_xor_split) (auto simp: midpoint_def Let_def)

lemma range_xor_single:
  assumes "single_id lo hi" "\<not> is_inf hi" "distinct ids"
  shows "range_xor ids lo hi = (if lo \<in> set ids then lo else zero32)"
proof -
  have "in_range i lo hi \<longleftrightarrow> i = lo" for i
    using assms(1,2) by (auto simp: in_range_def single_id_val le_val less_val simp flip: val_inj)
  then have "filter (\<lambda>i. in_range i lo hi) ids = (if lo \<in> set ids then [lo] else [])"
    using assms(3) by (induction ids) auto
  then show ?thesis by (simp add: range_xor_ids)
qed

lemma range_xor_empty:
  assumes "val hi \<le> val lo" "\<not> is_inf hi"
  shows "range_xor ids lo hi = zero32"
proof -
  have "\<not> in_range i lo hi" for i using assms by (auto simp: in_range_def le_val less_val)
  then show ?thesis by (simp add: range_xor_ids)
qed

section \<open>The search between two devices\<close>

text \<open>
  Two devices hold the ids \<open>A\<close> and \<open>B\<close>, and the first has posted the probe \<open>Half lo hi\<close> with its own
  fingerprint, as \<open>post_heal\<close> does. The second answers; each half it posts is answered by the first
  one, and so on. The result lists the probes that end a branch of the search with the ids of the
  device that posts them. Every branch is followed; \<open>n\<close> bounds the number of answers in a row, and
  the result is \<open>None\<close> when they do not suffice.
\<close>

fun search :: "nat \<Rightarrow> tag list \<Rightarrow> tag list \<Rightarrow> tag \<Rightarrow> tag \<Rightarrow> (tag list \<times> heal_probe) list option" where
  "search 0 A B lo hi = None"
| "search (Suc n) A B lo hi =
     (case half_answer B lo hi (range_xor A lo hi) of
        None \<Rightarrow> Some []
      | Some ps \<Rightarrow> map_option concat (those (map (\<lambda>p.
          case p of Half a b \<Rightarrow> search n B A a b | _ \<Rightarrow> Some [(B, p)]) ps)))"

text \<open>A probe that names one id, truthfully: the device that offers it holds it and the other one
  does not, or the other way round for a device that asks.\<close>

definition located :: "tag list \<Rightarrow> tag list \<Rightarrow> tag list \<times> heal_probe \<Rightarrow> bool" where
  "located A B q \<longleftrightarrow>
     (\<exists>S i hi. (S = A \<or> S = B) \<and> (i \<in> set A) \<noteq> (i \<in> set B) \<and>
        (q = (S, Have i hi [i]) \<and> i \<in> set S \<or> q = (S, Want i hi [i]) \<and> i \<notin> set S))"

lemma located_commute: "located B A q = located A B q"
  unfolding located_def by (simp only: eq_commute [of "_ \<in> set B"] disj_commute [of "_ = B"])

lemma half_answer_cases:
  "half_answer B lo hi x = (if range_xor B lo hi = x then None
   else if single_id lo hi then Some [(if range_xor B lo hi = lo then Have else Want) lo hi [lo]]
   else case midpoint lo hi of None \<Rightarrow> Some (have_local B lo hi) | Some m \<Rightarrow> Some [Half lo m, Half m hi])"
  by (simp add: half_answer_def Let_def)

lemma search_agreeing: "range_xor A lo hi = range_xor B lo hi \<Longrightarrow> search (Suc n) A B lo hi = Some []"
  by (simp add: half_answer_cases)

lemma search_halves:
  assumes "range_xor A lo hi \<noteq> range_xor B lo hi" "\<not> single_id lo hi" "midpoint lo hi = Some m"
    and "search n B A lo m = Some l" "search n B A m hi = Some r"
  shows "search (Suc n) A B lo hi = Some (l @ r)"
  using assms by (simp add: half_answer_cases)

lemma search_single:
  assumes "range_xor A lo hi \<noteq> range_xor B lo hi" "single_id lo hi" "\<not> is_inf hi"
    and "distinct A" "distinct B"
  shows "\<exists>q. search (Suc n) A B lo hi = Some [q] \<and> located A B q"
proof -
  note x = range_xor_single [OF assms(2,3)]
  from assms(1) have d: "(lo \<in> set A) \<noteq> (lo \<in> set B)" "lo \<noteq> zero32"
    by (auto simp: x [OF assms(4)] x [OF assms(5)] split: if_splits)
  show ?thesis
  proof (cases "lo \<in> set B")
    case True
    with d assms(1,2) have "search (Suc n) A B lo hi = Some [(B, Have lo hi [lo])]"
      by (simp add: half_answer_cases x [OF assms(5)])
    with d True show ?thesis by (auto simp: located_def)
  next
    case False
    with d assms(1,2) have "search (Suc n) A B lo hi = Some [(B, Want lo hi [lo])]"
      by (auto simp: half_answer_cases x [OF assms(5)])
    with d False show ?thesis by (auto simp: located_def)
  qed
qed

text \<open>The search of a range succeeds: it ends, what it names is located, and it names something when
  the fingerprints differ.\<close>

definition finds :: "nat \<Rightarrow> tag list \<Rightarrow> tag list \<Rightarrow> tag \<Rightarrow> tag \<Rightarrow> bool" where
  "finds n A B lo hi \<longleftrightarrow> (\<exists>out. search n A B lo hi = Some out \<and> (\<forall>q\<in>set out. located A B q) \<and>
     (range_xor A lo hi \<noteq> range_xor B lo hi \<longrightarrow> out \<noteq> []))"

lemma finds_agreeing: "range_xor A lo hi = range_xor B lo hi \<Longrightarrow> finds (Suc n) A B lo hi"
  by (simp add: finds_def search_agreeing del: search.simps)

lemma finds_single:
  "single_id lo hi \<Longrightarrow> \<not> is_inf hi \<Longrightarrow> distinct A \<Longrightarrow> distinct B \<Longrightarrow> finds (Suc n) A B lo hi"
  using search_single [of A lo hi B n] finds_agreeing [of A lo hi B n] by (fastforce simp: finds_def)

lemma finds_halves:
  assumes "midpoint lo hi = Some m" "\<not> single_id lo hi" "finds (Suc n) B A lo m" "finds (Suc n) B A m hi"
  shows "finds (Suc (Suc n)) A B lo hi"
proof (cases "range_xor A lo hi = range_xor B lo hi")
  case True
  then show ?thesis by (rule finds_agreeing)
next
  case False
  from assms(3,4) obtain l r where lr: "search (Suc n) B A lo m = Some l" "search (Suc n) B A m hi = Some r"
      "\<forall>q\<in>set l \<union> set r. located A B q"
      "range_xor B lo m \<noteq> range_xor A lo m \<longrightarrow> l \<noteq> []" "range_xor B m hi \<noteq> range_xor A m hi \<longrightarrow> r \<noteq> []"
    unfolding finds_def located_commute [of B A] by (elim exE conjE) blast
  moreover have "range_xor B lo m \<noteq> range_xor A lo m \<or> range_xor B m hi \<noteq> range_xor A m hi"
    using False by (auto simp: range_xor_midpoint [OF assms(1)])
  ultimately show ?thesis
    using search_halves [OF False assms(2,1) lr(1,2)] by (auto simp: finds_def simp del: search.simps)
qed

lemma finds_finite:
  assumes "\<not> is_inf hi" "val hi \<le> val lo + 2 ^ n" "distinct A" "distinct B"
  shows "finds (Suc n) A B lo hi"
  using assms
proof (induction n arbitrary: A B lo hi)
  case 0
  then show ?case
    using range_xor_empty [of hi lo] finds_agreeing [of A lo hi B 0] finds_single [of lo hi A B 0]
    by (cases "val hi = val lo + 1") (auto simp: single_id_val)
next
  case (Suc n)
  show ?case
  proof (cases "midpoint lo hi")
    case None
    with midpoint_finite_val(2) [OF Suc.prems(1)] have "val hi \<le> val lo + 1" by blast
    then show ?thesis using Suc.prems finds_single range_xor_empty [of hi lo] finds_agreeing
      by (cases "val hi = val lo + 1") (auto simp: single_id_val)
  next
    case (Some m)
    note mv = midpoint_finite_val(1) [OF Suc.prems(1) Some]
    have "val m \<le> val lo + 2 ^ n" "val hi \<le> val m + 2 ^ n" using mv Suc.prems(2) by auto
    from Suc.IH [OF midpoint_not_inf [OF Some] this(1) Suc.prems(4,3)]
      Suc.IH [OF Suc.prems(1) this(2) Suc.prems(4,3)] mv
    show ?thesis by (intro finds_halves [OF Some]) (auto simp: single_id_val)
  qed
qed

text \<open>The unbounded ranges the search meets start at one byte followed by zeros.\<close>

definition lead :: "u8 \<Rightarrow> tag" where
  "lead b = from_array (b # replicate 31 0)"

lemma lead_bytes: "as_bytes (lead b) = b # replicate 31 0"
  by (simp add: lead_def)

lemma be_val_zeros: "be_val (replicate n 0) = 0"
  by (induction n) simp_all

lemma val_lead: "val (lead b) = unat b * 256 ^ 31"
  by (simp add: val_def lead_bytes be_val_zeros)

lemma lead_inject [simp]: "lead a = lead b \<longleftrightarrow> a = b"
  by (simp add: b32_eq_iff lead_bytes)

lemma lead_zero: "lead 0 = zero32"
  by (simp add: lead_def zero32_def numeral_eq_Suc)

lemma inf_rev_zeros: "inf_rev 0 (replicate n 0 @ [b]) = replicate n 0 @ [drop_bit 1 b]"
  by (induction n) simp_all

lemma midpoint_lead:
  assumes "b < drop_bit 1 b OR 0x80"
  shows "midpoint (lead b) inf32 = Some (lead (drop_bit 1 b OR 0x80))"
proof -
  have "mid_inf (b # replicate 31 0) = (drop_bit 1 b OR 0x80) # replicate 31 0"
    by (simp add: mid_inf_def inf_rev_zeros)
  moreover have "is_inf inf32" by (simp add: is_inf_def inf32_def)
  ultimately show ?thesis using assms
    by (simp add: midpoint_def lead_bytes less_b32_def lead_def then_some_def)
qed

lemma finds_lead:
  assumes "finds (257 + n) B A (lead c) inf32" "drop_bit 1 b OR 0x80 = c" "b < c"
    and "distinct A" "distinct B"
  shows "finds (257 + Suc n) A B (lead b) inf32"
proof -
  have m: "midpoint (lead b) inf32 = Some (lead c)" using midpoint_lead [of b] assms(2,3) by simp
  have "val (lead c) \<le> val (lead b) + 2 ^ (256 + n)"
    using val_less_max [of "lead c"] power_increasing [of 256 "256 + n" "2 :: nat"] by linarith
  then have f: "finds (Suc (256 + n)) B A (lead b) (lead c)"
    using midpoint_not_inf [OF m] assms(4,5) by (intro finds_finite) auto
  have "lead c < inf32"
    using midpoint_not_inf [OF m] is_inf_greatest [of inf32 "lead c"] by (auto simp: is_inf_iff)
  with midpoint_above [OF m] have "\<not> single_id (lead b) inf32" by (auto simp: single_id_val less_val)
  from finds_halves [OF m this f] assms(1) show ?thesis by simp
qed

lemma finds_everywhere:
  assumes "distinct A" "distinct B" "range_xor A (lead 0xff) inf32 = range_xor B (lead 0xff) inf32"
  shows "finds 265 A B zero32 inf32"
proof -
  have base: "finds (257 + 0) A B (lead 0xff) inf32" using finds_agreeing [OF assms(3), of 256] by simp
  have "finds (257 + (Suc (Suc (Suc (Suc (Suc (Suc (Suc (Suc 0))))))))) A B (lead 0) inf32"
    by (rule finds_lead [where c = "0x80"], rule finds_lead [where c = "0xc0"],
        rule finds_lead [where c = "0xe0"], rule finds_lead [where c = "0xf0"],
        rule finds_lead [where c = "0xf8"], rule finds_lead [where c = "0xfc"],
        rule finds_lead [where c = "0xfe"], rule finds_lead [where c = "0xff"], rule base)
      (simp_all add: assms)
  then show ?thesis by (simp add: lead_zero)
qed

text \<open>The last of those ranges is not split, although its bounds are not adjacent: its low bits are
  shifted towards the first byte, where nothing takes them.\<close>

lemma midpoint_lead_ff: "midpoint (lead 0xff) inf32 = None"
proof -
  have "mid_inf (0xff # replicate 31 0) = 0xff # replicate 31 0"
    by (simp add: mid_inf_def inf_rev_zeros)
  then show ?thesis by (simp add: midpoint_def lead_bytes is_inf_def inf32_def then_some_def less_b32_def)
qed

end
