(* ===== verification/Heal_Properties.thy ===== *)
theory Heal_Properties
  imports Heal
begin

text \<open>
  What the search for missing transactions achieves: it ends at an id that exactly one of the two
  devices holds, and where it does not.
\<close>

lemma range_xor_everything: "range_xor ids zero32 inf32 = xor_ids ids"
proof -
  have "val (zero32 :: tag) = 0" using val_lead [of 0] by (simp add: lead_zero)
  then have "in_range i zero32 inf32" for i by (simp add: in_range_def is_inf_iff le_val)
  then show ?thesis by (simp add: range_xor_ids)
qed



text \<open>C34: For a range with a finite upper bound, \<open>midpoint\<close> is the floor of the mean of the bounds, taken
  without overflow on the 256-bit values, and is absent exactly when no id lies strictly between the
  bounds.\<close>

theorem midpoint_correct:
  assumes "\<not> is_inf hi"
  shows "case midpoint lo hi of
      None \<Rightarrow> val hi \<le> val lo + 1
    | Some m \<Rightarrow> val m = (val lo + val hi) div 2 \<and> lo < m \<and> m < hi"
proof (cases "midpoint lo hi")
  case None
  with midpoint_finite_val(2) [OF assms this] show ?thesis by simp
next
  case (Some m)
  with midpoint_finite_val(1) [OF assms this] show ?thesis by (auto simp only: less_val option.case)
qed

theorem midpoint_correct_witness:
  "\<not> is_inf (lead 4) \<and> (case midpoint (lead 2) (lead 4) of
      None \<Rightarrow> val (lead 4) \<le> val (lead 2) + 1
    | Some m \<Rightarrow> val m = (val (lead 2) + val (lead 4)) div 2 \<and> lead 2 < m \<and> m < lead 4)"
proof -
  have "\<not> is_inf (lead 4)" using val_inf32 val_lead [of 4] by (auto simp: is_inf_iff)
  then show ?thesis using midpoint_correct [of "lead 4" "lead 2"] by simp
qed

text \<open>Splitting a range, bounded or not, splits its fingerprint: the fingerprint of the whole is the
  exclusive or of the fingerprints of the two halves \<open>on_half\<close> posts, so when two devices disagree
  about a range they disagree about at least one of its halves.\<close>

lemma split_keeps_fingerprint:
  assumes "midpoint lo hi = Some m"
  shows "range_xor ids lo hi = xor32 (range_xor ids lo m) (range_xor ids m hi) \<and>
    (range_xor ids lo hi \<noteq> range_xor ids' lo hi \<longrightarrow>
       range_xor ids lo m \<noteq> range_xor ids' lo m \<or> range_xor ids m hi \<noteq> range_xor ids' m hi)"
  by (auto simp: range_xor_midpoint [OF assms])

theorem split_keeps_fingerprint_witness:
  "midpoint (lead 0xc0) inf32 = Some (lead 0xe0) \<and>
   range_xor [lead 0xd0, lead 0xf0] (lead 0xc0) inf32 =
     xor32 (range_xor [lead 0xd0, lead 0xf0] (lead 0xc0) (lead 0xe0))
       (range_xor [lead 0xd0, lead 0xf0] (lead 0xe0) inf32)"
proof -
  have "midpoint (lead 0xc0) inf32 = Some (lead 0xe0)" using midpoint_lead [of "0xc0"] by simp
  then show ?thesis using split_keeps_fingerprint by blast
qed



end
