(* ===== verification/Store_Properties.thy ===== *)
theory Store_Properties
  imports Engine_Monad
begin

text \<open>
  What the engine state promises: its transactions are one finite map whatever rows they are spread
  over, handshakes only move forward, list progress never forgets a bin; and the two operations after
  which a stored transaction cannot be found.
\<close>

section \<open>Small values\<close>

definition fill :: "u8 \<Rightarrow> 'r b32" where
  "fill b = from_array (replicate 32 b)"

lemma fill_inject [simp]: "fill a = (fill b :: 'r b32) \<longleftrightarrow> a = b"
proof
  assume "fill a = (fill b :: 'r b32)"
  then have "as_bytes (fill a :: 'r b32) = as_bytes (fill b :: 'r b32)" by simp
  then show "a = b" by (simp add: fill_def)
qed simp

definition sample_hlc :: hlc where
  "sample_hlc = \<lparr>hlc_wall_ms = 1, hlc_counter = 0\<rparr>"

definition sample_ticket :: ticket where
  "sample_ticket = \<lparr>tk_secret = fill 1, tk_persistents = [], tk_expires = 100\<rparr>"

definition init_body :: durable_body where
  "init_body = \<lparr>db_conversation_id = fill 0, db_hlc = sample_hlc, db_payload = EngineInit\<rparr>"

definition confirm_body :: durable_body where
  "confirm_body = \<lparr>db_conversation_id = fill 3, db_hlc = sample_hlc, db_payload = Confirm\<rparr>"

definition invited :: engine_state where
  "invited = put_sync_invitee (fill 3) (TicketReceived sample_ticket 7) state_new"

section \<open>One map of transactions\<close>


lemma insert_init: "insert_body t init_body state_new = (Inr (), place_body t PlaceEngine
    (state_new\<lparr>es_engine_log := [(t, \<lparr>row_conversation_id = fill 0, row_hlc = sample_hlc, row_payload = Init\<rparr>)]\<rparr>))"
  by (simp add: insert_body_def state_new_def init_body_def place_of_def identities_def device_default_def
      dev_convs_def log_put_def tx_row_of_def bt_contains_def then_some_def Let_def)


text \<open>Every state reached from the empty one has its maps in key order and indexes every stored
  transaction at the place where it is stored, so that no id is stored twice.\<close>

lemma reachable_state_indexed:
  assumes "store_step\<^sup>*\<^sup>* state_new st"
  shows "wf_state st \<and> indexed st \<and>
    (body_at st t p = Some b \<and> body_at st t q = Some c \<longrightarrow> p = q \<and> b = c)"
proof -
  from store_steps_invariant [OF assms new_invariant] have inv: "wf_state st" "indexed st" by auto
  then show ?thesis using indexedD [OF inv(2), of t p b] indexedD [OF inv(2), of t q c] by auto
qed

theorem reachable_state_indexed_witness:
  "\<exists>st. store_step\<^sup>*\<^sup>* state_new st \<and> body_at st (fill 9) PlaceEngine = Some init_body \<and> wf_state st \<and> indexed st"
proof -
  obtain st where ins: "insert_body (fill 9) init_body state_new = (Inr (), st)"
    and st: "st = place_body (fill 9) PlaceEngine (state_new\<lparr>es_engine_log :=
      [(fill 9, \<lparr>row_conversation_id = fill 0, row_hlc = sample_hlc, row_payload = Init\<rparr>)]\<rparr>)"
    using insert_init by blast
  have "store_step\<^sup>*\<^sup>* state_new st" using s_insert [OF ins] by blast
  moreover have "body_at st (fill 9) PlaceEngine = Some init_body"
    by (simp add: st place_body_def log_get_def row_body_def durable_def init_body_def)
  ultimately show ?thesis using reachable_state_indexed by blast
qed

text \<open>C36: An insertion the row's phase refuses reports \<open>WrongPhase\<close>, and the body stored before under
  the same id is lost: the id no longer has a body, while every other id keeps its own.\<close>

theorem refused_insert_forgets:
  assumes "indexed st" "insert_body t b st = (Inl e, st')"
  shows "e = WrongPhase \<and> body st' = (body st)(t := None)"
proof -
  have "body st t = None" if "\<not> bt_contains (es_tx_place st) t" using that by (simp add: bt_contains_def body_def)
  with insert_body_error [OF assms(2)] show ?thesis using assms(1) by (auto simp: fun_eq_iff body_remove)
qed

definition stored_init :: engine_state where
  "stored_init = place_body (fill 9) PlaceEngine (state_new\<lparr>es_engine_log :=
     [(fill 9, \<lparr>row_conversation_id = fill 0, row_hlc = sample_hlc, row_payload = Init\<rparr>)]\<rparr>)"

lemma indexed_stored_init: "indexed stored_init"
  using indexed_insert [OF conjunct2 [OF new_invariant] insert_init] by (simp add: stored_init_def)

theorem refused_insert_forgets_witness:
  "body stored_init (fill 9) = Some init_body \<and>
   (let (r, st') = insert_body (fill 9) confirm_body stored_init in r = Inl WrongPhase \<and> body st' (fill 9) = None)"
proof -
  have "body stored_init (fill 9) = Some init_body"
    by (simp add: stored_init_def body_def place_body_def log_get_def row_body_def durable_def init_body_def)
  moreover have "fst (insert_body (fill 9) confirm_body stored_init) = Inl WrongPhase"
    by (simp add: insert_body_def stored_init_def place_body_def state_new_def confirm_body_def place_of_def
        identities_def device_default_def dev_convs_def log_put_def tx_row_of_def bt_contains_def then_some_def Let_def remove_body_def)
  ultimately show ?thesis
    using refused_insert_forgets [OF indexed_stored_init, of "fill 9" confirm_body]
    by (auto split: prod.splits)
qed

section \<open>Handshake phases\<close>

text \<open>C15: However a handshake is driven, its party keeps its ticket and its list origin, never returns
  to a phase it left, keeps every secret it has learnt until it fails, and once failed stays as it is
  with the intake key and both secrets erased.\<close>

theorem handshake_moves_forward:
  assumes "party_step\<^sup>*\<^sup>* p q"
  shows "party_ticket q = party_ticket p \<and> party_list_from q = party_list_from p \<and>
    (party_step\<^sup>*\<^sup>* q p \<longrightarrow> q = p) \<and>
    (party_failure q = None \<longrightarrow>
       (\<forall>s. party_shared_inviter p = Some s \<longrightarrow> party_shared_inviter q = Some s) \<and>
       (\<forall>s. party_shared_invitee p = Some s \<longrightarrow> party_shared_invitee q = Some s)) \<and>
    (party_failure q \<noteq> None \<longrightarrow>
       party_intake q = None \<and> party_shared_inviter q = None \<and> party_shared_invitee q = None \<and>
       (\<forall>q'. party_step\<^sup>*\<^sup>* q q' \<longrightarrow> q' = q))"
  using party.reach_ticket [OF assms] party.reach_antisym [OF assms] party.reach_secrets [OF assms]
    party_failed_erased [of q] party.reach_failed [of q] by auto

definition sample_kp :: key_pair where
  "sample_kp = \<lparr>kp_public = [1], kp_secret = [2]\<rparr>"

theorem handshake_moves_forward_witness:
  "party_step\<^sup>*\<^sup>* (Inviter (NoticePinned sample_ticket sample_kp 7))
      (Inviter (InviterConfirming sample_ticket sample_kp (fill 4) (fill 5) 7)) \<and>
   \<not> party_step\<^sup>*\<^sup>* (Inviter (InviterConfirming sample_ticket sample_kp (fill 4) (fill 5) 7))
      (Inviter (NoticePinned sample_ticket sample_kp 7))"
proof -
  have "inviter_step (NoticePinned sample_ticket sample_kp 7) (InviterIntroMinted sample_ticket sample_kp (fill 4) (fill 5) 7)"
    using inviter_minted [of "NoticePinned sample_ticket sample_kp 7" "fill 4" "fill 5"] by simp
  moreover have "inviter_step (InviterIntroMinted sample_ticket sample_kp (fill 4) (fill 5) 7)
      (InviterConfirming sample_ticket sample_kp (fill 4) (fill 5) 7)"
    using inviter_acked [of "InviterIntroMinted sample_ticket sample_kp (fill 4) (fill 5) 7"] by simp
  ultimately have run: "party_step\<^sup>*\<^sup>* (Inviter (NoticePinned sample_ticket sample_kp 7))
      (Inviter (InviterConfirming sample_ticket sample_kp (fill 4) (fill 5) 7))"
    by (meson party_inviter r_into_rtranclp rtranclp.rtrancl_into_rtrancl)
  then show ?thesis using handshake_moves_forward [OF run] by blast
qed

text \<open>An invitee that knows a policy has been through \<open>InviteReceived\<close> with that same policy and its
  original ticket: no other transition installs one.\<close>

lemma invitee_policy_from_notice:
  assumes "invitee_step\<^sup>*\<^sup>* (TicketReceived t l) q" "invitee_policy q = Some pol"
  shows "invitee_step\<^sup>*\<^sup>* (TicketReceived t l) (InviteReceived t l pol) \<and>
    invitee_step\<^sup>*\<^sup>* (InviteReceived t l pol) q \<and> invitee_ticket q = t \<and> invitee_list_from q = l"
  using invitee_passes_notice [OF assms] invitee.reach_ticket [OF assms(1)] by simp

lemma invitee_policy_from_notice_witness:
  "invitee_step\<^sup>*\<^sup>* (InviteReceived sample_ticket 7 Classic) (IntroductionSent sample_ticket 7 Classic sample_kp (fill 4))"
proof -
  have "invitee_step (TicketReceived sample_ticket 7) (InviteReceived sample_ticket 7 Classic)"
    using invitee_noticed [of "TicketReceived sample_ticket 7" Classic] by simp
  moreover have "invitee_step (InviteReceived sample_ticket 7 Classic)
      (InviteeIntroMinted sample_ticket 7 Classic sample_kp (fill 4))"
    using invitee_minted [of "InviteReceived sample_ticket 7 Classic" sample_kp "fill 4"] by simp
  moreover have "invitee_step (InviteeIntroMinted sample_ticket 7 Classic sample_kp (fill 4))
      (IntroductionSent sample_ticket 7 Classic sample_kp (fill 4))"
    using invitee_acked [of "InviteeIntroMinted sample_ticket 7 Classic sample_kp (fill 4)"] by simp
  ultimately have "invitee_step\<^sup>*\<^sup>* (TicketReceived sample_ticket 7) (IntroductionSent sample_ticket 7 Classic sample_kp (fill 4))"
    by (meson r_into_rtranclp rtranclp.rtrancl_into_rtrancl)
  from invitee_policy_from_notice [OF this] show ?thesis by simp
qed

section \<open>Moving a row\<close>

lemma device_body_reparent [simp]: "device_body (reparent_device frm to node) = device_body node"
  by (cases node) (simp_all add: fun_eq_iff)

lemma rekeyed_rows:
  "bt_get (dev_convs (rekey_conversation frm to st)) c = map_option (reparent_device frm to)
     (if c = to \<and> bt_get (dev_convs st) frm \<noteq> None then bt_get (dev_convs st) frm
      else if c = frm then None else bt_get (dev_convs st) c)"
  "es_tx_place (rekey_conversation frm to st) = es_tx_place st"
  by (auto simp: rekey_conversation_def rekey_row_def rekey_map_def map_identities_def dev_convs_def Let_def
      split: option.splits)


definition confirmed_row :: device_conversation where
  "confirmed_row = SyncHandshakeRow (Invitee (TicketReceived sample_ticket 7))
     [(fill 9, \<lparr>row_conversation_id = fill 3, row_hlc = sample_hlc, row_payload = ShConfirm\<rparr>)] packet_chains_default"

lemma insert_confirm:
  "\<exists>st. insert_body (fill 9) confirm_body invited = (Inr (), st) \<and> body_at st (fill 9) (PlaceDevice (fill 3)) = Some confirm_body"
  by (simp add: insert_body_def invited_def confirm_body_def place_of_def identities_def put_sync_invitee_def
      put_sync_def state_new_def device_default_def dev_convs_def sync_handshake_node_def log_put_def tx_row_of_def
      bt_contains_def then_some_def Let_def place_body_def set_device_row_def log_get_def row_body_def durable_def
      bt_update_def)


section \<open>List progress\<close>

lemma advance_loop_spec:
  assumes "advance_loop l w c = (w', c')"
  shows "next_bin w' l \<notin> c' \<and>
    (bin_complete (Some (p\<lparr>bp_watermark := w, bp_completed := c\<rparr>)) b \<longrightarrow>
       bin_complete (Some (p\<lparr>bp_watermark := w', bp_completed := c'\<rparr>)) b) \<and>
    (bin_complete (Some (p\<lparr>bp_watermark := w', bp_completed := c'\<rparr>)) b \<longrightarrow>
       bin_complete (Some (p\<lparr>bp_watermark := w, bp_completed := c\<rparr>)) b \<or> w = None \<and> b < l \<and> l \<in> c)"
  using assms
proof (induction l w c rule: advance_loop.induct)
  case (1 l w c)
  have sat: "b \<le> saturating_add v 1 \<longleftrightarrow> b \<le> v \<or> b = saturating_add v 1" for v :: time_bin
  proof -
    have "unat (saturating_add v 1) = min (unat v + 1) (2 ^ 64 - 1)" by (simp add: unat_saturating_add)
    then show ?thesis using unsigned_less [of v, where 'a = nat] unsigned_less [of b, where 'a = nat]
      by (auto simp: word_le_nat_alt word_unat_eq_iff)
  qed
  show ?case
  proof (cases "next_bin w l \<in> c")
    case False
    with "1.prems" show ?thesis by (auto simp: advance_loop.simps [of l w c] Let_def)
  next
    case True
    then have "advance_loop l (Some (next_bin w l)) (c - {next_bin w l}) = (w', c')"
      using "1.prems" by (simp add: advance_loop.simps [of l w c] Let_def)
    from "1.IH" [OF refl True this] True show ?thesis
      by (cases w) (auto simp: bin_complete_def next_bin_def sat)
  qed
qed

text \<open>C33: Advancing list progress ends, never forgets a completed bin, stops in front of a bin that is
  not complete, and completes no bin that was not listed, except that the first advance takes the bins
  before \<open>list_from\<close> as done.\<close>

theorem advance_progress_correct:
  "next_bin (bp_watermark (advance_progress p l)) l \<notin> bp_completed (advance_progress p l) \<and>
   (\<forall>b. bin_complete (Some p) b \<longrightarrow> bin_complete (Some (advance_progress p l)) b) \<and>
   (\<forall>b. bin_complete (Some (advance_progress p l)) b \<longrightarrow>
      bin_complete (Some p) b \<or> bp_watermark p = None \<and> b < l \<and> l \<in> bp_completed p) \<and>
   bp_channel (advance_progress p l) = bp_channel p \<and> bp_tag_key (advance_progress p l) = bp_tag_key p"
proof -
  obtain w c where loop: "advance_loop l (bp_watermark p) (bp_completed p) = (w, c)" by fastforce
  then have "advance_progress p l = p\<lparr>bp_watermark := w, bp_completed := c\<rparr>" by (simp add: advance_progress_def)
  moreover have "p\<lparr>bp_watermark := bp_watermark p, bp_completed := bp_completed p\<rparr> = p" by simp
  ultimately show ?thesis using advance_loop_spec [OF loop, of p] by simp
qed

theorem advance_progress_correct_witness:
  "\<forall>ch. bin_complete (Some (advance_progress \<lparr>bp_channel = ch, bp_tag_key = fill 0, bp_watermark = Some 4, bp_completed = {5, 6, 9}\<rparr> 2)) 6"
proof
  fix ch
  show "bin_complete (Some (advance_progress \<lparr>bp_channel = ch, bp_tag_key = fill 0, bp_watermark = Some 4, bp_completed = {5, 6, 9}\<rparr> 2)) 6"
    using advance_progress_correct [of "\<lparr>bp_channel = ch, bp_tag_key = fill 0, bp_watermark = Some 4, bp_completed = {5, 6, 9}\<rparr>" 2]
    by (simp add: bin_complete_def)
qed

end
