(* ===== verification/Vault.thy ===== *)
theory Vault
  imports Engine_Monad Codec_Order Codec_Roundtrip
begin

text \<open>
  The vault (\<open>engine/vault.rs\<close>): wrapping and unlocking the data key, ids of transactions, persist
  records, and the merge of locally minted transactions. An operation that takes the state by value
  is an action on the state; \<open>Argon2id\<close> is a function of the suite.
\<close>

definition VAULT_MAX_UNCOMPRESSED :: nat where "VAULT_MAX_UNCOMPRESSED = 4096"
definition VAULT_M :: u32 where "VAULT_M = 19456"
definition VAULT_T :: u32 where "VAULT_T = 2"
definition VAULT_P :: u32 where "VAULT_P = 1"
definition PERSIST_VERSION :: u32 where "PERSIST_VERSION = 1"
definition FOLD_VERSION :: u32 where "FOLD_VERSION = 1"

section \<open>Wrapping the data key\<close>

definition dek_minted :: "engine \<Rightarrow> rng \<Rightarrow> engine \<times> aead_key \<times> rng" where
  "dek_minted en r =
     (case en_dek en of
        Some dek \<Rightarrow> (en, dek, r)
      | None \<Rightarrow> (let (x, r) = draw r; dek = recast x in (en\<lparr>en_dek := Some dek\<rparr>, dek, r)))"

definition plain_header :: "bytes \<Rightarrow> vault_header" where
  "plain_header salt = \<lparr>vh_salt = salt, vh_m = VAULT_M, vh_t = VAULT_T, vh_p = VAULT_P,
     vh_passphrase_nonce = None, vh_passphrase_wrapped_dek = None, vh_prf_nonce = None,
     vh_prf_wrapped_dek = None\<rparr>"

definition packed_header :: "suite \<Rightarrow> vault_header \<Rightarrow> bytes" where
  "packed_header s h = st_compress s (st_json_encode s (vault_header_to_json (st_b64u s) h))"

definition wrap_dek :: "engine \<Rightarrow> unlock_secret \<Rightarrow> rng \<Rightarrow> (engine_error + bytes) \<times> engine \<times> rng" where
  "wrap_dek en sec r =
     (let (en, dek, r) = dek_minted en r;
          s = en_suite en;
          (x, r) = draw r;
          salt = take 16 (as_bytes x);
          header = plain_header salt
      in case sec of
           Passphrase pass \<Rightarrow>
             if length pass < 8 \<or> length pass > 1024 then (Inl UnlockFailed, en, r)
             else
               (case st_argon s (label pass) salt VAULT_M VAULT_T VAULT_P of
                  None \<Rightarrow> (Inl UnlockFailed, en, r)
                | Some kek \<Rightarrow>
                    let (y, r) = draw r;
                        nonce = take 12 (as_bytes y);
                        ct = st_seal s (recast kek) nonce [] (as_bytes dek)
                    in (Inr (packed_header s (header\<lparr>vh_passphrase_nonce := Some nonce,
                          vh_passphrase_wrapped_dek := Some ct\<rparr>)), en, r))
         | Prf prf \<Rightarrow>
             let (y, r) = draw r;
                 nonce = take 12 (as_bytes y);
                 ct = st_seal s (recast prf) nonce [] (as_bytes dek)
             in (Inr (packed_header s (header\<lparr>vh_prf_nonce := Some nonce, vh_prf_wrapped_dek := Some ct\<rparr>)),
                 en, r))"

definition header_str :: "b64u \<Rightarrow> members \<Rightarrow> string \<Rightarrow> engine_error + bytes" where
  "header_str b m k =
     (case get m k of
        Some (JString s) \<Rightarrow> ok_or (b64_decode b s) UnlockFailed
      | _ \<Rightarrow> Inl UnlockFailed)"

text \<open>\<open>try_into\<close> to an array of \<open>n\<close> bytes.\<close>

definition array_of :: "nat \<Rightarrow> bytes \<Rightarrow> engine_error + bytes" where
  "array_of n bs = (if length bs = n then Inr bs else Inl UnlockFailed)"

definition open_wrapped :: "suite \<Rightarrow> members \<Rightarrow> string \<Rightarrow> string \<Rightarrow> array32 \<Rightarrow> engine_error + aead_key" where
  "open_wrapped s m nonce_key ct_key kek =
     and_then (header_str (st_b64u s) m nonce_key) (\<lambda>nv.
     and_then (array_of 12 nv) (\<lambda>nonce.
     and_then (header_str (st_b64u s) m ct_key) (\<lambda>ct.
     and_then (ok_or (st_open s (recast kek) nonce [] ct) UnlockFailed) (\<lambda>dek.
       ok_or (try_from_bytes dek) UnlockFailed))))"

definition unlock :: "engine \<Rightarrow> bytes \<Rightarrow> unlock_secret \<Rightarrow> engine_error + engine" where
  "unlock en header sec =
     (let s = en_suite en in
      and_then (map_err (\<lambda>_. UnlockFailed) (st_decompress s header VAULT_MAX_UNCOMPRESSED)) (\<lambda>raw.
      and_then (ok_or (st_json_decode s raw) UnlockFailed) (\<lambda>json.
        case json of
          JObject m \<Rightarrow>
            and_then (header_str (st_b64u s) m ''salt'') (\<lambda>sv.
            and_then (array_of 16 sv) (\<lambda>salt.
            and_then
              (case sec of
                 Passphrase pass \<Rightarrow>
                   and_then (ok_or (st_argon s (label pass) salt VAULT_M VAULT_T VAULT_P) UnlockFailed) (\<lambda>kek.
                     open_wrapped s m ''passphrase_nonce'' ''passphrase_wrapped_dek'' kek)
               | Prf prf \<Rightarrow> open_wrapped s m ''prf_nonce'' ''prf_wrapped_dek'' prf) (\<lambda>dek.
              Inr (en\<lparr>en_dek := Some dek\<rparr>))))
        | _ \<Rightarrow> Inl UnlockFailed)))"

definition lock :: "engine \<Rightarrow> engine" where
  "lock en = en\<lparr>en_dek := None\<rparr>"

section \<open>Ids and records\<close>

definition engine_secret :: "engine \<Rightarrow> engine_error + secret" where
  "engine_secret en =
     and_then (require_dek en) (\<lambda>dek. Inr (expand_mac (en_suite en) dek (label ''chuchotez/1/engine'')))"

definition engine_conversation_id :: "engine \<Rightarrow> engine_error + conversation_id" where
  "engine_conversation_id en =
     and_then (engine_secret en) (\<lambda>secret. Inr (expand_mac (en_suite en) secret (label ''chuchotez/1/engine-id'')))"

definition tx_id_of :: "engine \<Rightarrow> secret \<Rightarrow> tx_payload \<Rightarrow> tag" where
  "tx_id_of en conv_secret payload =
     (let s = en_suite en;
          key = expand_mac s conv_secret (label ''chuchotez/1/tx-id'');
          canonical = st_json_encode s (payload_to_json (st_b64u s) payload)
      in recast (st_hmac s key canonical))"

text \<open>\<open>u32::to_be_bytes\<close>.\<close>

definition be32 :: "u32 \<Rightarrow> bytes" where
  "be32 n = drop 4 (to_be_bytes (ucast n))"

definition persist_nonce :: "u32 \<Rightarrow> persist_seq \<Rightarrow> bytes" where
  "persist_nonce version seq = be32 version @ to_be_bytes seq"

definition persist_record :: "engine \<Rightarrow> persist_seq \<Rightarrow> durable_body \<Rightarrow> engine_error + bytes" where
  "persist_record en seq b =
     and_then (require_dek en) (\<lambda>dek.
       if seq = u64_max then Inl MalformedPersist
       else
         let s = en_suite en;
             canonical = st_json_encode s (durable_body_to_json (st_b64u s) b)
         in if length canonical \<le> PERSIST_MAX_UNCOMPRESSED then
              let packed = st_compress s canonical;
                  nonce = persist_nonce PERSIST_VERSION seq
              in Inr (nonce @ st_seal s dek nonce [] packed)
            else Inl BodyTooLarge)"

text \<open>\<open>u64::saturating_mul\<close>.\<close>

definition saturating_mul :: "u64 \<Rightarrow> u64 \<Rightarrow> u64" where
  "saturating_mul a b = (if unat a * unat b < 2 ^ 64 then a * b else u64_max)"

section \<open>Merging minted transactions\<close>

definition merge_tx ::
  "engine \<Rightarrow> secret \<Rightarrow> conversation_id \<Rightarrow> tx_payload \<Rightarrow> (tag \<times> durable_body \<times> bytes) act" where
  "merge_tx en conv_secret cid payload =
     reading (\<lambda>st.
     act_then (lift (require_tick st)) (\<lambda>now.
       let tx_id = tx_id_of en conv_secret payload;
           b = \<lparr>db_conversation_id = cid, db_hlc = \<lparr>hlc_wall_ms = saturating_mul now 1000, hlc_counter = 0\<rparr>,
                db_payload = payload\<rparr>
       in case body st tx_id of
            Some existing \<Rightarrow>
              if db_payload existing = db_payload b then
                act_then (lift (persist_record en (es_next_seq st) existing)) (\<lambda>persist.
                  ret (tx_id, existing, persist))
              else throw Equivocation
          | None \<Rightarrow>
              act_then (lift (persist_record en (es_next_seq st) b)) (\<lambda>persist.
              act_then (modify (log_persist (es_next_seq st) tx_id)) (\<lambda>_.
              act_then (modify bump_seq) (\<lambda>_.
              act_then (storing tx_id b) (\<lambda>_.
                ret (tx_id, b, persist)))))))"

text \<open>\<open>mutate_on\<close> returns the persist records; the state it returns is the state of the action.\<close>

definition mutate_on :: "engine \<Rightarrow> secret \<Rightarrow> conversation_id \<Rightarrow> tx_payload list \<Rightarrow> bytes list act" where
  "mutate_on en conv_secret cid payloads =
     collect (\<lambda>payload. act_then (merge_tx en conv_secret cid payload) (\<lambda>(_, _, rec). ret [rec])) payloads"

lemma acts_merge_tx [acting]: "acts (merge_tx en sec cid payload)"
  unfolding merge_tx_def Let_def by (intro acting)

lemma acts_mutate_on [acting]: "acts (mutate_on en sec cid payloads)"
  unfolding mutate_on_def by (intro acting)

end
