(* ===== verification/Ratchet_Engine.thy ===== *)
theory Ratchet_Engine
  imports Vault
begin

text \<open>
  The ratchet of an established conversation (\<open>engine/ratchet.rs\<close>): peers' wraps that open are kept as
  shared secrets, every fifty packets one advertise, wrap or acknowledgement is owed, and a secret
  both sides have acknowledged is mixed into the chain at its turn.
\<close>

definition OWED_PACKETS :: u64 where "OWED_PACKETS = 50"
definition MIX_STRIDE :: u64 where "MIX_STRIDE = 8"
definition MIX_READY :: nat where "MIX_READY = 8"
definition UNUSED_CAP :: nat where "UNUSED_CAP = 8"

datatype effect =
    EffAdvertise bytes bytes
  | EffWrap secret tag encryption_public_key
  | EffAck

record minted =
  mt_payload :: tx_payload
  mt_effect :: effect

definition digest_tag :: "engine \<Rightarrow> bytes \<Rightarrow> tag" where
  "digest_tag en bs = recast (st_hash (en_suite en) bs)"

definition conversation_policy :: "engine_state \<Rightarrow> conversation_id \<Rightarrow> policy option" where
  "conversation_policy st cid =
     (case notice_for st cid of
        Some notice \<Rightarrow> Some (ntc_policy notice)
      | None \<Rightarrow>
          (case Option.bind (established_parent st cid) (notice_for st) of
             Some notice \<Rightarrow> Some (ntc_policy notice)
           | None \<Rightarrow>
               (case owner st cid of
                  None \<Rightarrow> None
                | Some (user, ident) \<Rightarrow>
                    find_map (\<lambda>b. case db_payload b of
                        EngineCreateIdentity u i pol _ _ \<Rightarrow> then_some (u = user \<and> i = ident) pol
                      | _ \<Rightarrow> None) (bodies st))))"

definition ratchet_of :: "engine_state \<Rightarrow> conversation_id \<Rightarrow> ratchet" where
  "ratchet_of st cid = (case established_of st cid of Some c \<Rightarrow> ec_ratchet c | None \<Rightarrow> ratchet_default)"

definition with_ratchet :: "(ratchet \<Rightarrow> ratchet) \<Rightarrow> conversation_id \<Rightarrow> engine_state \<Rightarrow> engine_state" where
  "with_ratchet f = with_established (\<lambda>c. c\<lparr>ec_ratchet := f (ec_ratchet c)\<rparr>)"

section \<open>Wraps of the peer\<close>

text \<open>The first unused key that opens the wrap, with its index.\<close>

fun find_unwrap :: "suite \<Rightarrow> policy \<Rightarrow> bytes \<Rightarrow> nat \<Rightarrow> unused_sk list \<Rightarrow> (nat \<times> secret) option" where
  "find_unwrap s pol ct i [] = None"
| "find_unwrap s pol ct i (sk # sks) =
     (case st_kem_unwrap s pol (usk_sk sk) ct of
        Inl _ \<Rightarrow> find_unwrap s pol ct (Suc i) sks
      | Inr shared \<Rightarrow>
          if length shared \<noteq> KEM_SHARED_LEN then find_unwrap s pol ct (Suc i) sks
          else Some (i, from_array shared))"

definition remove_nth :: "nat \<Rightarrow> 'a list \<Rightarrow> 'a list" where
  "remove_nth i xs = take i xs @ drop (Suc i) xs"

definition absorb_wrap :: "engine \<Rightarrow> policy \<Rightarrow> conversation_id \<Rightarrow> tag \<times> bytes \<Rightarrow> engine_state \<Rightarrow> engine_state" where
  "absorb_wrap en pol cid = (\<lambda>(wrap_tx, ct) st.
     if length ct \<noteq> kem_ct_len pol then st
     else
       (case find_unwrap (en_suite en) pol ct 0 (rt_unused (ratchet_of st cid)) of
          None \<Rightarrow> st
        | Some (index, shared) \<Rightarrow>
            with_ratchet (\<lambda>r. r\<lparr>rt_unused := remove_nth index (rt_unused r),
              rt_known := rt_known r @ [\<lparr>ks_wrap_tx = wrap_tx, ks_shared = shared,
                ks_ct_hash = digest_tag en ct, ks_from_us = False, ks_encaps_pk = EncryptionPublicKey []\<rparr>]\<rparr>) cid st))"

definition peer_wraps :: "engine_state \<Rightarrow> conversation_id \<Rightarrow> (tag \<times> bytes) list" where
  "peer_wraps st cid =
     (let r = ratchet_of st cid;
          known = map ks_wrap_tx (rt_known r)
      in List.map_filter (\<lambda>(i, b). case db_payload b of
           Wrap kem_ct \<Rightarrow> then_some (db_conversation_id b = cid \<and> i \<notin> rt_minted r \<and> i \<notin> set known) (i, kem_ct)
         | _ \<Rightarrow> None) (body_pairs st))"

definition absorb_peer_wraps :: "engine \<Rightarrow> conversation_id \<Rightarrow> engine_state \<Rightarrow> engine_state" where
  "absorb_peer_wraps en cid st =
     (case conversation_policy st cid of
        None \<Rightarrow> st
      | Some pol \<Rightarrow> foldl (\<lambda>st w. absorb_wrap en pol cid w st) st (peer_wraps st cid))"

section \<open>Agreed secrets\<close>

definition is_ack_of :: "conversation_id \<Rightarrow> tag \<Rightarrow> durable_body \<Rightarrow> bool" where
  "is_ack_of cid tg b \<longleftrightarrow> db_conversation_id b = cid \<and> db_payload b = Ack tg"

definition ack_exists :: "engine_state \<Rightarrow> conversation_id \<Rightarrow> tag \<Rightarrow> bool" where
  "ack_exists st cid tg = list_ex (is_ack_of cid tg) (bodies st)"

definition ack_watermarked :: "engine_state \<Rightarrow> conversation_id \<Rightarrow> tag \<Rightarrow> bool" where
  "ack_watermarked st cid tg = list_ex (\<lambda>(i, b). is_ack_of cid tg b \<and> tx_watermarked st i) (body_pairs st)"

definition agreed_shareds :: "engine_state \<Rightarrow> conversation_id \<Rightarrow> bool \<Rightarrow> secret list" where
  "agreed_shareds st cid from_us =
     (case established_of st cid of
        None \<Rightarrow> []
      | Some c \<Rightarrow>
          map snd (sort_key fst (map (\<lambda>k. (ks_wrap_tx k, ks_shared k))
            (filter (\<lambda>k. ack_watermarked st cid (ks_ct_hash k))
              (filter (\<lambda>k. ks_from_us k = from_us \<and> tx_watermarked st (ks_wrap_tx k)) (rt_known (ec_ratchet c)))))))"

definition next_shared :: "engine_state \<Rightarrow> conversation_id \<Rightarrow> bool \<Rightarrow> u64 \<Rightarrow> secret option" where
  "next_shared st cid from_us epoch =
     (let agreed = agreed_shareds st cid from_us in
      if length agreed < min (unat epoch + MIX_READY) (2 ^ 64 - 1) then None
      else if unat epoch < length agreed then Some (agreed ! unat epoch)
      else None)"

definition mix_due :: "send_chain \<Rightarrow> bool" where
  "mix_due chain \<longleftrightarrow> sc_packet_seq chain > 0 \<and> sc_packet_seq chain mod MIX_STRIDE = 0"

definition mixed_chain ::
  "engine \<Rightarrow> engine_state \<Rightarrow> conversation_id \<Rightarrow> conversation_sort \<Rightarrow> send_chain \<Rightarrow> bool \<Rightarrow> send_chain option" where
  "mixed_chain en st cid srt chain from_us =
     (if \<not> mix_due chain then None
      else Option.bind (next_shared st cid from_us (sc_epoch chain)) (\<lambda>shared.
        ok (mix (en_suite en) chain srt shared)))"

definition note_sent_packet :: "conversation_id \<Rightarrow> engine_state \<Rightarrow> engine_state" where
  "note_sent_packet = with_ratchet (\<lambda>r. r\<lparr>rt_since := saturating_add (rt_since r) 1\<rparr>)"

section \<open>What is owed\<close>

definition ack_of_wrap :: "engine_state \<Rightarrow> conversation_id \<Rightarrow> tx_payload option" where
  "ack_of_wrap st cid =
     Option.bind (established_of st cid) (\<lambda>c.
       find_map (\<lambda>k.
         if ks_from_us k \<or> \<not> tx_watermarked st (ks_wrap_tx k) then None
         else if ack_watermarked st cid (ks_ct_hash k) then None
         else if ack_exists st cid (ks_ct_hash k) then None
         else Some (Ack (ks_ct_hash k))) (rt_known (ec_ratchet c)))"

text \<open>The advertises of the peer that the loops go over.\<close>

definition peer_advertises ::
  "engine_state \<Rightarrow> conversation_id \<Rightarrow> policy \<Rightarrow> ratchet \<Rightarrow> encryption_public_key list" where
  "peer_advertises st cid pol r =
     List.map_filter (\<lambda>(i, b). case db_payload b of
         Advertise pk \<Rightarrow> then_some (\<not> (db_conversation_id b \<noteq> cid \<or> i \<in> rt_minted r) \<and>
           \<not> (length (enc_pk_bytes pk) \<noteq> kem_pk_len pol \<or> \<not> tx_watermarked st i)) pk
       | _ \<Rightarrow> None) (body_pairs st)"

definition ack_of_advertise :: "engine \<Rightarrow> engine_state \<Rightarrow> conversation_id \<Rightarrow> policy \<Rightarrow> tx_payload option" where
  "ack_of_advertise en st cid pol =
     Option.bind (established_of st cid) (\<lambda>c.
       find_map (\<lambda>pk.
         let tg = digest_tag en (enc_pk_bytes pk)
         in if ack_exists st cid tg then None else Some (Ack tg)) (peer_advertises st cid pol (ec_ratchet c)))"

definition random_pair :: "bytes act" where
  "random_pair = act_then random32 (\<lambda>a. act_then random32 (\<lambda>b. ret (seed_from_pair a b)))"

fun try_wraps :: "engine \<Rightarrow> policy \<Rightarrow> encryption_public_key list \<Rightarrow> encryption_public_key list \<Rightarrow> minted option act" where
  "try_wraps en pol wrapped [] = ret None"
| "try_wraps en pol wrapped (pk # pks) =
     (if pk \<in> set wrapped then try_wraps en pol wrapped pks
      else
        act_then random_pair (\<lambda>seed.
          case st_kem_wrap (en_suite en) pol (enc_pk_bytes pk) seed of
            Inl _ \<Rightarrow> try_wraps en pol wrapped pks
          | Inr (shared, kem_ct) \<Rightarrow>
              if length shared \<noteq> KEM_SHARED_LEN then try_wraps en pol wrapped pks
              else ret (Some \<lparr>mt_payload = Wrap kem_ct,
                mt_effect = EffWrap (from_array shared) (digest_tag en kem_ct) pk\<rparr>)))"

definition wrap_to_peer :: "engine \<Rightarrow> engine_state \<Rightarrow> conversation_id \<Rightarrow> policy \<Rightarrow> minted option act" where
  "wrap_to_peer en st cid pol =
     opt_or (established_of st cid) (ret None) (\<lambda>c.
       try_wraps en pol (map ks_encaps_pk (filter ks_from_us (rt_known (ec_ratchet c))))
         (peer_advertises st cid pol (ec_ratchet c)))"

definition advertise :: "engine \<Rightarrow> policy \<Rightarrow> minted option act" where
  "advertise en pol =
     act_then random_pair (\<lambda>seed.
       case st_kem_generate (en_suite en) pol seed of
         Inl _ \<Rightarrow> ret None
       | Inr keys \<Rightarrow> ret (Some \<lparr>mt_payload = Advertise (EncryptionPublicKey (kp_public keys)),
           mt_effect = EffAdvertise (kp_public keys) (kp_secret keys)\<rparr>))"

definition choose_owed :: "engine \<Rightarrow> engine_state \<Rightarrow> conversation_id \<Rightarrow> policy \<Rightarrow> minted option act" where
  "choose_owed en st cid pol =
     (case ack_of_wrap st cid of
        Some payload \<Rightarrow> ret (Some \<lparr>mt_payload = payload, mt_effect = EffAck\<rparr>)
      | None \<Rightarrow>
          (case ack_of_advertise en st cid pol of
             Some payload \<Rightarrow> ret (Some \<lparr>mt_payload = payload, mt_effect = EffAck\<rparr>)
           | None \<Rightarrow>
               act_then (wrap_to_peer en st cid pol) (\<lambda>m.
                 case m of Some minted \<Rightarrow> ret (Some minted) | None \<Rightarrow> advertise en pol)))"

fun apply_effect :: "tag \<Rightarrow> effect \<Rightarrow> ratchet \<Rightarrow> ratchet" where
  "apply_effect tx_id (EffAdvertise pk sk) r =
     (let unused = (if length (rt_unused r) \<ge> UNUSED_CAP then drop 1 (rt_unused r) else rt_unused r)
      in r\<lparr>rt_unused := unused @ [\<lparr>usk_tx_id = tx_id, usk_pk = EncryptionPublicKey pk, usk_sk = sk\<rparr>]\<rparr>)"
| "apply_effect tx_id (EffWrap shared ct_hash encaps_pk) r =
     r\<lparr>rt_known := rt_known r @ [\<lparr>ks_wrap_tx = tx_id, ks_shared = shared, ks_ct_hash = ct_hash,
       ks_from_us = True, ks_encaps_pk = encaps_pk\<rparr>]\<rparr>"
| "apply_effect tx_id EffAck r = r"

definition mint_if_owed :: "engine \<Rightarrow> conversation_id \<Rightarrow> secret \<Rightarrow> tag option act" where
  "mint_if_owed en cid sec =
     reading (\<lambda>st.
       if is_sync st cid \<or> established_secret st cid = None then ret None
       else if rt_since (ratchet_of st cid) < OWED_PACKETS then ret None
       else
         opt_or (conversation_policy st cid) (ret None) (\<lambda>pol.
         act_then (choose_owed en st cid pol) (\<lambda>owed.
         opt_or owed (ret None) (\<lambda>minted.
         act_then (merge_tx en sec cid (mt_payload minted)) (\<lambda>(tx_id, _, _).
         reading (\<lambda>st.
         expect (established_mut_of id cid st) (\<lambda>_.
         act_then (modify (with_ratchet (\<lambda>r. apply_effect tx_id (mt_effect minted)
             (r\<lparr>rt_since := 0, rt_minted := insert tx_id (rt_minted r)\<rparr>)) cid)) (\<lambda>_.
           ret (Some tx_id)))))))))"

section \<open>Steps\<close>

lemma acts_with_ratchet [acting]: "acts (modify (with_ratchet f cid))"
  unfolding with_ratchet_def by (intro acting)

lemma acts_note_sent [acting]: "acts (modify (note_sent_packet cid))"
  unfolding note_sent_packet_def by (intro acting)

lemma with_ratchet_step: "store_step\<^sup>*\<^sup>* st (with_ratchet f cid st)"
  by (auto simp: with_ratchet_def with_established_def split: option.splits intro: s_established)

lemma absorb_wrap_step: "store_step\<^sup>*\<^sup>* st (absorb_wrap en pol cid w st)"
  using with_ratchet_step by (auto simp: absorb_wrap_def split: prod.splits option.splits)

lemma foldl_steps: "(\<And>x st. store_step\<^sup>*\<^sup>* st (f st x)) \<Longrightarrow> store_step\<^sup>*\<^sup>* st (foldl f st xs)"
  by (induction xs arbitrary: st) (auto intro: rtranclp_trans)

lemma acts_absorb [acting]: "acts (modify (absorb_peer_wraps en cid))"
  by (rule acts_modify)
    (auto simp: absorb_peer_wraps_def split: option.splits intro!: foldl_steps absorb_wrap_step)

lemma acts_random_pair [acting]: "acts_by R random_pair"
  unfolding random_pair_def by (intro acting)

lemma acts_try_wraps [acting]: "acts_by R (try_wraps en pol wrapped pks)"
  by (induction pks) (auto intro!: acting)

lemma acts_choose_owed [acting]: "acts_by R (choose_owed en st cid pol)"
  unfolding choose_owed_def wrap_to_peer_def advertise_def by (intro acting)

lemma acts_mint_if_owed [acting]: "acts (mint_if_owed en cid sec)"
  unfolding mint_if_owed_def by (intro acting)

end
