(* ===== verification/Posting.thy ===== *)
theory Posting
  imports Ratchet_Engine Fragment
begin

text \<open>
  Posting a stored transaction on a sending chain (\<open>post_handshake_packets\<close> and \<open>write_chain_packets\<close>
  of \<open>engine/vault.rs\<close>). The loop that cuts, seals and queues fragments is shared with the live path:
  what it does with a packet is the argument \<open>emit\<close>, which returns the bodies it keeps.
\<close>

lemma act_then_cong [fundef_cong]:
  "w = v \<Longrightarrow> m v = m' v \<Longrightarrow> (\<And>x u. m' v = (Inr x, u) \<Longrightarrow> k x u = k' x u) \<Longrightarrow> act_then m k w = act_then m' k' v"
  by (auto simp: act_then_def split: prod.splits sum.splits)

lemma saturating_succ_small: "i < 64 \<Longrightarrow> unat (saturating_add i 1) = Suc (unat (i :: u64))"
  by (simp add: unat_saturating_add word_less_nat_alt)

function send_loop ::
  "suite \<Rightarrow> tag \<Rightarrow> tag \<Rightarrow> bytes \<Rightarrow> (send_chain \<Rightarrow> packet_plain \<Rightarrow> bytes list act) \<Rightarrow>
     bytes \<Rightarrow> u64 \<Rightarrow> send_chain \<Rightarrow> world \<Rightarrow> (fault + send_chain \<times> bytes list) \<times> world" where
  "send_loop s tx_id set_xor actor_id emit packed frag_i chain w =
     (case next_fragment s packed tx_id set_xor (sc_packet_seq chain) frag_i actor_id of
        Inl e \<Rightarrow> throw e w
      | Inr (packet, n) \<Rightarrow>
          act_then (emit chain packet) (\<lambda>kept w.
            if is_last packet then ret (step s chain, kept) w
            else
              act_then (\<lambda>w. send_loop s tx_id set_xor actor_id emit (drop n packed)
                  (saturating_add frag_i 1) (step s chain) w) (\<lambda>(chain, rest).
                ret (chain, kept @ rest)) w) w)"
  by pat_completeness auto
termination
  by (relation "measure (\<lambda>(s, t, x, a, e, p, i, c, w). 64 - unat i)")
    (auto simp: saturating_succ_small word_less_nat_alt dest!: next_fragment_cases)

declare send_loop.simps [simp del]

text \<open>The equation of the loop as an equation of actions.\<close>

lemma send_loop_eq:
  "send_loop s tx_id set_xor actor_id emit packed frag_i chain =
     (case next_fragment s packed tx_id set_xor (sc_packet_seq chain) frag_i actor_id of
        Inl e \<Rightarrow> throw e
      | Inr (packet, n) \<Rightarrow>
          act_then (emit chain packet) (\<lambda>kept.
            if is_last packet then ret (step s chain, kept)
            else
              act_then (send_loop s tx_id set_xor actor_id emit (drop n packed) (saturating_add frag_i 1) (step s chain))
                (\<lambda>(chain, rest). ret (chain, kept @ rest))))"
proof
  show "send_loop s tx_id set_xor actor_id emit packed frag_i chain w =
     (case next_fragment s packed tx_id set_xor (sc_packet_seq chain) frag_i actor_id of
        Inl e \<Rightarrow> throw e
      | Inr (packet, n) \<Rightarrow>
          act_then (emit chain packet) (\<lambda>kept.
            if is_last packet then ret (step s chain, kept)
            else
              act_then (send_loop s tx_id set_xor actor_id emit (drop n packed) (saturating_add frag_i 1) (step s chain))
                (\<lambda>(chain, rest). ret (chain, kept @ rest)))) w" for w
    by (subst send_loop.simps) (auto simp: act_then_def split: sum.splits prod.splits)
qed

lemma acts_send_loop [acting]:
  assumes "\<And>c p. acts_by R (emit c p)"
  shows "acts_by R (send_loop s t x a emit packed i chain)"
proof (induction "64 - unat i" arbitrary: packed i chain rule: less_induct)
  case less
  show ?case
  proof (cases "next_fragment s packed t x (sc_packet_seq chain) i a")
    case (Inl e)
    then show ?thesis by (simp add: send_loop_eq [of s t x a emit packed i] acts_throw)
  next
    case (Inr pn)
    obtain p n where pn: "pn = (p, n)" by fastforce
    have "i < 64" using next_fragment_cases Inr pn by blast
    then have "64 - unat (saturating_add i 1) < 64 - unat i"
      by (simp add: saturating_succ_small word_less_nat_alt)
    then have "acts_by R (send_loop s t x a emit (drop n packed) (saturating_add i 1) (step s chain))"
      by (rule less)
    then show ?thesis
      using assms by (auto simp: send_loop_eq [of s t x a emit packed i] Inr pn intro!: acting)
  qed
qed

section \<open>Handshake packets\<close>

definition push_writes :: "durable_channel list \<Rightarrow> tag \<Rightarrow> bytes \<Rightarrow> engine_state \<Rightarrow> engine_state" where
  "push_writes channels tg sealed =
     set_writes (\<lambda>ws. ws @ map (\<lambda>ch. \<lparr>dw_channel = ch, dw_tag = tg, dw_body = sealed\<rparr>) channels)"

lemma acts_push_writes [acting]: "acts (modify (push_writes channels tg sealed))"
  unfolding push_writes_def by (intro acting)

text \<open>A pending search on the ephemeral path loses its sealed copies, since the chain moves.\<close>

definition unseal_heal :: "unix_seconds option \<Rightarrow> packet_chains \<Rightarrow> packet_chains" where
  "unseal_heal now ch =
     (if hl_on_ephemeral (pc_heal ch) then
        let due = (case now of
              Some now \<Rightarrow> (case hl_sent_at (pc_heal ch) of Some sent \<Rightarrow> now \<ge> saturating_add sent 3 | None \<Rightarrow> False)
            | None \<Rightarrow> False);
            h = (pc_heal ch)\<lparr>hl_ready := [], hl_sealed_from := None, hl_sealed_to := None\<rparr>
        in ch\<lparr>pc_heal := (if due then h\<lparr>hl_needs_reseal := True\<rparr> else h)\<rparr>
      else ch)"

definition write_chain_packets ::
  "engine \<Rightarrow> conversation_id \<Rightarrow> conversation_sort \<Rightarrow> durable_channel list \<Rightarrow> tag \<Rightarrow> tag \<Rightarrow> actor \<Rightarrow> bool \<Rightarrow> unit act" where
  "write_chain_packets en cid srt persistents tg tx_id actor count_since =
     reading (\<lambda>st.
     require (map_option tk_secret (ticket_of st cid)) UnknownIds (\<lambda>secret.
     act_then (modify (with_chains (unseal_heal (es_ticked st)) cid)) (\<lambda>_.
     reading (\<lambda>st.
     require (body st tx_id) UnknownIds (\<lambda>b.
       let s = en_suite en;
           packed = packed_durable_body s b;
           set_xor = set_xor_for (body_pairs st) cid
       in act_then (case Option.bind (chains_of st cid) (\<lambda>c. bt_get (pc_send c) actor) of
              Some c \<Rightarrow> ret c
            | None \<Rightarrow> lift (join s secret srt [])) (\<lambda>chain.
          act_then (send_loop s tx_id set_xor (actor_as_bytes actor) (\<lambda>chain packet.
              act_then (seal s (mk s chain) packet) (\<lambda>sealed.
              act_then (modify (push_writes persistents tg sealed)) (\<lambda>_.
              act_then (if count_since then modify (note_sent_packet cid) else ret ()) (\<lambda>_.
                ret [])))) packed 0 chain) (\<lambda>(chain, _).
            modify (with_chains (\<lambda>ch. ch\<lparr>pc_send := bt_insert actor chain (pc_send ch)\<rparr>) cid))))))))"

definition handshake_sort :: "engine_state \<Rightarrow> conversation_id \<Rightarrow> conversation_sort" where
  "handshake_sort st cid = (if is_sync st cid then HandshakeSync else HandshakeDm)"

definition post_handshake_packets :: "engine \<Rightarrow> conversation_id \<Rightarrow> secret \<Rightarrow> tag \<Rightarrow> unit act" where
  "post_handshake_packets en cid conv_secret tx_id =
     reading (\<lambda>st.
     act_then (lift (require_tick st)) (\<lambda>now.
     require (ticket_of st cid) UnknownIds (\<lambda>t.
       let tg = invite_tag (en_suite en) conv_secret (time_bin now)
       in act_then (modify (absorb_peer_wraps en cid)) (\<lambda>_.
            write_chain_packets en cid (handshake_sort st cid) (tk_persistents t) tg tx_id Handshake True))))"

lemma acts_write_chain_packets [acting]: "acts (write_chain_packets en cid srt ps tg tx_id actor since)"
  unfolding write_chain_packets_def Let_def by (intro acting)

lemma acts_post_handshake_packets [acting]: "acts (post_handshake_packets en cid sec tx_id)"
  unfolding post_handshake_packets_def Let_def by (intro acting)

end
