(* ===== verification/Heal_Engine.thy ===== *)
theory Heal_Engine
  imports Heal Posting
begin

text \<open>
  The search for missing transactions on the wire (\<open>engine/heal.rs\<close>): probes go out on the ephemeral
  channels while the conversation is live, with durable copies sealed beside them that are posted when
  no answer arrives within three ticked seconds.
\<close>

definition heal_channels :: "engine_state \<Rightarrow> conversation_id \<Rightarrow> durable_channel list \<times> ephemeral_channel list" where
  "heal_channels st cid =
     ((case ticket_of st cid of Some t \<Rightarrow> tk_persistents t | None \<Rightarrow> []),
      (case notice_for st cid of Some n \<Rightarrow> ntc_ephemerals n | None \<Rightarrow> []))"

definition conv_ids :: "engine_state \<Rightarrow> conversation_id \<Rightarrow> tag list" where
  "conv_ids st cid = sort (map fst (filter (\<lambda>(_, b). db_conversation_id b = cid) (body_pairs st)))"

definition heal_cids :: "engine_state \<Rightarrow> conversation_id list" where
  "heal_cids st = map fst (filter (\<lambda>(_, ch). hl_on_ephemeral (pc_heal ch)) (for_each_chains st))"

definition same_chain :: "send_chain \<Rightarrow> send_chain \<Rightarrow> bool" where
  "same_chain a b \<longleftrightarrow> sc_root a = sc_root b \<and> sc_c a = sc_c b \<and> sc_epoch a = sc_epoch b \<and>
     sc_packet_seq a = sc_packet_seq b"

definition sealed_matches :: "packet_chains \<Rightarrow> bool" where
  "sealed_matches ch =
     (case hl_sealed_from (pc_heal ch) of
        None \<Rightarrow> False
      | Some frm \<Rightarrow> (case bt_get (pc_send ch) Handshake of Some chain \<Rightarrow> same_chain chain frm | None \<Rightarrow> True))"

definition fallback_due :: "engine_state \<Rightarrow> conversation_id \<Rightarrow> unix_seconds \<Rightarrow> bool" where
  "fallback_due st cid now =
     (case chains_of st cid of
        None \<Rightarrow> False
      | Some c \<Rightarrow> hl_on_ephemeral (pc_heal c) \<and> \<not> hl_fell_back (pc_heal c) \<and>
          (case hl_sent_at (pc_heal c) of Some sent \<Rightarrow> now \<ge> saturating_add sent FALLBACK_SECS | None \<Rightarrow> False))"

definition with_heal :: "(heal \<Rightarrow> heal) \<Rightarrow> conversation_id \<Rightarrow> engine_state \<Rightarrow> engine_state" where
  "with_heal f = with_chains (\<lambda>ch. ch\<lparr>pc_heal := f (pc_heal ch)\<rparr>)"

definition heal_of :: "engine_state \<Rightarrow> conversation_id \<Rightarrow> heal" where
  "heal_of st cid = (case chains_of st cid of Some c \<Rightarrow> pc_heal c | None \<Rightarrow> heal_default)"

section \<open>Posting probes\<close>

definition push_eph_writes :: "ephemeral_channel list \<Rightarrow> tag \<Rightarrow> bytes \<Rightarrow> engine_state \<Rightarrow> engine_state" where
  "push_eph_writes channels tg sealed =
     set_eph_writes (\<lambda>ws. ws @ map (\<lambda>ch. \<lparr>ew_channel = ch, ew_tag = tg, ew_body = sealed\<rparr>) channels)"

fun with_range_xor :: "tag list \<Rightarrow> packet_plain \<Rightarrow> packet_plain" where
  "with_range_xor ids (HealHalfXor p) = HealHalfXor (p\<lparr>phx_xor := range_xor ids (phx_lo p) (phx_hi p)\<rparr>)"
| "with_range_xor ids p = p"

text \<open>The loop over the probes: the chain position it ends at, and the durable copies.\<close>

fun seal_probes ::
  "suite \<Rightarrow> tag list \<Rightarrow> tag \<Rightarrow> durable_channel list \<Rightarrow> ephemeral_channel list \<Rightarrow> bool \<Rightarrow> send_chain \<Rightarrow>
     heal_probe list \<Rightarrow> send_chain \<Rightarrow> (send_chain \<times> bytes list) act" where
  "seal_probes s ids tg durable_ch eph_ch use_eph origin [] cursor = ret (cursor, [])"
| "seal_probes s ids tg durable_ch eph_ch use_eph origin (prb # prbs) cursor =
     (let plain = with_range_xor ids (probe_plain prb (sc_packet_seq cursor) (actor_as_bytes Handshake)) in
      if use_eph then
        act_then (seal s (eph_mk s origin) plain) (\<lambda>sealed.
        act_then (modify (push_eph_writes eph_ch tg sealed)) (\<lambda>_.
        act_then (seal s (mk s cursor) plain) (\<lambda>copy.
        act_then (seal_probes s ids tg durable_ch eph_ch use_eph origin prbs (step s cursor)) (\<lambda>(cursor, ready).
          ret (cursor, copy # ready)))))
      else
        act_then (seal s (mk s cursor) plain) (\<lambda>sealed.
        act_then (modify (push_writes durable_ch tg sealed)) (\<lambda>_.
          seal_probes s ids tg durable_ch eph_ch use_eph origin prbs (step s cursor))))"

definition probes_sent :: "unix_seconds \<Rightarrow> bool \<Rightarrow> bytes list \<Rightarrow> send_chain \<Rightarrow> send_chain \<Rightarrow> packet_chains \<Rightarrow> packet_chains" where
  "probes_sent now use_eph ready origin cursor ch =
     (let h = (pc_heal ch)\<lparr>hl_sent_at := Some now, hl_on_ephemeral := use_eph, hl_needs_reseal := False\<rparr> in
      if use_eph then ch\<lparr>pc_heal := h\<lparr>hl_ready := ready, hl_sealed_from := Some origin, hl_sealed_to := Some cursor\<rparr>\<rparr>
      else ch\<lparr>pc_heal := h\<lparr>hl_ready := [], hl_sealed_from := None, hl_sealed_to := None, hl_fell_back := True\<rparr>,
              pc_send := bt_insert Handshake cursor (pc_send ch)\<rparr>)"

definition post_heal :: "engine \<Rightarrow> conversation_id \<Rightarrow> unit act" where
  "post_heal en cid =
     reading (\<lambda>st.
     act_then (lift (require_tick st)) (\<lambda>now.
     opt_or (map_option tk_secret (ticket_of st cid)) (ret ()) (\<lambda>secret.
       let s = en_suite en;
           (durable_ch, eph_ch) = heal_channels st cid;
           prbs = hl_probes (heal_of st cid)
       in if prbs = [] \<or> durable_ch = [] \<and> eph_ch = [] then ret ()
          else
            let tg = invite_tag s secret (time_bin now);
                live = (case Option.bind (chains_of st cid) pc_live_until of Some til \<Rightarrow> now < til | None \<Rightarrow> False);
                use_eph = (live \<and> eph_ch \<noteq> [] \<and> \<not> hl_fell_back (heal_of st cid) \<and> \<not> hl_needs_reseal (heal_of st cid));
                ids = conv_ids st cid
            in act_then (case Option.bind (chains_of st cid) (\<lambda>c. bt_get (pc_send c) Handshake) of
                   Some chain \<Rightarrow> ret chain
                 | None \<Rightarrow> lift (join s secret (handshake_sort st cid) [])) (\<lambda>origin.
               act_then (seal_probes s ids tg durable_ch eph_ch use_eph origin prbs origin) (\<lambda>(cursor, ready).
               reading (\<lambda>st.
               expect (chains_mut id cid st) (\<lambda>_.
                 modify (with_chains (probes_sent now use_eph ready origin cursor) cid))))))))"

definition replace_probes :: "engine \<Rightarrow> conversation_id \<Rightarrow> heal_probe list \<Rightarrow> unit act" where
  "replace_probes en cid prbs =
     act_then (modify (with_heal (\<lambda>h. h\<lparr>hl_probes := prbs, hl_fell_back := False\<rparr>) cid)) (\<lambda>_. post_heal en cid)"

definition commit_ready :: "engine \<Rightarrow> conversation_id \<Rightarrow> unit act" where
  "commit_ready en cid =
     reading (\<lambda>st.
     expect (chains_of st cid) (\<lambda>chains.
     expect (ticket_of st cid) (\<lambda>t.
     expect (es_ticked st) (\<lambda>now.
       let tg = invite_tag (en_suite en) (tk_secret t) (time_bin now)
       in act_then (each (\<lambda>b. modify (push_writes (fst (heal_channels st cid)) tg b)) (hl_ready (pc_heal chains))) (\<lambda>_.
          reading (\<lambda>st.
          expect (chains_mut id cid st) (\<lambda>_.
          expect (hl_sealed_to (pc_heal chains)) (\<lambda>sealed_to.
            modify (with_chains (\<lambda>ch. ch\<lparr>pc_send := bt_insert Handshake sealed_to (pc_send ch),
              pc_heal := (pc_heal ch)\<lparr>hl_ready := [], hl_sealed_from := None, hl_sealed_to := None,
                hl_on_ephemeral := False, hl_fell_back := True, hl_needs_reseal := False\<rparr>\<rparr>) cid)))))))))"

definition flush_heal :: "engine \<Rightarrow> unit act" where
  "flush_heal en =
     reading (\<lambda>st.
     opt_or (es_ticked st) (ret ()) (\<lambda>now.
       each (\<lambda>cid. reading (\<lambda>st.
         if \<not> fallback_due st cid now then ret ()
         else
           expect (chains_of st cid) (\<lambda>chains.
             if hl_ready (pc_heal chains) = [] \<or> \<not> sealed_matches chains then
               modify (with_heal (\<lambda>h. h\<lparr>hl_needs_reseal := True\<rparr>) cid)
             else commit_ready en cid))) (heal_cids st)))"

definition reseal_heal :: "engine \<Rightarrow> conversation_id \<Rightarrow> unit act" where
  "reseal_heal en cid =
     reading (\<lambda>st.
     opt_or (es_ticked st) (ret ()) (\<lambda>now.
       if (case chains_of st cid of
             Some c \<Rightarrow> hl_needs_reseal (pc_heal c) \<or> fallback_due st cid now \<and> hl_ready (pc_heal c) = []
           | None \<Rightarrow> False)
       then post_heal en cid else ret ()))"

definition reseal_due :: "engine \<Rightarrow> unit act" where
  "reseal_due en =
     reading (\<lambda>st.
       let now = es_ticked st in
       each (\<lambda>cid. reading (\<lambda>st.
         if (case chains_of st cid of
               Some c \<Rightarrow> hl_needs_reseal (pc_heal c) \<or>
                 (case now of Some now \<Rightarrow> fallback_due st cid now \<and> hl_ready (pc_heal c) = [] | None \<Rightarrow> False)
             | None \<Rightarrow> False)
         then reseal_heal en cid else ret ())) (heal_cids st))"

section \<open>Answers\<close>

definition retransmit :: "engine \<Rightarrow> conversation_id \<Rightarrow> tag list \<Rightarrow> unit act" where
  "retransmit en cid ids =
     reading (\<lambda>st.
     expect (es_ticked st) (\<lambda>now.
     expect (ticket_of st cid) (\<lambda>t.
       let durable_ch = fst (heal_channels st cid) in
       if durable_ch = [] then ret ()
       else
         each (\<lambda>i. write_chain_packets en cid (handshake_sort st cid) durable_ch
           (invite_tag (en_suite en) (tk_secret t) (time_bin now)) i Handshake False) ids)))"

definition holds :: "engine_state \<Rightarrow> conversation_id \<Rightarrow> tag \<Rightarrow> bool" where
  "holds st cid i = (case body st i of Some b \<Rightarrow> db_conversation_id b = cid | None \<Rightarrow> False)"

definition on_half :: "engine \<Rightarrow> conversation_id \<Rightarrow> packet_heal_half_xor \<Rightarrow> unit act" where
  "on_half en cid p =
     reading (\<lambda>st.
       case half_answer (conv_ids st cid) (phx_lo p) (phx_hi p) (phx_xor p) of
         None \<Rightarrow> ret ()
       | Some prbs \<Rightarrow> replace_probes en cid prbs)"

definition on_want :: "engine \<Rightarrow> conversation_id \<Rightarrow> packet_heal_want \<Rightarrow> unit act" where
  "on_want en cid p =
     (if length (phw_ids p) > ID_CAP then ret ()
      else
        act_then (modify (with_heal (\<lambda>h. h\<lparr>hl_probes := [], hl_ready := [], hl_on_ephemeral := False\<rparr>) cid)) (\<lambda>_.
        reading (\<lambda>st. retransmit en cid (filter (holds st cid) (phw_ids p)))))"

definition on_have :: "engine \<Rightarrow> conversation_id \<Rightarrow> packet_heal_have \<Rightarrow> unit act" where
  "on_have en cid p =
     reading (\<lambda>st.
       case have_answer (holds st cid) (phh_lo p) (phh_hi p) (phh_ids p) of
         None \<Rightarrow> ret ()
       | Some [] \<Rightarrow> modify (with_heal (\<lambda>_. heal_default) cid)
       | Some prbs \<Rightarrow> replace_probes en cid prbs)"

fun on_heal_kind :: "engine \<Rightarrow> conversation_id \<Rightarrow> packet_plain \<Rightarrow> unit act" where
  "on_heal_kind en cid (HealHalfXor p) = on_half en cid p"
| "on_heal_kind en cid (HealWant p) = on_want en cid p"
| "on_heal_kind en cid (HealHave p) = on_have en cid p"
| "on_heal_kind en cid _ = ret ()"

definition on_heal_packet :: "engine \<Rightarrow> conversation_id \<Rightarrow> packet_plain \<Rightarrow> unit act" where
  "on_heal_packet en cid packet =
     reading (\<lambda>st.
     act_then (lift (require_tick st)) (\<lambda>now.
     act_then (modify (with_heal (\<lambda>h. if hl_on_ephemeral h then h\<lparr>hl_sent_at := Some now\<rparr> else h) cid)) (\<lambda>_.
       on_heal_kind en cid packet)))"

definition note_set_xor :: "engine \<Rightarrow> conversation_id \<Rightarrow> tag \<Rightarrow> unit act" where
  "note_set_xor en cid remote =
     reading (\<lambda>st.
       if set_xor_for (body_pairs st) cid = remote then modify (with_heal (\<lambda>_. heal_default) cid)
       else if hl_probes (heal_of st cid) = [] then
         act_then (modify (with_heal (\<lambda>h. h\<lparr>hl_probes := hl_probes h @ [Half zero32 inf32], hl_fell_back := False\<rparr>) cid)) (\<lambda>_.
           post_heal en cid)
       else ret ())"

definition note_live :: "conversation_id \<Rightarrow> unix_seconds \<Rightarrow> engine_state \<Rightarrow> engine_state" where
  "note_live cid now = with_chains (\<lambda>ch. ch\<lparr>pc_live_until := Some (saturating_add now LIVE_SECS)\<rparr>) cid"

text \<open>\<open>settle_live\<close> of \<open>engine/live.rs\<close>.\<close>

definition settled :: "tag \<Rightarrow> unix_seconds \<Rightarrow> packet_chains \<Rightarrow> packet_chains" where
  "settled set_xor now ch =
     (let counted = map (\<lambda>p. if lp_set_xor p = set_xor then p\<lparr>lp_acks := saturating_add (lp_acks p) 1\<rparr> else p)
            (pc_live_pending ch);
          left = filter (\<lambda>p. lp_acks p < lp_needed p) counted
      in ch\<lparr>pc_live_pending := left,
            pc_live_until := (if length left < length counted then Some (saturating_add now LIVE_SECS) else pc_live_until ch)\<rparr>)"

definition settle_live :: "conversation_id \<Rightarrow> tag \<Rightarrow> unix_seconds \<Rightarrow> unit act" where
  "settle_live cid set_xor now =
     reading (\<lambda>st. expect (chains_mut id cid st) (\<lambda>_. modify (with_chains (settled set_xor now) cid)))"

fun is_heal :: "packet_plain \<Rightarrow> bool" where
  "is_heal (HealHalfXor _) = True"
| "is_heal (HealWant _) = True"
| "is_heal (HealHave _) = True"
| "is_heal _ = False"

fun xor_ack_of :: "packet_plain \<Rightarrow> tag option" where
  "xor_ack_of (XorAck p) = Some (pxa_set_xor p)"
| "xor_ack_of _ = None"

definition observe_ephemeral :: "engine \<Rightarrow> conversation_id \<Rightarrow> unix_seconds \<Rightarrow> packet_plain \<Rightarrow> unit act" where
  "observe_ephemeral en cid now packet =
     reading (\<lambda>st.
       let already = (case chains_of st cid of Some c \<Rightarrow> pc_live_until c \<noteq> None | None \<Rightarrow> False) in
       act_then (case xor_ack_of packet of
           Some set_xor \<Rightarrow>
             act_then (settle_live cid set_xor now) (\<lambda>_.
             reading (\<lambda>st.
             act_then (if set_xor_for (body_pairs st) cid = set_xor then modify (note_live cid now) else ret ()) (\<lambda>_.
               note_set_xor en cid set_xor)))
         | None \<Rightarrow> if already then modify (note_live cid now) else ret ()) (\<lambda>_.
         if is_heal packet then on_heal_packet en cid packet else ret ()))"

section \<open>Steps\<close>

lemma acts_with_heal [acting]: "acts (modify (with_heal f cid))"
  unfolding with_heal_def by (intro acting)

lemma acts_push_eph_writes [acting]: "acts (modify (push_eph_writes channels tg sealed))"
  unfolding push_eph_writes_def by (intro acting)

lemma acts_note_live [acting]: "acts (modify (note_live cid now))"
  unfolding note_live_def by (intro acting)

lemma acts_seal_probes [acting]: "acts (seal_probes s ids tg dch ech use_eph origin prbs cursor)"
  by (induction prbs arbitrary: cursor) (auto simp: Let_def intro!: acting)

lemma acts_post_heal [acting]: "acts (post_heal en cid)"
  unfolding post_heal_def Let_def by (intro acting)

lemma acts_replace_probes [acting]: "acts (replace_probes en cid prbs)"
  unfolding replace_probes_def by (intro acting)

lemma acts_commit_ready [acting]: "acts (commit_ready en cid)"
  unfolding commit_ready_def Let_def by (intro acting)

lemma acts_flush_heal [acting]: "acts (flush_heal en)"
  unfolding flush_heal_def by (intro acting)

lemma acts_reseal_heal [acting]: "acts (reseal_heal en cid)"
  unfolding reseal_heal_def by (intro acting)

lemma acts_reseal_due [acting]: "acts (reseal_due en)"
  unfolding reseal_due_def Let_def by (intro acting)

lemma acts_retransmit [acting]: "acts (retransmit en cid ids)"
  unfolding retransmit_def Let_def by (intro acting)

lemma acts_answers [acting]: "acts (on_half en cid p)" "acts (on_want en cid q)" "acts (on_have en cid r)"
  unfolding on_half_def on_want_def on_have_def by (intro acting | auto intro!: acting split: list.split)+

lemma acts_on_heal_kind [acting]: "acts (on_heal_kind en cid packet)"
  by (cases packet) (auto intro!: acting)

lemma acts_on_heal_packet [acting]: "acts (on_heal_packet en cid packet)"
  unfolding on_heal_packet_def by (intro acting)

lemma acts_note_set_xor [acting]: "acts (note_set_xor en cid remote)"
  unfolding note_set_xor_def by (intro acting)

lemma acts_settle_live [acting]: "acts (settle_live cid set_xor now)"
  unfolding settle_live_def by (intro acting)

lemma acts_observe_ephemeral [acting]: "acts (observe_ephemeral en cid now packet)"
  unfolding observe_ephemeral_def Let_def by (intro acting)

end
