(* ===== verification/Handshake_Keys.thy ===== *)
theory Handshake_Keys
  imports Posting
begin

text \<open>
  Key material of conversations and the fingerprint of a handshake (the first half of
  \<open>engine/handshake.rs\<close>, with \<open>identity_policy\<close> of \<open>engine/invite.rs\<close>, the identity lookups of
  \<open>engine/group.rs\<close> and \<open>local_material\<close> of \<open>engine/live.rs\<close>).
\<close>

record conversation_ref =
  cr_user_id :: user_id
  cr_identity_id :: identity_id
  cr_conversation_id :: conversation_id

section \<open>Identities\<close>

text \<open>The first transaction that created the identity.\<close>

definition created_identity ::
  "engine_state \<Rightarrow> user_id \<Rightarrow> identity_id \<Rightarrow> (policy \<times> key_pair \<times> signing_key_pair) option" where
  "created_identity st user ident =
     find_map (\<lambda>b. case db_payload b of
         EngineCreateIdentity u i pol enc sig \<Rightarrow> then_some (u = user \<and> i = ident) (pol, enc, sig)
       | _ \<Rightarrow> None) (bodies st)"

definition identity_policy :: "engine_state \<Rightarrow> user_id \<Rightarrow> identity_id \<Rightarrow> engine_error + policy" where
  "identity_policy st user ident = ok_or (map_option fst (created_identity st user ident)) UnknownIds"

definition identity_keys :: "engine_state \<Rightarrow> user_id \<Rightarrow> identity_id \<Rightarrow> (policy \<times> bytes \<times> bytes) option" where
  "identity_keys st user ident =
     map_option (\<lambda>(pol, enc, sig). (pol, kp_public enc, skp_public sig)) (created_identity st user ident)"

text \<open>\<open>identity_secret\<close>: policy, encryption and signing public keys, encryption and signing secret keys.\<close>

definition identity_secret ::
  "engine_state \<Rightarrow> user_id \<Rightarrow> identity_id \<Rightarrow> engine_error + (policy \<times> bytes \<times> bytes \<times> bytes \<times> bytes)" where
  "identity_secret st user ident =
     ok_or (map_option (\<lambda>(pol, enc, sig). (pol, kp_public enc, skp_public sig, kp_secret enc, skp_secret sig))
       (created_identity st user ident)) UnknownIds"

definition identity_for_signing :: "engine_state \<Rightarrow> bytes \<Rightarrow> (user_id \<times> identity_id) option" where
  "identity_for_signing st signing_pk =
     find_map (\<lambda>b. case db_payload b of
         EngineCreateIdentity u i _ _ sig \<Rightarrow> then_some (skp_public sig = signing_pk) (u, i)
       | _ \<Rightarrow> None) (bodies st)"

definition require_ids :: "engine_state \<Rightarrow> conversation_ref \<Rightarrow> engine_error + unit" where
  "require_ids st ids = and_then (identity_policy st (cr_user_id ids) (cr_identity_id ids)) (\<lambda>_. Inr ())"

definition conv_secret :: "engine_state \<Rightarrow> conversation_id \<Rightarrow> engine_error + secret" where
  "conv_secret st cid =
     ok_or (or_else (map_option tk_secret (ticket_of st cid)) (established_secret st cid)) UnknownIds"

definition engine_wire_prefs :: "engine \<Rightarrow> on_wire_prefs" where
  "engine_wire_prefs en = \<lparr>owp_read_receipts = df_read_receipts (en_defaults en),
     owp_online_visible = df_online_visible (en_defaults en), owp_send_typing = df_send_typing (en_defaults en),
     owp_disappear_after = df_disappear_after (en_defaults en), owp_wake = None\<rparr>"

definition local_material :: "engine_state \<Rightarrow> conversation_id \<Rightarrow> (actor \<times> bytes) option" where
  "local_material st cid =
     (if is_sync st cid then
        map_option (\<lambda>keys. (Device (dk_id keys), skp_public (dk_sign keys))) (dev_keys (es_device st))
      else
        Option.bind (owner st cid) (\<lambda>(user, ident).
        Option.bind (identity_keys st user ident) (\<lambda>(_, _, signing).
          Some (actor_signing signing, signing))))"

section \<open>Fingerprint\<close>

definition SPAWN_SECRET_INFO :: bytes where "SPAWN_SECRET_INFO = label ''chuchotez/1/spawn-secret''"
definition SPAWN_CONVERSATION_ID_INFO :: bytes where
  "SPAWN_CONVERSATION_ID_INFO = label ''chuchotez/1/spawn-conversation-id''"
definition HANDSHAKE_DM_ESTABLISHED_INFO :: bytes where
  "HANDSHAKE_DM_ESTABLISHED_INFO = label ''chuchotez/1/handshake-dm-established''"
definition HANDSHAKE_SYNC_ESTABLISHED_INFO :: bytes where
  "HANDSHAKE_SYNC_ESTABLISHED_INFO = label ''chuchotez/1/handshake-sync-established''"

text \<open>The last intro of each role among the bodies of a sync handshake.\<close>

definition sync_inviter_payload :: "engine_state \<Rightarrow> conversation_id \<Rightarrow> tx_payload option" where
  "sync_inviter_payload st cid =
     find_map (\<lambda>tx. case db_payload tx of
         SyncInviterIntro i \<Rightarrow> then_some (db_conversation_id tx = cid) (SyncInviterIntro i)
       | _ \<Rightarrow> None) (rev (bodies st))"

definition sync_invitee_payload :: "engine_state \<Rightarrow> conversation_id \<Rightarrow> tx_payload option" where
  "sync_invitee_payload st cid =
     find_map (\<lambda>tx. case db_payload tx of
         SyncInviteeIntro i \<Rightarrow> then_some (db_conversation_id tx = cid) (SyncInviteeIntro i)
       | _ \<Rightarrow> None) (rev (bodies st))"

text \<open>\<open>SigningPublicKey\<close> is ordered by its bytes.\<close>

definition signing_le :: "signing_public_key \<Rightarrow> signing_public_key \<Rightarrow> bool" where
  "signing_le a b \<longleftrightarrow> map unat (sign_pk_bytes a) \<le> map unat (sign_pk_bytes b)"

definition fingerprint_payloads ::
  "engine_state \<Rightarrow> conversation_id \<Rightarrow> tx_inviter_intro \<Rightarrow> tx_invitee_intro \<Rightarrow> (tx_payload \<times> tx_payload) option" where
  "fingerprint_payloads st cid inviter invitee =
     Option.bind
       (if is_sync st cid then
          Option.bind (sync_inviter_payload st cid) (\<lambda>p. Option.bind (sync_invitee_payload st cid) (\<lambda>q. Some (p, q)))
        else Some (InviterIntro inviter, InviteeIntro invitee)) (\<lambda>(p, q).
       if signing_le (iri_signing_pk inviter) (iei_signing_pk invitee) then Some (p, q) else Some (q, p))"

definition try_fingerprint :: "engine \<Rightarrow> engine_state \<Rightarrow> conversation_id \<Rightarrow> (string \<times> secret) option" where
  "try_fingerprint en st cid =
     Option.bind (ticket_of st cid) (\<lambda>tk.
     Option.bind (inviter_intro_for st cid) (\<lambda>inviter.
     Option.bind (invitee_intro_for st cid) (\<lambda>invitee.
     Option.bind (party st cid) (\<lambda>hs.
     Option.bind (party_shared_inviter (ref_party hs)) (\<lambda>shared_inviter.
     Option.bind (party_shared_invitee (ref_party hs)) (\<lambda>shared_invitee.
       let s = en_suite en;
           key = recast (tk_secret tk);
           spawn_secret = recast (st_hmac s key (SPAWN_SECRET_INFO @ sort32 shared_inviter shared_invitee));
           fp_key = expand s key (if is_sync st cid then HANDSHAKE_SYNC_ESTABLISHED_INFO
             else HANDSHAKE_DM_ESTABLISHED_INFO)
       in Option.bind (fingerprint_payloads st cid inviter invitee) (\<lambda>(lo, hi).
            let data = st_json_encode s (payload_to_json (st_b64u s) lo) @
                  st_json_encode s (payload_to_json (st_b64u s) hi) @ as_bytes spawn_secret;
                fingerprint = st_hmac s (recast fp_key) data
            in Some (b64_encode (st_b64u s) (as_bytes fingerprint), spawn_secret))))))))"

definition unwrap_shared :: "engine \<Rightarrow> policy \<Rightarrow> bytes \<Rightarrow> bytes \<Rightarrow> secret option" where
  "unwrap_shared en pol sk ct =
     (case st_kem_unwrap (en_suite en) pol sk ct of
        Inl _ \<Rightarrow> None
      | Inr shared \<Rightarrow> if length shared \<noteq> KEM_SHARED_LEN then None else Some (from_array shared))"

definition child_id :: "engine \<Rightarrow> secret \<Rightarrow> conversation_id" where
  "child_id en spawn_secret = recast (st_hmac (en_suite en) (recast spawn_secret) SPAWN_CONVERSATION_ID_INFO)"

definition spawn_child :: "engine \<Rightarrow> conversation_id \<Rightarrow> unit act" where
  "spawn_child en handshake =
     reading (\<lambda>st.
     require (try_fingerprint en st handshake) MalformedPayload (\<lambda>(_, spawn_secret).
     act_then (if is_sync st handshake then require (sync_peer_device st handshake) WrongPhase (\<lambda>i. ret (SpawnSync i))
        else ret SpawnDirect) (\<lambda>peer.
       modify (spawn_established handshake (child_id en spawn_secret) spawn_secret peer))))"

section \<open>Acknowledged writes\<close>

text \<open>The bins of the loop: from \<open>start\<close> to \<open>end\<close>, and \<open>start\<close> at least.\<close>

definition bins_from :: "time_bin \<Rightarrow> time_bin \<Rightarrow> time_bin list" where
  "bins_from start end' = map of_nat [unat start ..< Suc (unat (max start end'))]"

definition invite_writes_pending :: "engine \<Rightarrow> engine_state \<Rightarrow> party_ref \<Rightarrow> bool" where
  "invite_writes_pending en st p =
     (let tk = party_ticket (ref_party p);
          start = party_list_from (ref_party p);
          end' = saturating_add (case es_ticked st of Some now \<Rightarrow> time_bin now | None \<Rightarrow> start) 1;
          tags = map (invite_tag (en_suite en) (tk_secret tk)) (bins_from start end')
      in list_ex (\<lambda>w. dw_channel w \<in> set (tk_persistents tk) \<and> dw_tag w \<in> set tags) (es_writes st))"

definition advance_ack_phases :: "engine \<Rightarrow> unit act" where
  "advance_ack_phases en =
     reading (\<lambda>st.
       each (\<lambda>(cid, _, _). reading (\<lambda>st.
         expect (party st cid) (\<lambda>p.
           if invite_writes_pending en st p then ret () else modify (state_ack_posted cid)))) (handshake_rows st))"

lemma acts_spawn_child [acting]: "acts (spawn_child en handshake)"
  unfolding spawn_child_def by (intro acting)

lemma acts_advance_ack_phases [acting]: "acts (advance_ack_phases en)"
  unfolding advance_ack_phases_def by (intro acting)

end
