(* ===== verification/Chat.thy ===== *)
theory Chat
  imports Handshake_Keys
begin

text \<open>
  Established chats (\<open>engine/chat.rs\<close>): the gates and bounds of a message, the latest preference and
  marker of a conversation, the senders and signals it keeps, wake pings, and the view of an
  established direct message (with its types of \<open>engine/query.rs\<close>).
\<close>

definition HISTORY_CAP :: nat where "HISTORY_CAP = 1000"
definition TYPING_SECS :: u64 where "TYPING_SECS = 6"

section \<open>Gates\<close>

definition require_dm_chat :: "engine_state \<Rightarrow> conversation_id \<Rightarrow> engine_error + unit" where
  "require_dm_chat st cid =
     (if established_secret st cid \<noteq> None \<and> \<not> is_sync st cid then Inr () else Inl WrongPhase)"

definition gate_chat :: "engine_state \<Rightarrow> conversation_ref \<Rightarrow> engine_error + unit" where
  "gate_chat st ids =
     (if is_sync st (cr_conversation_id ids) then require_dm_chat st (cr_conversation_id ids)
      else and_then (require_ids st ids) (\<lambda>_. require_dm_chat st (cr_conversation_id ids)))"

definition require_signal :: "engine_state \<Rightarrow> conversation_id \<Rightarrow> engine_error + unit" where
  "require_signal st cid = (if established_secret st cid \<noteq> None then Inr () else Inl WrongPhase)"

definition chat_text :: "string \<Rightarrow> engine_error + unit" where
  "chat_text value =
     (if value = [] \<or> length value > 16384 \<or> length (chars value) > 4096 \<or> list_ex is_combining (chars value)
      then Inl MalformedPayload else Inr ())"

definition chat_emoji :: "string \<Rightarrow> engine_error + unit" where
  "chat_emoji emoji =
     (if emoji = [] \<or> length emoji > 32 \<or> list_ex is_combining (chars emoji)
      then Inl MalformedPayload else Inr ())"

section \<open>The latest value a conversation carries\<close>

text \<open>Entries are compared by wall clock, counter and id, as the tuples of the source are.\<close>

type_synonym stamp = "u64 \<times> u64 \<times> tag"

definition later :: "stamp \<Rightarrow> stamp \<Rightarrow> bool" where
  "later a b \<longleftrightarrow>
     fst a > fst b \<or> fst a = fst b \<and>
       (fst (snd a) > fst (snd b) \<or> fst (snd a) = fst (snd b) \<and> snd (snd a) > snd (snd b))"

definition stamp_of :: "tag \<times> durable_body \<Rightarrow> stamp" where
  "stamp_of e = (hlc_wall_ms (db_hlc (snd e)), hlc_counter (db_hlc (snd e)), fst e)"

definition keep_later :: "(stamp \<times> 'a) option \<Rightarrow> stamp \<Rightarrow> 'a \<Rightarrow> (stamp \<times> 'a) option" where
  "keep_later best k v =
     (case best of
        None \<Rightarrow> Some (k, v)
      | Some (k', v') \<Rightarrow> if later k k' then Some (k, v) else Some (k', v'))"

definition latest_step ::
  "(tx_payload \<Rightarrow> 'a option) \<Rightarrow> conversation_id \<Rightarrow> (stamp \<times> 'a) option \<Rightarrow> tag \<times> durable_body \<Rightarrow> (stamp \<times> 'a) option" where
  "latest_step pick cid best e =
     (if db_conversation_id (snd e) \<noteq> cid then best
      else
        (case pick (db_payload (snd e)) of
           None \<Rightarrow> best
         | Some v \<Rightarrow> keep_later best (stamp_of e) v))"

definition latest :: "(tx_payload \<Rightarrow> 'a option) \<Rightarrow> engine_state \<Rightarrow> conversation_id \<Rightarrow> 'a option" where
  "latest pick st cid = map_option snd (foldl (latest_step pick cid) None (body_pairs st))"

fun prefs_of :: "tx_payload \<Rightarrow> on_wire_prefs option" where
  "prefs_of (Prefs prefs) = Some prefs"
| "prefs_of _ = None"

fun marker_of :: "bool \<Rightarrow> tx_payload \<Rightarrow> tag option" where
  "marker_of read (Read up_to) = then_some read up_to"
| "marker_of read (Delivered up_to) = then_some (\<not> read) up_to"
| "marker_of read _ = None"

definition latest_wire :: "engine_state \<Rightarrow> conversation_id \<Rightarrow> on_wire_prefs option" where
  "latest_wire = latest prefs_of"

definition latest_marker :: "engine_state \<Rightarrow> conversation_id \<Rightarrow> bool \<Rightarrow> tag option" where
  "latest_marker st cid read = latest (marker_of read) st cid"

definition latest_disappear :: "engine_state \<Rightarrow> conversation_id \<Rightarrow> u64 option option" where
  "latest_disappear = latest (map_option owp_disappear_after \<circ> prefs_of)"

definition latest_online :: "engine_state \<Rightarrow> conversation_id \<Rightarrow> bool option" where
  "latest_online = latest (map_option owp_online_visible \<circ> prefs_of)"

definition shows_online :: "engine \<Rightarrow> engine_state \<Rightarrow> conversation_id \<Rightarrow> bool" where
  "shows_online en st cid =
     (case latest_online st cid of Some online \<Rightarrow> online | None \<Rightarrow> df_online_visible (en_defaults en))"

definition expire_at :: "engine \<Rightarrow> engine_state \<Rightarrow> conversation_id \<Rightarrow> unix_seconds option" where
  "expire_at en st cid =
     (let secs = (case latest_disappear st cid of Some d \<Rightarrow> d | None \<Rightarrow> df_disappear_after (en_defaults en))
      in Option.bind (es_ticked st) (\<lambda>now. map_option (\<lambda>secs. saturating_add now secs) secs))"

definition text_payload :: "engine \<Rightarrow> engine_state \<Rightarrow> conversation_id \<Rightarrow> string \<Rightarrow> tag option \<Rightarrow> tx_payload" where
  "text_payload en st cid b reply_to =
     Text \<lparr>txt_body = b, txt_reply_to = reply_to, txt_expire_at = expire_at en st cid\<rparr>"

section \<open>Senders and signals\<close>

text \<open>\<open>state.established_mut(cid).expect("row")\<close> and a change of the row.\<close>

definition on_established_row :: "(established_chains \<Rightarrow> established_chains) \<Rightarrow> conversation_id \<Rightarrow> unit act" where
  "on_established_row g cid =
     reading (\<lambda>st. expect (established_mut_of id cid st) (\<lambda>_. modify (with_established g cid)))"

definition remember_sender :: "conversation_id \<Rightarrow> tag \<Rightarrow> unit act" where
  "remember_sender cid tx_id =
     reading (\<lambda>st.
     expect (local_material st cid) (\<lambda>(actor, _).
       on_established_row (\<lambda>c. c\<lparr>ec_chat_senders := bt_insert tx_id actor (ec_chat_senders c)\<rparr>) cid))"

definition note_typing :: "conversation_id \<Rightarrow> bool \<Rightarrow> unix_seconds \<Rightarrow> unit act" where
  "note_typing cid composing seen =
     on_established_row (\<lambda>c. c\<lparr>ec_typing := Some \<lparr>tn_composing = composing, tn_at = seen\<rparr>\<rparr>) cid"

definition note_presence :: "conversation_id \<Rightarrow> unix_seconds \<Rightarrow> unit act" where
  "note_presence cid seen = on_established_row (\<lambda>c. c\<lparr>ec_presence_at := Some seen\<rparr>) cid"

fun note_packet_signal :: "conversation_id \<Rightarrow> unix_seconds \<Rightarrow> packet_plain \<Rightarrow> unit act" where
  "note_packet_signal cid now (Typing p) = note_typing cid (pty_composing p) now"
| "note_packet_signal cid now (TypingActive p) = note_typing cid (pta_composing p) (pta_last_active p)"
| "note_packet_signal cid now (Presence _) = note_presence cid now"
| "note_packet_signal cid now (PresenceActive p) = note_presence cid (ppa_last_active p)"
| "note_packet_signal cid now _ = ret ()"

lemma acts_on_established_row [acting]: "acts (on_established_row g cid)"
  unfolding on_established_row_def by (intro acting)

lemma acts_signals [acting]:
  "acts (remember_sender cid tx_id)" "acts (note_typing cid composing seen)" "acts (note_presence cid seen)"
  unfolding remember_sender_def note_typing_def note_presence_def by (intro acting)+

lemma acts_note_packet_signal [acting]: "acts (note_packet_signal cid now packet)"
  by (cases packet) (auto intro: acting)

section \<open>Wake pings\<close>

record ping_target =
  pt_endpoint :: string
  pt_p256dh :: bytes
  pt_auth :: bytes
  pt_vapid_pk :: "bytes option"

record ping_post =
  pp_endpoint :: string
  pp_body :: bytes

definition ping_posts :: "ping_target list \<Rightarrow> ping_post list" where
  "ping_posts pings =
     map (\<lambda>p. \<lparr>pp_endpoint = pt_endpoint p, pp_body = []\<rparr>)
       (filter (\<lambda>p. starts_with (pt_endpoint p) ''https:'') pings)"

definition ping_target_of :: "wake \<Rightarrow> ping_target" where
  "ping_target_of w = \<lparr>pt_endpoint = wk_endpoint w, pt_p256dh = wk_p256dh w, pt_auth = wk_auth w,
     pt_vapid_pk = wk_vapid_pk w\<rparr>"

definition peer_wake :: "engine_state \<Rightarrow> conversation_id \<Rightarrow> wake option" where
  "peer_wake st cid =
     Option.bind (established_parent st cid) (\<lambda>parent.
     Option.bind (local_material st cid) (\<lambda>(_, signing).
       case inviter_intro_for st parent of
         Some intro \<Rightarrow>
           if iri_signing_pk intro \<noteq> SigningPublicKey signing then owp_wake (iri_prefs intro)
           else Option.bind (invitee_intro_for st parent) (\<lambda>i. owp_wake (iei_prefs i))
       | None \<Rightarrow> Option.bind (invitee_intro_for st parent) (\<lambda>i. owp_wake (iei_prefs i))))"

record prefs_seen =
  pse_id :: tag
  pse_sender :: actor
  pse_wall :: u64
  pse_counter :: u64
  pse_wake :: "wake option"

record latest_wake =
  lw_sender :: actor
  lw_key :: stamp
  lw_wake :: "wake option"

text \<open>The first entry of the sender is replaced when the row is later; a new sender goes to the end.\<close>

fun note_wake :: "latest_wake list \<Rightarrow> prefs_seen \<Rightarrow> latest_wake list" where
  "note_wake [] row = [\<lparr>lw_sender = pse_sender row, lw_key = (pse_wall row, pse_counter row, pse_id row),
     lw_wake = pse_wake row\<rparr>]"
| "note_wake (kept # best) row =
     (let key = (pse_wall row, pse_counter row, pse_id row) in
      if lw_sender kept = pse_sender row then
        (if later key (lw_key kept) then kept\<lparr>lw_key := key, lw_wake := pse_wake row\<rparr> else kept) # best
      else kept # note_wake best row)"

definition member_prefs :: "engine_state \<Rightarrow> conversation_id \<Rightarrow> (tag, actor) btree \<Rightarrow> prefs_seen list" where
  "member_prefs st cid senders =
     List.map_filter (\<lambda>(i, b).
       if db_conversation_id b \<noteq> cid then None
       else Option.bind (prefs_of (db_payload b)) (\<lambda>prefs.
         Option.bind (bt_get senders i) (\<lambda>sender.
           Some \<lparr>pse_id = i, pse_sender = sender, pse_wall = hlc_wall_ms (db_hlc b),
             pse_counter = hlc_counter (db_hlc b), pse_wake = owp_wake prefs\<rparr>))) (body_pairs st)"

definition group_member_pings :: "engine_state \<Rightarrow> conversation_id \<Rightarrow> group_live \<Rightarrow> established_chains \<Rightarrow> ping_target list" where
  "group_member_pings st cid live ch =
     (let members = map (sign_pk_bytes \<circ> gmb_signing_pk) (gl_members live);
          rows = sort_key pse_id (member_prefs st cid (ec_chat_senders ch));
          best = foldl note_wake [] (filter (\<lambda>row. actor_as_bytes (pse_sender row) \<in> set members) rows)
      in List.map_filter (\<lambda>kept. map_option ping_target_of (lw_wake kept)) best)"

text \<open>A live group is established, so the row \<open>expect\<close>ed there exists unless an earlier identity has the id.\<close>

definition fill_ping :: "engine_state \<Rightarrow> conversation_id \<Rightarrow> ping_target list act" where
  "fill_ping st cid =
     (case group_live_at st cid of
        Some live \<Rightarrow> expect (established_of st cid) (\<lambda>ch. ret (group_member_pings st cid live ch))
      | None \<Rightarrow> ret (case peer_wake st cid of Some w \<Rightarrow> [ping_target_of w] | None \<Rightarrow> []))"

section \<open>The view of a direct message\<close>

datatype chat_item =
    CText tx_text
  | CEdit tx_edit
  | CRemove tag
  | CReaction tx_reaction
  | CRead tag
  | CDelivered tag
  | CMedia tx_media

record history_item =
  hi_tx_id :: tag
  hi_sender :: actor
  hi_hlc :: hlc
  hi_item :: chat_item
  hi_expire_at :: "unix_seconds option"

record typing_view =
  tv_composing :: bool
  tv_last_active :: unix_seconds

record presence_view =
  pv_last_active :: unix_seconds

record query_peer_prefs =
  qpp_read_receipts :: bool
  qpp_online_visible :: bool
  qpp_send_typing :: bool
  qpp_disappear_after :: "u64 option"
  qpp_wake_endpoint :: "string option"
  qpp_vapid_pk :: "bytes option"

record query_local_prefs = query_peer_prefs +
  qlp_notification_privacy :: notification_privacy

record peer_card =
  pcd_name :: display_name
  pcd_profile_pic :: "profile_pic option"
  pcd_encryption_pk :: encryption_public_key
  pcd_signing_pk :: signing_public_key
  pcd_prefs :: on_wire_prefs

record dm_established =
  dme_card :: peer_card
  dme_persistents :: "durable_channel list"
  dme_ephemerals :: "ephemeral_channel list"
  dme_confirmation_digest :: string
  dme_last_active :: "unix_seconds option"
  dme_typing :: "typing_view option"
  dme_presence :: "presence_view option"
  dme_read_up_to :: "tag option"
  dme_delivered_up_to :: "tag option"
  dme_local_prefs :: query_local_prefs
  dme_peer_prefs :: query_peer_prefs
  dme_messages :: "history_item list"

definition peer_prefs :: "on_wire_prefs \<Rightarrow> query_peer_prefs" where
  "peer_prefs p = \<lparr>qpp_read_receipts = owp_read_receipts p, qpp_online_visible = owp_online_visible p,
     qpp_send_typing = owp_send_typing p, qpp_disappear_after = owp_disappear_after p,
     qpp_wake_endpoint = map_option wk_endpoint (owp_wake p),
     qpp_vapid_pk = Option.bind (owp_wake p) wk_vapid_pk\<rparr>"

definition local_prefs :: "engine \<Rightarrow> engine_state \<Rightarrow> conversation_id \<Rightarrow> query_local_prefs" where
  "local_prefs en st cid =
     (let wire = (case latest_wire st cid of Some w \<Rightarrow> w | None \<Rightarrow> engine_wire_prefs en);
          peer = peer_prefs wire
      in \<lparr>qpp_read_receipts = qpp_read_receipts peer, qpp_online_visible = qpp_online_visible peer,
          qpp_send_typing = qpp_send_typing peer, qpp_disappear_after = qpp_disappear_after peer,
          qpp_wake_endpoint = qpp_wake_endpoint peer, qpp_vapid_pk = qpp_vapid_pk peer,
          qlp_notification_privacy = df_notification_privacy (en_defaults en)\<rparr>)"

definition peer_card_of :: "engine \<Rightarrow> engine_state \<Rightarrow> conversation_id \<Rightarrow> peer_card" where
  "peer_card_of en st cid =
     (let fallback = \<lparr>pcd_name = DisplayName ''.'', pcd_profile_pic = None,
            pcd_encryption_pk = EncryptionPublicKey [], pcd_signing_pk = SigningPublicKey [],
            pcd_prefs = engine_wire_prefs en\<rparr>
      in case established_parent st cid of
           None \<Rightarrow> fallback
         | Some parent \<Rightarrow>
             let here = Option.bind (owner st cid) (\<lambda>(user, ident).
                   map_option (\<lambda>(_, _, signing). signing) (identity_keys st user ident));
                 invitee = (case invitee_intro_for st parent of
                     Some i \<Rightarrow> \<lparr>pcd_name = iei_name i, pcd_profile_pic = iei_profile_pic i,
                       pcd_encryption_pk = iei_encryption_pk i, pcd_signing_pk = iei_signing_pk i,
                       pcd_prefs = iei_prefs i\<rparr>
                   | None \<Rightarrow> fallback)
             in case inviter_intro_for st parent of
                  Some i \<Rightarrow>
                    if (case here of Some signing \<Rightarrow> signing \<noteq> sign_pk_bytes (iri_signing_pk i) | None \<Rightarrow> True)
                    then \<lparr>pcd_name = iri_name i, pcd_profile_pic = iri_profile_pic i,
                      pcd_encryption_pk = iri_encryption_pk i, pcd_signing_pk = iri_signing_pk i,
                      pcd_prefs = iri_prefs i\<rparr>
                    else invitee
                | None \<Rightarrow> invitee)"

fun chat_item_of :: "tx_payload \<Rightarrow> chat_item option" where
  "chat_item_of (Text t) = Some (CText t)"
| "chat_item_of (Edit e) = Some (CEdit e)"
| "chat_item_of (Remove target) = Some (CRemove target)"
| "chat_item_of (Reaction r) = Some (CReaction r)"
| "chat_item_of (Read up_to) = Some (CRead up_to)"
| "chat_item_of (Delivered up_to) = Some (CDelivered up_to)"
| "chat_item_of (Media m) = Some (CMedia m)"
| "chat_item_of _ = None"

fun expire_of :: "tx_payload \<Rightarrow> unix_seconds option" where
  "expire_of (Text t) = txt_expire_at t"
| "expire_of (Media m) = med_expire_at m"
| "expire_of _ = None"

definition expired :: "tx_payload \<Rightarrow> unix_seconds \<Rightarrow> bool" where
  "expired payload now = (case expire_of payload of Some t \<Rightarrow> t \<le> now | None \<Rightarrow> False)"

definition history_key :: "history_item \<Rightarrow> nat list" where
  "history_key h = [unat (hlc_wall_ms (hi_hlc h)), unat (hlc_counter (hi_hlc h))] @ map unat (as_bytes (hi_tx_id h))"

definition trim_recent :: "history_item list \<Rightarrow> history_item list" where
  "trim_recent items = drop (length items - HISTORY_CAP) (sort_key history_key items)"

definition history :: "engine_state \<Rightarrow> conversation_id \<Rightarrow> (tag, actor) btree \<Rightarrow> unix_seconds \<Rightarrow> history_item list" where
  "history st cid senders now =
     trim_recent (List.map_filter (\<lambda>(i, b).
       if db_conversation_id b \<noteq> cid \<or> expired (db_payload b) now then None
       else map_option (\<lambda>item. \<lparr>hi_tx_id = i,
           hi_sender = (case bt_get senders i of Some a \<Rightarrow> a | None \<Rightarrow> Handshake),
           hi_hlc = db_hlc b, hi_item = item, hi_expire_at = expire_of (db_payload b)\<rparr>)
         (chat_item_of (db_payload b))) (body_pairs st))"

text \<open>\<open>None\<close> is the panic of a missing row. The fields \<open>dm_view\<close> copies from the card are kept as the card.\<close>

definition dm_view :: "engine \<Rightarrow> engine_state \<Rightarrow> conversation_id \<Rightarrow> dm_established option" where
  "dm_view en st cid =
     map_option (\<lambda>c.
       let now = (case es_ticked st of Some n \<Rightarrow> n | None \<Rightarrow> 0);
           card = peer_card_of en st cid;
           parent = established_parent st cid;
           notice = Option.bind parent (notice_for st)
       in \<lparr>dme_card = card,
          dme_persistents = (case notice of Some n \<Rightarrow> ntc_persistents n | None \<Rightarrow> []),
          dme_ephemerals = (case notice of Some n \<Rightarrow> ntc_ephemerals n | None \<Rightarrow> []),
          dme_confirmation_digest = (case Option.bind parent (\<lambda>i. map_option fst (try_fingerprint en st i)) of
              Some d \<Rightarrow> d | None \<Rightarrow> []),
          dme_last_active = ec_presence_at c,
          dme_typing = Option.bind (ec_typing c) (\<lambda>note.
            then_some (now < saturating_add (tn_at note) TYPING_SECS)
              \<lparr>tv_composing = tn_composing note, tv_last_active = tn_at note\<rparr>),
          dme_presence = map_option (\<lambda>t. \<lparr>pv_last_active = t\<rparr>) (ec_presence_at c),
          dme_read_up_to = latest_marker st cid True,
          dme_delivered_up_to = latest_marker st cid False,
          dme_local_prefs = local_prefs en st cid,
          dme_peer_prefs = peer_prefs (pcd_prefs card),
          dme_messages = history st cid (ec_chat_senders c) now\<rparr>) (established_of st cid)"

lemma acts_fill_ping [acting]: "acts_by R (fill_ping st cid)"
  unfolding fill_ping_def by (intro acting)

end
