(* ===== verification/Live_Post.thy ===== *)
theory Live_Post
  imports Heal_Engine Chat
begin

text \<open>
  Sending on established conversations (\<open>engine/live.rs\<close>): a message goes out on the ephemeral channels
  at once, with durable copies kept until an acknowledgement or three ticked seconds; ratchet packets
  and group packets go to the durable channels. Posting calls itself once for a ratchet packet that is
  owed: \<open>post_live_with\<close> has the nested call as a parameter, and \<open>post_live\<close> ties the knot.
\<close>

record live_route =
  lr_sort :: conversation_sort
  lr_persistents :: "durable_channel list"
  lr_ephemerals :: "ephemeral_channel list"
  lr_send_tag_key :: tag_key
  lr_eph_send_tag_key :: tag_key
  lr_actor :: actor

fun ratchet_payload :: "tx_payload \<Rightarrow> bool" where
  "ratchet_payload (Advertise _) = True"
| "ratchet_payload (Wrap _) = True"
| "ratchet_payload (Ack _) = True"
| "ratchet_payload _ = False"

definition live_persistent_only :: "conversation_sort \<Rightarrow> tx_payload \<Rightarrow> bool" where
  "live_persistent_only srt payload \<longleftrightarrow> srt = Group \<or> ratchet_payload payload"

definition presence_plain :: "bool \<Rightarrow> bytes \<Rightarrow> u64 \<Rightarrow> conversation_id \<Rightarrow> u64 \<Rightarrow> packet_plain" where
  "presence_plain visible actor seq cid now =
     (if visible then PresenceActive \<lparr>ppa_actor_id = actor, ppa_packet_seq = seq, ppa_conversation_id = cid,
        ppa_last_active = now\<rparr>
      else Presence \<lparr>ppr_actor_id = actor, ppr_packet_seq = seq, ppr_conversation_id = cid\<rparr>)"

definition bin_tag :: "suite \<Rightarrow> tag_key \<Rightarrow> bytes \<Rightarrow> time_bin \<Rightarrow> tag" where
  "bin_tag s key lbl bin = expand_mac s key (lbl @ to_be_bytes bin)"

fun is_direct :: "identity_conversation \<Rightarrow> bool" where
  "is_direct (DirectMessageRow _ _ _ _) = True"
| "is_direct _ = False"

fun is_synchronization :: "device_conversation \<Rightarrow> bool" where
  "is_synchronization (SynchronizationRow _ _ _ _ _) = True"
| "is_synchronization _ = False"

definition established_cids :: "engine_state \<Rightarrow> conversation_id list" where
  "established_cids st =
     concat (map (\<lambda>(_, ident). map fst (filter (\<lambda>(_, node). is_direct node) (idn_conversations ident))) (identities st)) @
     map fst (filter (\<lambda>(_, node). is_synchronization node) (dev_convs st))"

section \<open>Routes\<close>

definition intro_tag_keys :: "engine_state \<Rightarrow> conversation_id \<Rightarrow> bytes \<Rightarrow> (tag_key \<times> tag_key) option" where
  "intro_tag_keys st parent signing =
     (let invitee = Option.bind (invitee_intro_for st parent) (\<lambda>i.
            then_some (sign_pk_bytes (iei_signing_pk i) = signing) (iei_send_tag_key i, iei_eph_send_tag_key i))
      in case inviter_intro_for st parent of
           Some i \<Rightarrow>
             if iri_signing_pk i = SigningPublicKey signing then Some (iri_send_tag_key i, iri_eph_send_tag_key i)
             else invitee
         | None \<Rightarrow> invitee)"

definition group_route :: "engine_state \<Rightarrow> conversation_id \<Rightarrow> live_route option" where
  "group_route st cid =
     Option.bind (group_live_at st cid) (\<lambda>live.
     Option.bind (local_material st cid) (\<lambda>(actor, signing).
     Option.bind (find (\<lambda>m. sign_pk_bytes (gmb_signing_pk m) = signing) (gl_members live)) (\<lambda>m.
       Some \<lparr>lr_sort = Group, lr_persistents = gl_persistents live, lr_ephemerals = [],
         lr_send_tag_key = gmb_send_tag_key m, lr_eph_send_tag_key = gmb_eph_send_tag_key m, lr_actor = actor\<rparr>)))"

definition established_sort :: "engine_state \<Rightarrow> conversation_id \<Rightarrow> conversation_sort" where
  "established_sort st cid = (if is_sync st cid then Synchronization else DirectMessage)"

definition live_route_of :: "engine_state \<Rightarrow> conversation_id \<Rightarrow> live_route option" where
  "live_route_of st cid =
     (case group_route st cid of
        Some route \<Rightarrow> Some route
      | None \<Rightarrow>
          Option.bind (established_parent st cid) (\<lambda>parent.
          Option.bind (notice_for st parent) (\<lambda>notice.
          Option.bind (local_material st cid) (\<lambda>(actor, signing).
          Option.bind (intro_tag_keys st parent signing) (\<lambda>(send_key, eph_key).
            Some \<lparr>lr_sort = established_sort st cid, lr_persistents = ntc_persistents notice,
              lr_ephemerals = ntc_ephemerals notice, lr_send_tag_key = send_key,
              lr_eph_send_tag_key = eph_key, lr_actor = actor\<rparr>)))))"

definition sending_chain ::
  "engine \<Rightarrow> engine_state \<Rightarrow> conversation_id \<Rightarrow> secret \<Rightarrow> live_route \<Rightarrow> engine_error + send_chain" where
  "sending_chain en st cid sec route =
     (let c = map_option ec_packet (established_of st cid);
          tip = Option.bind c (\<lambda>c. case pc_live_pending c of [] \<Rightarrow> None | ps \<Rightarrow> Some (lp_sealed_to (last ps)))
      in case tip of
           Some chain \<Rightarrow> Inr chain
         | None \<Rightarrow>
             (case Option.bind c (\<lambda>c. bt_get (pc_send c) (lr_actor route)) of
                Some chain \<Rightarrow> Inr chain
              | None \<Rightarrow> join (en_suite en) sec (lr_sort route) (actor_as_bytes (lr_actor route))))"

section \<open>Queueing packets\<close>

definition push_eph :: "engine \<Rightarrow> live_route \<Rightarrow> unix_seconds \<Rightarrow> bytes \<Rightarrow> unit act" where
  "push_eph en route now sealed =
     expect (eph_label (lr_sort route)) (\<lambda>lbl.
       modify (push_eph_writes (lr_ephemerals route)
         (bin_tag (en_suite en) (lr_eph_send_tag_key route) lbl (time_bin now)) sealed))"

definition push_durable :: "engine \<Rightarrow> live_route \<Rightarrow> unix_seconds \<Rightarrow> bytes \<Rightarrow> unit act" where
  "push_durable en route now sealed =
     expect (persist_label (lr_sort route)) (\<lambda>lbl.
       modify (push_writes (lr_persistents route)
         (bin_tag (en_suite en) (lr_send_tag_key route) lbl (time_bin now)) sealed))"

definition probe_presence ::
  "engine \<Rightarrow> conversation_id \<Rightarrow> live_route \<Rightarrow> send_chain \<Rightarrow> unix_seconds \<Rightarrow> unit act" where
  "probe_presence en cid route chain now =
     reading (\<lambda>st.
     expect (established_of st cid) (\<lambda>c.
       let live = (case pc_live_until (ec_packet c) of Some til \<Rightarrow> now < til | None \<Rightarrow> False) in
       if live \<or> ec_presence_sent c then ret ()
       else
         act_then (seal (en_suite en) (eph_mk (en_suite en) chain)
           (presence_plain (df_online_visible (en_defaults en)) (actor_as_bytes (lr_actor route))
             (sc_packet_seq chain) cid now)) (\<lambda>sealed.
         act_then (push_eph en route now sealed) (\<lambda>_.
           on_established_row (\<lambda>c. c\<lparr>ec_presence_sent := True\<rparr>) cid))))"

section \<open>Posting\<close>

type_synonym poster = "conversation_id \<Rightarrow> secret \<Rightarrow> tag \<Rightarrow> tx_payload \<Rightarrow> unit act"

text \<open>One fragment of a message: the ephemeral packet under the key the send began with, and the
  durable packet under the key of its own position, kept or queued.\<close>

definition emit_live ::
  "engine \<Rightarrow> conversation_id \<Rightarrow> live_route \<Rightarrow> unix_seconds \<Rightarrow> bool \<Rightarrow> eph_message_key \<Rightarrow> send_chain \<Rightarrow> packet_plain \<Rightarrow> bytes list act" where
  "emit_live en cid route now wait eph_key chain packet =
     act_then (if wait \<or> lr_ephemerals route \<noteq> [] then
         act_then (seal (en_suite en) eph_key packet) (push_eph en route now) else ret ()) (\<lambda>_.
     act_then (seal (en_suite en) (mk (en_suite en) chain) packet) (\<lambda>sealed.
     act_then (if wait then ret () else push_durable en route now sealed) (\<lambda>_.
     act_then (modify (note_sent_packet cid)) (\<lambda>_.
       ret (if wait then [sealed] else [])))))"

text \<open>The ratchet packet that is owed, posted first.\<close>

definition post_owed :: "engine \<Rightarrow> poster \<Rightarrow> conversation_id \<Rightarrow> secret \<Rightarrow> unit act" where
  "post_owed en nested cid sec =
     act_then (mint_if_owed en cid sec) (\<lambda>owed.
       opt_or owed (ret ()) (\<lambda>t. reading (\<lambda>st. expect (body st t) (\<lambda>b. nested cid sec t (db_payload b)))))"

definition post_live_with :: "engine \<Rightarrow> poster \<Rightarrow> poster" where
  "post_live_with en nested cid sec tx_id payload =
     reading (\<lambda>st.
     opt_or (live_route_of st cid) (ret ()) (\<lambda>route.
     expect (es_ticked st) (\<lambda>now.
       let s = en_suite en;
           wait = (\<not> live_persistent_only (lr_sort route) payload \<and> lr_ephemerals route \<noteq> [])
       in
       act_then (lift (sending_chain en st cid sec route)) (\<lambda>chain.
       act_then (if wait then probe_presence en cid route chain now else ret ()) (\<lambda>_.
       act_then (post_owed en nested cid sec) (\<lambda>_.
       reading (\<lambda>st.
       expect (body st tx_id) (\<lambda>b.
       let set_xor = set_xor_for (body_pairs st) cid in
       act_then (send_loop s tx_id set_xor (actor_as_bytes (lr_actor route))
           (emit_live en cid route now wait (eph_mk s chain)) (packed_durable_body s b) 0 chain) (\<lambda>(chain, durable).
         if wait then
           on_established_row (\<lambda>c. c\<lparr>ec_packet := (ec_packet c)\<lparr>pc_live_pending := pc_live_pending (ec_packet c) @
             [\<lparr>lp_set_xor = set_xor, lp_sent_at = now, lp_bodies = durable, lp_sealed_to = chain,
               lp_actor = lr_actor route, lp_acks = 0, lp_needed = 1\<rparr>]\<rparr>\<rparr>) cid
         else
           modify (with_established (\<lambda>c. c\<lparr>ec_packet := (ec_packet c)\<lparr>pc_send :=
             bt_insert (lr_actor route) chain (pc_send (ec_packet c))\<rparr>\<rparr>) cid))))))))))"

definition post_live :: "engine \<Rightarrow> poster" where
  "post_live en = post_live_with en (post_live_with en (\<lambda>_ _ _ _. panic))"

definition deliver_live :: "engine \<Rightarrow> conversation_id \<Rightarrow> secret \<Rightarrow> tx_payload list \<Rightarrow> unit act" where
  "deliver_live en cid sec payloads =
     reading (\<lambda>st.
       if established_secret st cid = None then ret ()
       else each (\<lambda>payload. post_live en cid sec (tx_id_of en sec payload) payload) payloads)"

definition flush_live :: "engine \<Rightarrow> unit act" where
  "flush_live en =
     reading (\<lambda>st.
     expect (es_ticked st) (\<lambda>now.
       each (\<lambda>cid. reading (\<lambda>st.
         expect (established_of st cid) (\<lambda>c.
           let due = filter (\<lambda>p. now \<ge> saturating_add (lp_sent_at p) FALLBACK_SECS) (pc_live_pending (ec_packet c)) in
           if due = [] then ret ()
           else
             opt_or (live_route_of st cid) (ret ()) (\<lambda>route.
             expect (persist_label (lr_sort route)) (\<lambda>lbl.
               let tg = bin_tag (en_suite en) (lr_send_tag_key route) lbl (time_bin now) in
               act_then (each (\<lambda>p. each (\<lambda>b. modify (push_writes (lr_persistents route) tg b)) (lp_bodies p)) due) (\<lambda>_.
                 on_established_row (\<lambda>c. c\<lparr>ec_packet := (ec_packet c)\<lparr>
                   pc_send := bt_insert (lp_actor (last due)) (lp_sealed_to (last due)) (pc_send (ec_packet c)),
                   pc_live_pending := filter (\<lambda>p. now < saturating_add (lp_sent_at p) FALLBACK_SECS)
                     (pc_live_pending (ec_packet c))\<rparr>\<rparr>) cid)))))) (established_cids st)))"

text \<open>\<open>composing\<close> is \<open>None\<close> for presence.\<close>

definition signal_plain :: "bool option \<Rightarrow> bool \<Rightarrow> bytes \<Rightarrow> u64 \<Rightarrow> conversation_id \<Rightarrow> u64 \<Rightarrow> packet_plain" where
  "signal_plain composing online actor seq cid now =
     (case composing of
        Some composing \<Rightarrow>
          if online then TypingActive \<lparr>pta_actor_id = actor, pta_packet_seq = seq, pta_conversation_id = cid,
            pta_last_active = now, pta_composing = composing\<rparr>
          else Typing \<lparr>pty_actor_id = actor, pty_packet_seq = seq, pty_conversation_id = cid,
            pty_composing = composing\<rparr>
      | None \<Rightarrow> presence_plain online actor seq cid now)"

definition post_signal :: "engine \<Rightarrow> conversation_id \<Rightarrow> secret \<Rightarrow> bool option \<Rightarrow> unit act" where
  "post_signal en cid sec composing =
     reading (\<lambda>st.
     expect (live_route_of st cid) (\<lambda>route.
     expect (es_ticked st) (\<lambda>now.
     act_then (lift (sending_chain en st cid sec route)) (\<lambda>chain.
     act_then (seal (en_suite en) (eph_mk (en_suite en) chain)
       (signal_plain composing (shows_online en st cid) (actor_as_bytes (lr_actor route)) (sc_packet_seq chain) cid now))
       (push_eph en route now)))))"

section \<open>Steps\<close>

lemma acts_push [acting]: "acts (push_eph en route now sealed)" "acts (push_durable en route now sealed)"
  unfolding push_eph_def push_durable_def by (intro acting)+

lemma acts_probe_presence [acting]: "acts (probe_presence en cid route chain now)"
  unfolding probe_presence_def Let_def by (intro acting)

lemma acts_emit_live [acting]: "acts (emit_live en cid route now wait eph_key chain packet)"
  unfolding emit_live_def by (intro acting)

lemma acts_post_owed [acting]:
  "(\<And>t p. acts (nested cid sec t p)) \<Longrightarrow> acts (post_owed en nested cid sec)"
  unfolding post_owed_def by (intro acting)

lemma acts_post_live_with [acting]:
  "(\<And>cid sec t p. acts (nested cid sec t p)) \<Longrightarrow> acts (post_live_with en nested cid sec tx_id payload)"
  unfolding post_live_with_def Let_def by (intro acting)

lemma acts_post_live [acting]: "acts (post_live en cid sec tx_id payload)"
  unfolding post_live_def by (intro acting)

lemma acts_deliver_live [acting]: "acts (deliver_live en cid sec payloads)"
  unfolding deliver_live_def by (intro acting)

lemma acts_flush_live [acting]: "acts (flush_live en)"
  unfolding flush_live_def Let_def by (intro acting)

lemma acts_post_signal [acting]: "acts (post_signal en cid sec composing)"
  unfolding post_signal_def by (intro acting)

section \<open>Changes of an established row\<close>

text \<open>
  The accessors take the first row under an id, the mutators the first row that admits the change;
  \<open>follows f0 f get\<close> says what a change \<open>f\<close> of a container does to the row \<open>get\<close> finds in it.
\<close>

definition follows :: "('n \<Rightarrow> 'n option) \<Rightarrow> ('c \<Rightarrow> 'c option) \<Rightarrow> ('c \<Rightarrow> 'n option) \<Rightarrow> bool" where
  "follows f0 f get_row \<longleftrightarrow> (\<forall>v. case get_row v of
       None \<Rightarrow> f v = None
     | Some n \<Rightarrow> (case f v of None \<Rightarrow> f0 n = None | Some v' \<Rightarrow> get_row v' = Some (case f0 n of Some n' \<Rightarrow> n' | None \<Rightarrow> n)))"

lemma followsD:
  assumes "follows f0 f get_row"
  shows "get_row v = None \<Longrightarrow> f v = None"
    and "get_row v = Some n \<Longrightarrow> f v = None \<Longrightarrow> f0 n = None"
    and "get_row v = Some n \<Longrightarrow> f v = Some v' \<Longrightarrow> get_row v' = Some (case f0 n of Some n' \<Rightarrow> n' | None \<Rightarrow> n)"
  using assms unfolding follows_def by (auto dest!: spec [where x = v])

lemma follows_update_first:
  assumes "follows f0 f get_row"
  shows "follows f0 (update_first f) (find_map (\<lambda>(_, v). get_row v))"
  unfolding follows_def
proof
  fix m
  show "case find_map (\<lambda>(_, v). get_row v) m of
       None \<Rightarrow> update_first f m = None
     | Some n \<Rightarrow> (case update_first f m of None \<Rightarrow> f0 n = None
         | Some v' \<Rightarrow> find_map (\<lambda>(_, v). get_row v) v' = Some (case f0 n of Some n' \<Rightarrow> n' | None \<Rightarrow> n))"
  proof (induction m)
    case (Cons kv m)
    obtain k v where kv: "kv = (k, v)" by fastforce
    show ?case
    proof (cases "get_row v")
      case None
      then show ?thesis using Cons followsD(1) [OF assms None] by (auto simp: kv split: option.splits)
    next
      case (Some n)
      then show ?thesis using followsD(2,3) [OF assms Some] by (auto simp: kv split: option.splits)
    qed
  qed simp
qed

lemma follows_update_at: "follows f0 (update_at cid f0) (\<lambda>m. bt_get m cid)"
  by (auto simp: follows_def update_at_def split: option.splits bind_splits)

lemma follows_field:
  assumes "follows f0 f get_row" "\<And>s x. sel (upd (\<lambda>_. x) s) = x"
  shows "follows f0 (\<lambda>s. Option.bind (f (sel s)) (\<lambda>x. Some (upd (\<lambda>_. x) s))) (\<lambda>s. get_row (sel s))"
  unfolding follows_def
proof
  fix s
  show "case get_row (sel s) of
       None \<Rightarrow> Option.bind (f (sel s)) (\<lambda>x. Some (upd (\<lambda>_. x) s)) = None
     | Some n \<Rightarrow> (case Option.bind (f (sel s)) (\<lambda>x. Some (upd (\<lambda>_. x) s)) of
         None \<Rightarrow> f0 n = None | Some v' \<Rightarrow> get_row (sel v') = Some (case f0 n of Some n' \<Rightarrow> n' | None \<Rightarrow> n))"
    using followsD [OF assms(1), of "sel s"] assms(2)
    by (cases "get_row (sel s)"; cases "f (sel s)") auto
qed

lemma find_map_concat: "find_map g (concat (map h xs)) = find_map (\<lambda>x. find_map g (h x)) xs"
  by (induction xs) (auto simp: find_map_append or_else_def split: option.splits)

lemma find_map_map: "find_map g (map h xs) = find_map (\<lambda>x. g (h x)) xs"
  by (induction xs) (auto split: option.split)

lemma first_row_nested:
  "first_row st cid =
     find_map (\<lambda>(_, usr). find_map (\<lambda>(_, ident). bt_get (idn_conversations ident) cid) (usr_identities usr)) (es_users st)"
  by (simp add: first_row_def identities_def find_map_concat find_map_map comp_def case_prod_unfold)

lemma follows_identity_row: "follows f0 (identity_row_mut f0 cid) (\<lambda>st. first_row st cid)"
  unfolding identity_row_mut_def first_row_nested
  by (intro follows_field [where sel = es_users and upd = es_users_update] follows_update_first
      follows_field [where sel = usr_identities and upd = usr_identities_update]
      follows_field [where sel = idn_conversations and upd = idn_conversations_update] follows_update_at) simp_all

lemma follows_established:
  "(case established_mut_of_identity g n of Some n' \<Rightarrow> established_of_identity n' | None \<Rightarrow> established_of_identity n) =
     map_option g (established_of_identity n)"
  by (cases n rule: established_of_identity.cases) simp_all

lemma follows_established_device:
  "(case established_mut_of_device g n of Some n' \<Rightarrow> established_of_device n' | None \<Rightarrow> established_of_device n) =
     map_option g (established_of_device n)"
  by (cases n) simp_all

lemma first_row_device [simp]: "first_row (st\<lparr>es_device := d\<rparr>) cid = first_row st cid"
  by (simp add: first_row_nested)

lemma first_row_mut:
  "first_row (case identity_row_mut f cid st of Some st' \<Rightarrow> st' | None \<Rightarrow> st) cid =
     map_option (\<lambda>n. case f n of Some n' \<Rightarrow> n' | None \<Rightarrow> n) (first_row st cid)"
  using followsD [OF follows_identity_row [of f cid], of st] by (cases "first_row st cid"; cases "identity_row_mut f cid st") auto

lemma identity_row_mut_device: "identity_row_mut f cid st = Some st' \<Longrightarrow> dev_convs st' = dev_convs st"
  by (auto simp: identity_row_mut_def dev_convs_def bind_eq_Some_conv)

lemma device_row_mut_get:
  "bt_get (dev_convs (case device_row_mut f cid st of Some st' \<Rightarrow> st' | None \<Rightarrow> st)) cid =
     map_option (\<lambda>n. case f n of Some n' \<Rightarrow> n' | None \<Rightarrow> n) (bt_get (dev_convs st) cid)"
  using follows_update_at [of f cid, THEN followsD(3), of "dev_convs st"]
  by (auto simp: device_row_mut_def dev_convs_def update_at_def split: bind_splits option.splits)

lemma device_row_mut_first: "device_row_mut f cid st = Some st' \<Longrightarrow> first_row st' cid = first_row st cid"
  by (auto simp: device_row_mut_def bind_eq_Some_conv)

lemma established_of_with: "established_of (with_established g cid st) cid = map_option g (established_of st cid)"
proof (cases "first_row st cid")
  case None
  then have id: "identity_row_mut (established_mut_of_identity g) cid st = None"
    using followsD(1) [OF follows_identity_row] by blast
  have "first_row (with_established g cid st) cid = None"
    using None by (auto simp: with_established_def established_mut_of_def id device_row_mut_first split: option.split)
  moreover have "bt_get (dev_convs (with_established g cid st)) cid =
      map_option (\<lambda>n. case established_mut_of_device g n of Some n' \<Rightarrow> n' | None \<Rightarrow> n) (bt_get (dev_convs st) cid)"
    using device_row_mut_get [of st "established_mut_of_device g" cid] by (simp add: with_established_def established_mut_of_def id)
  ultimately show ?thesis
    using None follows_established_device [where g = g]
    by (auto simp: established_of_def bind_map_option option.case_distrib [of established_of_device] split: bind_split)
next
  case (Some n)
  have "first_row (with_established g cid st) cid =
      Some (case established_mut_of_identity g n of Some n' \<Rightarrow> n' | None \<Rightarrow> n)"
    using first_row_mut [of st "established_mut_of_identity g" cid] Some
    by (auto simp: with_established_def established_mut_of_def device_row_mut_first split: option.splits)
  then show ?thesis
    using Some follows_established [where g = g and n = n] by (simp add: established_of_def option.case_distrib [of established_of_identity])
qed

section \<open>The nested post\<close>

text \<open>A minted packet resets the counter, so the nested post mints nothing and calls nothing.\<close>

lemma ratchet_of_with:
  "ratchet_of (with_ratchet f cid st) cid = (if established_of st cid = None then ratchet_default else f (ratchet_of st cid))"
  by (auto simp: ratchet_of_def with_ratchet_def established_of_with split: option.split)

lemma rt_since_effect [simp]: "rt_since (apply_effect t e r) = rt_since r"
  by (cases e) (simp_all add: Let_def)

lemma minted_resets:
  assumes "mint_if_owed en cid sec w = (Inr (Some t), w')"
  shows "rt_since (ratchet_of (fst w') cid) = 0"
  using assms
  by (auto simp: mint_if_owed_def reading_def ret_def throw_def panic_def opt_or_def expect_def act_then_def modify_def
      ratchet_of_with ratchet_default_def split: if_splits option.splits sum.splits prod.splits)

lemma nothing_owed: "rt_since (ratchet_of st cid) < OWED_PACKETS \<Longrightarrow> mint_if_owed en cid sec (st, g) = (Inr None, st, g)"
  by (simp add: mint_if_owed_def reading_def ret_def)

lemma established_of_eph: "established_of (push_eph_writes chs t b st) cid = established_of st cid"
  by (simp add: established_of_def first_row_nested push_eph_writes_def set_eph_writes_def dev_convs_def split: option.split)

lemma probe_presence_ratchet:
  assumes "probe_presence en cid route chain now (st, g) = (r, st', g')"
  shows "ratchet_of st' cid = ratchet_of st cid"
  using assms
  by (auto simp: probe_presence_def reading_def expect_def opt_or_def panic_def act_then_def ret_def seal_def push_eph_def
      modify_def on_established_row_def ratchet_of_def established_of_with established_of_eph Let_def
      split: if_splits option.splits sum.splits prod.splits)

text \<open>Two actions that agree on a world.\<close>

lemma act_then_eqI:
  "m w = m' w \<Longrightarrow> (\<And>x w'. m' w = (Inr x, w') \<Longrightarrow> k x w' = k' x w') \<Longrightarrow> act_then m k w = act_then m' k' w"
  by (auto simp: act_then_def split: prod.split sum.split)

lemma expect_eqI: "(\<And>a. x = Some a \<Longrightarrow> k a w = k' a w) \<Longrightarrow> expect x k w = expect x k' w"
  by (simp add: expect_def opt_or_def split: option.split)

lemma opt_or_eqI: "(\<And>a. x = Some a \<Longrightarrow> k a w = k' a w) \<Longrightarrow> opt_or x m k w = opt_or x m k' w"
  by (simp add: opt_or_def split: option.split)

lemma reading_eqI: "(f (fst w) w = f' (fst w) w) \<Longrightarrow> reading f w = reading f' w"
  by (simp add: reading_def)

lemmas run_eqI = act_then_eqI expect_eqI opt_or_eqI reading_eqI

lemma post_live_with_cong:
  assumes "\<And>w'. rt_since (ratchet_of (fst w') cid) = rt_since (ratchet_of (fst w) cid) \<Longrightarrow>
      post_owed en n1 cid sec w' = post_owed en n2 cid sec w'"
  shows "post_live_with en n1 cid sec t p w = post_live_with en n2 cid sec t p w"
proof -
  have probed: "post_owed en n1 cid sec w' = post_owed en n2 cid sec w'"
    if "(if b then probe_presence en cid route chain now else ret ()) w1 = (Inr u, w')" "lift r w = (Inr chain, w1)"
    for b route chain now u w' w1 r
    using that by (intro assms; cases w; cases w1; cases w'; cases b)
      (auto simp: ret_def lift_def dest!: probe_presence_ratchet)
  show ?thesis
    unfolding post_live_with_def Let_def by (intro run_eqI refl probed) assumption+
qed

lemma post_owed_unowed:
  "rt_since (ratchet_of (fst w) cid) < OWED_PACKETS \<Longrightarrow> post_owed en n1 cid sec w = post_owed en n2 cid sec w"
  by (cases w) (simp add: post_owed_def act_then_def nothing_owed opt_or_def)

lemma post_owed_nested: "post_owed en (post_live_with en n1) cid sec w = post_owed en (post_live_with en n2) cid sec w"
  unfolding post_owed_def
proof (rule act_then_eqI [OF refl], rule opt_or_eqI)
  fix owed t w'
  assume "mint_if_owed en cid sec w = (Inr owed, w')" "owed = Some t"
  then have zero: "rt_since (ratchet_of (fst w') cid) = 0" using minted_resets by blast
  show "reading (\<lambda>st. expect (body st t) (\<lambda>b. post_live_with en n1 cid sec t (db_payload b))) w' =
      reading (\<lambda>st. expect (body st t) (\<lambda>b. post_live_with en n2 cid sec t (db_payload b))) w'"
    by (intro run_eqI post_live_with_cong post_owed_unowed) (simp add: zero OWED_PACKETS_def)
qed

lemma post_live_nested: "post_live_with en (post_live_with en n1) = post_live_with en (post_live_with en n2)"
  by (intro ext post_live_with_cong post_owed_nested)

end
