(* ===== verification/Secrets.thy ===== *)
theory Secrets
  imports Live_Post
begin

text \<open>
  Secrets sealed to a public key and media blobs: \<open>seal_group_secret\<close>/\<open>open_group_secret\<close> of
  \<open>engine/group.rs\<close>, \<open>seal_sync_dek\<close>/\<open>open_sync_dek\<close> of \<open>engine/identity.rs\<close> (the two pairs differ in
  their info label only), and the media functions of \<open>engine/session.rs\<close>. A packed secret is the KEM
  ciphertext, the nonce and the sealed bytes.
\<close>

definition GROUP_SECRET_INFO :: bytes where "GROUP_SECRET_INFO = label ''chuchotez/1/group-secret''"
definition SYNC_DEK_INFO :: bytes where "SYNC_DEK_INFO = label ''chuchotez/1/sync-dek''"

definition shared32 :: "bytes \<Rightarrow> array32" where
  "shared32 shared =
     (let n = min (length shared) 32 in from_array (take n shared @ replicate (32 - n) 0))"

definition box_key :: "suite \<Rightarrow> bytes \<Rightarrow> bytes \<Rightarrow> aead_key" where
  "box_key s info shared = recast (expand s (recast (shared32 shared)) info)"

definition seal_box :: "engine \<Rightarrow> bytes \<Rightarrow> policy \<Rightarrow> bytes \<Rightarrow> bytes \<Rightarrow> bytes act" where
  "seal_box en info pol pk plain =
     act_then random_pair (\<lambda>seed.
       case st_kem_wrap (en_suite en) pol pk seed of
         Inl _ \<Rightarrow> throw MalformedPayload
       | Inr (shared, ct) \<Rightarrow>
           act_then random32 (\<lambda>r.
             let nonce = take PACKET_NONCE_LEN (as_bytes r)
             in ret (ct @ nonce @ st_seal (en_suite en) (box_key (en_suite en) info shared) nonce [] plain)))"

definition open_box :: "engine \<Rightarrow> bytes \<Rightarrow> policy \<Rightarrow> bytes \<Rightarrow> bytes \<Rightarrow> engine_error + array32" where
  "open_box en info pol sk packed =
     (let ct_len = kem_ct_len pol in
      if length packed \<le> ct_len + PACKET_NONCE_LEN then Inl MalformedPayload
      else
        let ct = take ct_len packed;
            rest = drop ct_len packed
        in case st_kem_unwrap (en_suite en) pol sk ct of
             Inl _ \<Rightarrow> Inl MalformedPayload
           | Inr shared \<Rightarrow>
               (case st_open (en_suite en) (box_key (en_suite en) info shared) (take PACKET_NONCE_LEN rest) []
                  (drop PACKET_NONCE_LEN rest) of
                  None \<Rightarrow> Inl MalformedPayload
                | Some plain \<Rightarrow> ok_or (try_from_bytes plain) MalformedPayload))"

definition seal_group_secret :: "engine \<Rightarrow> policy \<Rightarrow> bytes \<Rightarrow> bytes \<Rightarrow> bytes act" where
  "seal_group_secret en = seal_box en GROUP_SECRET_INFO"

definition open_group_secret :: "engine \<Rightarrow> policy \<Rightarrow> bytes \<Rightarrow> bytes \<Rightarrow> engine_error + array32" where
  "open_group_secret en = open_box en GROUP_SECRET_INFO"

definition seal_sync_dek :: "engine \<Rightarrow> policy \<Rightarrow> bytes \<Rightarrow> bytes \<Rightarrow> bytes act" where
  "seal_sync_dek en = seal_box en SYNC_DEK_INFO"

definition open_sync_dek_ct :: "engine \<Rightarrow> policy \<Rightarrow> bytes \<Rightarrow> bytes \<Rightarrow> engine_error + array32" where
  "open_sync_dek_ct en = open_box en SYNC_DEK_INFO"

section \<open>Media\<close>

definition media_key :: "suite \<Rightarrow> secret \<Rightarrow> tag \<Rightarrow> aead_key" where
  "media_key s sec hash = expand_mac s sec (label ''chuchotez/1/media'' @ as_bytes hash)"

definition seal_media :: "engine \<Rightarrow> secret \<Rightarrow> tag \<Rightarrow> bytes \<Rightarrow> bytes act" where
  "seal_media en sec hash plain =
     act_then random32 (\<lambda>r.
       let nonce = take PACKET_NONCE_LEN (as_bytes r)
       in ret (nonce @ st_seal (en_suite en) (media_key (en_suite en) sec hash) nonce [] plain))"

definition media_hash :: "engine \<Rightarrow> bytes \<Rightarrow> tag" where
  "media_hash en plain = recast (st_hash (en_suite en) plain)"

definition open_media :: "engine \<Rightarrow> engine_state \<Rightarrow> conversation_id \<Rightarrow> tag \<Rightarrow> bytes \<Rightarrow> engine_error + bytes" where
  "open_media en st cid hash blob =
     and_then (conv_secret st cid) (\<lambda>sec.
       if length blob \<le> PACKET_NONCE_LEN then Inl MalformedPayload
       else
         (case st_open (en_suite en) (media_key (en_suite en) sec hash) (take PACKET_NONCE_LEN blob) []
            (drop PACKET_NONCE_LEN blob) of
            None \<Rightarrow> Inl MalformedPayload
          | Some plain \<Rightarrow> if media_hash en plain \<noteq> hash then Inl MalformedPayload else Inr plain))"

definition media_name :: "string \<Rightarrow> nat \<Rightarrow> engine_error + unit" where
  "media_name value mx =
     (if value = [] \<or> length value > mx \<or> list_ex is_combining (chars value) then Inl MalformedPayload else Inr ())"

section \<open>Opening undoes sealing\<close>

text \<open>The KEM port: unwrapping with the secret key of a generated pair gives the wrapped secret.\<close>

definition kem_ok :: "suite \<Rightarrow> bool" where
  "kem_ok s \<longleftrightarrow>
     (\<forall>pol seed kp seed' shared ct.
        st_kem_generate s pol seed = Inr kp \<longrightarrow> st_kem_wrap s pol (kp_public kp) seed' = Inr (shared, ct) \<longrightarrow>
        st_kem_unwrap s pol (kp_secret kp) ct = Inr shared \<and> length ct = kem_ct_len pol)"

lemma seal_box_runs:
  assumes "st_kem_generate (en_suite en) pol seed = Inr kp" "seal_box en info pol (kp_public kp) plain w = (r, w')"
  shows "fst w' = fst w \<and>
    (r = Inl (Err MalformedPayload) \<or>
     (\<exists>shared ct seed' nonce.
        st_kem_wrap (en_suite en) pol (kp_public kp) seed' = Inr (shared, ct) \<and> length nonce = PACKET_NONCE_LEN \<and>
        r = Inr (ct @ nonce @ st_seal (en_suite en) (box_key (en_suite en) info shared) nonce [] plain)))"
proof -
  have nonce: "length (take PACKET_NONCE_LEN (as_bytes x)) = PACKET_NONCE_LEN" for x :: random32
    by (simp add: PACKET_NONCE_LEN_def)
  obtain a r1 where a: "draw (snd w) = (a, r1)" by fastforce
  obtain b r2 where b: "draw r1 = (b, r2)" by fastforce
  obtain c r3 where c: "draw r2 = (c, r3)" by fastforce
  show ?thesis
  proof (cases "st_kem_wrap (en_suite en) pol (kp_public kp) (seed_from_pair a b)")
    case (Inl e)
    then show ?thesis using assms(2) a b
      by (auto simp: seal_box_def act_then_def random_pair_def random32_def ret_def throw_def)
  next
    case (Inr sc)
    obtain shared ct where sc: "sc = (shared, ct)" by fastforce
    have "r = Inr (ct @ take PACKET_NONCE_LEN (as_bytes c) @
        st_seal (en_suite en) (box_key (en_suite en) info shared) (take PACKET_NONCE_LEN (as_bytes c)) [] plain)"
      "fst w' = fst w"
      using assms(2) a b c Inr sc
      by (auto simp: seal_box_def act_then_def random_pair_def random32_def ret_def throw_def Let_def)
    then show ?thesis using Inr sc nonce [of c] by blast
  qed
qed

lemma open_seal_box:
  fixes sec :: "'k b32"
  assumes "kem_ok (en_suite en)" "aead_ok (en_suite en)" "st_kem_generate (en_suite en) pol seed = Inr kp"
    "seal_box en info pol (kp_public kp) (as_bytes sec) w = (Inr packed, w')"
  shows "open_box en info pol (kp_secret kp) packed = Inr (recast sec)"
proof -
  obtain shared ct seed' nonce where
    wrap: "st_kem_wrap (en_suite en) pol (kp_public kp) seed' = Inr (shared, ct)" and n: "length nonce = PACKET_NONCE_LEN" and
    p: "packed = ct @ nonce @ st_seal (en_suite en) (box_key (en_suite en) info shared) nonce [] (as_bytes sec)"
    using seal_box_runs [OF assms(3,4)] by auto
  have "st_kem_unwrap (en_suite en) pol (kp_secret kp) ct = Inr shared" "length ct = kem_ct_len pol"
    using assms(1,3) wrap unfolding kem_ok_def by blast+
  then show ?thesis
    using assms(2) n by (simp add: open_box_def p aead_ok_def Let_def recast_def try_from_bytes_def)
qed

lemma acts_seal_box [acting]: "acts_by R (seal_box en info pol pk plain)"
  unfolding seal_box_def Let_def by (intro acting)

lemma acts_seals [acting]:
  "acts_by R (seal_group_secret en pol pk plain)" "acts_by R (seal_sync_dek en pol pk plain)"
  "acts_by R (seal_media en sec hash plain)"
  unfolding seal_group_secret_def seal_sync_dek_def seal_media_def Let_def by (intro acting)+

end
