(* ===== verification/Minting.thy ===== *)
theory Minting
  imports Secrets
begin

text \<open>
  Minting on a conversation and on the engine's own log: \<open>mutate\<close> of \<open>engine/vault.rs\<close>,
  \<open>fan_engine_to_sync\<close> of \<open>engine/identity.rs\<close>, \<open>mint_on\<close> of \<open>engine/handshake.rs\<close>, \<open>finish_chat\<close> of
  \<open>engine/session.rs\<close>. A \<open>MutateOk\<close> is the state of the action with the records and pings returned.
\<close>

type_synonym outcome = "bytes list \<times> ping_target list"

definition sync_cids :: "engine_state \<Rightarrow> conversation_id list" where
  "sync_cids st = map fst (filter (\<lambda>(_, node). is_synchronization node) (dev_convs st))"

definition fan_engine_to_sync :: "engine \<Rightarrow> tx_payload list \<Rightarrow> unit act" where
  "fan_engine_to_sync en payloads =
     act_then (lift (engine_secret en)) (\<lambda>engine_sec.
     reading (\<lambda>st.
       let syncs = sync_cids st in
       if syncs = [] then ret ()
       else
         each (\<lambda>payload. each (\<lambda>cid. reading (\<lambda>st.
           expect (established_secret st cid) (\<lambda>sec.
             post_live en cid sec (tx_id_of en engine_sec payload) payload))) syncs) payloads))"

text \<open>\<open>fan\<close> is whether the caller gave a random source.\<close>

definition mutate :: "engine \<Rightarrow> bool \<Rightarrow> secret \<Rightarrow> tx_payload list \<Rightarrow> bytes list act" where
  "mutate en fan conv_sec payloads =
     act_then (lift (engine_conversation_id en)) (\<lambda>cid.
     act_then (mutate_on en conv_sec cid payloads) (\<lambda>persist.
     act_then (if fan then fan_engine_to_sync en payloads else ret ()) (\<lambda>_.
       ret persist)))"

definition mint_on :: "engine \<Rightarrow> conversation_ref \<Rightarrow> tx_payload \<Rightarrow> bytes list act" where
  "mint_on en ids payload =
     reading (\<lambda>st.
     act_then (lift (require_ids st ids)) (\<lambda>_.
     act_then (lift (conv_secret st (cr_conversation_id ids))) (\<lambda>sec.
     act_then (mutate_on en sec (cr_conversation_id ids) [payload]) (\<lambda>persist.
     act_then (deliver_live en (cr_conversation_id ids) sec [payload]) (\<lambda>_.
       ret persist)))))"

definition finish_chat :: "engine \<Rightarrow> bytes list \<Rightarrow> conversation_id \<Rightarrow> secret \<Rightarrow> tx_payload \<Rightarrow> outcome act" where
  "finish_chat en persist cid sec payload =
     act_then (remember_sender cid (tx_id_of en sec payload)) (\<lambda>_.
     reading (\<lambda>st.
     act_then (fill_ping st cid) (\<lambda>pings.
       ret (persist, pings))))"

lemma acts_fan [acting]: "acts (fan_engine_to_sync en payloads)"
  unfolding fan_engine_to_sync_def Let_def by (intro acting)

lemma acts_minting [acting]:
  "acts (mutate en fan sec payloads)" "acts (mint_on en ids payload)" "acts (finish_chat en persist cid sec payload)"
  unfolding mutate_def mint_on_def finish_chat_def by (intro acting)+

end
