(* ===== verification/Group_Engine.thy ===== *)
theory Group_Engine
  imports Minting
begin

text \<open>
  Groups (\<open>engine/group.rs\<close>): creating, inviting, accepting, rejecting, kicking and leaving, the signed
  roster the owner posts, and what arriving group payloads change.
\<close>

section \<open>Peers and rosters\<close>

definition dm_peer ::
  "engine_state \<Rightarrow> conversation_id \<Rightarrow> bytes \<Rightarrow> (signing_public_key \<times> encryption_public_key) option" where
  "dm_peer st dm local_sign =
     Option.bind (established_parent st dm) (\<lambda>parent.
     Option.bind (inviter_intro_for st parent) (\<lambda>inviter.
     Option.bind (invitee_intro_for st parent) (\<lambda>invitee.
       if sign_pk_bytes (iri_signing_pk inviter) = local_sign then Some (iei_signing_pk invitee, iei_encryption_pk invitee)
       else if sign_pk_bytes (iei_signing_pk invitee) = local_sign then
         Some (iri_signing_pk inviter, iri_encryption_pk inviter)
       else None)))"

definition dm_with_peer ::
  "engine_state \<Rightarrow> user_id \<Rightarrow> identity_id \<Rightarrow> bytes \<Rightarrow> conversation_id option" where
  "dm_with_peer st user ident peer_signing =
     (case identity_secret st user ident of
        Inl _ \<Rightarrow> None
      | Inr (_, _, here, _, _) \<Rightarrow>
          Option.bind (identity_at st user ident) (\<lambda>i.
            find_map (\<lambda>(cid, node).
              if is_direct node \<and>
                (case dm_peer st cid here of Some (pk, _) \<Rightarrow> sign_pk_bytes pk = peer_signing | None \<Rightarrow> False)
              then Some cid else None) (idn_conversations i)))"

definition roster_bytes :: "engine \<Rightarrow> tx_group_roster \<Rightarrow> bytes" where
  "roster_bytes en roster = st_json_encode (en_suite en) (payload_to_json (st_b64u (en_suite en)) (GroupRoster roster))"

definition unsigned_roster :: "policy \<Rightarrow> tx_group_roster \<Rightarrow> tx_group_roster" where
  "unsigned_roster pol roster = roster\<lparr>gro_sig := replicate (sign_sig_len pol) 0\<rparr>"

definition verify_roster :: "engine \<Rightarrow> bytes \<Rightarrow> tx_group_roster \<Rightarrow> engine_error + unit" where
  "verify_roster en owner_pk roster =
     (if list_ex (\<lambda>pol. st_verify (en_suite en) pol owner_pk (roster_bytes en (unsigned_roster pol roster)) (gro_sig roster) = Inr ())
        [Classic, PostQuantum, Hybrid]
      then Inr () else Inl MalformedPayload)"

text \<open>One transaction of the group, merged and posted; its record is dropped.\<close>

definition merge_and_post :: "engine \<Rightarrow> secret \<Rightarrow> conversation_id \<Rightarrow> tx_payload \<Rightarrow> unit act" where
  "merge_and_post en sec cid payload =
     act_then (merge_tx en sec cid payload) (\<lambda>(tx_id, b, _). post_live en cid sec tx_id (db_payload b))"

definition post_roster :: "engine \<Rightarrow> conversation_ref \<Rightarrow> unit act" where
  "post_roster en ids =
     reading (\<lambda>st.
     opt_or (group_live_at st (cr_conversation_id ids)) (ret ()) (\<lambda>live.
     act_then (lift (identity_secret st (cr_user_id ids) (cr_identity_id ids))) (\<lambda>(pol, _, _, _, sign_sk).
       let cid = cr_conversation_id ids;
           roster = \<lparr>gro_epoch = gl_epoch live, gro_members = gl_members live,
             gro_sig = replicate (sign_sig_len pol) 0\<rparr>
       in act_then random32 (\<lambda>r.
          case st_sign (en_suite en) pol sign_sk (roster_bytes en roster) r of
            Inl _ \<Rightarrow> throw MalformedPayload
          | Inr sig \<Rightarrow>
              act_then (merge_and_post en (gl_secret live) cid (GroupRoster (roster\<lparr>gro_sig := sig\<rparr>))) (\<lambda>_.
                each (\<lambda>m.
                  act_then (seal_group_secret en pol (enc_pk_bytes (gmb_encryption_pk m)) (as_bytes (gl_secret live))) (\<lambda>kem_ct.
                    merge_and_post en (gl_secret live) cid (GroupWrap \<lparr>gwr_to = gmb_signing_pk m,
                      gwr_from = gl_owner_signing_pk live, gwr_kem_ct = kem_ct\<rparr>)))
                  (filter (\<lambda>m. gmb_signing_pk m \<noteq> gl_owner_signing_pk live) (gl_members live)))))))"

section \<open>Arriving payloads\<close>

definition note_invite :: "engine \<Rightarrow> tx_group_invite \<Rightarrow> unit act" where
  "note_invite en invite =
     reading (\<lambda>st.
     opt_or (identity_for_signing st (sign_pk_bytes (giv_invitee_signing_pk invite))) (ret ()) (\<lambda>(user, ident).
       if group_phase_at st (giv_group_id invite) \<noteq> None then ret ()
       else
         act_then (lift (identity_secret st user ident)) (\<lambda>(_, _, _, enc_sk, _).
         act_then (lift (identity_policy st user ident)) (\<lambda>pol.
         act_then (lift (open_group_secret en pol enc_sk (giv_group_secret_ct invite))) (\<lambda>sec.
           modify (put_dm user ident (giv_group_id invite) (GroupRow (Offer \<lparr>gof_secret = recast sec,
             gof_name = giv_name invite, gof_photo = giv_photo invite,
             gof_owner_signing_pk = giv_owner_signing_pk invite,
             gof_from_conversation_id = (case dm_with_peer st user ident (sign_pk_bytes (giv_owner_signing_pk invite)) of
               Some dm \<Rightarrow> dm | None \<Rightarrow> giv_group_id invite)\<rparr>))))))))"

text \<open>The first pending invite is admitted, whoever accepted.\<close>

definition admit :: "group_pending \<Rightarrow> tag_key \<Rightarrow> tag_key \<Rightarrow> group_live \<Rightarrow> group_live" where
  "admit pending send_key eph_key live =
     live\<lparr>gl_pending := filter (\<lambda>p. gpe_signing_pk p \<noteq> gpe_signing_pk pending) (gl_pending live),
       gl_members := gl_members live @ [\<lparr>gmb_signing_pk = gpe_signing_pk pending,
         gmb_encryption_pk = gpe_encryption_pk pending, gmb_send_tag_key = send_key, gmb_eph_send_tag_key = eph_key\<rparr>],
       gl_epoch := saturating_add (gl_epoch live) 1\<rparr>"

definition note_accept :: "engine \<Rightarrow> conversation_id \<Rightarrow> unit act" where
  "note_accept en group_id =
     reading (\<lambda>st.
     opt_or (group_live_at st group_id) (ret ()) (\<lambda>live.
       case gl_pending live of
         [] \<Rightarrow> ret ()
       | pending # _ \<Rightarrow>
           act_then random32 (\<lambda>a.
           act_then random32 (\<lambda>b.
           act_then (modify (with_group (on_live (admit pending (recast a) (recast b))) group_id)) (\<lambda>_.
           reading (\<lambda>st.
           expect (owner st group_id) (\<lambda>(user, ident).
             post_roster en \<lparr>cr_user_id = user, cr_identity_id = ident, cr_conversation_id = group_id\<rparr>)))))))"

fun phase_base :: "group_phase \<Rightarrow> (signing_public_key \<times> secret \<times> display_name \<times> profile_pic option) option" where
  "phase_base (Live live) = Some (gl_owner_signing_pk live, gl_secret live, gl_name live, gl_photo live)"
| "phase_base (Offer offer) = Some (gof_owner_signing_pk offer, gof_secret offer, gof_name offer, gof_photo offer)"
| "phase_base (GroupFailed _) = None"

text \<open>The row after a roster: the chains start afresh, the log stays.\<close>

definition apply_roster :: "defaults \<Rightarrow> tx_group_roster \<Rightarrow> group_phase \<Rightarrow> group_phase" where
  "apply_roster df roster phase =
     (case phase_base phase of
        None \<Rightarrow> phase
      | Some (owner_pk, sec, name, photo) \<Rightarrow>
          Live \<lparr>gl_secret = sec, gl_name = name, gl_photo = photo, gl_owner_signing_pk = owner_pk,
            gl_persistents = df_persistents df, gl_ephemerals = df_ephemerals df, gl_members = gro_members roster,
            gl_pending = [], gl_epoch = gro_epoch roster, gl_log = phase_log phase,
            gl_chains = established_chains_default\<rparr>)"

definition note_roster :: "engine \<Rightarrow> conversation_id \<Rightarrow> tx_group_roster \<Rightarrow> unit act" where
  "note_roster en cid roster =
     reading (\<lambda>st.
     opt_or (owner st cid) (ret ()) (\<lambda>(user, ident).
     opt_or (Option.bind (group_phase_at st cid) phase_base) (ret ()) (\<lambda>(owner_pk, _).
     act_then (lift (verify_roster en (sign_pk_bytes owner_pk) roster)) (\<lambda>_.
     act_then (lift (identity_secret st user ident)) (\<lambda>(_, _, sign_pk, _, _).
       if \<not> list_ex (\<lambda>m. sign_pk_bytes (gmb_signing_pk m) = sign_pk) (gro_members roster) then
         modify (with_group (\<lambda>_. GroupFailed Kicked) cid)
       else modify (with_group (apply_roster (en_defaults en) roster) cid))))))"

fun on_group_payload :: "engine \<Rightarrow> conversation_id \<Rightarrow> tx_payload \<Rightarrow> unit act" where
  "on_group_payload en cid (GroupInvite invite) = note_invite en invite"
| "on_group_payload en cid (GroupAccept group_id) = note_accept en group_id"
| "on_group_payload en cid (GroupRoster roster) = note_roster en cid roster"
| "on_group_payload en cid _ = ret ()"

section \<open>Operations\<close>

text \<open>The peers of the contacts, in order; a contact that is no direct message of the identity or a
  repeated peer is refused.\<close>

fun contact_peers ::
  "engine_state \<Rightarrow> bytes \<Rightarrow> (signing_public_key \<times> encryption_public_key \<times> conversation_id) list \<Rightarrow>
     conversation_id list \<Rightarrow> engine_error + (signing_public_key \<times> encryption_public_key \<times> conversation_id) list" where
  "contact_peers st sign_pk peers [] = Inr peers"
| "contact_peers st sign_pk peers (dm # dms) =
     (case dm_peer st dm sign_pk of
        None \<Rightarrow> Inl WrongPhase
      | Some (spk, epk) \<Rightarrow>
          if list_ex (\<lambda>(pk, _, _). pk = spk) peers then Inl DuplicateMember
          else contact_peers st sign_pk (peers @ [(spk, epk, dm)]) dms)"

definition group_photo :: "bytes option \<Rightarrow> engine_error + profile_pic option" where
  "group_photo photo =
     (case photo of
        None \<Rightarrow> Inr None
      | Some bs \<Rightarrow> and_then (map_err (\<lambda>_. MalformedPayload) (profile_pic_try_from bs)) (\<lambda>p. Inr (Some p)))"

text \<open>The invite to one peer, with its pending entry.\<close>

definition group_invite ::
  "engine \<Rightarrow> policy \<Rightarrow> conversation_id \<Rightarrow> secret \<Rightarrow> bytes \<Rightarrow> durable_channel list \<Rightarrow> ephemeral_channel list \<Rightarrow>
     display_name \<Rightarrow> profile_pic option \<Rightarrow> signing_public_key \<times> encryption_public_key \<times> conversation_id \<Rightarrow>
     (group_pending \<times> conversation_id \<times> tx_payload) act" where
  "group_invite en pol group_id sec sign_pk persistents ephemerals name photo = (\<lambda>(spk, epk, dm).
     act_then (seal_group_secret en pol (enc_pk_bytes epk) (as_bytes sec)) (\<lambda>ct.
       ret (\<lparr>gpe_signing_pk = spk, gpe_encryption_pk = epk, gpe_from_conversation_id = dm, gpe_name = name,
              gpe_photo = photo\<rparr>,
            dm,
            GroupInvite \<lparr>giv_group_id = group_id, giv_owner_signing_pk = SigningPublicKey sign_pk,
              giv_persistents = persistents, giv_ephemerals = ephemerals, giv_name = name, giv_photo = photo,
              giv_invitee_signing_pk = spk, giv_group_secret_ct = ct\<rparr>)))"

definition random_member :: "bytes \<Rightarrow> bytes \<Rightarrow> group_member act" where
  "random_member sign_pk enc_pk =
     act_then random32 (\<lambda>a. act_then random32 (\<lambda>b.
       ret \<lparr>gmb_signing_pk = SigningPublicKey sign_pk, gmb_encryption_pk = EncryptionPublicKey enc_pk,
         gmb_send_tag_key = recast a, gmb_eph_send_tag_key = recast b\<rparr>))"

text \<open>\<open>ok = self.mint_on(...)\<close> for each invite: the records of the last one are what is returned.\<close>

fun mint_each :: "engine \<Rightarrow> user_id \<Rightarrow> identity_id \<Rightarrow> bytes list \<Rightarrow> (conversation_id \<times> tx_payload) list \<Rightarrow> bytes list act" where
  "mint_each en user ident persist [] = ret persist"
| "mint_each en user ident persist ((dm, payload) # rest) =
     act_then (mint_on en \<lparr>cr_user_id = user, cr_identity_id = ident, cr_conversation_id = dm\<rparr> payload) (\<lambda>persist.
       mint_each en user ident persist rest)"

definition create_group ::
  "engine \<Rightarrow> user_id \<Rightarrow> identity_id \<Rightarrow> conversation_id list \<Rightarrow> string \<Rightarrow> bytes option \<Rightarrow>
     (outcome \<times> conversation_id) act" where
  "create_group en user ident contacts name photo =
     (if contacts = [] \<or> length contacts > 31 then throw MemberCap
      else
        reading (\<lambda>st.
        act_then (lift (require_ids st \<lparr>cr_user_id = user, cr_identity_id = ident, cr_conversation_id = zero32\<rparr>)) (\<lambda>_.
        if display_name_of st ident = None then throw WrongPhase
        else
        act_then (lift (map_err (\<lambda>_. MalformedDisplayName) (display_name_try_from name))) (\<lambda>name.
        act_then (lift (group_photo photo)) (\<lambda>photo.
        act_then (lift (identity_secret st user ident)) (\<lambda>(pol, enc_pk, sign_pk, _, _).
        act_then (lift (contact_peers st sign_pk [] contacts)) (\<lambda>peers.
        act_then random32 (\<lambda>gid.
        act_then random32 (\<lambda>sec.
        act_then (random_member sign_pk enc_pk) (\<lambda>own.
        let group_id = recast gid; sec = recast sec;
            persistents = df_persistents (en_defaults en); ephemerals = df_ephemerals (en_defaults en) in
        act_then (collect (\<lambda>peer. act_then
            (group_invite en pol group_id sec sign_pk persistents ephemerals name photo peer) (\<lambda>i. ret [i])) peers) (\<lambda>invites.
        act_then (modify (put_dm user ident group_id (GroupRow (Live \<lparr>gl_secret = sec, gl_name = name,
            gl_photo = photo, gl_owner_signing_pk = SigningPublicKey sign_pk, gl_persistents = persistents,
            gl_ephemerals = ephemerals, gl_members = [own], gl_pending = map fst invites, gl_epoch = 0, gl_log = [],
            gl_chains = established_chains_default\<rparr>)))) (\<lambda>_.
        act_then (mint_each en user ident [] (map snd invites)) (\<lambda>persist.
          ret ((persist, []), group_id))))))))))))))"

definition add_group_member :: "engine \<Rightarrow> conversation_ref \<Rightarrow> conversation_id \<Rightarrow> outcome act" where
  "add_group_member en ids contact =
     reading (\<lambda>st.
     act_then (lift (gate_chat st ids)) (\<lambda>_.
     act_then (lift (identity_secret st (cr_user_id ids) (cr_identity_id ids))) (\<lambda>(pol, _, sign_pk, _, _).
     require (dm_peer st contact sign_pk) WrongPhase (\<lambda>(spk, epk).
       case group_phase_at st (cr_conversation_id ids) of
         Some (Live live) \<Rightarrow>
           if sign_pk_bytes (gl_owner_signing_pk live) \<noteq> sign_pk then throw NotOwner
           else if length (gl_members live) + length (gl_pending live) \<ge> 32 then throw MemberCap
           else if list_ex (\<lambda>p. gpe_signing_pk p = spk) (gl_pending live) \<or>
             list_ex (\<lambda>m. gmb_signing_pk m = spk) (gl_members live) then throw WrongPhase
           else
             act_then (group_invite en pol (cr_conversation_id ids) (gl_secret live) sign_pk (gl_persistents live)
               (gl_ephemerals live) (gl_name live) (gl_photo live) (spk, epk, contact)) (\<lambda>(_, _, payload).
             act_then (mint_on en (ids\<lparr>cr_conversation_id := contact\<rparr>) payload) (\<lambda>persist.
             act_then (modify (with_group (on_live (\<lambda>row. row\<lparr>gl_pending := gl_pending row @
                 [\<lparr>gpe_signing_pk = spk, gpe_encryption_pk = epk, gpe_from_conversation_id = contact,
                   gpe_name = gl_name row, gpe_photo = gl_photo row\<rparr>]\<rparr>)) (cr_conversation_id ids))) (\<lambda>_.
               ret (persist, []))))
       | _ \<Rightarrow> throw WrongPhase))))"

definition accept_group :: "engine \<Rightarrow> conversation_ref \<Rightarrow> outcome act" where
  "accept_group en ids =
     reading (\<lambda>st.
       case group_phase_at st (cr_conversation_id ids) of
         Some (Offer offer) \<Rightarrow>
           act_then (lift (identity_secret st (cr_user_id ids) (cr_identity_id ids))) (\<lambda>(_, enc_pk, sign_pk, _, _).
           act_then (mint_on en (ids\<lparr>cr_conversation_id := gof_from_conversation_id offer\<rparr>)
             (GroupAccept (cr_conversation_id ids))) (\<lambda>persist.
           act_then (random_member sign_pk enc_pk) (\<lambda>member.
           act_then (modify (with_group (\<lambda>_. Live \<lparr>gl_secret = gof_secret offer, gl_name = gof_name offer,
               gl_photo = gof_photo offer, gl_owner_signing_pk = gof_owner_signing_pk offer,
               gl_persistents = df_persistents (en_defaults en), gl_ephemerals = df_ephemerals (en_defaults en),
               gl_members = [member], gl_pending = [], gl_epoch = 0, gl_log = [],
               gl_chains = established_chains_default\<rparr>) (cr_conversation_id ids))) (\<lambda>_.
             ret (persist, [])))))
       | _ \<Rightarrow> throw WrongPhase)"

definition reject_group :: "engine \<Rightarrow> conversation_ref \<Rightarrow> outcome act" where
  "reject_group en ids =
     reading (\<lambda>st.
       case group_phase_at st (cr_conversation_id ids) of
         Some (Offer offer) \<Rightarrow>
           act_then (mint_on en (ids\<lparr>cr_conversation_id := gof_from_conversation_id offer\<rparr>)
             (GroupReject (cr_conversation_id ids))) (\<lambda>persist.
           act_then (modify (with_group (\<lambda>_. GroupFailed OfferRejected) (cr_conversation_id ids))) (\<lambda>_.
             ret (persist, [])))
       | _ \<Rightarrow> throw WrongPhase)"

definition kick_group_member :: "engine \<Rightarrow> conversation_ref \<Rightarrow> bytes \<Rightarrow> outcome act" where
  "kick_group_member en ids signing_pk =
     reading (\<lambda>st.
       let cid = cr_conversation_id ids in
       case group_phase_at st cid of
         Some (Offer _) \<Rightarrow> act_then (modify (drop_row cid)) (\<lambda>_. ret ([], []))
       | Some (Live live) \<Rightarrow>
           act_then (lift (identity_secret st (cr_user_id ids) (cr_identity_id ids))) (\<lambda>(_, _, sign_pk, _, _).
             if gl_owner_signing_pk live \<noteq> SigningPublicKey sign_pk then throw NotOwner
             else if list_ex (\<lambda>p. gpe_signing_pk p = SigningPublicKey signing_pk) (gl_pending live) then throw WrongPhase
             else
               act_then (mint_on en ids (GroupKick (SigningPublicKey signing_pk))) (\<lambda>persist.
               reading (\<lambda>st.
               expect (group_live_at st cid) (\<lambda>_.
               act_then (modify (with_group (on_live (\<lambda>live.
                   live\<lparr>gl_members := filter (\<lambda>m. gmb_signing_pk m \<noteq> SigningPublicKey signing_pk) (gl_members live),
                     gl_epoch := saturating_add (gl_epoch live) 1\<rparr>)) cid)) (\<lambda>_.
               act_then (post_roster en ids) (\<lambda>_.
                 ret (persist, [])))))))
       | _ \<Rightarrow> throw WrongPhase)"

definition leave_group :: "engine \<Rightarrow> conversation_ref \<Rightarrow> outcome act" where
  "leave_group en ids =
     reading (\<lambda>st.
       if group_live_at st (cr_conversation_id ids) = None then throw WrongPhase
       else
         act_then (mint_on en ids GroupLeave) (\<lambda>persist.
         act_then (modify (with_group (\<lambda>_. GroupFailed Left) (cr_conversation_id ids))) (\<lambda>_.
           ret (persist, []))))"

definition require_owner :: "engine_state \<Rightarrow> conversation_ref \<Rightarrow> engine_error + unit" where
  "require_owner st ids =
     and_then (ok_or (group_live_at st (cr_conversation_id ids)) WrongPhase) (\<lambda>live.
     and_then (identity_secret st (cr_user_id ids) (cr_identity_id ids)) (\<lambda>(_, _, sign_pk, _, _).
       if gl_owner_signing_pk live = SigningPublicKey sign_pk then Inr () else Inl NotOwner))"

definition group_disappear_blocked :: "engine_state \<Rightarrow> conversation_ref \<Rightarrow> u64 option \<Rightarrow> engine_error + unit" where
  "group_disappear_blocked st ids disappear_after =
     (if disappear_after = None \<or> group_live_at st (cr_conversation_id ids) = None then Inr ()
      else require_owner st ids)"

text \<open>A change of the live row, then the transaction that tells the group.\<close>

definition change_group :: "engine \<Rightarrow> conversation_ref \<Rightarrow> (group_live \<Rightarrow> group_live) \<Rightarrow> tx_payload \<Rightarrow> outcome act" where
  "change_group en ids f payload =
     reading (\<lambda>st.
     act_then (lift (require_owner st ids)) (\<lambda>_.
     act_then (modify (with_group (on_live f) (cr_conversation_id ids))) (\<lambda>_.
     reading (\<lambda>st.
     act_then (lift (conv_secret st (cr_conversation_id ids))) (\<lambda>sec.
     act_then (mint_on en ids payload) (\<lambda>persist.
       finish_chat en persist (cr_conversation_id ids) sec payload))))))"

definition rename_group :: "engine \<Rightarrow> conversation_ref \<Rightarrow> display_name \<Rightarrow> outcome act" where
  "rename_group en ids name = change_group en ids (\<lambda>live. live\<lparr>gl_name := name\<rparr>) (Name name)"

definition rephoto_group :: "engine \<Rightarrow> conversation_ref \<Rightarrow> profile_pic option \<Rightarrow> outcome act" where
  "rephoto_group en ids photo = change_group en ids (\<lambda>live. live\<lparr>gl_photo := photo\<rparr>) (Photo photo)"

text \<open>\<open>delete_group\<close> works on a copy: where it returns \<open>None\<close> or fails, the state is the one before.\<close>

definition attempt :: "'a act \<Rightarrow> 'a option act" where
  "attempt m w = (case m w of
     (Inr x, w') \<Rightarrow> (Inr (Some x), w')
   | (Inl (Err _), w') \<Rightarrow> (Inr None, fst w, snd w')
   | (Inl Panic, w') \<Rightarrow> (Inl Panic, w'))"

definition delete_group :: "engine \<Rightarrow> conversation_ref \<Rightarrow> outcome option act" where
  "delete_group en ids =
     reading (\<lambda>st.
       if group_live_at st (cr_conversation_id ids) = None then ret None
       else
         attempt (
           act_then (lift (conv_secret st (cr_conversation_id ids))) (\<lambda>sec.
           act_then (mutate_on en sec (cr_conversation_id ids) [GroupLeave]) (\<lambda>persist.
           act_then (modify (with_group (\<lambda>_. GroupFailed Left) (cr_conversation_id ids))) (\<lambda>_.
             ret (persist, []))))))"

section \<open>Steps\<close>

lemma acts_attempt [acting]: "acts_by R m \<Longrightarrow> acts_by R (attempt m)"
  by (auto simp: acts_by_def attempt_def split: prod.splits sum.splits fault.splits) (metis fst_conv)+

lemma acts_put_group:
  "phase_log phase = [] \<Longrightarrow> acts (modify (put_dm u i cid (GroupRow phase)))"
  by (rule acts_put) (simp_all add: group_row_wf group_row_body log_get_def)

lemma acts_merge_and_post [acting]: "acts (merge_and_post en sec cid payload)"
  unfolding merge_and_post_def by (intro acting)

lemma acts_post_roster [acting]: "acts (post_roster en ids)"
  unfolding post_roster_def Let_def by (intro acting)

lemma acts_admit [acting]: "acts (modify (with_group (on_live (admit pending a b)) cid))"
  by (rule acts_on_live) (simp add: admit_def)

lemma acts_apply_roster [acting]: "acts (modify (with_group (apply_roster df roster) cid))"
  by (rule acts_with_group, case_tac p) (simp_all add: apply_roster_def)

lemma acts_set_phase [acting]:
  "phase_log phase = [] \<Longrightarrow> acts (modify (with_group (\<lambda>_. phase) cid))"
  by (rule acts_with_group) simp

lemma acts_notes [acting]:
  "acts (note_invite en invite)" "acts (note_accept en group_id)" "acts (note_roster en cid roster)"
  unfolding note_invite_def note_accept_def note_roster_def
  by (intro acting acts_put_group | auto intro!: acting acts_put_group split: list.split)+

lemma acts_on_group_payload [acting]: "acts (on_group_payload en cid payload)"
  by (cases payload) (auto intro: acting)

lemma acts_group_invite [acting]:
  "acts_by R (group_invite en pol group_id sec sign_pk persistents ephemerals name photo peer)"
  unfolding group_invite_def by (intro acting)

lemma acts_random_member [acting]: "acts_by R (random_member sign_pk enc_pk)"
  unfolding random_member_def by (intro acting)

lemma acts_mint_each [acting]: "acts (mint_each en user ident persist rest)"
  by (induction rest arbitrary: persist) (auto intro!: acting)

lemma acts_create_group [acting]: "acts (create_group en user ident contacts name photo)"
  unfolding create_group_def Let_def by (intro acting acts_put_group) simp

lemma acts_group_phases [acting]:
  "(\<And>live. acts_by R (f live)) \<Longrightarrow> (\<And>offer. acts_by R (g offer)) \<Longrightarrow> (\<And>e. acts_by R (h e)) \<Longrightarrow>
     acts_by R (case phase of Live live \<Rightarrow> f live | Offer offer \<Rightarrow> g offer | GroupFailed e \<Rightarrow> h e)"
  by (simp split: group_phase.split)

lemma acts_members [acting]:
  "acts (modify (with_group (on_live (\<lambda>row. row\<lparr>gl_pending := f1 row\<rparr>)) cid))"
  "acts (modify (with_group (on_live (\<lambda>row. row\<lparr>gl_members := f2 row, gl_epoch := f3 row\<rparr>)) cid))"
  "acts (modify (with_group (on_live (\<lambda>row. row\<lparr>gl_name := name\<rparr>)) cid))"
  "acts (modify (with_group (on_live (\<lambda>row. row\<lparr>gl_photo := photo\<rparr>)) cid))"
  by (rule acts_on_live, simp)+

lemma acts_group_ops [acting]:
  "acts (add_group_member en ids contact)" "acts (accept_group en ids)" "acts (reject_group en ids)"
  "acts (kick_group_member en ids signing_pk)" "acts (leave_group en ids)" "acts (delete_group en ids)"
  unfolding add_group_member_def accept_group_def reject_group_def kick_group_member_def leave_group_def
    delete_group_def Let_def
  by (intro acting; simp)+

lemma acts_change_group [acting]: "acts (rename_group en ids name)" "acts (rephoto_group en ids photo)"
  unfolding rename_group_def rephoto_group_def change_group_def by (intro acting)+

end
