(* ===== verification/Views.thy ===== *)
theory Views
  imports Group_Engine
begin

text \<open>
  What the host is shown (\<open>engine/query.rs\<close>, with \<open>sync_view\<close>, \<open>project_party\<close>, \<open>conversation_at\<close> and
  \<open>require_confirming\<close> of \<open>engine/handshake.rs\<close> and \<open>group_view\<close> of \<open>engine/group.rs\<close>). \<open>None\<close> inside the
  view of a group or direct message is the panic of a missing row.
\<close>

datatype handshake_inviter =
    IInviteCreated unix_seconds
  | INoticePinned unix_seconds
  | IIntroductionMinted unix_seconds
  | IConfirming unix_seconds string

datatype handshake_invitee =
    ETicketReceived
  | EInviteReceived policy unix_seconds
  | EIntroductionMinted policy unix_seconds
  | EIntroductionSent policy unix_seconds
  | EConfirming policy unix_seconds string

datatype handshake_view =
    HvInviter handshake_inviter
  | HvInvitee handshake_invitee
  | HvFailed handshake_failure

record group_member_view =
  gmv_signing_pk :: signing_public_key
  gmv_encryption_pk :: encryption_public_key
  gmv_name :: display_name
  gmv_photo :: "profile_pic option"
  gmv_typing :: "typing_view option"
  gmv_presence :: "presence_view option"

record group_pending_view =
  gpv_signing_pk :: signing_public_key
  gpv_from_conversation_id :: conversation_id
  gpv_name :: display_name
  gpv_photo :: "profile_pic option"

record group_established_view =
  gev_name :: display_name
  gev_photo :: "profile_pic option"
  gev_owner_signing_pk :: signing_public_key
  gev_members :: "group_member_view list"
  gev_pending :: "group_pending_view list"
  gev_persistents :: "durable_channel list"
  gev_ephemerals :: "ephemeral_channel list"
  gev_last_active :: "unix_seconds option"
  gev_local_prefs :: query_local_prefs
  gev_messages :: "history_item list"

record group_offer_view =
  gov_name :: display_name
  gov_photo :: "profile_pic option"
  gov_owner_signing_pk :: signing_public_key
  gov_from_conversation_id :: conversation_id

datatype group_query =
    GroupOfferQuery group_offer_view
  | GroupEstablishedQuery group_established_view
  | GroupFailedQuery group_end

record sync_member_view =
  smv_device_id :: device_id
  smv_signing_pk :: signing_public_key
  smv_encryption_pk :: encryption_public_key
  smv_name :: display_name
  smv_last_active :: "unix_seconds option"

record sync_established_view =
  sev_device_name :: display_name
  sev_members :: "sync_member_view list"
  sev_persistents :: "durable_channel list"
  sev_ephemerals :: "ephemeral_channel list"
  sev_last_active :: "unix_seconds option"

datatype conversation =
    CHandshakeDm handshake_view
  | CHandshakeSync handshake_view
  | CDirectMessage dm_established
  | CGroup group_query
  | CSynchronization sync_established_view

record conversation_list_row =
  clr_conversation_id :: conversation_id
  clr_conversation :: conversation

section \<open>Views\<close>

definition presence_of :: "engine_state \<Rightarrow> conversation_id \<Rightarrow> unix_seconds option" where
  "presence_of st cid = Option.bind (established_of st cid) ec_presence_at"

definition established_group_view ::
  "engine \<Rightarrow> engine_state \<Rightarrow> conversation_id \<Rightarrow> group_live \<Rightarrow> group_established_view option" where
  "established_group_view en st cid live =
     map_option (\<lambda>view. \<lparr>gev_name = gl_name live, gev_photo = gl_photo live,
       gev_owner_signing_pk = gl_owner_signing_pk live,
       gev_members = map (\<lambda>m. \<lparr>gmv_signing_pk = gmb_signing_pk m, gmv_encryption_pk = gmb_encryption_pk m,
         gmv_name = gl_name live, gmv_photo = gl_photo live, gmv_typing = None, gmv_presence = None\<rparr>) (gl_members live),
       gev_pending = map (\<lambda>p. \<lparr>gpv_signing_pk = gpe_signing_pk p,
         gpv_from_conversation_id = gpe_from_conversation_id p, gpv_name = gpe_name p, gpv_photo = gpe_photo p\<rparr>)
         (gl_pending live),
       gev_persistents = gl_persistents live, gev_ephemerals = gl_ephemerals live,
       gev_last_active = presence_of st cid, gev_local_prefs = local_prefs en st cid,
       gev_messages = dme_messages view\<rparr>) (dm_view en st cid)"

text \<open>The outer option is the panic, the inner one that there is no group row.\<close>

definition group_view :: "engine \<Rightarrow> engine_state \<Rightarrow> conversation_id \<Rightarrow> group_query option option" where
  "group_view en st cid =
     (case group_phase_at st cid of
        None \<Rightarrow> Some None
      | Some (Offer offer) \<Rightarrow> Some (Some (GroupOfferQuery \<lparr>gov_name = gof_name offer, gov_photo = gof_photo offer,
          gov_owner_signing_pk = gof_owner_signing_pk offer, gov_from_conversation_id = gof_from_conversation_id offer\<rparr>))
      | Some (Live live) \<Rightarrow> map_option (\<lambda>v. Some (GroupEstablishedQuery v)) (established_group_view en st cid live)
      | Some (GroupFailed reason) \<Rightarrow> Some (Some (GroupFailedQuery reason)))"

definition sync_self :: "engine_state \<Rightarrow> display_name \<Rightarrow> sync_member_view list" where
  "sync_self st device_name =
     (case dev_keys (es_device st) of
        None \<Rightarrow> []
      | Some keys \<Rightarrow> [\<lparr>smv_device_id = dk_id keys, smv_signing_pk = SigningPublicKey (skp_public (dk_sign keys)),
          smv_encryption_pk = EncryptionPublicKey (kp_public (dk_enc keys)), smv_name = device_name,
          smv_last_active = None\<rparr>])"

fun sync_peer_of :: "device_conversation \<Rightarrow> device_id option" where
  "sync_peer_of (SynchronizationRow _ _ peer _ _) = Some peer"
| "sync_peer_of (SyncHandshakeRow _ _ _) = None"

definition sync_peer :: "engine_state \<Rightarrow> conversation_id \<Rightarrow> conversation_id \<Rightarrow> device_id \<Rightarrow> sync_member_view list" where
  "sync_peer st cid parent peer_device =
     (let local_sign = map_option (\<lambda>k. skp_public (dk_sign k)) (dev_keys (es_device st));
          active = presence_of st cid;
          invitee = (case invitee_intro_for st parent of
              None \<Rightarrow> []
            | Some i \<Rightarrow> [\<lparr>smv_device_id = peer_device, smv_signing_pk = iei_signing_pk i,
                smv_encryption_pk = iei_encryption_pk i, smv_name = iei_name i, smv_last_active = active\<rparr>])
      in case inviter_intro_for st parent of
           Some i \<Rightarrow>
             if (case local_sign of Some s \<Rightarrow> s \<noteq> sign_pk_bytes (iri_signing_pk i) | None \<Rightarrow> True) then
               [\<lparr>smv_device_id = peer_device, smv_signing_pk = iri_signing_pk i,
                 smv_encryption_pk = iri_encryption_pk i, smv_name = iri_name i, smv_last_active = active\<rparr>]
             else invitee
         | None \<Rightarrow> invitee)"

definition sync_view :: "engine_state \<Rightarrow> conversation_id \<Rightarrow> sync_established_view" where
  "sync_view st cid =
     (let device_name = (case dev_name (es_device st) of Some n \<Rightarrow> n | None \<Rightarrow> DisplayName ''.'');
          parent = established_parent st cid;
          notice = Option.bind parent (notice_for st);
          peer_device = Option.bind (bt_get (dev_convs st) cid) sync_peer_of
      in \<lparr>sev_device_name = device_name,
          sev_members = sync_self st device_name @
            (case (parent, peer_device) of (Some p, Some d) \<Rightarrow> sync_peer st cid p d | _ \<Rightarrow> []),
          sev_persistents = (case notice of Some n \<Rightarrow> ntc_persistents n | None \<Rightarrow> []),
          sev_ephemerals = (case notice of Some n \<Rightarrow> ntc_ephemerals n | None \<Rightarrow> []),
          sev_last_active = presence_of st cid\<rparr>)"

definition project_party :: "engine \<Rightarrow> engine_state \<Rightarrow> conversation_id \<Rightarrow> party_ref \<Rightarrow> handshake_view" where
  "project_party en st cid p =
     (let expires = tk_expires (party_ticket (ref_party p));
          digest = (case try_fingerprint en st cid of Some (d, _) \<Rightarrow> d | None \<Rightarrow> []);
          pol = (case party_invitee_policy (ref_party p) of Some pol \<Rightarrow> pol | None \<Rightarrow> Classic)
      in case party_kind (ref_party p) of
           KInviteCreated \<Rightarrow> HvInviter (IInviteCreated expires)
         | KNoticePinned \<Rightarrow> HvInviter (INoticePinned expires)
         | KInviterIntroMinted \<Rightarrow> HvInviter (IIntroductionMinted expires)
         | KConfirming \<Rightarrow>
             if is_inviter (ref_party p) then HvInviter (IConfirming expires digest)
             else HvInvitee (EConfirming pol expires digest)
         | KTicketReceived \<Rightarrow> HvInvitee ETicketReceived
         | KInviteReceived \<Rightarrow> HvInvitee (EInviteReceived pol expires)
         | KInviteeIntroMinted \<Rightarrow> HvInvitee (EIntroductionMinted pol expires)
         | KIntroductionSent \<Rightarrow> HvInvitee (EIntroductionSent pol expires)
         | KFailed reason \<Rightarrow> HvFailed reason)"

definition conversation_at :: "engine \<Rightarrow> engine_state \<Rightarrow> conversation_id \<Rightarrow> conversation option act" where
  "conversation_at en st cid =
     expect (group_view en st cid) (\<lambda>g.
       case g of
         Some q \<Rightarrow> ret (Some (CGroup q))
       | None \<Rightarrow>
           if established_secret st cid \<noteq> None then
             (if is_sync st cid then ret (Some (CSynchronization (sync_view st cid)))
              else expect (dm_view en st cid) (\<lambda>v. ret (Some (CDirectMessage v))))
           else
             (case State.party st cid of
                None \<Rightarrow> ret None
              | Some p \<Rightarrow>
                  let row = project_party en st cid p
                  in ret (Some (if is_sync st cid then CHandshakeSync row else CHandshakeDm row))))"

definition list_conversations :: "engine \<Rightarrow> user_id \<Rightarrow> identity_id \<Rightarrow> conversation_list_row list act" where
  "list_conversations en user ident =
     reading (\<lambda>st.
       collect (\<lambda>cid. act_then (conversation_at en st cid) (\<lambda>c. ret (case c of
           Some v \<Rightarrow> [\<lparr>clr_conversation_id = cid, clr_conversation = v\<rparr>] | None \<Rightarrow> [])))
         (conversation_ids_for st user ident))"

definition get_conversation :: "engine \<Rightarrow> conversation_id \<Rightarrow> conversation act" where
  "get_conversation en cid =
     reading (\<lambda>st. act_then (conversation_at en st cid) (\<lambda>c. require c UnknownIds ret))"

fun confirming :: "conversation \<Rightarrow> bool" where
  "confirming (CHandshakeDm (HvInviter (IConfirming _ _))) = True"
| "confirming (CHandshakeDm (HvInvitee (EConfirming _ _ _))) = True"
| "confirming (CHandshakeSync (HvInviter (IConfirming _ _))) = True"
| "confirming (CHandshakeSync (HvInvitee (EConfirming _ _ _))) = True"
| "confirming _ = False"

definition decided :: "engine_state \<Rightarrow> conversation_id \<Rightarrow> bool" where
  "decided st cid = list_ex (\<lambda>b. (db_payload b = Confirm \<or> db_payload b = Reject) \<and> db_conversation_id b = cid) (bodies st)"

definition require_confirming :: "engine \<Rightarrow> conversation_ref \<Rightarrow> unit act" where
  "require_confirming en ids =
     reading (\<lambda>st.
     act_then (conversation_at en st (cr_conversation_id ids)) (\<lambda>c.
       if (case c of Some v \<Rightarrow> confirming v | None \<Rightarrow> False) \<and> \<not> decided st (cr_conversation_id ids) then ret ()
       else throw WrongPhase))"

definition confirmation_digest :: "engine \<Rightarrow> engine_state \<Rightarrow> conversation_id \<Rightarrow> engine_error + string" where
  "confirmation_digest en st cid =
     and_then (conv_secret st cid) (\<lambda>_. ok_or (map_option fst (try_fingerprint en st cid)) WrongPhase)"

lemma acts_views [acting]: "acts_by R (conversation_at en st cid)"
  unfolding conversation_at_def Let_def by (intro acting)

lemma acts_readers [acting]:
  "acts_by R (list_conversations en user ident)" "acts_by R (get_conversation en cid)"
  "acts_by R (require_confirming en ids)"
  unfolding list_conversations_def get_conversation_def require_confirming_def by (intro acting)+

end
