(* ===== verification/Handshake_Mint.thy ===== *)
theory Handshake_Mint
  imports Views
begin

text \<open>
  Minting introductions and gating the payloads of a handshake (\<open>engine/handshake.rs\<close>).
\<close>

text \<open>\<open>party_mut(cid)\<close> with \<open>inviter_mut\<close> or \<open>invitee_mut\<close>: a change of the phase of one role.\<close>

fun on_inviter :: "(inviter_phase \<Rightarrow> inviter_phase) \<Rightarrow> party \<Rightarrow> party" where
  "on_inviter f (Inviter p) = Inviter (f p)"
| "on_inviter f (Invitee p) = Invitee p"

fun on_invitee :: "(invitee_phase \<Rightarrow> invitee_phase) \<Rightarrow> party \<Rightarrow> party" where
  "on_invitee f (Invitee p) = Invitee (f p)"
| "on_invitee f (Inviter p) = Inviter p"

definition ensure_device_keys :: "engine \<Rightarrow> policy \<Rightarrow> unit act" where
  "ensure_device_keys en pol =
     reading (\<lambda>st.
       if dev_keys (es_device st) \<noteq> None then ret ()
       else
         act_then random32 (\<lambda>i.
         act_then random_pair (\<lambda>kseed.
         case st_kem_generate (en_suite en) pol kseed of
           Inl _ \<Rightarrow> throw MalformedPayload
         | Inr enc \<Rightarrow>
             act_then random_pair (\<lambda>sseed.
             case st_sign_generate (en_suite en) pol sseed of
               Inl _ \<Rightarrow> throw MalformedPayload
             | Inr sig \<Rightarrow> modify (set_device_keys (Some \<lparr>dk_id = recast i, dk_enc = enc, dk_sign = sig\<rparr>))))))"

type_synonym calling_parts = "display_name \<times> profile_pic option \<times> bytes \<times> bytes"

definition local_calling :: "engine \<Rightarrow> conversation_id \<Rightarrow> policy \<Rightarrow> calling_parts option act" where
  "local_calling en cid pol =
     reading (\<lambda>st.
       if is_sync st cid then
         opt_or (dev_name (es_device st)) (ret None) (\<lambda>name.
         act_then (ensure_device_keys en pol) (\<lambda>_.
         reading (\<lambda>st.
         expect (dev_keys (es_device st)) (\<lambda>keys.
           ret (Some (name, None, kp_public (dk_enc keys), skp_public (dk_sign keys)))))))
       else
         opt_or (owner st cid) (ret None) (\<lambda>(uid, iid).
         opt_or (display_name_of st iid) (ret None) (\<lambda>name.
         opt_or (identity_keys st uid iid) (ret None) (\<lambda>(id_policy, enc, sig).
           if id_policy \<noteq> pol then
             act_then (modify (state_fail cid (PolicyNotAccepted pol))) (\<lambda>_. ret None)
           else ret (Some (name, profile_pic_of st iid, enc, sig))))))"

definition party_kind_at :: "engine_state \<Rightarrow> conversation_id \<Rightarrow> phase_kind option" where
  "party_kind_at st cid = map_option (\<lambda>p. party_kind (ref_party p)) (State.party st cid)"

text \<open>The payload of an introduction: with the device id on a sync handshake.\<close>

definition role_payload :: "conversation_id \<Rightarrow> (device_id \<Rightarrow> tx_payload) \<Rightarrow> tx_payload \<Rightarrow> tx_payload act" where
  "role_payload cid sync direct =
     reading (\<lambda>st.
       if is_sync st cid then
         require (map_option dk_id (dev_keys (es_device st))) WrongPhase (\<lambda>i. ret (sync i))
       else ret direct)"

definition merge_and_announce :: "engine \<Rightarrow> conversation_id \<Rightarrow> tx_payload \<Rightarrow> bytes list act" where
  "merge_and_announce en cid payload =
     reading (\<lambda>st.
     act_then (lift (conv_secret st cid)) (\<lambda>sec.
     act_then (merge_tx en sec cid payload) (\<lambda>(tx_id, _, rec).
     act_then (post_handshake_packets en cid sec tx_id) (\<lambda>_.
       ret [rec]))))"

definition try_mint_invitee_intro :: "engine \<Rightarrow> conversation_id \<Rightarrow> bytes list act" where
  "try_mint_invitee_intro en cid =
     reading (\<lambda>st.
       if party_kind_at st cid \<noteq> Some KInviteReceived \<or> invitee_intro_for st cid \<noteq> None then ret []
       else
         opt_or (notice_for st cid) (ret []) (\<lambda>notice.
         act_then (local_calling en cid (ntc_policy notice)) (\<lambda>parts.
         opt_or parts (ret []) (\<lambda>(name, pic, enc, sig).
         act_then random_pair (\<lambda>kseed.
         case st_kem_generate (en_suite en) (ntc_policy notice) kseed of
           Inl _ \<Rightarrow> throw MalformedPayload
         | Inr intake \<Rightarrow>
             act_then random_pair (\<lambda>seed.
             case st_kem_wrap (en_suite en) (ntc_policy notice) (enc_pk_bytes (ntc_intake_pk notice)) seed of
               Inl _ \<Rightarrow> throw MalformedPayload
             | Inr (shared, seed_ct) \<Rightarrow>
                 act_then random32 (\<lambda>a.
                 act_then random32 (\<lambda>b.
                 let intro = \<lparr>iei_name = name, iei_profile_pic = pic, iei_send_tag_key = recast a,
                       iei_eph_send_tag_key = recast b, iei_encryption_pk = EncryptionPublicKey enc,
                       iei_signing_pk = SigningPublicKey sig, iei_intake_pk = EncryptionPublicKey (kp_public intake),
                       iei_seed_ct = seed_ct, iei_prefs = engine_wire_prefs en\<rparr> in
                 act_then (role_payload cid (\<lambda>i. SyncInviteeIntro \<lparr>sei_intro = intro, sei_device_id = i\<rparr>)
                     (InviteeIntro intro)) (\<lambda>payload.
                 act_then (modify (with_party (on_invitee (\<lambda>p. snd (invitee_mint_intro intake (take_shared32 shared) p))) cid)) (\<lambda>_.
                   merge_and_announce en cid payload))))))))))"

definition try_mint_inviter_intro :: "engine \<Rightarrow> conversation_id \<Rightarrow> bytes list act" where
  "try_mint_inviter_intro en cid =
     reading (\<lambda>st.
       if party_kind_at st cid \<noteq> Some KNoticePinned \<or> inviter_intro_for st cid \<noteq> None then ret []
       else
         opt_or (invitee_intro_for st cid) (ret []) (\<lambda>invitee.
         opt_or (notice_for st cid) (ret []) (\<lambda>notice.
         act_then (local_calling en cid (ntc_policy notice)) (\<lambda>parts.
         opt_or parts (ret []) (\<lambda>(name, pic, enc, sig).
         act_then random_pair (\<lambda>seed.
         case st_kem_wrap (en_suite en) (ntc_policy notice) (enc_pk_bytes (iei_intake_pk invitee)) seed of
           Inl _ \<Rightarrow> act_then (modify (state_fail cid IntroVerifyFailed)) (\<lambda>_. ret [])
         | Inr (shared, seed_ct) \<Rightarrow>
             reading (\<lambda>st.
             expect (intake_secret st cid) (\<lambda>sk.
             case unwrap_shared en (ntc_policy notice) sk (iei_seed_ct invitee) of
               None \<Rightarrow> act_then (modify (state_fail cid IntroVerifyFailed)) (\<lambda>_. ret [])
             | Some shared_inviter \<Rightarrow>
                 act_then (modify (with_party (on_inviter (\<lambda>p.
                   snd (inviter_mint_intro shared_inviter (take_shared32 shared) p))) cid)) (\<lambda>_.
                 act_then random32 (\<lambda>a.
                 act_then random32 (\<lambda>b.
                 let intro = \<lparr>iri_name = name, iri_profile_pic = pic, iri_send_tag_key = recast a,
                       iri_eph_send_tag_key = recast b, iri_encryption_pk = EncryptionPublicKey enc,
                       iri_signing_pk = SigningPublicKey sig, iri_seed_ct = seed_ct,
                       iri_prefs = engine_wire_prefs en\<rparr> in
                 act_then (role_payload cid (\<lambda>i. SyncInviterIntro \<lparr>sri_intro = intro, sri_device_id = i\<rparr>)
                     (InviterIntro intro)) (\<lambda>payload.
                   merge_and_announce en cid payload))))))))))))"

definition mint_pending_intros :: "engine \<Rightarrow> bytes list act" where
  "mint_pending_intros en =
     reading (\<lambda>st.
       collect (\<lambda>(cid, _, _).
         act_then (try_mint_invitee_intro en cid) (\<lambda>a.
         act_then (try_mint_inviter_intro en cid) (\<lambda>b.
           ret (a @ b)))) (handshake_rows st))"

section \<open>Gates\<close>

text \<open>A gate lets the payload through (\<open>False\<close>) or stops the ingest with nothing stored (\<open>True\<close>).\<close>

definition stop_with :: "conversation_id \<Rightarrow> handshake_failure \<Rightarrow> bool act" where
  "stop_with cid reason = act_then (modify (state_fail cid reason)) (\<lambda>_. ret True)"

definition gate_notice :: "engine \<Rightarrow> conversation_id \<Rightarrow> tx_notice \<Rightarrow> bool act" where
  "gate_notice en cid n =
     reading (\<lambda>st.
       if (case notice_for st cid of Some existing \<Rightarrow> existing \<noteq> n | None \<Rightarrow> False) then stop_with cid NoticeConflict
       else
         act_then
           (if (case owner st cid of
                  Some (uid, iid) \<Rightarrow>
                    (case identity_policy st uid iid of Inr pol \<Rightarrow> pol \<noteq> ntc_policy n | Inl _ \<Rightarrow> False)
                | None \<Rightarrow> False)
            then modify (state_fail cid (PolicyNotAccepted (ntc_policy n)))
            else modify (with_party (on_invitee (\<lambda>p. snd (invitee_receive_notice (ntc_policy n) p))) cid)) (\<lambda>_.
           ret False))"

definition gate_invitee_intro :: "engine \<Rightarrow> conversation_id \<Rightarrow> tx_invitee_intro \<Rightarrow> bool act" where
  "gate_invitee_intro en cid i =
     reading (\<lambda>st.
       if invitee_intro_for st cid \<noteq> None then stop_with cid DuplicateIntro
       else
         (case notice_for st cid of
            None \<Rightarrow> stop_with cid IntroVerifyFailed
          | Some notice \<Rightarrow>
              if \<not> intro_keys_ok (ntc_policy notice) (enc_pk_bytes (iei_encryption_pk i)) (sign_pk_bytes (iei_signing_pk i))
                (Some (enc_pk_bytes (iei_intake_pk i))) (iei_seed_ct i)
              then stop_with cid IntroVerifyFailed
              else if is_inviter_at st cid \<and>
                (case intake_secret st cid of
                   Some sk \<Rightarrow> unwrap_shared en (ntc_policy notice) sk (iei_seed_ct i) = None
                 | None \<Rightarrow> False)
              then stop_with cid IntroVerifyFailed
              else ret False))"

definition peer_confirms :: "engine_state \<Rightarrow> conversation_id \<Rightarrow> secret \<Rightarrow> bool" where
  "peer_confirms st cid s =
     (case State.party st cid of
        Some p \<Rightarrow> (case ref_party p of Invitee ph \<Rightarrow> fst (invitee_confirm_peer s ph) | Inviter _ \<Rightarrow> False)
      | None \<Rightarrow> False)"

definition gate_inviter_intro :: "engine \<Rightarrow> conversation_id \<Rightarrow> tx_inviter_intro \<Rightarrow> bool act" where
  "gate_inviter_intro en cid i =
     reading (\<lambda>st.
       if inviter_intro_for st cid \<noteq> None then stop_with cid DuplicateIntro
       else
         (case notice_for st cid of
            None \<Rightarrow> stop_with cid IntroVerifyFailed
          | Some notice \<Rightarrow>
              if \<not> intro_keys_ok (ntc_policy notice) (enc_pk_bytes (iri_encryption_pk i)) (sign_pk_bytes (iri_signing_pk i))
                None (iri_seed_ct i)
              then stop_with cid IntroVerifyFailed
              else if is_inviter_at st cid then ret False
              else
                (case Option.bind (intake_secret st cid) (\<lambda>sk. unwrap_shared en (ntc_policy notice) sk (iri_seed_ct i)) of
                   None \<Rightarrow> stop_with cid IntroVerifyFailed
                 | Some s \<Rightarrow>
                     act_then (modify (with_party (on_invitee (\<lambda>p. snd (invitee_confirm_peer s p))) cid)) (\<lambda>_.
                       if peer_confirms st cid s then ret False else stop_with cid IntroVerifyFailed))))"

fun handshake_ingest_gate :: "engine \<Rightarrow> conversation_id \<Rightarrow> tx_payload \<Rightarrow> bool act" where
  "handshake_ingest_gate en cid (Notice n) = gate_notice en cid n"
| "handshake_ingest_gate en cid (InviteeIntro i) = gate_invitee_intro en cid i"
| "handshake_ingest_gate en cid (SyncInviteeIntro s) = gate_invitee_intro en cid (sei_intro s)"
| "handshake_ingest_gate en cid (InviterIntro i) = gate_inviter_intro en cid i"
| "handshake_ingest_gate en cid (SyncInviterIntro s) = gate_inviter_intro en cid (sri_intro s)"
| "handshake_ingest_gate en cid _ = ret False"

section \<open>Steps\<close>

lemma acts_on_role [acting]:
  "(\<And>p. inviter_step p (f p)) \<Longrightarrow> acts (modify (with_party (on_inviter f) cid))"
  "(\<And>p. invitee_step p (g p)) \<Longrightarrow> acts (modify (with_party (on_invitee g) cid))"
  by (rule acts_with_party, case_tac p; auto intro: party_step.intros)+

lemmas role_steps = inviter_step.intros invitee_step.intros

lemma acts_local_calling [acting]: "acts (ensure_device_keys en pol)" "acts (local_calling en cid pol)"
proof -
  show *: "acts (ensure_device_keys en pol)" for en pol
    unfolding ensure_device_keys_def by (intro acting)
  show "acts (local_calling en cid pol)" unfolding local_calling_def by (intro acting *)
qed

lemma acts_role_payload [acting]: "acts_by R (role_payload cid sync direct)"
  unfolding role_payload_def by (intro acting)

lemma acts_merge_and_announce [acting]: "acts (merge_and_announce en cid payload)"
  unfolding merge_and_announce_def by (intro acting)

lemma acts_try_mint [acting]: "acts (try_mint_invitee_intro en cid)" "acts (try_mint_inviter_intro en cid)"
  unfolding try_mint_invitee_intro_def try_mint_inviter_intro_def Let_def by (intro acting role_steps)+

lemma acts_mint_pending_intros [acting]: "acts (mint_pending_intros en)"
  unfolding mint_pending_intros_def by (intro acting)

lemma acts_gates [acting]:
  "acts (stop_with cid reason)" "acts (gate_notice en cid n)" "acts (gate_invitee_intro en cid i)"
  "acts (gate_inviter_intro en cid j)"
proof -
  show *: "acts (stop_with cid reason)" for cid reason unfolding stop_with_def by (intro acting)
  show "acts (gate_notice en cid n)" "acts (gate_invitee_intro en cid i)" "acts (gate_inviter_intro en cid j)"
    unfolding gate_notice_def gate_invitee_intro_def gate_inviter_intro_def by (intro acting role_steps *)+
qed

lemma acts_handshake_gate [acting]: "acts (handshake_ingest_gate en cid payload)"
  by (cases payload) (auto intro: acting)

end
