(* ===== verification/Live_Ingest.thy ===== *)
theory Live_Ingest
  imports Handshake_Mint
begin

text \<open>
  Receiving on established conversations (\<open>engine/live.rs\<close>, with \<open>note_device_kick\<close> and \<open>note_sync_peer\<close> of
  \<open>engine/identity.rs\<close>): which conversation a tag belongs to, opening a body as one of its actors,
  reassembling and storing the transaction it completes.
\<close>

section \<open>Linked devices\<close>

fun kicked_peer :: "device_id \<Rightarrow> device_conversation \<Rightarrow> bool" where
  "kicked_peer d (SynchronizationRow _ _ peer _ _) \<longleftrightarrow> peer = d"
| "kicked_peer d (SyncHandshakeRow _ _ _) = False"

definition sync_rekey :: "suite \<Rightarrow> device_id \<Rightarrow> secret \<Rightarrow> secret" where
  "sync_rekey s d sec = expand_mac s sec (label ''chuchotez/1/sync-rekey'' @ as_bytes d)"

definition forget_chains :: "established_chains \<Rightarrow> established_chains" where
  "forget_chains c = c\<lparr>ec_packet := (ec_packet c)\<lparr>pc_send := [], pc_recv := [], pc_skipped_mks := [],
     pc_live_pending := []\<rparr>\<rparr>"

fun rekey_sync_row :: "suite \<Rightarrow> device_id \<Rightarrow> device_conversation \<Rightarrow> device_conversation" where
  "rekey_sync_row s d (SynchronizationRow sec parent peer lg ch) =
     SynchronizationRow (sync_rekey s d sec) parent peer lg (forget_chains ch)"
| "rekey_sync_row s d (SyncHandshakeRow p lg ch) = SyncHandshakeRow p lg ch"

definition is_this_device :: "engine_state \<Rightarrow> device_id \<Rightarrow> bool" where
  "is_this_device st d = (case dev_keys (es_device st) of Some keys \<Rightarrow> dk_id keys = d | None \<Rightarrow> False)"

definition note_device_kick :: "engine \<Rightarrow> device_id \<Rightarrow> unit act" where
  "note_device_kick en d =
     reading (\<lambda>st.
       if d \<in> set (dev_kicked (es_device st)) then ret ()
       else
         act_then (modify (push_kicked d)) (\<lambda>_.
           if is_this_device st d then modify (retain_device (\<lambda>node. \<not> is_synchronization node) id)
           else modify (retain_device (\<lambda>node. \<not> kicked_peer d node) (rekey_sync_row (en_suite en) d))))"

fun set_sync_peer :: "device_id \<Rightarrow> device_conversation \<Rightarrow> device_conversation" where
  "set_sync_peer d (SynchronizationRow sec parent _ lg ch) = SynchronizationRow sec parent d lg ch"
| "set_sync_peer d (SyncHandshakeRow p lg ch) = SyncHandshakeRow p lg ch"

definition note_sync_peer :: "conversation_id \<Rightarrow> bytes \<Rightarrow> unit act" where
  "note_sync_peer cid actor =
     opt_or (try_from_bytes actor) (ret ()) (\<lambda>d.
     reading (\<lambda>st.
       if is_this_device st d then ret () else modify (set_device_row cid (set_sync_peer d))))"

section \<open>Whose tag it is\<close>

datatype live_channel = LcDurable durable_channel | LcEph ephemeral_channel

fun is_durable :: "live_channel \<Rightarrow> bool" where
  "is_durable (LcDurable _) = True"
| "is_durable (LcEph _) = False"

definition any_bin_tag :: "suite \<Rightarrow> tag_key \<Rightarrow> bytes \<Rightarrow> tag \<Rightarrow> unix_seconds \<Rightarrow> bool" where
  "any_bin_tag s key lbl tg now = list_ex (\<lambda>bin. bin_tag s key lbl bin = tg) (listen_bins (time_bin now))"

definition group_rows :: "engine_state \<Rightarrow> (conversation_id \<times> group_live) list" where
  "group_rows st =
     concat (map (\<lambda>(_, ident). List.map_filter (\<lambda>(cid, node).
       map_option (Pair cid) (Option.bind (phase_of_identity node) live_of)) (idn_conversations ident)) (identities st))"

fun group_match ::
  "engine \<Rightarrow> engine_state \<Rightarrow> live_channel \<Rightarrow> tag \<Rightarrow> unix_seconds \<Rightarrow> (conversation_id \<times> secret \<times> conversation_sort) option" where
  "group_match en st (LcEph _) tg now = None"
| "group_match en st (LcDurable ch) tg now =
     Option.bind (persist_label Group) (\<lambda>lbl.
       find_map (\<lambda>(cid, live).
         then_some (ch \<in> set (gl_persistents live) \<and>
           list_ex (\<lambda>m. any_bin_tag (en_suite en) (gmb_send_tag_key m) lbl tg now) (gl_members live))
           (cid, gl_secret live, Group)) (group_rows st))"

text \<open>The label is that of a direct message or a synchronization, which exists.\<close>

definition intro_keys :: "engine_state \<Rightarrow> conversation_id \<Rightarrow> bool \<Rightarrow> tag_key list" where
  "intro_keys st parent persistent =
     (case inviter_intro_for st parent of
        Some i \<Rightarrow> [if persistent then iri_send_tag_key i else iri_eph_send_tag_key i] | None \<Rightarrow> []) @
     (case invitee_intro_for st parent of
        Some i \<Rightarrow> [if persistent then iei_send_tag_key i else iei_eph_send_tag_key i] | None \<Rightarrow> [])"

definition tag_hits ::
  "engine \<Rightarrow> engine_state \<Rightarrow> conversation_id \<Rightarrow> conversation_sort \<Rightarrow> bool \<Rightarrow> tag \<Rightarrow> unix_seconds \<Rightarrow> bool" where
  "tag_hits en st parent srt persistent tg now =
     (case (if persistent then persist_label srt else eph_label srt) of
        None \<Rightarrow> False
      | Some lbl \<Rightarrow> list_ex (\<lambda>key. any_bin_tag (en_suite en) key lbl tg now) (intro_keys st parent persistent))"

fun notice_channel :: "tx_notice \<Rightarrow> live_channel \<Rightarrow> bool" where
  "notice_channel n (LcDurable ch) \<longleftrightarrow> ch \<in> set (ntc_persistents n)"
| "notice_channel n (LcEph ch) \<longleftrightarrow> ch \<in> set (ntc_ephemerals n)"

text \<open>The loop over the established conversations: a missing parent or notice ends it with \<open>None\<close>.\<close>

fun match_cids ::
  "engine \<Rightarrow> engine_state \<Rightarrow> live_channel \<Rightarrow> tag \<Rightarrow> unix_seconds \<Rightarrow> conversation_id list \<Rightarrow>
     (conversation_id \<times> secret \<times> conversation_sort) option" where
  "match_cids en st ch tg now [] = None"
| "match_cids en st ch tg now (cid # cids) =
     Option.bind (established_parent st cid) (\<lambda>parent.
     Option.bind (notice_for st parent) (\<lambda>notice.
       let srt = established_sort st cid in
       if notice_channel notice ch \<and> tag_hits en st parent srt (is_durable ch) tg now then
         map_option (\<lambda>sec. (cid, sec, srt)) (established_secret st cid)
       else match_cids en st ch tg now cids))"

definition established_match ::
  "engine \<Rightarrow> engine_state \<Rightarrow> live_channel \<Rightarrow> tag \<Rightarrow> unix_seconds \<Rightarrow> (conversation_id \<times> secret \<times> conversation_sort) option" where
  "established_match en st ch tg now =
     (case group_match en st ch tg now of
        Some hit \<Rightarrow> Some hit
      | None \<Rightarrow> match_cids en st ch tg now (established_cids st))"

section \<open>Who may have sent it\<close>

definition group_member_actors :: "engine_state \<Rightarrow> conversation_id \<Rightarrow> bytes list" where
  "group_member_actors st cid =
     (case group_live_at st cid of
        Some live \<Rightarrow> map (\<lambda>m. sign_pk_bytes (gmb_signing_pk m)) (gl_members live) | None \<Rightarrow> [])"

definition sync_open_actors :: "engine_state \<Rightarrow> conversation_id \<Rightarrow> bytes list" where
  "sync_open_actors st cid =
     (case dev_keys (es_device st) of Some keys \<Rightarrow> [as_bytes (dk_id keys)] | None \<Rightarrow> []) @
     (case Option.bind (bt_get (dev_convs st) cid) sync_peer_of of Some peer \<Rightarrow> [as_bytes peer] | None \<Rightarrow> [])"

definition open_actors :: "engine_state \<Rightarrow> conversation_id \<Rightarrow> bytes list" where
  "open_actors st parent =
     (case invitee_intro_for st parent of Some i \<Rightarrow> [sign_pk_bytes (iei_signing_pk i)] | None \<Rightarrow> []) @
     (case inviter_intro_for st parent of Some i \<Rightarrow> [sign_pk_bytes (iri_signing_pk i)] | None \<Rightarrow> [])"

fun packet_actor :: "packet_plain \<Rightarrow> bytes" where
  "packet_actor (TxFragMore p) = pfm_actor_id p"
| "packet_actor (TxFragLast p) = pfl_actor_id p"
| "packet_actor _ = []"

section \<open>Fragments\<close>

definition decode_body :: "engine \<Rightarrow> bytes \<Rightarrow> durable_body option" where
  "decode_body en packed =
     (let s = en_suite en in
      Option.bind (ok (st_decompress s packed PACKET_MAX_UNCOMPRESSED)) (\<lambda>canonical.
      Option.bind (st_json_decode s canonical) (\<lambda>json.
        durable_body_from_json (st_b64u s) json)))"

text \<open>\<open>persist_log.insert\<close>, \<open>next_seq\<close> and \<open>insert_body\<close> of an arriving transaction; its record.\<close>

definition store_arrived :: "engine \<Rightarrow> tag \<Rightarrow> durable_body \<Rightarrow> bytes act" where
  "store_arrived en tx_id arrived =
     reading (\<lambda>st.
     act_then (lift (persist_record en (es_next_seq st) arrived)) (\<lambda>rec.
     act_then (modify (log_persist (es_next_seq st) tx_id)) (\<lambda>_.
     act_then (modify bump_seq) (\<lambda>_.
     act_then (storing tx_id arrived) (\<lambda>_.
       ret rec)))))"

definition ack_last :: "engine \<Rightarrow> bool \<Rightarrow> packet_plain \<Rightarrow> conversation_id \<Rightarrow> unit act" where
  "ack_last en persistent packet cid =
     (case packet of
        TxFragLast p \<Rightarrow>
          if persistent then
            act_then (modify (store_durable_last_ack cid (pfl_actor_id p) (pfl_set_xor p))) (\<lambda>_.
              note_set_xor en cid (pfl_set_xor p))
          else ret ()
      | _ \<Rightarrow> ret ())"

definition accept_complete :: "engine \<Rightarrow> conversation_id \<Rightarrow> packet_plain \<Rightarrow> bool \<Rightarrow> tag \<Rightarrow> bytes \<Rightarrow> bytes list act" where
  "accept_complete en cid packet persistent tx_id packed =
     require (decode_body en packed) MalformedPayload (\<lambda>arrived.
     reading (\<lambda>st.
       if (case body st tx_id of Some existing \<Rightarrow> db_payload existing = db_payload arrived | None \<Rightarrow> False) then ret []
       else
         act_then (handshake_ingest_gate en cid (db_payload arrived)) (\<lambda>_.
         act_then (store_arrived en tx_id arrived) (\<lambda>rec.
         act_then (on_group_payload en cid (db_payload arrived)) (\<lambda>_.
         reading (\<lambda>st.
         let sender = (case Option.bind (sort_of st cid) (\<lambda>srt. actor_for srt (packet_actor packet)) of
               Some a \<Rightarrow> a | None \<Rightarrow> Handshake) in
         act_then (on_established_row (\<lambda>c. c\<lparr>ec_chat_senders := bt_insert tx_id sender (ec_chat_senders c)\<rparr>) cid) (\<lambda>_.
         act_then (ack_last en persistent packet cid) (\<lambda>_.
         act_then (note_sync_peer cid (packet_actor packet)) (\<lambda>_.
         act_then (case db_payload arrived of EngineKickDevice d \<Rightarrow> note_device_kick en d | _ \<Rightarrow> ret ()) (\<lambda>_.
           ret [rec]))))))))))"

definition accept_fragment :: "engine \<Rightarrow> conversation_id \<Rightarrow> packet_plain \<Rightarrow> bool \<Rightarrow> bytes list act" where
  "accept_fragment en cid packet persistent =
     opt_or (frag_parts packet) (ret []) (\<lambda>part.
     reading (\<lambda>st.
       let t = fp_tx_id part;
           entry = frag_insert (frag_entry (es_frags st) t cid) part
       in case frag_complete entry of
            None \<Rightarrow> act_then (modify (set_frags (\<lambda>f. f(t \<mapsto> entry)))) (\<lambda>_. ret [])
          | Some packed \<Rightarrow>
              act_then (modify (set_frags (\<lambda>f. f(t := None)))) (\<lambda>_.
                accept_complete en cid packet persistent t packed)))"

definition on_established :: "engine \<Rightarrow> conversation_id \<Rightarrow> unix_seconds \<Rightarrow> packet_plain \<Rightarrow> bool \<Rightarrow> bytes list act" where
  "on_established en cid now packet persistent =
     (case (persistent, packet) of
        (True, XorAck ack) \<Rightarrow>
          act_then (modify (store_durable_last_ack cid (pxa_actor_id ack) (pxa_set_xor ack))) (\<lambda>_.
          act_then (note_set_xor en cid (pxa_set_xor ack)) (\<lambda>_.
            ret []))
      | _ \<Rightarrow>
          act_then (if persistent then ret () else observe_ephemeral en cid now packet) (\<lambda>_.
          act_then (note_packet_signal cid now packet) (\<lambda>_.
            accept_fragment en cid packet persistent)))"

section \<open>Opening\<close>

text \<open>The ephemeral key of the first of \<open>n\<close> chain positions that opens the body.\<close>

fun eph_scan :: "suite \<Rightarrow> nat \<Rightarrow> send_chain \<Rightarrow> bytes \<Rightarrow> packet_plain option" where
  "eph_scan s 0 cursor b = None"
| "eph_scan s (Suc n) cursor b =
     (case open_plain s (eph_mk s cursor) b of
        Inr packet \<Rightarrow> Some packet
      | Inl _ \<Rightarrow> eph_scan s n (step s cursor) b)"

fun open_as ::
  "engine \<Rightarrow> conversation_id \<Rightarrow> secret \<Rightarrow> conversation_sort \<Rightarrow> bytes \<Rightarrow> bool \<Rightarrow> unix_seconds \<Rightarrow> bytes list \<Rightarrow>
     bytes list option act" where
  "open_as en cid sec srt b persistent now [] = ret None"
| "open_as en cid sec srt b persistent now (actor_bytes # actors) =
     expect (actor_for srt actor_bytes) (\<lambda>actor.
     act_then (lift (join (en_suite en) sec srt actor_bytes)) (\<lambda>joined.
     reading (\<lambda>st.
     let start = (case Option.bind (established_of st cid) (\<lambda>c. bt_get (pc_recv (ec_packet c)) actor) of
           Some c \<Rightarrow> c | None \<Rightarrow> joined) in
     if persistent then
       (case open_at (en_suite en) start None [] now b of
          Inr opn \<Rightarrow>
            act_then (on_established_row (\<lambda>c. c\<lparr>ec_packet := (ec_packet c)\<lparr>pc_recv :=
              bt_insert actor (op_chain opn) (pc_recv (ec_packet c))\<rparr>\<rparr>) cid) (\<lambda>_.
            act_then (on_established en cid now (op_packet opn) True) (\<lambda>persist.
              ret (Some persist)))
        | Inl _ \<Rightarrow> open_as en cid sec srt b persistent now actors)
     else
       (case eph_scan (en_suite en) 64 start b of
          Some packet \<Rightarrow> act_then (on_established en cid now packet False) (\<lambda>persist. ret (Some persist))
        | None \<Rightarrow> open_as en cid sec srt b persistent now actors))))"

definition open_established ::
  "engine \<Rightarrow> conversation_id \<Rightarrow> secret \<Rightarrow> conversation_sort \<Rightarrow> bytes \<Rightarrow> bool \<Rightarrow> unix_seconds \<Rightarrow> bytes list option act" where
  "open_established en cid sec srt b persistent now =
     reading (\<lambda>st.
       if srt = Group then open_as en cid sec srt b persistent now (group_member_actors st cid)
       else if srt = Synchronization then open_as en cid sec srt b persistent now (sync_open_actors st cid)
       else expect (established_parent st cid) (\<lambda>parent. open_as en cid sec srt b persistent now (open_actors st parent)))"

definition ingest_established :: "engine \<Rightarrow> live_channel \<Rightarrow> tag \<Rightarrow> bytes \<Rightarrow> unix_seconds \<Rightarrow> bytes list act" where
  "ingest_established en ch tg b now =
     reading (\<lambda>st.
     require (established_match en st ch tg now) UnknownTag (\<lambda>(cid, sec, srt).
     act_then (open_established en cid sec srt b (is_durable ch) now) (\<lambda>r.
       require r UnknownTag ret)))"

definition finish_established :: "engine \<Rightarrow> live_channel \<Rightarrow> tag \<Rightarrow> bytes \<Rightarrow> outcome act" where
  "finish_established en ch tg b =
     reading (\<lambda>st.
     act_then (lift (require_tick st)) (\<lambda>now.
     act_then (lift (require_dek en)) (\<lambda>_.
     act_then (reseal_due en) (\<lambda>_.
     act_then (ingest_established en ch tg b now) (\<lambda>persist.
       ret (persist, []))))))"

section \<open>Steps\<close>

lemma rekey_sync_row_body: "device_body (rekey_sync_row s d node) = device_body node \<and> device_wf (rekey_sync_row s d node) = device_wf node"
  by (cases node) (simp_all add: fun_eq_iff)

lemma set_sync_peer_body: "device_body (set_sync_peer d node) = device_body node \<and> device_wf (set_sync_peer d node) = device_wf node"
  by (cases node) (simp_all add: fun_eq_iff)

lemma acts_linked [acting]: "acts (note_device_kick en d)" "acts (note_sync_peer cid actor)"
  unfolding note_device_kick_def note_sync_peer_def
  by (intro acting acts_device rekey_sync_row_body set_sync_peer_body; simp)+

lemma acts_store_arrived [acting]: "acts (store_arrived en tx_id arrived)"
  unfolding store_arrived_def by (intro acting)

lemma store_durable_last_ack_step: "store_step\<^sup>*\<^sup>* st (store_durable_last_ack cid actor_id set_xor st)"
  by (auto simp: store_durable_last_ack_def Let_def split: option.splits intro: s_chains)

lemma acts_store_ack [acting]: "acts (modify (store_durable_last_ack cid actor_id set_xor))"
  by (rule acts_modify) (rule store_durable_last_ack_step)

lemma acts_ack_last [acting]: "acts (ack_last en persistent packet cid)"
  unfolding ack_last_def by (auto intro!: acting split: packet_plain.split)

lemma acts_accept_complete [acting]: "acts (accept_complete en cid packet persistent tx_id packed)"
proof -
  have "acts (case p of EngineKickDevice d \<Rightarrow> note_device_kick en d | _ \<Rightarrow> ret ())" for p
    by (auto intro: acting split: tx_payload.split)
  then show ?thesis unfolding accept_complete_def Let_def by (intro acting)
qed

lemma acts_accept_fragment [acting]: "acts (accept_fragment en cid packet persistent)"
  unfolding accept_fragment_def Let_def by (intro acting)

lemma acts_on_established [acting]: "acts (on_established en cid now packet persistent)"
  unfolding on_established_def by (auto intro!: acting split: packet_plain.split bool.split)

lemma acts_open_as [acting]: "acts (open_as en cid sec srt b persistent now actors)"
  by (induction actors) (auto simp: Let_def intro!: acting)

lemma acts_live_ingest [acting]:
  "acts (open_established en cid sec srt b persistent now)" "acts (ingest_established en ch tg b now)"
  "acts (finish_established en ch tg b)"
proof -
  show *: "acts (open_established en cid sec srt b persistent now)" for cid sec srt b persistent now
    unfolding open_established_def by (intro acting)
  show **: "acts (ingest_established en ch tg b now)" for ch tg b now
    unfolding ingest_established_def by (intro acting *)
  show "acts (finish_established en ch tg b)" unfolding finish_established_def by (intro acting **)
qed

lemma established_labels: "persist_label (established_sort st cid) \<noteq> None \<and> eph_label (established_sort st cid) \<noteq> None"
  by (simp add: established_sort_def)

end
