(* ===== verification/Ingest.thy ===== *)
theory Ingest
  imports Live_Ingest
begin

text \<open>
  Receiving on handshakes (\<open>engine/handshake.rs\<close>): the handshakes a tag belongs to, opening a body with
  skip-ahead, merging the fragment it carries, storing the transaction that completes, and the list
  progress. Storing a sync data key changes the engine, so an operation that may do it is an action
  that threads the engine as well.
\<close>

record handshake_hit =
  hh_cid :: conversation_id
  hh_secret :: secret
  hh_sort :: conversation_sort
  hh_bin :: time_bin
  hh_tag_key :: tag_key

section \<open>Handshakes of a tag\<close>

text \<open>The bins of a handshake: those still to list, and those to listen on, in order.\<close>

definition hit_bins :: "time_bin \<Rightarrow> time_bin \<Rightarrow> time_bin list" where
  "hit_bins start w =
     sort (remdups (map of_nat [unat start ..< Suc (unat (saturating_add w 1))] @ listen_bins w))"

fun hit_channel :: "engine_state \<Rightarrow> live_channel \<Rightarrow> conversation_id \<Rightarrow> ticket \<Rightarrow> bool" where
  "hit_channel st (LcDurable ch) cid t \<longleftrightarrow> ch \<in> set (tk_persistents t)"
| "hit_channel st (LcEph ch) cid t \<longleftrightarrow> (case notice_for st cid of Some n \<Rightarrow> ch \<in> set (ntc_ephemerals n) | None \<Rightarrow> False)"

fun hit_progress :: "engine_state \<Rightarrow> live_channel \<Rightarrow> tag_key \<Rightarrow> bin_progress option" where
  "hit_progress st (LcDurable ch) key = es_bin_progress st (progress_key ch key)"
| "hit_progress st (LcEph _) key = None"

definition row_hits :: "engine \<Rightarrow> engine_state \<Rightarrow> live_channel \<Rightarrow> tag \<Rightarrow> unix_seconds \<Rightarrow> handshake_entry \<Rightarrow> handshake_hit list" where
  "row_hits en st ch tg now row =
     (let t = party_ticket (ref_party (he_party row));
          sec = tk_secret t;
          key = handshake_tag_key (en_suite en) sec;
          start = catch_up_start (hit_progress st ch key) (party_list_from (ref_party (he_party row)))
      in if \<not> hit_channel st ch (he_cid row) t then []
         else
           map (\<lambda>bin. \<lparr>hh_cid = he_cid row, hh_secret = sec, hh_sort = he_sort row, hh_bin = bin, hh_tag_key = key\<rparr>)
             (filter (\<lambda>bin. invite_tag (en_suite en) sec bin = tg) (hit_bins start (time_bin now))))"

definition handshake_hits :: "engine \<Rightarrow> engine_state \<Rightarrow> live_channel \<Rightarrow> tag \<Rightarrow> unix_seconds \<Rightarrow> handshake_hit list" where
  "handshake_hits en st ch tg now = concat (map (row_hits en st ch tg now) (handshake_entries st))"

section \<open>Opening\<close>

definition recv_chain :: "engine_state \<Rightarrow> conversation_id \<Rightarrow> send_chain \<Rightarrow> send_chain" where
  "recv_chain st cid joined =
     (case Option.bind (chains_of st cid) (\<lambda>c. bt_get (pc_recv c) Handshake) of Some c \<Rightarrow> c | None \<Rightarrow> joined)"

definition live_mks :: "unix_seconds \<Rightarrow> cached_mk list \<Rightarrow> cached_mk list" where
  "live_mks now = filter (\<lambda>e. cm_expires_at e > now)"

definition cached_mks :: "engine_state \<Rightarrow> conversation_id \<Rightarrow> unix_seconds \<Rightarrow> cached_mk list" where
  "cached_mks st cid now =
     live_mks now (case Option.bind (chains_of st cid) (\<lambda>c. bt_get (pc_skipped_mks c) Handshake) of Some e \<Rightarrow> e | None \<Rightarrow> [])"

definition open_or_rejoin ::
  "suite \<Rightarrow> send_chain \<Rightarrow> send_chain \<Rightarrow> send_chain option \<Rightarrow> cached_mk list \<Rightarrow> unix_seconds \<Rightarrow> bytes \<Rightarrow> engine_error + opened" where
  "open_or_rejoin s start joined mixed cached now b =
     (case open_at s start mixed cached now b of
        Inr opn \<Rightarrow> Inr opn
      | Inl e \<Rightarrow>
          if e = UnknownTag \<and> (sc_epoch start \<noteq> sc_epoch joined \<or> sc_packet_seq start \<noteq> sc_packet_seq joined \<or>
            sc_root start \<noteq> sc_root joined)
          then open_at s joined None cached now b
          else Inl e)"

text \<open>The receive chain only moves forward; a cached key leaves it where it is.\<close>

definition chain_ahead :: "send_chain \<Rightarrow> send_chain option \<Rightarrow> bool" where
  "chain_ahead new cur =
     (case cur of
        None \<Rightarrow> True
      | Some c \<Rightarrow> sc_epoch new > sc_epoch c \<or> sc_epoch new = sc_epoch c \<and> sc_packet_seq new > sc_packet_seq c)"

definition record_opened :: "opened \<Rightarrow> send_chain \<Rightarrow> cached_mk list \<Rightarrow> packet_chains \<Rightarrow> packet_chains" where
  "record_opened opn start cached ch =
     (let cur = bt_get (pc_recv ch) Handshake in
      ch\<lparr>pc_skipped_mks := (if cached = [] then bt_remove Handshake (pc_skipped_mks ch)
           else bt_insert Handshake cached (pc_skipped_mks ch)),
         pc_recv :=
           (if \<not> op_from_cache opn then
              (if chain_ahead (op_chain opn) cur then bt_insert Handshake (op_chain opn) (pc_recv ch) else pc_recv ch)
            else if cur = None then bt_insert Handshake start (pc_recv ch) else pc_recv ch)\<rparr>)"

fun packet_tx :: "packet_plain \<Rightarrow> tag option" where
  "packet_tx (TxFragMore p) = Some (pfm_tx_id p)"
| "packet_tx (TxFragLast p) = Some (pfl_tx_id p)"
| "packet_tx _ = None"

text \<open>What opening a body leads to: nothing more to store, or a new transaction.\<close>

datatype arrival = Settled "bytes list" | Fresh packet_plain tag durable_body

definition pruning :: "unit act" where
  "pruning = modify prune_cached_mks"

section \<open>Merging\<close>

definition merge_arrived :: "engine \<Rightarrow> conversation_id \<Rightarrow> bool \<Rightarrow> packet_plain \<Rightarrow> tag \<Rightarrow> bytes \<Rightarrow> arrival act" where
  "merge_arrived en cid persistent packet tx_id packed =
     (case decode_body en packed of
        None \<Rightarrow> act_then (modify (store_unlock_failed cid)) (\<lambda>_. ret (Settled []))
      | Some arrived \<Rightarrow>
          act_then (if db_conversation_id arrived \<noteq> cid then modify (rekey_conversation cid (db_conversation_id arrived))
            else ret ()) (\<lambda>_.
          reading (\<lambda>st.
            case body st tx_id of
              Some existing \<Rightarrow>
                if db_payload existing = db_payload arrived then
                  act_then (ack_last en persistent packet (db_conversation_id arrived)) (\<lambda>_.
                  act_then pruning (\<lambda>_.
                    ret (Settled [])))
                else throw Equivocation
            | None \<Rightarrow>
                act_then (handshake_ingest_gate en (db_conversation_id arrived) (db_payload arrived)) (\<lambda>stop.
                  ret (if stop then Settled [] else Fresh packet tx_id arrived)))))"

definition merging :: "conversation_id \<Rightarrow> frag_part \<Rightarrow> bytes option act" where
  "merging cid part =
     reading (\<lambda>st.
       let (r, frags) = merge_frag cid part (es_frags st)
       in act_then (modify (set_frags (\<lambda>_. frags))) (\<lambda>_. lift r))"

definition on_opened :: "engine \<Rightarrow> conversation_id \<Rightarrow> bool \<Rightarrow> packet_plain \<Rightarrow> arrival act" where
  "on_opened en cid persistent packet =
     (case packet of
        XorAck ack \<Rightarrow>
          act_then (if persistent then modify (store_durable_last_ack cid (pxa_actor_id ack) (pxa_set_xor ack)) else ret ()) (\<lambda>_.
          act_then (note_set_xor en cid (pxa_set_xor ack)) (\<lambda>_.
          act_then pruning (\<lambda>_.
            ret (Settled []))))
      | _ \<Rightarrow>
          if is_heal packet then
            act_then (on_heal_packet en cid packet) (\<lambda>_.
            act_then pruning (\<lambda>_.
              ret (Settled [])))
          else
            (case frag_parts packet of
               None \<Rightarrow> act_then pruning (\<lambda>_. ret (Settled []))
             | Some part \<Rightarrow>
                 act_then (merging cid part) (\<lambda>r.
                   case r of
                     None \<Rightarrow> ret (Settled [])
                   | Some packed \<Rightarrow> merge_arrived en cid persistent packet (fp_tx_id part) packed)))"

definition receive :: "engine \<Rightarrow> handshake_hit \<Rightarrow> unix_seconds \<Rightarrow> bytes \<Rightarrow> bool \<Rightarrow> arrival act" where
  "receive en hit now b persistent =
     (let cid = hh_cid hit; s = en_suite en in
      reading (\<lambda>st.
        case failed st cid of
          Some (InviteExpired _) \<Rightarrow> throw WrongPhase
        | Some _ \<Rightarrow> throw UnknownTag
        | None \<Rightarrow>
            act_then (modify (absorb_peer_wraps en cid)) (\<lambda>_.
            act_then (lift (join s (hh_secret hit) (hh_sort hit) [])) (\<lambda>joined.
            reading (\<lambda>st.
            let start = recv_chain st cid joined;
                mixed = mixed_chain en st cid (hh_sort hit) start False;
                cached = cached_mks st cid now in
            case (if persistent then None else ok (open_plain s (eph_mk s start) b)) of
              Some packet \<Rightarrow> act_then (observe_ephemeral en cid now packet) (\<lambda>_. ret (Settled []))
            | None \<Rightarrow>
                act_then (lift (open_or_rejoin s start joined mixed cached now b)) (\<lambda>opn.
                act_then (modify (with_chains (record_opened opn start (live_mks now (cached @ op_skipped opn))) cid)) (\<lambda>_.
                act_then (case (op_from_cache opn, packet_tx (op_packet opn)) of
                    (True, Some tx_id) \<Rightarrow> modify (annotate_cached_mk cid Handshake (op_mk opn) tx_id)
                  | _ \<Rightarrow> ret ()) (\<lambda>_.
                  on_opened en cid persistent (op_packet opn)))))))))"

text \<open>A new transaction is stored, acknowledged, and may make an introduction due.\<close>

definition settle_fresh :: "engine \<Rightarrow> bool \<Rightarrow> packet_plain \<Rightarrow> tag \<Rightarrow> durable_body \<Rightarrow> bytes list act" where
  "settle_fresh en persistent packet tx_id arrived =
     (let cid = db_conversation_id arrived in
      act_then (store_arrived en tx_id arrived) (\<lambda>rec.
      act_then (ack_last en persistent packet cid) (\<lambda>_.
      act_then pruning (\<lambda>_.
      act_then (try_mint_invitee_intro en cid) (\<lambda>a.
      act_then (try_mint_inviter_intro en cid) (\<lambda>b.
        ret (rec # a @ b)))))))"

section \<open>The engine's own key\<close>

definition open_sync_dek :: "engine \<Rightarrow> engine_state \<Rightarrow> bytes \<Rightarrow> engine_error + engine" where
  "open_sync_dek en st ct =
     and_then (ok_or (find_map (\<lambda>b. case db_payload b of Notice n \<Rightarrow> Some (ntc_policy n) | _ \<Rightarrow> None) (bodies st)) WrongPhase) (\<lambda>pol.
     and_then (ok_or (map_option (\<lambda>k. kp_secret (dk_enc k)) (dev_keys (es_device st))) WrongPhase) (\<lambda>sk.
     and_then (open_sync_dek_ct en pol sk ct) (\<lambda>dek.
       Inr (en\<lparr>en_dek := Some (recast dek)\<rparr>))))"

definition hold_sync_dek :: "engine \<Rightarrow> engine_state \<Rightarrow> tx_payload \<Rightarrow> engine_error + engine" where
  "hold_sync_dek en st payload =
     (case payload of SyncDek ct \<Rightarrow> open_sync_dek en st ct | _ \<Rightarrow> Inr en)"

type_synonym 'a engine_act = "engine \<Rightarrow> world \<Rightarrow> (fault + 'a) \<times> engine \<times> world"

definition with_engine :: "(engine \<Rightarrow> 'a act) \<Rightarrow> 'a engine_act" where
  "with_engine m en w = (let (r, w') = m en w in (r, en, w'))"

definition open_and_merge :: "handshake_hit \<Rightarrow> unix_seconds \<Rightarrow> bytes \<Rightarrow> bool \<Rightarrow> bytes list engine_act" where
  "open_and_merge hit now b persistent en w =
     (case receive en hit now b persistent w of
        (Inl e, w') \<Rightarrow> (Inl e, en, w')
      | (Inr (Settled persist), w') \<Rightarrow> (Inr persist, en, w')
      | (Inr (Fresh packet tx_id arrived), w') \<Rightarrow>
          (case hold_sync_dek en (fst w') (db_payload arrived) of
             Inl e \<Rightarrow> (Inl (Err e), en, w')
           | Inr en' \<Rightarrow> with_engine (\<lambda>en. settle_fresh en persistent packet tx_id arrived) en' w'))"

text \<open>The first handshake that opens the body; one that does not know it is passed over.\<close>

fun try_hits :: "handshake_hit list \<Rightarrow> unix_seconds \<Rightarrow> bytes \<Rightarrow> bool \<Rightarrow> bytes list engine_act" where
  "try_hits [] now b persistent en w = (Inr [], en, w)"
| "try_hits (hit # hits) now b persistent en w =
     (case open_and_merge hit now b persistent en w of
        (r, en', w') \<Rightarrow> if r = Inl (Err UnknownTag) then try_hits hits now b persistent en' w' else (r, en', w'))"

definition ingest_known_body :: "handshake_hit list \<Rightarrow> bytes \<Rightarrow> bool \<Rightarrow> bytes list engine_act" where
  "ingest_known_body hits b persistent en w =
     (case require_tick (fst w) of
        Inl e \<Rightarrow> (Inl (Err e), en, w)
      | Inr now \<Rightarrow> try_hits hits now b persistent en w)"

fun ingest_bodies :: "handshake_hit list \<Rightarrow> bytes list \<Rightarrow> bytes list engine_act" where
  "ingest_bodies hits [] en w = (Inr [], en, w)"
| "ingest_bodies hits (b # bs) en w =
     (case ingest_known_body hits b True en w of
        (Inl e, en', w') \<Rightarrow> (Inl e, en', w')
      | (Inr persist, en', w') \<Rightarrow>
          (case ingest_bodies hits bs en' w' of
             (Inl e, en'', w'') \<Rightarrow> (Inl e, en'', w'')
           | (Inr rest, en'', w'') \<Rightarrow> (Inr (persist @ rest), en'', w'')))"

section \<open>Operations\<close>

definition complete_bin :: "durable_channel \<Rightarrow> handshake_hit \<Rightarrow> time_bin \<Rightarrow> bin_progress option \<Rightarrow> bin_progress" where
  "complete_bin ch hit list_from progress =
     (let p = (case progress of Some p \<Rightarrow> p
        | None \<Rightarrow> \<lparr>bp_channel = ch, bp_tag_key = hh_tag_key hit, bp_watermark = None, bp_completed = {}\<rparr>)
      in if (case bp_watermark p of Some w \<Rightarrow> hh_bin hit \<le> w | None \<Rightarrow> False) then p
         else advance_progress (p\<lparr>bp_completed := insert (hh_bin hit) (bp_completed p)\<rparr>) list_from)"

definition complete_list_bin :: "durable_channel \<Rightarrow> handshake_hit \<Rightarrow> unit act" where
  "complete_list_bin ch hit =
     reading (\<lambda>st.
       let list_from = (case list_from_of st (hh_cid hit) of Some b \<Rightarrow> b | None \<Rightarrow> hh_bin hit);
           key = progress_key ch (hh_tag_key hit)
       in modify (set_progress (\<lambda>m. m(key \<mapsto> complete_bin ch hit list_from (m key)))))"

definition ingest_list :: "durable_channel \<Rightarrow> tag \<Rightarrow> bytes list \<Rightarrow> outcome engine_act" where
  "ingest_list ch tg bs en w =
     (case and_then (require_tick (fst w)) (\<lambda>now. and_then (require_dek en) (\<lambda>_. Inr now)) of
        Inl e \<Rightarrow> (Inl (Err e), en, w)
      | Inr now \<Rightarrow>
          (case handshake_hits en (fst w) (LcDurable ch) tg now of
             [] \<Rightarrow> (Inl (Err UnknownTag), en, w)
           | hit # hits \<Rightarrow>
               (case reseal_due en w of
                  (Inl e, w') \<Rightarrow> (Inl e, en, w')
                | (Inr _, w') \<Rightarrow>
                    (case ingest_bodies (hit # hits) bs en w' of
                       (Inl e, en', w'') \<Rightarrow> (Inl e, en', w'')
                     | (Inr persist, en', w'') \<Rightarrow>
                         with_engine (\<lambda>en. act_then (complete_list_bin ch hit) (\<lambda>_. ret (persist, []))) en' w''))))"

text \<open>One body on a durable or ephemeral channel.\<close>

definition ingest_on :: "live_channel \<Rightarrow> tag \<Rightarrow> bytes \<Rightarrow> outcome engine_act" where
  "ingest_on ch tg b en w =
     (case require_tick (fst w) of
        Inl e \<Rightarrow> (Inl (Err e), en, w)
      | Inr now \<Rightarrow>
          let hits = handshake_hits en (fst w) ch tg now in
          if hits = [] then with_engine (\<lambda>en. finish_established en ch tg b) en w
          else
            (case reseal_due en w of
               (Inl e, w') \<Rightarrow> (Inl e, en, w')
             | (Inr _, w') \<Rightarrow>
                 (case ingest_known_body hits b (is_durable ch) en w' of
                    (Inl e, en', w'') \<Rightarrow> (Inl e, en', w'')
                  | (Inr persist, en', w'') \<Rightarrow> (Inr (persist, []), en', w''))))"

definition ingest_packet :: "durable_channel \<Rightarrow> tag \<Rightarrow> bytes \<Rightarrow> outcome engine_act" where
  "ingest_packet ch = ingest_on (LcDurable ch)"

definition ingest_ephemeral_packet :: "ephemeral_channel \<Rightarrow> tag \<Rightarrow> bytes \<Rightarrow> outcome engine_act" where
  "ingest_ephemeral_packet ch tg b en w =
     (case and_then (require_tick (fst w)) (\<lambda>_. require_dek en) of
        Inl e \<Rightarrow> (Inl (Err e), en, w)
      | Inr _ \<Rightarrow> ingest_on (LcEph ch) tg b en w)"

definition write_blob_ack :: "kind \<Rightarrow> address \<Rightarrow> tag \<Rightarrow> bytes \<Rightarrow> outcome act" where
  "write_blob_ack k a tg b =
     reading (\<lambda>st.
       let left = filter (\<lambda>w. \<not> (blp_kind w = k \<and> blp_address w = a \<and> blp_tag w = tg \<and> blp_body w = b)) (es_blob_puts st)
       in act_then (modify (set_blob_puts (\<lambda>_. left))) (\<lambda>_.
            if length left = length (es_blob_puts st) then throw UnknownWrite else ret ([], [])))"

section \<open>Steps\<close>

lemma store_unlock_failed_step: "store_step\<^sup>*\<^sup>* st (store_unlock_failed cid st)"
  by (auto simp: store_unlock_failed_def Let_def intro: s_fail)

lemma acts_ingest_changes [acting]:
  "acts (modify (store_unlock_failed cid))" "acts pruning" "acts (modify (annotate_cached_mk cid actor key tx_id))"
proof -
  show "acts (modify (store_unlock_failed cid))" by (rule acts_modify) (rule store_unlock_failed_step)
  show "acts pruning" unfolding pruning_def
    by (rule acts_modify, unfold prune_cached_mks_def Let_def) (blast intro: s_each)
  show "acts (modify (annotate_cached_mk cid actor key tx_id))"
    by (rule acts_modify, unfold annotate_cached_mk_def) (blast intro: s_chains)
qed

lemma acts_merging [acting]: "acts (merging cid part)"
  unfolding merging_def Let_def by (auto intro!: acting split: prod.split)

lemma acts_settle_fresh [acting]: "acts (settle_fresh en persistent packet tx_id arrived)"
  unfolding settle_fresh_def Let_def by (intro acting)

lemma acts_complete_list_bin [acting]: "acts (complete_list_bin ch hit)"
  unfolding complete_list_bin_def Let_def by (intro acting)

lemma acts_write_blob_ack [acting]: "acts (write_blob_ack k a tg b)"
  unfolding write_blob_ack_def Let_def by (intro acting)

text \<open>Moving a conversation is a step of the engine only.\<close>

lemmas acts_flow = acts_ret acts_throw acts_lift acts_then acts_reading acts_cases acts_if acts_opt_or acts_require acts_expect

lemma acts_rekey: "acts_by engine_step (modify (rekey_conversation frm to))"
  by (rule acts_modify) (blast intro: e_rekey)

lemma acts_merge_arrived: "acts_by engine_step (merge_arrived en cid persistent packet tx_id packed)"
  unfolding merge_arrived_def
  by (intro acts_flow acts_rekey acts_weaken [OF acts_ingest_changes(1)] acts_weaken [OF acts_ingest_changes(2)]
      acts_weaken [OF acts_ack_last] acts_weaken [OF acts_handshake_gate])

lemma acts_on_opened: "acts_by engine_step (on_opened en cid persistent packet)"
proof -
  note weak = acts_weaken [OF acts_store_ack] acts_weaken [OF acts_note_set_xor] acts_weaken [OF acts_ingest_changes(2)]
    acts_weaken [OF acts_on_heal_packet] acts_weaken [OF acts_merging] acts_merge_arrived
  have parts: "acts_by engine_step (case frag_parts packet of None \<Rightarrow> act_then pruning (\<lambda>_. ret (Settled []))
      | Some part \<Rightarrow> act_then (merging cid part) (\<lambda>r. case r of None \<Rightarrow> ret (Settled [])
          | Some packed \<Rightarrow> merge_arrived en cid persistent packet (fp_tx_id part) packed))"
    by (intro acts_flow weak)
  show ?thesis
    unfolding on_opened_def by (cases packet) (simp_all only: packet_plain.case, (intro acts_flow weak parts)+)
qed

lemma acts_receive: "acts_by engine_step (receive en hit now b persistent)"
proof -
  have annotate: "acts (case (c, t) of (True, Some tx_id) \<Rightarrow> modify (annotate_cached_mk cid Handshake key tx_id) | _ \<Rightarrow> ret ())"
    for c t cid key by (cases c; cases t) (auto intro: acting)
  have failures: "acts_by engine_step (case f of None \<Rightarrow> m | Some r \<Rightarrow> (case r of InviteExpired _ \<Rightarrow> throw WrongPhase | _ \<Rightarrow> throw UnknownTag))"
    if "acts_by engine_step m" for f and m :: "arrival act"
    using that by (auto intro: acting split: option.split handshake_failure.split)
  show ?thesis
    unfolding receive_def Let_def
    by (intro failures acts_flow acts_weaken [OF acts_absorb] acts_weaken [OF acts_with_chains] acts_on_opened
        acts_weaken [OF annotate] acts_weaken [OF acts_observe_ephemeral])
qed

definition engine_acts :: "'a engine_act \<Rightarrow> bool" where
  "engine_acts m \<longleftrightarrow> (\<forall>en w r en' w'. m en w = (r, en', w') \<longrightarrow> engine_step\<^sup>*\<^sup>* (fst w) (fst w'))"

lemma engine_actsD: "engine_acts m \<Longrightarrow> m en w = (r, en', w') \<Longrightarrow> engine_step\<^sup>*\<^sup>* (fst w) (fst w')"
  unfolding engine_acts_def by blast

lemma acts_byE: "acts_by R m \<Longrightarrow> m w = (r, w') \<Longrightarrow> R\<^sup>*\<^sup>* (fst w) (fst w')"
  unfolding acts_by_def by blast

lemma engine_acts_with: "(\<And>en. acts_by engine_step (m en)) \<Longrightarrow> engine_acts (with_engine m)"
  unfolding engine_acts_def with_engine_def Let_def using acts_byE by (fastforce split: prod.splits)

lemma engine_acts_open: "engine_acts (open_and_merge hit now b persistent)"
  unfolding engine_acts_def
proof (intro allI impI)
  fix en w r en' w'
  assume run: "open_and_merge hit now b persistent en w = (r, en', w')"
  obtain a w1 where rc: "receive en hit now b persistent w = (a, w1)" by (cases "receive en hit now b persistent w")
  have 1: "engine_step\<^sup>*\<^sup>* (fst w) (fst w1)" using acts_byE [OF acts_receive rc] .
  have 2: "engine_step\<^sup>*\<^sup>* (fst w1) (fst w'')"
    if "with_engine (\<lambda>en. settle_fresh en persistent p t d) e w1 = (r', e', w'')" for p t d e r' e' w''
    using engine_actsD [OF engine_acts_with that] acts_weaken [OF acts_settle_fresh] by blast
  show "engine_step\<^sup>*\<^sup>* (fst w) (fst w')"
    using run 1 rtranclp_trans [OF 1 2]
    by (auto simp: open_and_merge_def rc split: sum.splits arrival.splits)
qed

lemma engine_acts_try: "engine_acts (try_hits hits now b persistent)"
proof (induction hits)
  case Nil
  then show ?case by (simp add: engine_acts_def)
next
  case (Cons hit hits)
  show ?case unfolding engine_acts_def
  proof (intro allI impI)
    fix en w r en' w'
    assume run: "try_hits (hit # hits) now b persistent en w = (r, en', w')"
    obtain a e1 w1 where o: "open_and_merge hit now b persistent en w = (a, e1, w1)" by (cases "open_and_merge hit now b persistent en w")
    have 1: "engine_step\<^sup>*\<^sup>* (fst w) (fst w1)" using engine_actsD [OF engine_acts_open o] .
    show "engine_step\<^sup>*\<^sup>* (fst w) (fst w')"
    proof (cases "a = Inl (Err UnknownTag)")
      case True
      then have "try_hits hits now b persistent e1 w1 = (r, en', w')" using run o by simp
      then have "engine_step\<^sup>*\<^sup>* (fst w1) (fst w')" by (rule engine_actsD [OF Cons])
      with 1 show ?thesis by (rule rtranclp_trans)
    next
      case False
      then have "w' = w1" using run o by simp
      then show ?thesis using 1 by simp
    qed
  qed
qed

lemma engine_acts_known: "engine_acts (ingest_known_body hits b persistent)"
  using engine_actsD [OF engine_acts_try] by (auto simp: engine_acts_def ingest_known_body_def split: sum.splits)

lemma engine_acts_bodies: "engine_acts (ingest_bodies hits bs)"
proof (induction bs)
  case (Cons b bs)
  show ?case unfolding engine_acts_def
  proof (intro allI impI)
    fix en w r en' w'
    assume run: "ingest_bodies hits (b # bs) en w = (r, en', w')"
    obtain a e1 w1 where o: "ingest_known_body hits b True en w = (a, e1, w1)" by (cases "ingest_known_body hits b True en w")
    obtain c e2 w2 where t: "ingest_bodies hits bs e1 w1 = (c, e2, w2)" by (cases "ingest_bodies hits bs e1 w1")
    have "engine_step\<^sup>*\<^sup>* (fst w) (fst w1)" "engine_step\<^sup>*\<^sup>* (fst w1) (fst w2)"
      using engine_actsD [OF engine_acts_known o] engine_actsD [OF Cons t] by auto
    then show "engine_step\<^sup>*\<^sup>* (fst w) (fst w')"
      using run o t by (auto split: sum.splits intro: rtranclp_trans)
  qed
qed (simp add: engine_acts_def)

lemma engine_acts_on: "engine_acts (ingest_on ch tg b)"
  unfolding engine_acts_def
proof (intro allI impI)
  fix en w r en' w'
  assume run: "ingest_on ch tg b en w = (r, en', w')"
  obtain a w1 where rs: "reseal_due en w = (a, w1)" by (cases "reseal_due en w")
  have 1: "engine_step\<^sup>*\<^sup>* (fst w) (fst w1)" using acts_byE [OF acts_weaken [OF acts_reseal_due] rs] .
  have 2: "engine_step\<^sup>*\<^sup>* (fst w) (fst w'')" if "ingest_known_body hits b p en w1 = (r', e', w'')" for hits p r' e' w''
    using 1 engine_actsD [OF engine_acts_known that] by (rule rtranclp_trans)
  have 3: "engine_step\<^sup>*\<^sup>* (fst w) (fst w')" if "with_engine (\<lambda>en. finish_established en ch tg b) en w = (r, en', w')"
    using engine_actsD [OF engine_acts_with that] acts_weaken [OF acts_live_ingest(3)] by blast
  show "engine_step\<^sup>*\<^sup>* (fst w) (fst w')"
    using run 1 2 3 by (auto simp: ingest_on_def rs Let_def split: sum.splits if_splits prod.splits)
qed

lemma engine_acts_list: "engine_acts (ingest_list ch tg bs)"
  unfolding engine_acts_def
proof (intro allI impI)
  fix en w r en' w'
  assume run: "ingest_list ch tg bs en w = (r, en', w')"
  obtain a w1 where rs: "reseal_due en w = (a, w1)" by (cases "reseal_due en w")
  have 1: "engine_step\<^sup>*\<^sup>* (fst w) (fst w1)" using acts_byE [OF acts_weaken [OF acts_reseal_due] rs] .
  have 2: "engine_step\<^sup>*\<^sup>* (fst w) (fst w'')" if "ingest_bodies hits bs en w1 = (r', e', w'')" for hits r' e' w''
    using 1 engine_actsD [OF engine_acts_bodies that] by (rule rtranclp_trans)
  have 3: "engine_step\<^sup>*\<^sup>* (fst v) (fst v')"
    if "with_engine (\<lambda>en. act_then (complete_list_bin ch hit) (\<lambda>_. ret (p, q))) e v = (r', e', v')"
    for e e' r' v v' hit and p :: "bytes list" and q :: "ping_target list"
    by (rule engine_actsD [OF engine_acts_with that]) (intro acts_flow acts_weaken [OF acts_complete_list_bin])
  show "engine_step\<^sup>*\<^sup>* (fst w) (fst w')"
    using run 1 2 rtranclp_trans [OF 2 3]
    by (auto simp: ingest_list_def rs split: sum.splits list.splits prod.splits)
qed

lemma engine_acts_packets: "engine_acts (ingest_packet dch tg b)" "engine_acts (ingest_ephemeral_packet ech tg b)"
  using engine_actsD [OF engine_acts_on]
  by (auto simp: ingest_packet_def engine_acts_on engine_acts_def [of "ingest_ephemeral_packet ech tg b"]
      ingest_ephemeral_packet_def split: sum.splits)

end
