(* ===== verification/Identity_Ops.thy ===== *)
theory Identity_Ops
  imports Ingest
begin

text \<open>
  Users, identities, names and devices (\<open>engine/identity.rs\<close>). Every operation mints a transaction of
  the engine's own conversation and then changes the rows.
\<close>

definition has_engine_init :: "engine_state \<Rightarrow> bool" where
  "has_engine_init st = list_ex (\<lambda>b. db_payload b = EngineInit) (bodies st)"

definition init_payloads :: "engine_state \<Rightarrow> tx_payload list" where
  "init_payloads st = (if has_engine_init st then [] else [EngineInit])"

text \<open>The defaults are those the engine was made with, whatever defaults were set since.\<close>

definition get_defaults :: "engine \<Rightarrow> engine_state \<Rightarrow> defaults" where
  "get_defaults en _ = en_defaults en"

definition set_defaults :: "engine \<Rightarrow> defaults \<Rightarrow> outcome act" where
  "set_defaults en df =
     act_then (lift (engine_secret en)) (\<lambda>sec.
     reading (\<lambda>st.
     act_then (mutate en False sec (init_payloads st @ [EngineSetDefaults df])) (\<lambda>persist.
       ret (persist, []))))"

definition create_user :: "engine \<Rightarrow> (outcome \<times> user_id) act" where
  "create_user en =
     act_then (lift (engine_secret en)) (\<lambda>sec.
     act_then random32 (\<lambda>r.
     reading (\<lambda>st.
     act_then (mutate en True sec (init_payloads st @ [EngineCreateUser (recast r)])) (\<lambda>persist.
     act_then (modify (ensure_user (recast r))) (\<lambda>_.
       ret ((persist, []), recast r))))))"

definition create_identity :: "engine \<Rightarrow> user_id \<Rightarrow> policy \<Rightarrow> (outcome \<times> identity_id) act" where
  "create_identity en user pol =
     act_then (lift (engine_secret en)) (\<lambda>sec.
     reading (\<lambda>st.
       if \<not> list_ex (\<lambda>b. db_payload b = EngineCreateUser user) (bodies st) then throw UnknownIds
       else
         act_then random32 (\<lambda>r.
         act_then random_pair (\<lambda>kseed.
         case st_kem_generate (en_suite en) pol kseed of
           Inl _ \<Rightarrow> throw MalformedPayload
         | Inr enc \<Rightarrow>
             act_then random_pair (\<lambda>sseed.
             case st_sign_generate (en_suite en) pol sseed of
               Inl _ \<Rightarrow> throw MalformedPayload
             | Inr sig \<Rightarrow>
                 act_then (mutate en True sec [EngineCreateIdentity user (recast r) pol enc sig]) (\<lambda>persist.
                 act_then (modify (ensure_identity user (recast r))) (\<lambda>_.
                   ret ((persist, []), recast r))))))))"

definition delete_user :: "engine \<Rightarrow> user_id \<Rightarrow> outcome act" where
  "delete_user en user =
     act_then (lift (engine_secret en)) (\<lambda>sec.
     act_then (mutate en False sec [EngineDeleteUser user]) (\<lambda>persist.
     act_then (modify (remove_user user)) (\<lambda>_.
       ret (persist, []))))"

definition delete_identity :: "engine \<Rightarrow> user_id \<Rightarrow> identity_id \<Rightarrow> outcome act" where
  "delete_identity en user ident =
     act_then (lift (engine_secret en)) (\<lambda>sec.
     act_then (mutate en False sec [EngineDeleteIdentity user ident]) (\<lambda>persist.
     act_then (modify (remove_identity user ident)) (\<lambda>_.
       ret (persist, []))))"

text \<open>\<open>ensure_identity(...)\<close> with an assignment to one of its fields.\<close>

definition set_identity :: "(identity \<Rightarrow> identity) \<Rightarrow> user_id \<Rightarrow> identity_id \<Rightarrow> unit act" where
  "set_identity f user ident =
     act_then (modify (ensure_identity user ident)) (\<lambda>_. modify (identity_mut f user ident))"

definition set_display_name :: "engine \<Rightarrow> user_id \<Rightarrow> identity_id \<Rightarrow> string \<Rightarrow> outcome act" where
  "set_display_name en user ident name =
     act_then (lift (map_err (\<lambda>_. MalformedDisplayName) (display_name_try_from name))) (\<lambda>name.
     act_then (lift (engine_secret en)) (\<lambda>sec.
     act_then (mutate en True sec [EngineSetDisplayName user ident name]) (\<lambda>persist.
     act_then (set_identity (\<lambda>i. i\<lparr>idn_name := Some name\<rparr>) user ident) (\<lambda>_.
     act_then (mint_pending_intros en) (\<lambda>extra.
       ret (persist @ extra, []))))))"

definition unset_display_name :: "engine \<Rightarrow> user_id \<Rightarrow> identity_id \<Rightarrow> outcome act" where
  "unset_display_name en user ident =
     act_then (lift (engine_secret en)) (\<lambda>sec.
     act_then (mutate en False sec [EngineUnsetDisplayName user ident]) (\<lambda>persist.
     act_then (modify (identity_mut (\<lambda>i. i\<lparr>idn_name := None\<rparr>) user ident)) (\<lambda>_.
       ret (persist, []))))"

definition set_profile_pic :: "engine \<Rightarrow> user_id \<Rightarrow> identity_id \<Rightarrow> bytes option \<Rightarrow> outcome act" where
  "set_profile_pic en user ident pic =
     act_then (lift (group_photo pic)) (\<lambda>pic.
     act_then (lift (engine_secret en)) (\<lambda>sec.
     act_then (mutate en True sec [EngineSetProfilePic user ident pic]) (\<lambda>persist.
     act_then (set_identity (\<lambda>i. i\<lparr>idn_pic := pic\<rparr>) user ident) (\<lambda>_.
       ret (persist, [])))))"

text \<open>The mutation runs on a copy: before the first tick only the name of the state as it was changes.\<close>

definition or_restore :: "'a act \<Rightarrow> (engine_error \<Rightarrow> 'a act option) \<Rightarrow> 'a act" where
  "or_restore m h w =
     (case m w of
        (Inl (Err e), w') \<Rightarrow> (case h e of Some k \<Rightarrow> k (fst w, snd w') | None \<Rightarrow> (Inl (Err e), w'))
      | other \<Rightarrow> other)"

definition set_device_name_op :: "engine \<Rightarrow> string \<Rightarrow> outcome act" where
  "set_device_name_op en name =
     act_then (lift (map_err (\<lambda>_. MalformedDisplayName) (display_name_try_from name))) (\<lambda>name.
     act_then (lift (engine_secret en)) (\<lambda>sec.
     act_then (or_restore
         (act_then (mutate en True sec [EngineSetDeviceName name]) (\<lambda>persist. ret (Some persist)))
         (\<lambda>e. if e = NotTicked then Some (ret None) else None)) (\<lambda>r.
     act_then (modify (set_device_name (Some name))) (\<lambda>_.
       case r of
         Some persist \<Rightarrow> act_then (mint_pending_intros en) (\<lambda>extra. ret (persist @ extra, []))
       | None \<Rightarrow> ret ([], [])))))"

definition kick_device :: "engine \<Rightarrow> device_id \<Rightarrow> outcome act" where
  "kick_device en d =
     reading (\<lambda>st.
       if is_this_device st d then throw WrongPhase
       else if \<not> list_ex (\<lambda>(_, node). kicked_peer d node) (dev_convs st) then throw UnknownIds
       else
         act_then (lift (engine_secret en)) (\<lambda>sec.
         act_then (mutate en True sec [EngineKickDevice d]) (\<lambda>persist.
         act_then (note_device_kick en d) (\<lambda>_.
           ret (persist, [])))))"

definition leave_sync :: "outcome act" where
  "leave_sync =
     act_then (modify (retain_device (\<lambda>_. False) id)) (\<lambda>_.
     act_then (modify (set_dek_ct None)) (\<lambda>_.
       ret ([], [])))"

definition wrap_sync_dek :: "engine \<Rightarrow> conversation_id \<Rightarrow> unit act" where
  "wrap_sync_dek en handshake =
     reading (\<lambda>st.
     require (notice_for st handshake) WrongPhase (\<lambda>notice.
     require (invitee_intro_for st handshake) WrongPhase (\<lambda>intro.
     act_then (lift (require_dek en)) (\<lambda>dek.
     act_then (seal_sync_dek en (ntc_policy notice) (enc_pk_bytes (iei_encryption_pk intro)) (as_bytes dek)) (\<lambda>ct.
       modify (set_dek_ct (Some ct)))))))"

definition set_conversation_prefs :: "engine \<Rightarrow> conversation_ref \<Rightarrow> conversation_prefs \<Rightarrow> outcome act" where
  "set_conversation_prefs en ids prefs =
     reading (\<lambda>st.
     act_then (lift (gate_chat st ids)) (\<lambda>_.
     act_then (lift (group_disappear_blocked st ids (cvp_disappear_after prefs))) (\<lambda>_.
       let payload = Prefs \<lparr>owp_read_receipts = cvp_read_receipts prefs, owp_online_visible = cvp_online_visible prefs,
             owp_send_typing = cvp_send_typing prefs, owp_disappear_after = cvp_disappear_after prefs,
             owp_wake = cvp_wake prefs\<rparr>
       in act_then (mint_on en ids payload) (\<lambda>persist.
          reading (\<lambda>st.
            if group_live_at st (cr_conversation_id ids) \<noteq> None then
              act_then (lift (conv_secret st (cr_conversation_id ids))) (\<lambda>sec.
                finish_chat en persist (cr_conversation_id ids) sec payload)
            else ret (persist, []))))))"

section \<open>Steps\<close>

lemma acts_set_identity [acting]:
  "acts (set_identity (\<lambda>i. i\<lparr>idn_name := name\<rparr>) user ident)" "acts (set_identity (\<lambda>i. i\<lparr>idn_pic := pic\<rparr>) user ident)"
  "acts (modify (identity_mut (\<lambda>i. i\<lparr>idn_name := name\<rparr>) user ident))"
  unfolding set_identity_def by (intro acting acts_rename; simp)+

lemma acts_or_restore [acting]:
  assumes "acts_by R m" "\<And>e k. h e = Some k \<Longrightarrow> acts_by R k"
  shows "acts_by R (or_restore m h)"
proof (rule acts_byI)
  fix st g r st' g'
  assume run: "or_restore m h (st, g) = (r, st', g')"
  obtain r1 st1 g1 where m: "m (st, g) = (r1, st1, g1)" by (cases "m (st, g)")
  have 1: "R\<^sup>*\<^sup>* st st1" by (rule acts_byD [OF assms(1) m])
  show "R\<^sup>*\<^sup>* st st'"
    using run 1 acts_byD [OF assms(2)] by (auto simp: or_restore_def m split: sum.splits fault.splits option.splits)
qed

lemma acts_identity_ops [acting]:
  "acts (set_defaults en df)" "acts (create_user en)" "acts (create_identity en user pol)"
  "acts (delete_user en user)" "acts (delete_identity en user ident)" "acts (set_display_name en user ident name)"
  "acts (unset_display_name en user ident)" "acts (set_profile_pic en user ident pic)"
  unfolding set_defaults_def create_user_def create_identity_def delete_user_def delete_identity_def
    set_display_name_def unset_display_name_def set_profile_pic_def
  by (intro acting)+

lemma acts_set_device_name [acting]: "acts (set_device_name_op en name)"
  unfolding set_device_name_op_def by (intro acting) (auto intro: acting split: if_splits)

lemma acts_device_ops [acting]:
  "acts (kick_device en d)" "acts leave_sync" "acts (wrap_sync_dek en handshake)" "acts (set_conversation_prefs en ids prefs)"
  unfolding kick_device_def leave_sync_def wrap_sync_dek_def set_conversation_prefs_def Let_def
  by (intro acting acts_device; simp)+

end
