(* ===== verification/Session_Ops.thy ===== *)
theory Session_Ops
  imports Identity_Ops
begin

text \<open>
  Confirming, rejecting, deleting and sending (\<open>engine/session.rs\<close>).
\<close>

section \<open>Deleting and deciding\<close>

definition forget_progress :: "durable_channel list \<Rightarrow> tag_key \<Rightarrow> (bin_key \<rightharpoonup> bin_progress) \<Rightarrow> (bin_key \<rightharpoonup> bin_progress)" where
  "forget_progress chs key m = foldl (\<lambda>m ch. m(progress_key ch key := None)) m chs"

definition forget_frags :: "conversation_id \<Rightarrow> frags \<Rightarrow> frags" where
  "forget_frags cid f t = (case f t of Some e \<Rightarrow> if fs_conversation_id e \<noteq> cid then Some e else None | None \<Rightarrow> None)"

definition delete_conversation :: "engine \<Rightarrow> conversation_ref \<Rightarrow> outcome act" where
  "delete_conversation en ids =
     (let cid = cr_conversation_id ids in
      act_then (delete_group en ids) (\<lambda>r.
        case r of
          Some out \<Rightarrow> ret out
        | None \<Rightarrow>
            reading (\<lambda>st.
              if established_secret st cid \<noteq> None then
                act_then (if is_sync st cid then ret () else lift (require_ids st ids)) (\<lambda>_.
                act_then (modify (drop_row cid)) (\<lambda>_.
                  ret ([], [])))
              else
                act_then (lift (require_ids st ids)) (\<lambda>_.
                require (ticket_of st cid) UnknownIds (\<lambda>t.
                act_then (modify (drop_row cid)) (\<lambda>_.
                act_then (modify (set_frags (forget_frags cid))) (\<lambda>_.
                act_then (modify (set_progress (forget_progress (tk_persistents t)
                    (handshake_tag_key (en_suite en) (tk_secret t))))) (\<lambda>_.
                  ret ([], [])))))))))"

definition confirm_established :: "engine \<Rightarrow> conversation_ref \<Rightarrow> outcome act" where
  "confirm_established en ids =
     (let cid = cr_conversation_id ids in
      act_then (require_confirming en ids) (\<lambda>_.
      reading (\<lambda>st.
        if is_sync st cid then
          act_then (lift (conv_secret st cid)) (\<lambda>sec.
          act_then (mutate_on en sec cid [Confirm]) (\<lambda>persist.
          act_then (spawn_child en cid) (\<lambda>_.
            if is_inviter_at st cid then
              act_then (wrap_sync_dek en cid) (\<lambda>_.
              reading (\<lambda>st.
              require (dev_dek_ct (es_device st)) WrongPhase (\<lambda>ct.
              act_then (merge_tx en sec cid (SyncDek ct)) (\<lambda>(tx_id, _, rec).
              act_then (post_handshake_packets en cid sec tx_id) (\<lambda>_.
                ret (persist @ [rec], []))))))
            else ret (persist, []))))
        else
          act_then (mint_on en ids Confirm) (\<lambda>persist.
          act_then (spawn_child en cid) (\<lambda>_.
            ret (persist, []))))))"

definition reject_established :: "engine \<Rightarrow> conversation_ref \<Rightarrow> outcome act" where
  "reject_established en ids =
     (let cid = cr_conversation_id ids in
      act_then (require_confirming en ids) (\<lambda>_.
      reading (\<lambda>st.
      act_then
        (if is_sync st cid then act_then (lift (conv_secret st cid)) (\<lambda>sec. mutate_on en sec cid [Reject])
         else mint_on en ids Reject) (\<lambda>persist.
      act_then (modify (state_fail cid ConfirmationRejected)) (\<lambda>_.
        ret (persist, []))))))"

definition set_group_name :: "engine \<Rightarrow> conversation_ref \<Rightarrow> string \<Rightarrow> outcome act" where
  "set_group_name en ids name =
     act_then (lift (map_err (\<lambda>_. MalformedDisplayName) (display_name_try_from name))) (rename_group en ids)"

definition set_group_photo :: "engine \<Rightarrow> conversation_ref \<Rightarrow> bytes option \<Rightarrow> outcome act" where
  "set_group_photo en ids photo = act_then (lift (group_photo photo)) (rephoto_group en ids)"

section \<open>Chat\<close>

text \<open>What the chat operations share: the gate, the secret, the transaction and its delivery.\<close>

definition send_chat :: "engine \<Rightarrow> conversation_ref \<Rightarrow> (engine_state \<Rightarrow> tx_payload) \<Rightarrow> outcome act" where
  "send_chat en ids payload_of =
     (let cid = cr_conversation_id ids in
      reading (\<lambda>st.
      act_then (lift (gate_chat st ids)) (\<lambda>_.
      act_then (lift (conv_secret st cid)) (\<lambda>sec.
      act_then (mint_on en ids (payload_of st)) (\<lambda>persist.
        finish_chat en persist cid sec (payload_of st))))))"

definition send_text :: "engine \<Rightarrow> conversation_ref \<Rightarrow> string \<Rightarrow> tag option \<Rightarrow> outcome act" where
  "send_text en ids b reply_to =
     act_then (lift (chat_text b)) (\<lambda>_.
       send_chat en ids (\<lambda>st. text_payload en st (cr_conversation_id ids) b reply_to))"

definition edit_message :: "engine \<Rightarrow> conversation_ref \<Rightarrow> tag \<Rightarrow> string \<Rightarrow> outcome act" where
  "edit_message en ids target b =
     act_then (lift (chat_text b)) (\<lambda>_. send_chat en ids (\<lambda>_. Edit \<lparr>edt_target = target, edt_body = b\<rparr>))"

definition remove_message :: "engine \<Rightarrow> conversation_ref \<Rightarrow> tag \<Rightarrow> outcome act" where
  "remove_message en ids target = send_chat en ids (\<lambda>_. Remove target)"

definition send_reaction :: "engine \<Rightarrow> conversation_ref \<Rightarrow> tag \<Rightarrow> string \<Rightarrow> bool \<Rightarrow> outcome act" where
  "send_reaction en ids target emoji add =
     act_then (lift (chat_emoji emoji)) (\<lambda>_.
       send_chat en ids (\<lambda>_. Reaction \<lparr>rct_target = target, rct_emoji = emoji, rct_add = add\<rparr>))"

definition send_read :: "engine \<Rightarrow> conversation_ref \<Rightarrow> tag \<Rightarrow> outcome act" where
  "send_read en ids up_to = send_chat en ids (\<lambda>_. Read up_to)"

definition send_delivered :: "engine \<Rightarrow> conversation_ref \<Rightarrow> tag \<Rightarrow> outcome act" where
  "send_delivered en ids up_to = send_chat en ids (\<lambda>_. Delivered up_to)"

definition send_signal :: "engine \<Rightarrow> conversation_ref \<Rightarrow> bool option \<Rightarrow> outcome act" where
  "send_signal en ids composing =
     (let cid = cr_conversation_id ids in
      reading (\<lambda>st.
      act_then (if is_sync st cid then ret () else lift (require_ids st ids)) (\<lambda>_.
      act_then (lift (require_signal st cid)) (\<lambda>_.
      act_then (lift (conv_secret st cid)) (\<lambda>sec.
      act_then (post_signal en cid sec composing) (\<lambda>_.
        ret ([], [])))))))"

definition send_typing :: "engine \<Rightarrow> conversation_ref \<Rightarrow> bool \<Rightarrow> outcome act" where
  "send_typing en ids composing = send_signal en ids (Some composing)"

definition send_presence :: "engine \<Rightarrow> conversation_ref \<Rightarrow> outcome act" where
  "send_presence en ids = send_signal en ids None"

section \<open>Media\<close>

record media_draft =
  mdr_media_bytes :: bytes
  mdr_mime :: string
  mdr_filename :: string
  mdr_kind :: kind
  mdr_address :: address

definition names_ok :: "media_draft list \<Rightarrow> engine_error + unit" where
  "names_ok atts =
     foldl (\<lambda>r att. and_then r (\<lambda>_. and_then (media_name (mdr_mime att) 128) (\<lambda>_. media_name (mdr_filename att) 256)))
       (Inr ()) atts"

definition put_media ::
  "engine \<Rightarrow> conversation_id \<Rightarrow> secret \<Rightarrow> string option \<Rightarrow> tag option \<Rightarrow> media_draft \<Rightarrow> tx_payload list act" where
  "put_media en cid sec caption reply_to att =
     (let hash = media_hash en (mdr_media_bytes att) in
      act_then random32 (\<lambda>r.
      act_then (seal_media en sec hash (mdr_media_bytes att)) (\<lambda>sealed.
      act_then (modify (set_blob_puts (\<lambda>ps. ps @ [\<lparr>blp_kind = mdr_kind att, blp_address = mdr_address att,
          blp_tag = recast r, blp_body = sealed\<rparr>]))) (\<lambda>_.
      reading (\<lambda>st.
        ret [Media \<lparr>med_mime = mdr_mime att, med_filename = mdr_filename att, med_hash = hash,
          med_kind = mdr_kind att, med_address = mdr_address att, med_tag = recast r, med_caption = caption,
          med_reply_to = reply_to, med_expire_at = expire_at en st cid\<rparr>])))))"

definition send_media ::
  "engine \<Rightarrow> conversation_ref \<Rightarrow> media_draft list \<Rightarrow> tag option \<Rightarrow> string option \<Rightarrow> outcome act" where
  "send_media en ids atts reply_to caption =
     (let cid = cr_conversation_id ids in
      if atts = [] \<or> length atts > 4 then throw MalformedPayload
      else
        act_then (lift (case caption of Some c \<Rightarrow> chat_text c | None \<Rightarrow> Inr ())) (\<lambda>_.
        act_then (lift (names_ok atts)) (\<lambda>_.
        reading (\<lambda>st.
        act_then (lift (gate_chat st ids)) (\<lambda>_.
        act_then (lift (conv_secret st cid)) (\<lambda>sec.
        act_then (collect (put_media en cid sec caption reply_to) atts) (\<lambda>payloads.
        act_then (mutate_on en sec cid payloads) (\<lambda>persist.
        act_then (deliver_live en cid sec payloads) (\<lambda>_.
        act_then (each (\<lambda>payload. remember_sender cid (tx_id_of en sec payload)) payloads) (\<lambda>_.
        reading (\<lambda>st.
        act_then (fill_ping st cid) (\<lambda>pings.
          ret (persist, pings)))))))))))))"

section \<open>Acknowledged writes\<close>

definition write_ack :: "engine \<Rightarrow> durable_channel \<Rightarrow> tag \<Rightarrow> bytes \<Rightarrow> outcome act" where
  "write_ack en ch tg b =
     reading (\<lambda>st.
       let left = filter (\<lambda>w. \<not> (dw_channel w = ch \<and> dw_tag w = tg \<and> dw_body w = b)) (es_writes st)
       in act_then (modify (set_writes (\<lambda>_. left))) (\<lambda>_.
          if length left = length (es_writes st) then throw UnknownWrite
          else
            act_then (advance_ack_phases en) (\<lambda>_.
              ret ([], []))))"

section \<open>Steps\<close>

lemma acts_delete [acting]: "acts (delete_conversation en ids)"
  unfolding delete_conversation_def Let_def by (intro acting)

lemma acts_decisions [acting]: "acts (confirm_established en ids)" "acts (reject_established en ids)"
  unfolding confirm_established_def reject_established_def Let_def by (intro acting)+

lemma acts_group_names [acting]: "acts (set_group_name en ids name)" "acts (set_group_photo en ids photo)"
  unfolding set_group_name_def set_group_photo_def by (intro acting)+

lemma acts_send_chat [acting]: "acts (send_chat en ids payload_of)"
  unfolding send_chat_def Let_def by (intro acting)

lemma acts_send_signal [acting]: "acts (send_signal en ids composing)"
  unfolding send_signal_def Let_def by (intro acting)

lemma acts_chat_ops [acting]:
  "acts (send_text en ids b reply_to)" "acts (edit_message en ids target b)" "acts (remove_message en ids target)"
  "acts (send_reaction en ids target emoji add)" "acts (send_read en ids up_to)" "acts (send_delivered en ids up_to)"
  "acts (send_typing en ids composing)" "acts (send_presence en ids)"
  unfolding send_text_def edit_message_def remove_message_def send_reaction_def send_read_def send_delivered_def
    send_typing_def send_presence_def
  by (intro acting)+

lemma acts_put_media [acting]: "acts (put_media en cid sec caption reply_to att)"
  unfolding put_media_def Let_def by (intro acting)

lemma acts_send_media [acting]: "acts (send_media en ids atts reply_to caption)"
  unfolding send_media_def Let_def by (intro acting)

lemma acts_write_ack [acting]: "acts (write_ack en ch tg b)"
  unfolding write_ack_def Let_def by (intro acting)

end
