(* ===== verification/Invite.thy ===== *)
theory Invite
  imports Session_Ops
begin

text \<open>
  Tickets (\<open>engine/invite.rs\<close>): creating and receiving them for direct messages and for linked devices,
  the host string of a ticket, and the lists of users and identities.
\<close>

definition invite_checks :: "engine \<Rightarrow> unix_seconds \<Rightarrow> u64 \<Rightarrow> engine_error + unit" where
  "invite_checks en now expires = (if expires \<le> now then Inl ExpiresNotAfterNow else Inr ())"

definition invite_channels :: "engine \<Rightarrow> durable_channel list option \<Rightarrow> engine_error + durable_channel list" where
  "invite_channels en persistents =
     (let chs = (case persistents of Some chs \<Rightarrow> chs | None \<Rightarrow> df_persistents (en_defaults en))
      in and_then (map_err (\<lambda>_. ChannelBounds) (check_channel_bounds chs [])) (\<lambda>_. Inr chs))"

definition generate_pair :: "engine \<Rightarrow> policy \<Rightarrow> key_pair act" where
  "generate_pair en pol =
     act_then random_pair (\<lambda>seed.
       case st_kem_generate (en_suite en) pol seed of Inl _ \<Rightarrow> throw MalformedPayload | Inr kp \<Rightarrow> ret kp)"

text \<open>The notice of an invite, stored under the row that \<open>put\<close> makes and posted. The sequence number
  advances, and no entry of the persist log is made.\<close>

definition publish_notice ::
  "engine \<Rightarrow> unix_seconds \<Rightarrow> conversation_id \<Rightarrow> secret \<Rightarrow> tx_notice \<Rightarrow> unit act \<Rightarrow> unit act \<Rightarrow> bytes list act" where
  "publish_notice en now cid sec notice put after_store =
     (let tx_id = tx_id_of en sec (Notice notice);
          b = \<lparr>db_conversation_id = cid, db_hlc = \<lparr>hlc_wall_ms = saturating_mul now 1000, hlc_counter = 0\<rparr>,
               db_payload = Notice notice\<rparr>
      in reading (\<lambda>st.
         act_then (lift (persist_record en (es_next_seq st) b)) (\<lambda>persist.
         act_then (modify bump_seq) (\<lambda>_.
         act_then put (\<lambda>_.
         act_then (storing tx_id b) (\<lambda>_.
         act_then after_store (\<lambda>_.
         act_then (post_handshake_packets en cid sec tx_id) (\<lambda>_.
           ret [persist]))))))))"

definition notice_of :: "engine \<Rightarrow> policy \<Rightarrow> key_pair \<Rightarrow> durable_channel list \<Rightarrow> u64 \<Rightarrow> tx_notice" where
  "notice_of en pol intake chs expires = \<lparr>ntc_policy = pol, ntc_intake_pk = EncryptionPublicKey (kp_public intake),
     ntc_persistents = chs, ntc_ephemerals = df_ephemerals (en_defaults en), ntc_expires = expires\<rparr>"

definition create_invite ::
  "engine \<Rightarrow> user_id \<Rightarrow> identity_id \<Rightarrow> u64 \<Rightarrow> durable_channel list option \<Rightarrow> (outcome \<times> conversation_id) act" where
  "create_invite en user ident expires persistents =
     reading (\<lambda>st.
     act_then (lift (require_tick st)) (\<lambda>now.
     act_then (lift (invite_checks en now expires)) (\<lambda>_.
     act_then (lift (invite_channels en persistents)) (\<lambda>chs.
     act_then (lift (identity_policy st user ident)) (\<lambda>pol.
     act_then random32 (\<lambda>c.
     act_then random32 (\<lambda>s.
     act_then (generate_pair en pol) (\<lambda>intake.
       let cid = recast c; sec = recast s;
           tk = \<lparr>tk_secret = sec, tk_persistents = chs, tk_expires = expires\<rparr>
       in act_then (publish_notice en now cid sec (notice_of en pol intake chs expires)
            (modify (put_dm_inviter user ident cid (InviteCreated tk intake (time_bin now)))) (ret ())) (\<lambda>persist.
            ret ((persist, []), cid))))))))))"

definition sync_peer_count :: "engine_state \<Rightarrow> nat" where
  "sync_peer_count st =
     length (filter (\<lambda>(cid, node). is_synchronization node \<or> child_of st cid = None) (dev_convs st))"

text \<open>A device without keys draws its id before the keys.\<close>

definition create_sync_invite ::
  "engine \<Rightarrow> policy \<Rightarrow> u64 \<Rightarrow> string \<Rightarrow> durable_channel list option \<Rightarrow> (outcome \<times> conversation_id) act" where
  "create_sync_invite en pol expires device_name persistents =
     reading (\<lambda>st.
     act_then (lift (require_tick st)) (\<lambda>now.
     if sync_peer_count st \<ge> 4 then throw MemberCap
     else
     act_then (lift (invite_checks en now expires)) (\<lambda>_.
     act_then (lift (map_err (\<lambda>_. MalformedDisplayName) (display_name_try_from device_name))) (\<lambda>name.
     act_then (lift (invite_channels en persistents)) (\<lambda>chs.
     act_then random32 (\<lambda>c.
     act_then random32 (\<lambda>s.
     act_then (ensure_device_keys en pol) (\<lambda>_.
     act_then (generate_pair en pol) (\<lambda>intake.
       let cid = recast c; sec = recast s;
           tk = \<lparr>tk_secret = sec, tk_persistents = chs, tk_expires = expires\<rparr>
       in act_then (publish_notice en now cid sec (notice_of en pol intake chs expires)
            (modify (put_sync_inviter cid (InviteCreated tk intake (time_bin now))))
            (modify (set_device_name (Some name)))) (\<lambda>persist.
            ret ((persist, []), cid)))))))))))"

section \<open>Host strings\<close>

definition ticket_host_string :: "engine \<Rightarrow> engine_state \<Rightarrow> conversation_id \<Rightarrow> engine_error + string" where
  "ticket_host_string en st cid =
     and_then (ok_or (ticket_of st cid) UnknownIds) (\<lambda>tk.
       let s = en_suite en;
           packed = st_compress s (st_json_encode s (ticket_to_json (st_b64u s) tk))
       in if length packed \<le> TICKET_MAX_UNCOMPRESSED then Inr (b64_encode (st_b64u s) packed) else Inl MalformedTicket)"

definition parse_ticket_host_string :: "engine \<Rightarrow> string \<Rightarrow> engine_error + ticket" where
  "parse_ticket_host_string en str =
     (let s = en_suite en in
      and_then (ok_or (b64_decode (st_b64u s) str) MalformedTicket) (\<lambda>packed.
      and_then (map_err (\<lambda>_. MalformedTicket) (st_decompress s packed TICKET_MAX_UNCOMPRESSED)) (\<lambda>canonical.
      and_then (ok_or (st_json_decode s canonical) MalformedTicket) (\<lambda>json.
        ok_or (ticket_from_json (st_b64u s) json) MalformedTicket))))"

definition receive_ticket :: "engine \<Rightarrow> user_id \<Rightarrow> identity_id \<Rightarrow> string \<Rightarrow> (outcome \<times> conversation_id) act" where
  "receive_ticket en user ident str =
     reading (\<lambda>st.
     act_then (lift (require_tick st)) (\<lambda>now.
     act_then (lift (parse_ticket_host_string en str)) (\<lambda>tk.
     act_then random32 (\<lambda>c.
     act_then (modify (put_dm_invitee user ident (recast c) (TicketReceived tk (time_bin now)))) (\<lambda>_.
       ret (([], []), recast c))))))"

fun creates_user :: "tx_payload \<Rightarrow> user_id option" where
  "creates_user (EngineCreateUser u) = Some u"
| "creates_user _ = None"

definition receive_sync_ticket :: "engine \<Rightarrow> string \<Rightarrow> (outcome \<times> conversation_id) act" where
  "receive_sync_ticket en str =
     reading (\<lambda>st.
       if list_ex (\<lambda>b. creates_user (db_payload b) \<noteq> None) (bodies st) then throw EmptyEngineRequired
       else
         act_then (lift (require_tick st)) (\<lambda>now.
         act_then (lift (parse_ticket_host_string en str)) (\<lambda>tk.
         act_then random32 (\<lambda>c.
         act_then (modify (put_sync_invitee (recast c) (TicketReceived tk (time_bin now)))) (\<lambda>_.
           ret (([], []), recast c))))))"

definition list_users :: "engine_state \<Rightarrow> user_id list" where
  "list_users st = List.map_filter (\<lambda>b. creates_user (db_payload b)) (bodies st)"

definition list_identities :: "engine_state \<Rightarrow> user_id \<Rightarrow> identity_id list" where
  "list_identities st user =
     List.map_filter (\<lambda>b. case db_payload b of
         EngineCreateIdentity u i _ _ _ \<Rightarrow> then_some (u = user) i | _ \<Rightarrow> None) (bodies st)"

section \<open>Steps\<close>

lemma acts_generate_pair [acting]: "acts_by R (generate_pair en pol)"
  unfolding generate_pair_def by (intro acting)

lemma acts_publish [acting]:
  "acts put \<Longrightarrow> acts after_store \<Longrightarrow> acts (publish_notice en now cid sec notice put after_store)"
  unfolding publish_notice_def Let_def by (intro acting)

lemma acts_invites [acting]:
  "acts (create_invite en user ident expires persistents)"
  "acts (create_sync_invite en pol expires device_name persistents)"
  "acts (receive_ticket en user ident str)" "acts (receive_sync_ticket en str)"
  unfolding create_invite_def create_sync_invite_def receive_ticket_def receive_sync_ticket_def Let_def
  by (intro acting)+

end
