(* ===== verification/Poll.thy ===== *)
theory Poll
  imports Invite
begin

text \<open>
  The clock and the work of the host (\<open>engine/poll.rs\<close>): \<open>tick\<close> expires handshakes and falls back to the
  durable channels, \<open>poll\<close> lists what to read and write.
\<close>

definition confirmed :: "engine_state \<Rightarrow> conversation_id \<Rightarrow> bool" where
  "confirmed st cid = list_ex (\<lambda>b. db_payload b = Confirm \<and> db_conversation_id b = cid) (bodies st)"

definition expired_handshakes :: "engine_state \<Rightarrow> unix_seconds \<Rightarrow> (conversation_id \<times> unix_seconds) list" where
  "expired_handshakes st now =
     List.map_filter (\<lambda>(cid, tk, _).
       then_some (\<not> (failed st cid \<noteq> None \<or> now \<le> tk_expires tk) \<and> \<not> confirmed st cid) (cid, tk_expires tk))
       (handshake_rows st)"

definition tick :: "engine \<Rightarrow> u64 \<Rightarrow> outcome act" where
  "tick en now =
     act_then (lift (require_dek en)) (\<lambda>_.
     reading (\<lambda>st.
       if (case es_ticked st of Some prev \<Rightarrow> now < prev | None \<Rightarrow> False) then throw ClockWentBackwards
       else
         act_then (modify (set_ticked (Some now))) (\<lambda>_.
         act_then (modify (each_chains_mut (retain_mks (\<lambda>e. cm_expires_at e > now)))) (\<lambda>_.
         reading (\<lambda>st.
         act_then (each (\<lambda>(cid, expires). modify (state_fail cid (InviteExpired expires))) (expired_handshakes st now)) (\<lambda>_.
         act_then (flush_heal en) (\<lambda>_.
         act_then (flush_live en) (\<lambda>_.
           ret ([], [])))))))))"

section \<open>Poll\<close>

record blob_get =
  blg_kind :: kind
  blg_address :: address
  blg_tag :: tag

record ephemeral_locator =
  el_channel :: ephemeral_channel
  el_tag :: tag

datatype blocked_missing = MissingDisplayName

record blocked_identity =
  bi_user_id :: user_id
  bi_identity_id :: identity_id
  bi_missing :: blocked_missing

record poll_work =
  pw_list :: "durable_locator list"
  pw_listen_durable :: "durable_locator list"
  pw_listen_ephemeral :: "ephemeral_locator list"
  pw_write_durable :: "durable_write list"
  pw_write_ephemeral :: "ephemeral_write list"
  pw_blob_put :: "blob_put list"
  pw_blob_get :: "blob_get list"
  pw_blocked :: "blocked_identity list"

text \<open>\<open>dedup\<close> removes repeats that are next to each other.\<close>

definition sorted_locators :: "durable_locator list \<Rightarrow> durable_locator list" where
  "sorted_locators ls = remdups_adj (sort_durable_locators ls)"

definition polled_rows :: "engine_state \<Rightarrow> handshake_entry list" where
  "polled_rows st =
     filter (\<lambda>row. \<not> (party_failure (ref_party (he_party row)) = None \<and> intro_watermarked st (he_cid row)))
       (handshake_entries st)"

definition list_bins :: "bin_progress option \<Rightarrow> time_bin \<Rightarrow> time_bin \<Rightarrow> time_bin list" where
  "list_bins progress list_from w =
     sort (remdups (filter (\<lambda>bin. \<not> bin_complete progress bin)
       (map of_nat [unat (catch_up_start progress list_from) ..< Suc (unat (saturating_add w 1))]) @ listen_bins w))"

definition row_channels :: "engine \<Rightarrow> handshake_entry \<Rightarrow> (durable_channel \<Rightarrow> time_bin list) \<Rightarrow> durable_locator list" where
  "row_channels en row bins =
     (let tk = party_ticket (ref_party (he_party row)) in
      concat (map (\<lambda>ch. map (\<lambda>bin. \<lparr>dl_channel = ch, dl_tag = invite_tag (en_suite en) (tk_secret tk) bin\<rparr>) (bins ch))
        (tk_persistents tk)))"

definition row_list :: "engine \<Rightarrow> engine_state \<Rightarrow> time_bin \<Rightarrow> handshake_entry \<Rightarrow> durable_locator list" where
  "row_list en st w row =
     (let p = ref_party (he_party row); key = handshake_tag_key (en_suite en) (tk_secret (party_ticket p)) in
      row_channels en row (\<lambda>ch. list_bins (es_bin_progress st (progress_key ch key)) (party_list_from p) w))"

definition row_listen :: "engine \<Rightarrow> time_bin \<Rightarrow> handshake_entry \<Rightarrow> durable_locator list" where
  "row_listen en w row = row_channels en row (\<lambda>_. listen_bins w)"

definition group_listen :: "engine \<Rightarrow> engine_state \<Rightarrow> time_bin \<Rightarrow> durable_locator list" where
  "group_listen en st w =
     (case persist_label Group of
        None \<Rightarrow> []
      | Some lbl \<Rightarrow>
          concat (map (\<lambda>(_, live). concat (map (\<lambda>m. concat (map (\<lambda>ch. map (\<lambda>bin.
            \<lparr>dl_channel = ch, dl_tag = bin_tag (en_suite en) (gmb_send_tag_key m) lbl bin\<rparr>) (listen_bins w))
              (gl_persistents live))) (gl_members live))) (group_rows st)))"

definition append_group_listen :: "engine \<Rightarrow> engine_state \<Rightarrow> time_bin \<Rightarrow> durable_locator list \<Rightarrow> durable_locator list" where
  "append_group_listen en st w listen = sorted_locators (listen @ group_listen en st w)"

definition blob_gets :: "engine_state \<Rightarrow> blob_get list" where
  "blob_gets st =
     List.map_filter (\<lambda>b. case db_payload b of
         Media m \<Rightarrow>
           then_some (\<not> list_ex (\<lambda>p. blp_kind p = med_kind m \<and> blp_address p = med_address m \<and> blp_tag p = med_tag m)
             (es_blob_puts st)) \<lparr>blg_kind = med_kind m, blg_address = med_address m, blg_tag = med_tag m\<rparr>
       | _ \<Rightarrow> None) (bodies st)"

definition blocked_identities :: "engine_state \<Rightarrow> blocked_identity list" where
  "blocked_identities st =
     List.map_filter (\<lambda>b. case db_payload b of
         EngineCreateIdentity u i _ _ _ \<Rightarrow>
           then_some (display_name_of st i = None) \<lparr>bi_user_id = u, bi_identity_id = i, bi_missing = MissingDisplayName\<rparr>
       | _ \<Rightarrow> None) (bodies st) @
     (if dev_name (es_device st) = None \<and> list_all (\<lambda>b. creates_user (db_payload b) = None) (bodies st) \<and>
        has_sync_handshake st
      then [\<lparr>bi_user_id = zero32, bi_identity_id = zero32, bi_missing = MissingDisplayName\<rparr>] else [])"

definition poll :: "engine \<Rightarrow> engine_state \<Rightarrow> engine_error + poll_work" where
  "poll en st =
     and_then (require_tick st) (\<lambda>now.
       let w = time_bin now; rows = polled_rows st in
       Inr \<lparr>pw_list = sorted_locators (concat (map (row_list en st w) rows)),
         pw_listen_durable = append_group_listen en st w (sorted_locators (concat (map (row_listen en w) rows))),
         pw_listen_ephemeral = [],
         pw_write_durable = sort_durable_writes (es_writes st),
         pw_write_ephemeral = sort_ephemeral_writes (es_eph_writes st),
         pw_blob_put = es_blob_puts st, pw_blob_get = blob_gets st, pw_blocked = blocked_identities st\<rparr>)"

lemma acts_advance_clock [acting]:
  assumes "\<And>x. acts (k x)"
  shows "acts (reading (\<lambda>st. if (case es_ticked st of Some prev \<Rightarrow> now < prev | None \<Rightarrow> False) then throw ClockWentBackwards
     else act_then (modify (set_ticked (Some now))) k))"
proof (rule acts_byI)
  fix st g r st' g'
  assume run: "reading (\<lambda>st. if (case es_ticked st of Some prev \<Rightarrow> now < prev | None \<Rightarrow> False) then throw ClockWentBackwards
     else act_then (modify (set_ticked (Some now))) k) (st, g) = (r, st', g')"
  show "store_step\<^sup>*\<^sup>* st st'"
  proof (cases "case es_ticked st of Some prev \<Rightarrow> now < prev | None \<Rightarrow> False")
    case True
    then show ?thesis using run by (simp add: reading_def throw_def)
  next
    case False
    then have "store_step st (set_ticked (Some now) st)"
      by (intro s_other) (auto simp: set_ticked_def dev_convs_def forward_def split: option.splits)
    moreover have "k () (set_ticked (Some now) st, g) = (r, st', g')"
      using run False by (auto simp: reading_def act_then_def modify_def split: option.splits)
    ultimately show ?thesis using acts_byD [OF assms] by (meson converse_rtranclp_into_rtranclp)
  qed
qed

lemma acts_tick [acting]: "acts (tick en now)"
  unfolding tick_def
  by (rule acts_then [OF acts_lift], rule acts_advance_clock) (intro acting)

end
