(* ===== verification/Persist.thy ===== *)
theory Persist
  imports Poll
begin

text \<open>
  Persist records and the sealing of snapshots (\<open>engine/persist.rs\<close>): \<open>apply\<close> replays a record that
  \<open>persist_record\<close> of the vault made.
\<close>

fun is_engine_payload :: "tx_payload \<Rightarrow> bool" where
  "is_engine_payload EngineInit = True"
| "is_engine_payload (EngineSetDefaults _) = True"
| "is_engine_payload (EngineCreateUser _) = True"
| "is_engine_payload (EngineCreateIdentity _ _ _ _ _) = True"
| "is_engine_payload (EngineDeleteUser _) = True"
| "is_engine_payload (EngineDeleteIdentity _ _) = True"
| "is_engine_payload (EngineSetDisplayName _ _ _) = True"
| "is_engine_payload (EngineUnsetDisplayName _ _) = True"
| "is_engine_payload (EngineSetProfilePic _ _ _) = True"
| "is_engine_payload (EngineSetDeviceName _) = True"
| "is_engine_payload (EngineKickDevice _) = True"
| "is_engine_payload _ = False"

text \<open>\<open>u64::from_be_bytes\<close>.\<close>

definition from_be_bytes :: "bytes \<Rightarrow> u64" where
  "from_be_bytes bs = of_nat (be_val bs)"

definition AEAD_NONCE_LEN :: nat where "AEAD_NONCE_LEN = 12"

definition open_record :: "engine \<Rightarrow> bytes \<Rightarrow> engine_error + durable_body" where
  "open_record en rec =
     and_then (require_dek en) (\<lambda>dek.
       if length rec < AEAD_NONCE_LEN then Inl MalformedPersist
       else
         let s = en_suite en in
         and_then (ok_or (st_open s dek (take AEAD_NONCE_LEN rec) [] (drop AEAD_NONCE_LEN rec)) MalformedPersist) (\<lambda>packed.
         and_then (map_err (\<lambda>_. MalformedPersist) (st_decompress s packed PERSIST_MAX_UNCOMPRESSED)) (\<lambda>canonical.
         and_then (ok_or (st_json_decode s canonical) MalformedPersist) (\<lambda>json.
           ok_or (durable_body_from_json (st_b64u s) json) MalformedPersist))))"

definition record_secret :: "engine \<Rightarrow> engine_state \<Rightarrow> durable_body \<Rightarrow> engine_error + secret" where
  "record_secret en st b =
     (if is_engine_payload (db_payload b) then engine_secret en
      else
        (case conv_secret st (db_conversation_id b) of
           Inr sec \<Rightarrow> Inr sec
         | Inl _ \<Rightarrow> Inr (recast (db_conversation_id b))))"

definition record_seq :: "bytes \<Rightarrow> persist_seq" where
  "record_seq rec = from_be_bytes (drop 4 (take AEAD_NONCE_LEN rec))"

definition note_seq :: "persist_seq \<Rightarrow> engine_state \<Rightarrow> engine_state" where
  "note_seq seq st = (if saturating_add seq 1 > es_next_seq st then st\<lparr>es_next_seq := saturating_add seq 1\<rparr> else st)"

definition apply_record :: "engine \<Rightarrow> bytes \<Rightarrow> unit act" where
  "apply_record en rec =
     act_then (lift (open_record en rec)) (\<lambda>b.
     reading (\<lambda>st.
     act_then (lift (record_secret en st b)) (\<lambda>sec.
       let tx_id = tx_id_of en sec (db_payload b) in
       if (case body st tx_id of Some existing \<Rightarrow> db_payload existing \<noteq> db_payload b | None \<Rightarrow> False) then throw Equivocation
       else
         act_then (storing tx_id b) (\<lambda>_.
         act_then (if db_payload b = Confirm then on_error (spawn_child en (db_conversation_id b)) (\<lambda>_. ret ()) else ret ()) (\<lambda>_.
         act_then (modify (note_seq (record_seq rec))) (\<lambda>_.
           modify (log_persist (record_seq rec) tx_id)))))))"

text \<open>The end of \<open>fold\<close>: the snapshot is sealed under the sequence number the next record will take.\<close>

definition seal_snapshot :: "engine \<Rightarrow> engine_state \<Rightarrow> bytes \<Rightarrow> engine_error + bytes" where
  "seal_snapshot en st canonical =
     and_then (require_dek en) (\<lambda>dek.
       if es_next_seq st = u64_max then Inl MalformedPersist
       else if length canonical \<le> PERSIST_MAX_UNCOMPRESSED then
         let nonce = persist_nonce FOLD_VERSION (es_next_seq st)
         in Inr (nonce @ st_seal (en_suite en) dek nonce [] (st_compress (en_suite en) canonical))
       else Inl BodyTooLarge)"

lemma acts_note_seq [acting]: "acts (modify (note_seq seq))"
  by (rule acts_modify, rule r_into_rtranclp, rule s_other; simp add: note_seq_def dev_convs_def forward_def order.strict_implies_order split: option.split)

lemma acts_apply_record [acting]: "acts (apply_record en rec)"
  unfolding apply_record_def Let_def by (intro acting)

section \<open>Replaying a record\<close>

lemma unat_byte: "unat (ucast (drop_bit k (n :: u64)) :: 8 word) = unat n div 2 ^ k mod 256"
proof -
  have "unat n < 2 ^ 64" using unsigned_less [of n, where ?'a = nat] by simp
  then have "take_bit 64 (unat n) = unat n" by (simp add: take_bit_nat_eq_self)
  then have "unat (ucast (drop_bit k n) :: 8 word) = take_bit 8 (drop_bit k (unat n))"
    by (simp add: unsigned_ucast_eq unsigned_drop_bit_eq)
  then show ?thesis by (simp add: take_bit_eq_mod drop_bit_eq_div)
qed

lemma be_val_to_be_bytes: "be_val (to_be_bytes n) = unat n"
proof -
  define q where "q i = unat n div 256 ^ i" for i
  define r where "r i = q i mod 256" for i
  have digit: "q i = 256 * q j + r i" if "j = Suc i" for i j
    unfolding r_def q_def that power_Suc mult.commute [of 256] div_mult2_eq by simp
  have byte: "unat (ucast (drop_bit (8 * i) n) :: 8 word) = r i" for i
    by (simp only: unat_byte r_def q_def power_mult) simp
  have "q 8 = 0" using unsigned_less [of n, where ?'a = nat] by (simp add: q_def)
  moreover have "unat n = q 0" by (simp add: q_def)
  moreover have "q 0 = 256 * q 1 + r 0" "q 1 = 256 * q 2 + r 1" "q 2 = 256 * q 3 + r 2" "q 3 = 256 * q 4 + r 3"
      "q 4 = 256 * q 5 + r 4" "q 5 = 256 * q 6 + r 5" "q 6 = 256 * q 7 + r 6" "q 7 = 256 * q 8 + r 7"
    by (rule digit; simp)+
  ultimately have "unat n = ((((((r 7 * 256 + r 6) * 256 + r 5) * 256 + r 4) * 256 + r 3) * 256 + r 2) * 256 + r 1) * 256 + r 0"
    by simp
  then show ?thesis
    unfolding to_be_bytes_def list.map be_val.simps byte list.size by (simp add: algebra_simps)
qed

lemma length_persist_nonce [simp]: "length (persist_nonce v seq) = 12"
  by (simp add: persist_nonce_def be32_def)

lemma persist_nonce_seq: "from_be_bytes (drop 4 (persist_nonce v seq)) = seq"
  by (simp add: persist_nonce_def be32_def from_be_bytes_def be_val_to_be_bytes)

lemma persist_record_form:
  assumes "persist_record en seq b = Inr rec"
  shows "\<exists>dek. en_dek en = Some dek \<and> seq \<noteq> u64_max \<and>
    length (st_json_encode (en_suite en) (durable_body_to_json (st_b64u (en_suite en)) b)) \<le> PERSIST_MAX_UNCOMPRESSED \<and>
    rec = persist_nonce PERSIST_VERSION seq @ st_seal (en_suite en) dek (persist_nonce PERSIST_VERSION seq) []
      (packed_durable_body (en_suite en) b)"
  using assms
  by (cases "en_dek en") (auto simp: persist_record_def require_dek_def Let_def packed_durable_body_def split: if_splits)

end
