(* ===== verification/Operations.thy ===== *)
theory Operations
  imports Persist
begin

text \<open>
  The public operations of \<open>Engine\<close> that change the state, as calls of one interface, and what every
  sequence of calls keeps. The host passes the state from call to call; a call that fails leaves it
  at the host's choice, here the state the operation had reached.
\<close>

datatype (plugins only: size code) call =
    SetDefaults defaults
  | CreateUser
  | CreateIdentity user_id policy
  | DeleteUser user_id
  | DeleteIdentity user_id identity_id
  | SetDisplayName user_id identity_id string
  | UnsetDisplayName user_id identity_id
  | SetProfilePic user_id identity_id "bytes option"
  | SetDeviceName string
  | KickDevice device_id
  | LeaveSync
  | SetConversationPrefs conversation_ref conversation_prefs
  | DeleteConversation conversation_ref
  | ConfirmEstablished conversation_ref
  | RejectEstablished conversation_ref
  | SetGroupName conversation_ref string
  | SetGroupPhoto conversation_ref "bytes option"
  | SendText conversation_ref string "tag option"
  | SendMedia conversation_ref "media_draft list" "tag option" "string option"
  | EditMessage conversation_ref tag string
  | RemoveMessage conversation_ref tag
  | SendReaction conversation_ref tag string bool
  | SendTyping conversation_ref bool
  | SendRead conversation_ref tag
  | SendDelivered conversation_ref tag
  | SendPresence conversation_ref
  | WriteAck durable_channel tag bytes
  | WriteBlobAck kind address tag bytes
  | CreateInvite user_id identity_id u64 "durable_channel list option"
  | ReceiveTicket user_id identity_id string
  | CreateSyncInvite policy u64 string "durable_channel list option"
  | ReceiveSyncTicket string
  | CreateGroup user_id identity_id "conversation_id list" string "bytes option"
  | AddGroupMember conversation_ref conversation_id
  | AcceptGroup conversation_ref
  | RejectGroup conversation_ref
  | KickGroupMember conversation_ref bytes
  | LeaveGroup conversation_ref
  | Tick u64
  | Apply bytes

definition quiet :: "'a act \<Rightarrow> unit act" where
  "quiet m = act_then m (\<lambda>_. ret ())"

primrec perform :: "engine \<Rightarrow> call \<Rightarrow> unit act" where
  "perform en (SetDefaults df) = quiet (set_defaults en df)"
| "perform en CreateUser = quiet (create_user en)"
| "perform en (CreateIdentity user pol) = quiet (create_identity en user pol)"
| "perform en (DeleteUser user) = quiet (delete_user en user)"
| "perform en (DeleteIdentity user ident) = quiet (delete_identity en user ident)"
| "perform en (SetDisplayName user ident name) = quiet (set_display_name en user ident name)"
| "perform en (UnsetDisplayName user ident) = quiet (unset_display_name en user ident)"
| "perform en (SetProfilePic user ident pic) = quiet (set_profile_pic en user ident pic)"
| "perform en (SetDeviceName name) = quiet (set_device_name_op en name)"
| "perform en (KickDevice d) = quiet (kick_device en d)"
| "perform en LeaveSync = quiet leave_sync"
| "perform en (SetConversationPrefs ids prefs) = quiet (set_conversation_prefs en ids prefs)"
| "perform en (DeleteConversation ids) = quiet (delete_conversation en ids)"
| "perform en (ConfirmEstablished ids) = quiet (confirm_established en ids)"
| "perform en (RejectEstablished ids) = quiet (reject_established en ids)"
| "perform en (SetGroupName ids name) = quiet (set_group_name en ids name)"
| "perform en (SetGroupPhoto ids photo) = quiet (set_group_photo en ids photo)"
| "perform en (SendText ids b reply_to) = quiet (send_text en ids b reply_to)"
| "perform en (SendMedia ids atts reply_to caption) = quiet (send_media en ids atts reply_to caption)"
| "perform en (EditMessage ids target b) = quiet (edit_message en ids target b)"
| "perform en (RemoveMessage ids target) = quiet (remove_message en ids target)"
| "perform en (SendReaction ids target emoji add) = quiet (send_reaction en ids target emoji add)"
| "perform en (SendTyping ids composing) = quiet (send_typing en ids composing)"
| "perform en (SendRead ids up_to) = quiet (send_read en ids up_to)"
| "perform en (SendDelivered ids up_to) = quiet (send_delivered en ids up_to)"
| "perform en (SendPresence ids) = quiet (send_presence en ids)"
| "perform en (WriteAck ch tg b) = quiet (write_ack en ch tg b)"
| "perform en (WriteBlobAck k a tg b) = quiet (write_blob_ack k a tg b)"
| "perform en (CreateInvite user ident expires chs) = quiet (create_invite en user ident expires chs)"
| "perform en (ReceiveTicket user ident str) = quiet (receive_ticket en user ident str)"
| "perform en (CreateSyncInvite pol expires name chs) = quiet (create_sync_invite en pol expires name chs)"
| "perform en (ReceiveSyncTicket str) = quiet (receive_sync_ticket en str)"
| "perform en (CreateGroup user ident contacts name photo) = quiet (create_group en user ident contacts name photo)"
| "perform en (AddGroupMember ids contact) = quiet (add_group_member en ids contact)"
| "perform en (AcceptGroup ids) = quiet (accept_group en ids)"
| "perform en (RejectGroup ids) = quiet (reject_group en ids)"
| "perform en (KickGroupMember ids pk) = quiet (kick_group_member en ids pk)"
| "perform en (LeaveGroup ids) = quiet (leave_group en ids)"
| "perform en (Tick now) = quiet (tick en now)"
| "perform en (Apply rec) = quiet (apply_record en rec)"

lemma acts_quiet [acting]: "acts_by R m \<Longrightarrow> acts_by R (quiet m)"
  unfolding quiet_def by (intro acting)

lemma acts_perform [acting]: "acts (perform en c)"
  by (cases c; simp only: perform.simps; rule acts_quiet; rule acting)

text \<open>Incoming data may change the engine's key too.\<close>

datatype arrival_call =
    IngestList durable_channel tag "bytes list"
  | IngestPacket durable_channel tag bytes
  | IngestEphemeralPacket ephemeral_channel tag bytes

fun ingest :: "arrival_call \<Rightarrow> outcome engine_act" where
  "ingest (IngestList ch tg bs) = ingest_list ch tg bs"
| "ingest (IngestPacket ch tg b) = ingest_packet ch tg b"
| "ingest (IngestEphemeralPacket ch tg b) = ingest_ephemeral_packet ch tg b"

lemma engine_acts_ingest: "engine_acts (ingest c)"
  by (cases c) (simp_all add: engine_acts_list engine_acts_packets)

section \<open>What every call keeps\<close>

lemma wf_rekey:
  assumes "wf_state st"
  shows "wf_state (rekey_conversation frm to st)"
proof -
  define st' where "st' = rekey_conversation frm to st"
  define gi where "gi = (\<lambda>m. bt_map (reparent_identity frm to) (rekey_map frm to m))"
  have ok: "bt_ok (rekey_map frm to m)" if "bt_ok m" for m :: "(conversation_id, 'v) btree"
    using that by (simp add: rekey_map_def split: option.splits)
  have get: "bt_get (rekey_map frm to m) c = Some v \<Longrightarrow> bt_get m c = Some v \<or> bt_get m frm = Some v"
    if "bt_ok m" for m :: "(conversation_id, 'v) btree" and c v
    using that by (auto simp: rekey_map_def split: option.splits if_splits)
  have wf: "identity_wf (reparent_identity frm to n) = identity_wf n" "device_wf (reparent_device frm to d) = device_wf d" for n d
    by (cases n; simp; cases "\<exists>l. n = GroupRow l"; auto) (cases d; simp)
  have at: "identity_at st' u i = map_option (\<lambda>ident. ident\<lparr>idn_conversations := gi (idn_conversations ident)\<rparr>) (identity_at st u i)" for u i
    by (simp add: st'_def rekey_conversation_def rekey_row_def Let_def gi_def identity_at_def map_identities_def
        Option.bind_map_option comp_def map_option_bind)
  have dev: "dev_convs st' = bt_map (reparent_device frm to) (rekey_map frm to (dev_convs st))"
    by (simp add: st'_def rekey_conversation_def rekey_row_def Let_def dev_convs_def map_identities_def)
  have frame: "es_tx_place st' = es_tx_place st" "es_engine_log st' = es_engine_log st"
    by (simp_all add: st'_def rekey_conversation_def rekey_row_def Let_def map_identities_def)
  have users: "bt_ok (es_users st')" "bt_get (es_users st') u = Some usr \<Longrightarrow> bt_ok (usr_identities usr)" for u usr
    using wf_stateD(3,5) [OF assms]
    by (auto simp: st'_def rekey_conversation_def rekey_row_def Let_def map_identities_def)
  have rows: "identity_wf n" if "identity_row st' u i c = Some n" for u i c n
  proof -
    from that obtain ident n0 where i: "identity_at st u i = Some ident" and n: "n = reparent_identity frm to n0"
      and g: "bt_get (rekey_map frm to (idn_conversations ident)) c = Some n0"
      by (auto simp: identity_row_def at gi_def bind_eq_Some_conv)
    from get [OF wf_stateD(6) [OF assms i] g] have "identity_row st u i c = Some n0 \<or> identity_row st u i frm = Some n0"
      by (simp add: identity_row_def i)
    then show ?thesis using wf_stateD(7) [OF assms] by (auto simp: n wf)
  qed
  have drows: "device_wf d" if "bt_get (dev_convs st') c = Some d" for c d
    using that wf_stateD(8) [OF assms] by (auto simp: dev wf dest!: get [OF wf_stateD(4) [OF assms]])
  have "wf_state st'" unfolding wf_state_def
    using users rows drows wf_stateD [OF assms] by (auto simp: at dev frame ok gi_def)
  then show ?thesis by (simp add: st'_def)
qed

lemma engine_steps_wf: "engine_step\<^sup>*\<^sup>* st st' \<Longrightarrow> wf_state st \<Longrightarrow> wf_state st'"
  by (induction rule: rtranclp_induct) (auto elim!: engine_step.cases dest: store_step_invariant simp: wf_rekey)

lemma engine_steps_forward: "engine_step\<^sup>*\<^sup>* st st' \<Longrightarrow> forward st st'"
proof (induction rule: rtranclp_induct)
  case (step a b)
  have "forward a b" using step.hyps(2)
    by cases (auto dest: store_step_forward
        simp: rekey_conversation_def rekey_row_def map_identities_def Let_def)
  with step.IH show ?case by (rule forward_trans)
qed simp

text \<open>The host's use of the engine: it unlocks with any key, calls, and feeds what arrived. The random
  source may go on in any way.\<close>

inductive served :: "engine \<times> engine_state \<Rightarrow> engine \<times> engine_state \<Rightarrow> bool" where
  sv_key: "served (en, st) (en\<lparr>en_dek := dek\<rparr>, st)"
| sv_defaults: "served (en, st) (en\<lparr>en_defaults := df\<rparr>, st)"
| sv_call: "perform en c (st, g) = (r, st', g') \<Longrightarrow> served (en, st) (en, st')"
| sv_ingest: "ingest a en (st, g) = (r, en', st', g') \<Longrightarrow> served (en, st) (en', st')"

inductive called :: "engine \<times> engine_state \<Rightarrow> engine \<times> engine_state \<Rightarrow> bool" where
  cl_key: "called (en, st) (en\<lparr>en_dek := dek\<rparr>, st)"
| cl_defaults: "called (en, st) (en\<lparr>en_defaults := df\<rparr>, st)"
| cl_call: "perform en c (st, g) = (r, st', g') \<Longrightarrow> called (en, st) (en, st')"

lemma called_steps: "called p q \<Longrightarrow> store_step\<^sup>*\<^sup>* (snd p) (snd q)"
  by (induction rule: called.induct) (auto dest: acts_byD [OF acts_perform])

lemma called_run: "called\<^sup>*\<^sup>* p q \<Longrightarrow> store_step\<^sup>*\<^sup>* (snd p) (snd q)"
  by (induction rule: rtranclp_induct) (auto dest!: called_steps)

lemma served_steps: "served p q \<Longrightarrow> engine_step\<^sup>*\<^sup>* (snd p) (snd q)"
proof (induction rule: served.induct)
  case (sv_call en c st g r st' g')
  then show ?case using acts_byD [OF acts_weaken [OF acts_perform]] by simp
next
  case (sv_ingest a en st g r en' st' g')
  then show ?case using engine_actsD [OF engine_acts_ingest sv_ingest] by simp
qed simp_all

lemma served_run: "served\<^sup>*\<^sup>* p q \<Longrightarrow> engine_step\<^sup>*\<^sup>* (snd p) (snd q)"
  by (induction rule: rtranclp_induct) (auto dest!: served_steps)

end
