(* ===== verification/Engine_Properties.thy ===== *)
theory Engine_Properties
  imports Operations Store_Properties Sample_Suite
begin

text \<open>
  What the operations of the engine promise: the state they leave, the sending of messages, sealed
  secrets and media, tickets, the vault, persist records and their nonces, and the agreement of the two
  sides of a handshake.
\<close>

definition sample_defaults :: defaults where
  "sample_defaults = \<lparr>df_persistents = [], df_ephemerals = [], df_read_receipts = True, df_online_visible = True,
     df_send_typing = True, df_disappear_after = None, df_publish_wake = False, df_notification_privacy = PrivacyName\<rparr>"

definition sample_engine :: engine where
  "sample_engine = \<lparr>en_suite = sample_suite, en_defaults = sample_defaults, en_dek = Some (fill 8)\<rparr>"

lemma recast_fill [simp]: "recast (fill b) = fill b"
  by (simp add: fill_def recast_def)

section \<open>The state\<close>


lemma tick_new:
  "perform sample_engine (Tick 5) (state_new, g) = (Inr (), state_new\<lparr>es_ticked := Some 5\<rparr>, g)"
  by (simp add: quiet_def tick_def act_then_def lift_def require_dek_def sample_engine_def reading_def modify_def
      state_new_def set_ticked_def each_chains_mut_def map_identities_def device_default_def dev_convs_def
      expired_handshakes_def handshake_rows_def handshake_entries_def flush_heal_def flush_live_def heal_cids_def established_cids_def
      identities_def expect_def opt_or_def ret_def List.map_filter_def bt_map_def for_each_chains_def Let_def)




text \<open>C17: No call, and nothing that arrives, turns the clock back or lowers the next persist sequence
  number.\<close>

theorem clock_and_sequence_forward:
  assumes "served\<^sup>*\<^sup>* (en, st) (en', st')"
  shows "es_next_seq st \<le> es_next_seq st' \<and>
    (\<forall>now. es_ticked st = Some now \<longrightarrow> (\<exists>later. es_ticked st' = Some later \<and> now \<le> later))"
  using engine_steps_forward [OF served_run [OF assms]] by (auto simp: forward_def split: option.splits)

theorem clock_and_sequence_forward_witness:
  "\<exists>st. served\<^sup>*\<^sup>* (sample_engine, state_new\<lparr>es_ticked := Some 5\<rparr>) (lock sample_engine, st) \<and>
     (\<exists>later. es_ticked st = Some later \<and> 5 \<le> later)"
proof -
  have "served\<^sup>*\<^sup>* (sample_engine, state_new\<lparr>es_ticked := Some 5\<rparr>) (lock sample_engine, state_new\<lparr>es_ticked := Some 5\<rparr>)"
    unfolding lock_def by (rule r_into_rtranclp, rule sv_key)
  from this clock_and_sequence_forward [OF this] show ?thesis by force
qed

section \<open>Posting\<close>

text \<open>C38: Posting a message posts the ratchet packet that is owed first, by the same function; the
  recursion is one deep, and the result is the one solution of the recursive equation, whatever stands
  for the calls below.\<close>

theorem post_live_recursion:
  "post_live en = post_live_with en (post_live en) \<and> post_live en = post_live_with en (post_live_with en nested)"
  unfolding post_live_def by (metis post_live_nested)

section \<open>Secrets\<close>

text \<open>C27: A group secret or a sync key sealed to a public key is what the holder of the secret key opens,
  and sealing changes no state.\<close>

theorem sealed_secret_opens:
  fixes sec :: "'k b32"
  assumes "kem_ok (en_suite en)" "aead_ok (en_suite en)" "st_kem_generate (en_suite en) pol seed = Inr kp"
  shows "(seal_group_secret en pol (kp_public kp) (as_bytes sec) w = (Inr packed, w') \<longrightarrow>
      open_group_secret en pol (kp_secret kp) packed = Inr (recast sec) \<and> fst w' = fst w) \<and>
    (seal_sync_dek en pol (kp_public kp) (as_bytes sec) w = (Inr packed, w') \<longrightarrow>
      open_sync_dek_ct en pol (kp_secret kp) packed = Inr (recast sec) \<and> fst w' = fst w)"
  using open_seal_box [OF assms] seal_box_runs [OF assms(3)]
  unfolding seal_group_secret_def open_group_secret_def seal_sync_dek_def open_sync_dek_ct_def by blast

lemma sample_kem_ok: "kem_ok sample_suite"
  by (simp add: kem_ok_def sample_suite_def)

lemma sample_aead_ok: "aead_ok sample_suite"
  using sample_packet_suite_ok by (simp add: packet_suite_ok_def)

theorem sealed_secret_opens_witness:
  "\<exists>g (kp :: key_pair) packed w'. seal_group_secret sample_engine Hybrid (kp_public kp) (as_bytes (fill 6 :: secret)) (state_new, g) = (Inr packed, w') \<and>
     open_group_secret sample_engine Hybrid (kp_secret kp) packed = Inr (fill 6)"
proof -
  define g :: rng where "g = sconst (fill 1)"
  obtain kp where kp: "st_kem_generate sample_suite Hybrid [] = Inr kp" by (simp add: sample_suite_def)
  obtain packed w' where sealed:
    "seal_group_secret sample_engine Hybrid (kp_public kp) (as_bytes (fill 6 :: secret)) (state_new, g) = (Inr packed, w')"
    by (simp add: seal_group_secret_def seal_box_def act_then_def random_pair_def random32_def draw_def ret_def
        Let_def sample_engine_def sample_suite_def)
  have "en_suite sample_engine = sample_suite" by (simp add: sample_engine_def)
  then have "open_group_secret sample_engine Hybrid (kp_secret kp) packed = Inr (recast (fill 6 :: secret))"
    using sealed_secret_opens [of sample_engine Hybrid "[]" kp "fill 6 :: secret" "(state_new, g)" packed w']
      kp sample_kem_ok sample_aead_ok sealed by simp
  then have "open_group_secret sample_engine Hybrid (kp_secret kp) packed = Inr (fill 6)" by simp
  with sealed show ?thesis by blast
qed

text \<open>C28: A blob sealed for a conversation under the hash of its bytes opens to those bytes for whoever
  knows the conversation's secret, and a blob that opens has the hash it was asked for.\<close>

theorem media_opens:
  assumes "aead_ok (en_suite en)" "conv_secret st cid = Inr sec"
  shows "(seal_media en sec (media_hash en plain) plain w = (Inr blob, w') \<longrightarrow>
      open_media en st cid (media_hash en plain) blob = Inr plain) \<and>
    (open_media en st cid hash blob' = Inr plain' \<longrightarrow> media_hash en plain' = hash)"
proof (intro conjI impI)
  assume sealed: "seal_media en sec (media_hash en plain) plain w = (Inr blob, w')"
  obtain x g where "draw (snd w) = (x, g)" by fastforce
  with sealed have "blob = take PACKET_NONCE_LEN (as_bytes x) @
      st_seal (en_suite en) (media_key (en_suite en) sec (media_hash en plain)) (take PACKET_NONCE_LEN (as_bytes x)) [] plain"
    by (cases w) (auto simp: seal_media_def act_then_def random32_def ret_def Let_def)
  then show "open_media en st cid (media_hash en plain) blob = Inr plain"
    using assms by (simp add: open_media_def aead_ok_def PACKET_NONCE_LEN_def)
next
  assume "open_media en st cid hash blob' = Inr plain'"
  then show "media_hash en plain' = hash"
    using assms(2) by (auto simp: open_media_def split: option.splits if_splits)
qed

lemma ticket_of_invitee: "ticket_of (put_sync_invitee cid (TicketReceived tk n) state_new) cid = Some tk"
  by (simp add: ticket_of_def dm_party_def identities_def sync_party_def dev_convs_def put_sync_invitee_def put_sync_def
      sync_handshake_node_def state_new_def device_default_def)

theorem media_opens_witness:
  "\<exists>blob w'. seal_media sample_engine (fill 1) (media_hash sample_engine [1, 2, 3]) [1, 2, 3] (invited, sconst (fill 1)) = (Inr blob, w') \<and>
     open_media sample_engine invited (fill 3) (media_hash sample_engine [1, 2, 3]) blob = Inr [1, 2, 3]"
proof -
  have sec: "conv_secret invited (fill 3) = Inr (fill 1)"
    by (simp add: conv_secret_def invited_def ticket_of_invitee) (simp add: sample_ticket_def)
  have "aead_ok (en_suite sample_engine)" by (simp add: sample_engine_def sample_aead_ok)
  from media_opens [OF this sec, of "[1, 2, 3]" "(invited, sconst (fill 1))"] show ?thesis
    by (auto simp: seal_media_def act_then_def random32_def draw_def ret_def Let_def)
qed

section \<open>Tickets\<close>


definition sample_channel :: durable_channel where
  "sample_channel = \<lparr>dch_kind = Kind ''ws'', dch_address = Address ''a''\<rparr>"

lemma sample_channel_ok: "durable_ok sample_channel"
  by (simp add: sample_channel_def durable_ok_def kind_ok_def address_ok_def kind_try_from_def address_try_from_def
      parse_kind_def parse_address_def KIND_MAX_LEN_def ADDRESS_MAX_LEN_def chars_ascii is_ascii_lowercase_def
      is_combining_ascii is_ascii_def)

definition open_ticket :: ticket where
  "open_ticket = sample_ticket\<lparr>tk_persistents := [sample_channel]\<rparr>"


end
