(* ===== verification/Vault_Properties.thy ===== *)
theory Vault_Properties
  imports Engine_Properties
begin

text \<open>
  The data key and what is sealed under it: the vault header opens to the wrapped key, persist records
  replay the transactions they hold, and how nonces of records and snapshots relate.
\<close>

section \<open>The vault header\<close>

text \<open>The header with the slot of the secret filled, and the key that opens the slot.\<close>

fun filled_header :: "unlock_secret \<Rightarrow> bytes \<Rightarrow> bytes \<Rightarrow> bytes \<Rightarrow> vault_header" where
  "filled_header (Passphrase _) salt nonce ct =
     (plain_header salt)\<lparr>vh_passphrase_nonce := Some nonce, vh_passphrase_wrapped_dek := Some ct\<rparr>"
| "filled_header (Prf _) salt nonce ct = (plain_header salt)\<lparr>vh_prf_nonce := Some nonce, vh_prf_wrapped_dek := Some ct\<rparr>"

fun slot_key :: "suite \<Rightarrow> unlock_secret \<Rightarrow> bytes \<Rightarrow> array32 option" where
  "slot_key s (Passphrase pass) salt = st_argon s (label pass) salt VAULT_M VAULT_T VAULT_P"
| "slot_key s (Prf prf) salt = Some prf"

text \<open>The writer keeps a header of one filled slot within the reader's bound.\<close>

definition headers_fit :: "suite \<Rightarrow> bool" where
  "headers_fit s \<longleftrightarrow>
     (\<forall>sec salt nonce ct. length salt = 16 \<longrightarrow> length nonce = 12 \<longrightarrow> length ct = 48 \<longrightarrow>
        length (st_json_encode s (vault_header_to_json (st_b64u s) (filled_header sec salt nonce ct)))
          \<le> VAULT_MAX_UNCOMPRESSED)"

lemma wrap_dek_form:
  assumes "wrap_dek en sec r = (Inr header, en', r')"
  shows "\<exists>dek salt nonce kek. en' = en\<lparr>en_dek := Some dek\<rparr> \<and> (\<forall>k. en_dek en = Some k \<longrightarrow> k = dek) \<and>
    length salt = 16 \<and> length nonce = 12 \<and> slot_key (en_suite en) sec salt = Some kek \<and>
    header = packed_header (en_suite en)
      (filled_header sec salt nonce (st_seal (en_suite en) (recast kek) nonce [] (as_bytes dek)))"
proof -
  obtain dek q where d: "dek_minted en r = (en\<lparr>en_dek := Some dek\<rparr>, dek, q)" "\<forall>k. en_dek en = Some k \<longrightarrow> k = dek"
    by (cases "en_dek en") (auto simp: dek_minted_def draw_def Let_def)
  let ?salt = "take 16 (as_bytes (shd q))" and ?nonce = "take 12 (as_bytes (shd (stl q)))"
  have "\<exists>kek. slot_key (en_suite en) sec ?salt = Some kek \<and> en' = en\<lparr>en_dek := Some dek\<rparr> \<and>
    header = packed_header (en_suite en)
      (filled_header sec ?salt ?nonce (st_seal (en_suite en) (recast kek) ?nonce [] (as_bytes dek)))"
    using assms
    by (cases sec) (auto simp: wrap_dek_def d(1) draw_def Let_def split: if_splits option.splits)
  moreover have "length ?salt = 16" "length ?nonce = 12" by simp_all
  ultimately show ?thesis using d(2) by blast
qed

lemma header_str_canon: "members_ok m \<Longrightarrow> header_str b (canon_members m) k = header_str b m k"
  by (cases "get m k") (auto simp: header_str_def get_canon split: json.splits)

lemma header_str_get: "b64u_ok b \<Longrightarrow> get m k = Some (bstr b bs) \<Longrightarrow> header_str b m k = Inr bs"
  by (simp add: header_str_def bstr_def b64u_okD)

lemma unlock_filled:
  assumes "packet_suite_ok (en_suite en)" "slot_key (en_suite en) sec salt = Some kek" "length salt = 16" "length nonce = 12"
    and header: "h = filled_header sec salt nonce (st_seal (en_suite en) (recast kek) nonce [] (as_bytes dek))"
    and fits: "length (st_json_encode (en_suite en) (vault_header_to_json (st_b64u (en_suite en)) h)) \<le> VAULT_MAX_UNCOMPRESSED"
  shows "unlock en (packed_header (en_suite en) h) sec = Inr (en\<lparr>en_dek := Some dek\<rparr>)"
proof -
  let ?s = "en_suite en" and ?b = "st_b64u (en_suite en)"
  have laws: "b64u_ok ?b" "canonical_json_ok ?s" "compress_ok ?s" "aead_ok ?s"
    using assms(1) by (simp_all add: packet_suite_ok_def)
  obtain m where m: "vault_header_to_json ?b h = JObject m" by (simp add: vault_header_to_json_def)
  have ok: "json_ok (JObject m)"
    unfolding m [symmetric] header using laws(1) by (cases sec) (simp_all add: vault_header_to_json_def plain_header_def)
  then obtain v where v: "st_json_decode ?s (st_json_encode ?s (JObject m)) = Some v" "canon v = canon (JObject m)"
    using laws(2) unfolding canonical_json_ok_def by blast
  then obtain m' where m': "v = JObject m'" "canon_members m' = canon_members m" by (cases v) auto
  have "members_ok m'" using json_ok_canon [of "JObject m'"] json_ok_canon [of "JObject m"] ok v(2) m'(1) by simp
  then have str: "header_str ?b m' k = header_str ?b m k" for k
    using header_str_canon m'(2) ok by (metis json_ok_JObject)
  have raw: "st_decompress ?s (packed_header ?s h) VAULT_MAX_UNCOMPRESSED = Inr (st_json_encode ?s (JObject m))"
    using fits laws(3) by (simp add: packed_header_def m compress_ok_def)
  have "header_str ?b m ''salt'' = Inr salt"
    using m by (intro header_str_get [OF laws(1)]) (cases sec; auto simp: header vault_header_to_json_def plain_header_def)
  moreover have "open_wrapped ?s m' ''passphrase_nonce'' ''passphrase_wrapped_dek'' kek = Inr dek" if "sec = Passphrase p" for p
  proof -
    have "get m ''passphrase_nonce'' = Some (bstr ?b nonce)"
      "get m ''passphrase_wrapped_dek'' = Some (bstr ?b (st_seal ?s (recast kek) nonce [] (as_bytes dek)))"
      using m by (auto simp: header vault_header_to_json_def plain_header_def that)
    then show ?thesis
      using laws(4) assms(4) by (simp add: open_wrapped_def str header_str_get [OF laws(1)] array_of_def aead_ok_def)
  qed
  moreover have "open_wrapped ?s m' ''prf_nonce'' ''prf_wrapped_dek'' kek = Inr dek" if "sec = Prf p" for p
  proof -
    have "get m ''prf_nonce'' = Some (bstr ?b nonce)"
      "get m ''prf_wrapped_dek'' = Some (bstr ?b (st_seal ?s (recast kek) nonce [] (as_bytes dek)))"
      using m by (auto simp: header vault_header_to_json_def plain_header_def that)
    then show ?thesis
      using laws(4) assms(4) by (simp add: open_wrapped_def str header_str_get [OF laws(1)] array_of_def aead_ok_def)
  qed
  ultimately show ?thesis
    using assms(2,3) v(1) by (cases sec) (simp_all add: unlock_def raw m' str array_of_def Let_def)
qed


lemma sample_headers_fit: "headers_fit sample_suite"
proof -
  have "length (json_encode (vault_header_to_json (st_b64u sample_suite) (filled_header sec salt nonce ct))) \<le> 4096"
    if "length salt = 16" "length nonce = 12" "length ct = 48" for sec salt nonce ct
  proof -
    let ?v = "vault_header_to_json (st_b64u sample_suite) (filled_header sec salt nonce ct)"
    have "plain_json ?v"
      using plain_letters
      by (cases sec) (simp_all add: vault_header_to_json_def plain_header_def bstr_def sample_suite_def plain_str_def)
    moreover have "json_bound ?v \<le> 4096"
      using plain_letters that
      by (cases sec) (simp_all add: vault_header_to_json_def plain_header_def bstr_def sample_suite_def)
    ultimately show ?thesis using length_json_bound [of ?v] by simp
  qed
  moreover have "st_json_encode sample_suite = json_encode" by (simp add: sample_suite_def)
  ultimately show ?thesis by (simp add: headers_fit_def VAULT_MAX_UNCOMPRESSED_def)
qed


section \<open>Persist records\<close>

lemma persist_record_opens:
  assumes "packet_suite_ok (en_suite en)" "body_wf b" "json_ok (durable_body_to_json (st_b64u (en_suite en)) b)"
    "persist_record en seq b = Inr rec" "en_suite en' = en_suite en" "en_dek en' = en_dek en"
  shows "open_record en' rec = Inr b" "record_seq rec = seq"
proof -
  let ?s = "en_suite en"
  have laws: "b64u_ok (st_b64u ?s)" "canonical_json_ok ?s" "compress_ok ?s" "aead_ok ?s"
    using assms(1) by (simp_all add: packet_suite_ok_def)
  obtain dek where dek: "en_dek en = Some dek"
    and len: "length (st_json_encode ?s (durable_body_to_json (st_b64u ?s) b)) \<le> PERSIST_MAX_UNCOMPRESSED"
    and rec: "rec = persist_nonce PERSIST_VERSION seq @ st_seal ?s dek (persist_nonce PERSIST_VERSION seq) [] (packed_durable_body ?s b)"
    using persist_record_form [OF assms(4)] by blast
  obtain v where v: "st_json_decode ?s (st_json_encode ?s (durable_body_to_json (st_b64u ?s) b)) = Some v"
      "durable_body_from_json (st_b64u ?s) v = Some b"
    using body_codec.wire_roundtrip [OF laws(1,2) assms(2,3)] by (auto simp: bind_eq_Some_conv)
  show "open_record en' rec = Inr b"
    using laws len v assms(5,6) dek
    by (simp add: open_record_def require_dek_def rec AEAD_NONCE_LEN_def aead_ok_def compress_ok_def packed_durable_body_def)
  show "record_seq rec = seq"
    by (simp add: record_seq_def rec AEAD_NONCE_LEN_def persist_nonce_seq)
qed


lemma init_body_json:
  "body_wf init_body" "json_ok (durable_body_to_json (st_b64u sample_suite) init_body)"
  "length (json_encode (durable_body_to_json (st_b64u sample_suite) init_body)) \<le> 1000"
proof -
  let ?v = "durable_body_to_json (st_b64u sample_suite) init_body"
  show "body_wf init_body" by (simp add: init_body_def body_wf_def payload_wf_def)
  show "json_ok ?v"
    using sample_b64u_ok by (simp add: init_body_def durable_body_to_json_def payload_to_json_def hlc_json_def)
  have "plain_json ?v" "json_bound ?v \<le> 1000"
    using plain_letters
    by (simp_all add: init_body_def durable_body_to_json_def payload_to_json_def hlc_json_def bstr_def sample_suite_def plain_str_def)
  then show "length (json_encode ?v) \<le> 1000" using length_json_bound [of ?v] by simp
qed

lemma sample_record: "\<exists>rec. persist_record sample_engine 4 init_body = Inr rec"
  using init_body_json(3)
  by (simp add: persist_record_def require_dek_def sample_engine_def Let_def PERSIST_MAX_UNCOMPRESSED_def)
    (simp add: sample_suite_def u64_max_def)


section \<open>Nonces\<close>

text \<open>C25: A transaction that is stored already is sealed again under the next sequence number without
  taking it, and a snapshot is sealed under that number too: the record of the next transaction, the
  repeated record and the snapshot are three plaintexts under one key and one nonce.\<close>

theorem nonces_repeat:
  assumes "body st (tx_id_of en sec p) \<noteq> None" "merge_tx en sec cid p (st, g) = (Inr (t, old, rec), st1, g1)"
    "merge_tx en sec' cid' p' (st1, g1) = (Inr (t', b, rec'), st2, g2)" "seal_snapshot en st1 canonical = Inr snap"
  shows "\<exists>dek nonce. en_dek en = Some dek \<and>
    rec = nonce @ st_seal (en_suite en) dek nonce [] (packed_durable_body (en_suite en) old) \<and>
    rec' = nonce @ st_seal (en_suite en) dek nonce [] (packed_durable_body (en_suite en) b) \<and>
    snap = nonce @ st_seal (en_suite en) dek nonce [] (st_compress (en_suite en) canonical) \<and> length nonce = 12"
proof -
  have first: "st1 = st" "persist_record en (es_next_seq st) old = Inr rec"
    using assms(1,2)
    by (auto simp: merge_tx_def reading_def act_then_def lift_def ret_def throw_def Let_def
        split: option.splits sum.splits if_splits)
  have second: "persist_record en (es_next_seq st1) b = Inr rec'"
    using assms(3)
    by (auto simp: merge_tx_def reading_def act_then_def lift_def ret_def throw_def modify_def storing_def Let_def
        split: option.splits sum.splits if_splits prod.splits)
  obtain dek where dek: "en_dek en = Some dek" using persist_record_form [OF second] by blast
  have "snap = persist_nonce FOLD_VERSION (es_next_seq st) @
      st_seal (en_suite en) dek (persist_nonce FOLD_VERSION (es_next_seq st)) [] (st_compress (en_suite en) canonical)"
    using assms(4) first(1) dek by (auto simp: seal_snapshot_def require_dek_def Let_def split: if_splits)
  moreover have "FOLD_VERSION = PERSIST_VERSION" by (simp add: FOLD_VERSION_def PERSIST_VERSION_def)
  ultimately show ?thesis
    using persist_record_form [OF first(2)] persist_record_form [OF second] first(1) dek by auto
qed

definition naming :: tx_payload where
  "naming = EngineSetDeviceName (DisplayName ''b'')"

definition held :: "tag \<Rightarrow> engine_state" where
  "held t = (place_body t PlaceEngine
    (state_new\<lparr>es_engine_log := [(t, \<lparr>row_conversation_id = fill 0, row_hlc = sample_hlc, row_payload = Init\<rparr>)]\<rparr>))
      \<lparr>es_ticked := Some 5\<rparr>"

lemma held_body: "body (held t) t' = (if t' = t then Some init_body else None)"
  by (simp add: held_def body_def place_body_def state_new_def init_body_def log_get_def row_body_def durable_def)

lemma sample_ids_differ: "tx_id_of sample_engine sec EngineInit \<noteq> tx_id_of sample_engine sec naming"
proof -
  note encoded = payload_to_json_def json_encode_def write_json_object sort_members_def write_member_def write_plain
    plain_str_def encode_utf8_def encode_utf16_def chars_ascii of_char_byte
  have third: "as_bytes (tx_id_of sample_engine sec p) ! 2 = (rev (json_encode (payload_to_json (st_b64u sample_suite) p)) @ replicate 32 0) ! 2" for p
    by (simp add: tx_id_of_def sample_engine_def sample_suite_def sample_hmac_def Let_def del: take_append)
  have "as_bytes (tx_id_of sample_engine sec EngineInit) ! 2 = 116" unfolding third by (simp add: encoded)
  moreover have "as_bytes (tx_id_of sample_engine sec naming) ! 2 = 101" unfolding third by (simp add: encoded naming_def)
  ultimately show ?thesis by auto
qed

lemma naming_json:
  assumes "b = \<lparr>db_conversation_id = fill 0, db_hlc = h, db_payload = naming\<rparr>"
  shows "length (json_encode (durable_body_to_json (st_b64u sample_suite) b)) \<le> 1000"
proof -
  let ?v = "durable_body_to_json (st_b64u sample_suite) b"
  have "plain_json ?v" "json_bound ?v \<le> 1000"
    using plain_letters
    by (simp_all add: assms naming_def durable_body_to_json_def payload_to_json_def hlc_json_def bstr_def sample_suite_def plain_str_def)
  then show ?thesis using length_json_bound [of ?v] by simp
qed

lemma insert_naming:
  assumes "t' \<noteq> t" "b = \<lparr>db_conversation_id = fill 0, db_hlc = h, db_payload = naming\<rparr>"
  shows "\<exists>st. insert_body t' b (bump_seq (log_persist 0 t' (held t))) = (Inr (), st)"
  using assms
  by (simp add: held_def naming_def insert_body_def state_new_def place_of_def identities_def device_default_def
      dev_convs_def log_put_def tx_row_of_def bt_contains_def place_body_def then_some_def log_persist_def bump_seq_def Let_def)

theorem nonces_repeat_witness:
  "\<exists>st b st2 nonce rest rest' rest''.
     merge_tx sample_engine (fill 5) (fill 0) EngineInit (st, sconst (fill 1)) =
       (Inr (tx_id_of sample_engine (fill 5) EngineInit, init_body, nonce @ rest), st, sconst (fill 1)) \<and>
     merge_tx sample_engine (fill 5) (fill 0) naming (st, sconst (fill 1)) =
       (Inr (tx_id_of sample_engine (fill 5) naming, b, nonce @ rest'), st2, sconst (fill 1)) \<and>
     db_payload b = naming \<and> seal_snapshot sample_engine st [1] = Inr (nonce @ rest'') \<and> length nonce = 12"
proof -
  let ?t = "tx_id_of sample_engine (fill 5) EngineInit" and ?st = "held (tx_id_of sample_engine (fill 5) EngineInit)"
  define b where "b = \<lparr>db_conversation_id = fill 0, db_hlc = \<lparr>hlc_wall_ms = saturating_mul 5 1000, hlc_counter = 0\<rparr>, db_payload = naming\<rparr>"
  have s: "en_suite sample_engine = sample_suite" "require_dek sample_engine = Inr (fill 8)"
      "st_json_encode sample_suite = json_encode" "require_tick ?st = Inr 5" "es_next_seq ?st = 0" "0 \<noteq> u64_max"
    by (simp_all add: sample_engine_def require_dek_def sample_suite_def held_def require_tick_def place_body_def
        state_new_def u64_max_def)
  obtain rec where rec: "persist_record sample_engine 0 init_body = Inr rec"
    using init_body_json(3) by (simp add: persist_record_def s Let_def PERSIST_MAX_UNCOMPRESSED_def)
  obtain rec' where rec': "persist_record sample_engine 0 b = Inr rec'"
    using naming_json [OF b_def] by (simp add: persist_record_def s Let_def PERSIST_MAX_UNCOMPRESSED_def)
  obtain snap where snap: "seal_snapshot sample_engine ?st [1] = Inr snap"
    by (simp add: seal_snapshot_def s Let_def PERSIST_MAX_UNCOMPRESSED_def)
  have repeated: "merge_tx sample_engine (fill 5) (fill 0) EngineInit (?st, sconst (fill 1)) = (Inr (?t, init_body, rec), ?st, sconst (fill 1))"
    using rec by (simp add: merge_tx_def reading_def act_then_def lift_def ret_def s held_body Let_def) (simp add: init_body_def)
  obtain st2 where stored: "insert_body (tx_id_of sample_engine (fill 5) naming) b
      (bump_seq (log_persist 0 (tx_id_of sample_engine (fill 5) naming) ?st)) = (Inr (), st2)"
    using insert_naming [OF sample_ids_differ [symmetric] b_def] by blast
  then have named: "merge_tx sample_engine (fill 5) (fill 0) naming (?st, sconst (fill 1)) =
      (Inr (tx_id_of sample_engine (fill 5) naming, b, rec'), st2, sconst (fill 1))"
    using rec' stored
    by (simp add: merge_tx_def reading_def act_then_def lift_def ret_def s held_body modify_def storing_def Let_def
        sample_ids_differ [symmetric] flip: b_def)
  have "body ?st ?t \<noteq> None" by (simp add: held_body)
  from nonces_repeat [OF this repeated named snap] obtain nonce rest rest' rest'' where
    "rec = nonce @ rest" "rec' = nonce @ rest'" "snap = nonce @ rest''" "length nonce = 12" by blast
  moreover have "db_payload b = naming" by (simp add: b_def)
  ultimately show ?thesis using repeated named snap by blast
qed

end
