(* ===== verification/Handshake_Properties.thy ===== *)
theory Handshake_Properties
  imports Engine_Properties
begin

text \<open>
  The end of a handshake: both sides hold the same two KEM secrets, compute the same fingerprint and
  spawn the same conversation; the clock of the engine and what is listed for the host.
\<close>

section \<open>Agreement\<close>

lemma take_shared_whole: "length shared = KEM_SHARED_LEN \<Longrightarrow> take_shared32 shared = from_array shared"
  by (simp add: take_shared32_def Let_def)

lemma unwrap_shared_wrapped:
  assumes "kem_ok (en_suite en)" "st_kem_generate (en_suite en) pol seed = Inr kp"
    "st_kem_wrap (en_suite en) pol (kp_public kp) seed' = Inr (shared, ct)" "unwrap_shared en pol (kp_secret kp) ct = Some s"
  shows "s = take_shared32 shared"
proof -
  have "st_kem_unwrap (en_suite en) pol (kp_secret kp) ct = Inr shared" using assms(1-3) unfolding kem_ok_def by blast
  with assms(4) show ?thesis by (auto simp: unwrap_shared_def take_shared_whole split: if_splits)
qed

text \<open>The two sides of a conversation \<open>cid\<close>: what the handlers put into their rows, and any later steps that
  do not fail.\<close>

definition inviter_done :: "engine \<Rightarrow> policy \<Rightarrow> ticket \<Rightarrow> key_pair \<Rightarrow> bytes \<Rightarrow> bytes \<Rightarrow> Party.party \<Rightarrow> bool" where
  "inviter_done en pol tk intake ct shared p \<longleftrightarrow>
     (\<exists>bin s. unwrap_shared en pol (kp_secret intake) ct = Some s \<and>
        party_step\<^sup>*\<^sup>* (Inviter (snd (inviter_mint_intro s (take_shared32 shared) (NoticePinned tk intake bin)))) p \<and>
        party_failure p = None)"

definition invitee_done :: "engine \<Rightarrow> policy \<Rightarrow> ticket \<Rightarrow> key_pair \<Rightarrow> bytes \<Rightarrow> bytes \<Rightarrow> Party.party \<Rightarrow> bool" where
  "invitee_done en pol tk intake ct shared p \<longleftrightarrow>
     (\<exists>bin s ph. unwrap_shared en pol (kp_secret intake) ct = Some s \<and>
        invitee_step\<^sup>*\<^sup>* (snd (invitee_mint_intro intake (take_shared32 shared) (InviteReceived tk bin pol))) ph \<and>
        fst (invitee_confirm_peer s ph) \<and> party_step\<^sup>*\<^sup>* (Invitee (snd (invitee_confirm_peer s ph))) p \<and>
        party_failure p = None)"

lemma inviter_done_secrets:
  assumes "inviter_done en pol tk intake ct shared p" "kem_ok (en_suite en)"
    "st_kem_generate (en_suite en) pol seed = Inr intake" "st_kem_wrap (en_suite en) pol (kp_public intake) seed' = Inr (own, ct)"
  shows "party_ticket p = tk" "party_shared_inviter p = Some (take_shared32 own)" "party_shared_invitee p = Some (take_shared32 shared)"
  using assms(1) unwrap_shared_wrapped [OF assms(2-4)] unfolding inviter_done_def
  by (auto dest: party.reach_ticket party.reach_secrets)

lemma confirming_phase:
  "fst (invitee_confirm_peer s ph) \<Longrightarrow> invitee_failure ph = None \<and>
     invitee_shared_inviter (snd (invitee_confirm_peer s ph)) = invitee_shared_inviter ph \<and>
     invitee_shared_invitee (snd (invitee_confirm_peer s ph)) = Some s \<and>
     invitee_ticket (snd (invitee_confirm_peer s ph)) = invitee_ticket ph"
  by (cases ph) auto

lemma invitee_done_secrets:
  assumes "invitee_done en pol tk intake ct shared p" "kem_ok (en_suite en)"
    "st_kem_generate (en_suite en) pol seed = Inr intake" "st_kem_wrap (en_suite en) pol (kp_public intake) seed' = Inr (own, ct)"
  shows "party_ticket p = tk" "party_shared_inviter p = Some (take_shared32 shared)" "party_shared_invitee p = Some (take_shared32 own)"
proof -
  obtain bin s ph where s: "unwrap_shared en pol (kp_secret intake) ct = Some s" and ok: "party_failure p = None"
    and minted: "invitee_step\<^sup>*\<^sup>* (snd (invitee_mint_intro intake (take_shared32 shared) (InviteReceived tk bin pol))) ph"
    and conf: "fst (invitee_confirm_peer s ph)" and rest: "party_step\<^sup>*\<^sup>* (Invitee (snd (invitee_confirm_peer s ph))) p"
    using assms(1) unfolding invitee_done_def by blast
  have ph: "invitee_ticket ph = tk" "invitee_shared_inviter ph = Some (take_shared32 shared)"
    using invitee.reach_ticket [OF minted] invitee.reach_secrets [OF minted] confirming_phase [OF conf] by auto
  show "party_ticket p = tk" "party_shared_inviter p = Some (take_shared32 shared)" "party_shared_invitee p = Some (take_shared32 own)"
    using party.reach_ticket [OF rest] party.reach_secrets [OF rest ok] confirming_phase [OF conf] ph
      unwrap_shared_wrapped [OF assms(2-4) s] by auto
qed

text \<open>C6: When both sides of a direct handshake have each other's introduction and neither has failed, they
  compute the same fingerprint and the same secret, and the conversation they spawn has the same id.\<close>

theorem fingerprints_agree:
  assumes "kem_ok (en_suite a)" "en_suite b = en_suite a"
    and generated: "st_kem_generate (en_suite a) pol seed1 = Inr intake1" "st_kem_generate (en_suite a) pol seed2 = Inr intake2"
    and wrapped: "st_kem_wrap (en_suite a) pol (kp_public intake1) seed3 = Inr (shared1, ct1)"
      "st_kem_wrap (en_suite a) pol (kp_public intake2) seed4 = Inr (shared2, ct2)"
    and rows: "State.party st_a cid = Some (Dm p)" "State.party st_b cid = Some (Dm q)"
      "inviter_done a pol tk intake1 ct1 shared2 p" "invitee_done b pol tk intake2 ct2 shared1 q"
    and intros: "inviter_intro_for st_a cid = Some i" "inviter_intro_for st_b cid = Some i"
      "invitee_intro_for st_a cid = Some e" "invitee_intro_for st_b cid = Some e"
    and direct: "\<not> is_sync st_a cid" "\<not> is_sync st_b cid"
  shows "\<exists>fingerprint secret. try_fingerprint a st_a cid = Some (fingerprint, secret) \<and>
    try_fingerprint b st_b cid = Some (fingerprint, secret) \<and> child_id a secret = child_id b secret"
proof -
  note side_a = inviter_done_secrets [OF rows(3) assms(1) generated(1) wrapped(1)]
  note side_b = invitee_done_secrets [OF rows(4), unfolded assms(2), OF assms(1) generated(2) wrapped(2)]
  have "dm_party st_a cid = Some p" "dm_party st_b cid = Some q"
    using rows(1,2) by (auto simp: State.party_def split: option.splits)
  then have "ticket_of st_a cid = Some tk" "ticket_of st_b cid = Some tk" by (simp_all add: ticket_of_def side_a side_b)
  then show ?thesis
    using rows(1,2) intros direct assms(2)
    by (simp add: try_fingerprint_def side_a side_b fingerprint_payloads_def child_id_def Let_def)
qed

definition sample_pair :: key_pair where
  "sample_pair = \<lparr>kp_public = replicate (kem_pk_len Hybrid) 0, kp_secret = replicate (kem_sk_len Hybrid) 0\<rparr>"

definition sample_prefs :: on_wire_prefs where
  "sample_prefs = \<lparr>owp_read_receipts = True, owp_online_visible = True, owp_send_typing = True, owp_disappear_after = None,
     owp_wake = None\<rparr>"

definition sample_inviter :: tx_inviter_intro where
  "sample_inviter = \<lparr>iri_name = DisplayName ''a'', iri_profile_pic = None, iri_send_tag_key = fill 1, iri_eph_send_tag_key = fill 2,
     iri_encryption_pk = EncryptionPublicKey [1], iri_signing_pk = SigningPublicKey [2], iri_seed_ct = replicate (kem_ct_len Hybrid) 0,
     iri_prefs = sample_prefs\<rparr>"

definition sample_invitee :: tx_invitee_intro where
  "sample_invitee = \<lparr>iei_name = DisplayName ''b'', iei_profile_pic = None, iei_send_tag_key = fill 3, iei_eph_send_tag_key = fill 4,
     iei_encryption_pk = EncryptionPublicKey [3], iei_signing_pk = SigningPublicKey [4], iei_intake_pk = EncryptionPublicKey (kp_public sample_pair),
     iei_seed_ct = replicate (kem_ct_len Hybrid) 0, iei_prefs = sample_prefs\<rparr>"

definition side :: "Party.party \<Rightarrow> engine_state" where
  "side p = put_dm (fill 1) (fill 2) (fill 3) (DmHandshakeRow p
     [(fill 6, \<lparr>row_conversation_id = fill 3, row_hlc = sample_hlc, row_payload = DhInviterIntro sample_inviter\<rparr>),
      (fill 7, \<lparr>row_conversation_id = fill 3, row_hlc = sample_hlc, row_payload = DhInviteeIntro sample_invitee\<rparr>)]
     packet_chains_default) state_new"

lemma side_row:
  "State.party (side p) (fill 3) = Some (Dm p)" "inviter_intro_for (side p) (fill 3) = Some sample_inviter"
  "invitee_intro_for (side p) (fill 3) = Some sample_invitee" "\<not> is_sync (side p) (fill 3)"
  by (simp_all add: side_def put_dm_def ensure_identity_def identity_mut_def state_new_def State.party_def dm_party_def identities_def
      ensure_user_def user_default_def identity_default_def inviter_intro_for_def invitee_intro_for_def find_handshake_def
      dm_handshake_log_def find_row_def is_sync_def dev_convs_def device_default_def bt_contains_def bt_update_def)

theorem fingerprints_agree_witness:
  "\<exists>p q fingerprint secret. is_inviter p \<and> \<not> is_inviter q \<and>
     try_fingerprint sample_engine (side p) (fill 3) = Some (fingerprint, secret) \<and>
     try_fingerprint sample_engine (side q) (fill 3) = Some (fingerprint, secret)"
proof -
  let ?z = "replicate 32 0 :: bytes" and ?ct = "replicate (kem_ct_len Hybrid) 0 :: bytes"
  define p where "p = Inviter (InviterIntroMinted sample_ticket sample_pair (take_shared32 ?z) (take_shared32 ?z) 0)"
  define q where "q = Invitee (InviteeConfirming sample_ticket 0 Hybrid sample_pair (take_shared32 ?z) (take_shared32 ?z))"
  have s: "en_suite sample_engine = sample_suite" by (simp add: sample_engine_def)
  have kem: "st_kem_generate sample_suite Hybrid [] = Inr sample_pair" "st_kem_wrap sample_suite Hybrid (kp_public sample_pair) [] = Inr (?z, ?ct)"
    by (simp_all add: sample_suite_def sample_pair_def)
  have "unwrap_shared sample_engine Hybrid (kp_secret sample_pair) ?ct = Some (take_shared32 ?z)"
    by (simp add: unwrap_shared_def s sample_suite_def KEM_SHARED_LEN_def take_shared_whole)
  then have "inviter_done sample_engine Hybrid sample_ticket sample_pair ?ct ?z p"
    "invitee_done sample_engine Hybrid sample_ticket sample_pair ?ct ?z q"
    unfolding inviter_done_def invitee_done_def p_def q_def by (force intro!: exI [of _ 0])+
  note fingerprints_agree [OF _ refl, of sample_engine, unfolded s, OF sample_kem_ok kem(1) kem(1) kem(2) kem(2) side_row(1) side_row(1) this
      side_row(2) side_row(2) side_row(3) side_row(3) side_row(4) side_row(4)]
  moreover have "is_inviter p" "\<not> is_inviter q" by (simp_all add: p_def q_def)
  ultimately show ?thesis by blast
qed

end
