(* ===== verification/Fold_Tree.thy ===== *)
theory Fold_Tree
  imports Persist
begin

text \<open>
  The JSON of a snapshot's rows: groups (the end of \<open>engine/group.rs\<close>), handshake phases, chains,
  conversations, users and the device (\<open>engine/fold_tree.rs\<close>). A reader that returns
  \<open>MalformedPersist\<close> in every failing branch reads one member at a time: \<open>fold_at\<close> a member that must
  be there (\<open>field(m, key)?\<close>), \<open>fold_opt\<close> one that may be missing (\<open>optional(m, key)\<close>).
\<close>

section \<open>Readers\<close>

definition fold_at :: "members \<Rightarrow> string \<Rightarrow> (json \<Rightarrow> engine_error + 'a) \<Rightarrow> engine_error + 'a" where
  "fold_at m k p = and_then (ok_or (get m k) MalformedPersist) p"

definition fold_opt :: "members \<Rightarrow> string \<Rightarrow> (json \<Rightarrow> engine_error + 'a) \<Rightarrow> engine_error + 'a option" where
  "fold_opt m k p = (case get m k of None \<Rightarrow> Inr None | Some v \<Rightarrow> and_then (p v) (\<lambda>x. Inr (Some x)))"

fun as_object :: "json \<Rightarrow> engine_error + members" where
  "as_object (JObject m) = Inr m"
| "as_object _ = Inl MalformedPersist"

fun as_array :: "json \<Rightarrow> engine_error + json list" where
  "as_array (JArray xs) = Inr xs"
| "as_array _ = Inl MalformedPersist"

fun as_text :: "json \<Rightarrow> engine_error + string" where
  "as_text (JString s) = Inr s"
| "as_text _ = Inl MalformedPersist"

fun as_flag :: "json \<Rightarrow> engine_error + bool" where
  "as_flag (JBool x) = Inr x"
| "as_flag _ = Inl MalformedPersist"

text \<open>\<open>collect::<Result<Vec<_>, _>>()\<close>, and a loop that inserts into what it builds.\<close>

fun try_map :: "('a \<Rightarrow> 'e + 'b) \<Rightarrow> 'a list \<Rightarrow> 'e + 'b list" where
  "try_map f [] = Inr []"
| "try_map f (x # xs) = and_then (f x) (\<lambda>y. and_then (try_map f xs) (\<lambda>ys. Inr (y # ys)))"

fun try_fold :: "('a \<Rightarrow> 's \<Rightarrow> 'e + 's) \<Rightarrow> 'a list \<Rightarrow> 's \<Rightarrow> 'e + 's" where
  "try_fold f [] st = Inr st"
| "try_fold f (x # xs) st = and_then (f x st) (try_fold f xs)"

definition read_array :: "(json \<Rightarrow> engine_error + 'a) \<Rightarrow> json \<Rightarrow> engine_error + 'a list" where
  "read_array p v = and_then (as_array v) (try_map p)"

fun nullable :: "(json \<Rightarrow> engine_error + 'a) \<Rightarrow> json \<Rightarrow> engine_error + 'a option" where
  "nullable p JNull = Inr None"
| "nullable p v = and_then (p v) (\<lambda>x. Inr (Some x))"

fun join_option :: "'a option option \<Rightarrow> 'a option" where
  "join_option (Some x) = x"
| "join_option None = None"

definition read_name :: "json \<Rightarrow> engine_error + display_name" where
  "read_name v = and_then (as_text v) (\<lambda>s. map_err (\<lambda>_. MalformedPersist) (display_name_try_from s))"

definition read_pic :: "b64u \<Rightarrow> json \<Rightarrow> engine_error + profile_pic" where
  "read_pic b v = and_then (decode_fold_bstr b v) (\<lambda>bs. map_err (\<lambda>_. MalformedPersist) (profile_pic_try_from bs))"

definition read_policy :: "json \<Rightarrow> engine_error + policy" where
  "read_policy v = and_then (as_text v) (\<lambda>s. ok_or (parse_policy s) MalformedPersist)"

fun opt_name :: "display_name option \<Rightarrow> json" where
  "opt_name (Some n) = JString (name_str n)"
| "opt_name None = JNull"

fun opt_pic :: "b64u \<Rightarrow> profile_pic option \<Rightarrow> json" where
  "opt_pic b (Some p) = bstr b (pic_bytes p)"
| "opt_pic b None = JNull"

section \<open>Groups\<close>

definition pending_json :: "b64u \<Rightarrow> group_pending \<Rightarrow> json" where
  "pending_json b row = JObject [
     (''signing_pk'', bstr b (sign_pk_bytes (gpe_signing_pk row))),
     (''encryption_pk'', bstr b (enc_pk_bytes (gpe_encryption_pk row))),
     (''from'', bstr b (as_bytes (gpe_from_conversation_id row))),
     (''name'', JString (name_str (gpe_name row))),
     (''photo'', opt_pic b (gpe_photo row))]"

definition fold_member_json :: "b64u \<Rightarrow> group_member \<Rightarrow> json" where
  "fold_member_json b m = JObject [
     (''signing_pk'', bstr b (sign_pk_bytes (gmb_signing_pk m))),
     (''encryption_pk'', bstr b (enc_pk_bytes (gmb_encryption_pk m))),
     (''send_tag_key'', bstr b (as_bytes (gmb_send_tag_key m))),
     (''eph_send_tag_key'', bstr b (as_bytes (gmb_eph_send_tag_key m)))]"

text \<open>The derived \<open>Debug\<close> of \<open>GroupEnd\<close>.\<close>

fun group_end_str :: "group_end \<Rightarrow> string" where
  "group_end_str OfferRejected = ''OfferRejected''"
| "group_end_str Kicked = ''Kicked''"
| "group_end_str Left = ''Left''"

fun group_json :: "b64u \<Rightarrow> group_phase \<Rightarrow> json" where
  "group_json b (GroupFailed reason) = JObject [(''failed'', JString (group_end_str reason))]"
| "group_json b (Offer offer) = JObject [
     (''offer'', JBool True),
     (''secret'', bstr b (as_bytes (gof_secret offer))),
     (''name'', JString (name_str (gof_name offer))),
     (''owner'', bstr b (sign_pk_bytes (gof_owner_signing_pk offer))),
     (''from'', bstr b (as_bytes (gof_from_conversation_id offer)))]"
| "group_json b (Live live) = JObject [
     (''secret'', bstr b (as_bytes (gl_secret live))),
     (''name'', JString (name_str (gl_name live))),
     (''owner'', bstr b (sign_pk_bytes (gl_owner_signing_pk live))),
     (''epoch'', JNumber (gl_epoch live)),
     (''photo'', opt_pic b (gl_photo live)),
     (''persistents'', JArray (map durable_json (gl_persistents live))),
     (''ephemerals'', JArray (map ephemeral_json (gl_ephemerals live))),
     (''members'', JArray (map (fold_member_json b) (gl_members live))),
     (''pending'', JArray (map (pending_json b) (gl_pending live)))]"

definition fold_parse_member :: "b64u \<Rightarrow> json \<Rightarrow> engine_error + group_member" where
  "fold_parse_member b v =
     and_then (as_object v) (\<lambda>m.
     and_then (fold_at m ''signing_pk'' (decode_fold_bstr b)) (\<lambda>spk.
     and_then (fold_at m ''encryption_pk'' (decode_fold_bstr b)) (\<lambda>epk.
     and_then (fold_at m ''send_tag_key'' (decode_fold32 b)) (\<lambda>stk.
     and_then (fold_at m ''eph_send_tag_key'' (decode_fold32 b)) (\<lambda>etk.
       Inr \<lparr>gmb_signing_pk = SigningPublicKey spk, gmb_encryption_pk = EncryptionPublicKey epk,
            gmb_send_tag_key = stk, gmb_eph_send_tag_key = etk\<rparr>)))))"

definition parse_one_pending :: "b64u \<Rightarrow> json \<Rightarrow> engine_error + group_pending" where
  "parse_one_pending b v =
     and_then (as_object v) (\<lambda>m.
     and_then (fold_at m ''name'' read_name) (\<lambda>name.
     and_then (fold_at m ''signing_pk'' (decode_fold_bstr b)) (\<lambda>spk.
     and_then (fold_at m ''encryption_pk'' (decode_fold_bstr b)) (\<lambda>epk.
     and_then (fold_at m ''from'' (decode_fold32 b)) (\<lambda>from'.
     and_then (fold_opt m ''photo'' (nullable (read_pic b))) (\<lambda>photo.
       Inr \<lparr>gpe_signing_pk = SigningPublicKey spk, gpe_encryption_pk = EncryptionPublicKey epk,
            gpe_from_conversation_id = from', gpe_name = name, gpe_photo = join_option photo\<rparr>))))))"

text \<open>\<open>parse_durable_list(value).map_err(..)\<close>: the codec's reader of channels.\<close>

definition or_malformed :: "('a \<Rightarrow> 'b option) \<Rightarrow> 'a \<Rightarrow> engine_error + 'b" where
  "or_malformed p v = ok_or (p v) MalformedPersist"

definition list_or_nil :: "'a list option \<Rightarrow> 'a list" where
  "list_or_nil xs = (case xs of Some ys \<Rightarrow> ys | None \<Rightarrow> [])"

definition parse_live :: "b64u \<Rightarrow> members \<Rightarrow> secret \<Rightarrow> display_name \<Rightarrow> bytes \<Rightarrow> engine_error + group_phase" where
  "parse_live b m secret name pk =
     and_then (fold_at m ''epoch'' as_number) (\<lambda>epoch.
     and_then (fold_opt m ''photo'' (nullable (read_pic b))) (\<lambda>photo.
     and_then (fold_opt m ''persistents'' (or_malformed parse_durable_list)) (\<lambda>persistents.
     and_then (fold_opt m ''ephemerals'' (or_malformed parse_ephemeral_list)) (\<lambda>ephemerals.
     and_then (fold_opt m ''members'' (read_array (fold_parse_member b))) (\<lambda>ms.
     and_then (fold_opt m ''pending'' (read_array (parse_one_pending b))) (\<lambda>pending.
       Inr (Live \<lparr>gl_secret = secret, gl_name = name, gl_photo = join_option photo,
         gl_owner_signing_pk = SigningPublicKey pk, gl_persistents = list_or_nil persistents,
         gl_ephemerals = list_or_nil ephemerals, gl_members = list_or_nil ms, gl_pending = list_or_nil pending,
         gl_epoch = epoch, gl_log = [], gl_chains = established_chains_default\<rparr>)))))))"

definition parse_offer :: "b64u \<Rightarrow> members \<Rightarrow> secret \<Rightarrow> display_name \<Rightarrow> bytes \<Rightarrow> engine_error + group_phase" where
  "parse_offer b m secret name pk =
     and_then (fold_at m ''from'' (decode_fold32 b)) (\<lambda>from'.
       Inr (Offer \<lparr>gof_secret = secret, gof_name = name, gof_photo = None,
         gof_owner_signing_pk = SigningPublicKey pk, gof_from_conversation_id = from'\<rparr>))"

definition parse_group :: "b64u \<Rightarrow> json \<Rightarrow> engine_error + group_phase" where
  "parse_group b v =
     and_then (as_object v) (\<lambda>m.
       if get m ''failed'' \<noteq> None then Inr (GroupFailed Left)
       else
         and_then (fold_at m ''secret'' (decode_fold32 b)) (\<lambda>secret.
         and_then (fold_at m ''name'' read_name) (\<lambda>name.
         and_then (fold_at m ''owner'' (decode_fold_bstr b)) (\<lambda>pk.
           if get m ''offer'' \<noteq> None then parse_offer b m secret name pk
           else parse_live b m secret name pk))))"

section \<open>Handshake phases\<close>

fun failure_name :: "handshake_failure \<Rightarrow> string" where
  "failure_name (PolicyNotAccepted _) = ''PolicyNotAccepted''"
| "failure_name (InviteExpired _) = ''InviteExpired''"
| "failure_name NoticeUnlockFailed = ''NoticeUnlockFailed''"
| "failure_name NoticeConflict = ''NoticeConflict''"
| "failure_name IntroUnlockFailed = ''IntroUnlockFailed''"
| "failure_name IntroVerifyFailed = ''IntroVerifyFailed''"
| "failure_name DuplicateIntro = ''DuplicateIntro''"
| "failure_name ConfirmationRejected = ''ConfirmationRejected''"
| "failure_name FailureEquivocation = ''Equivocation''"

fun failure_fields :: "handshake_failure \<Rightarrow> members" where
  "failure_fields (PolicyNotAccepted pol) = [(''policy'', JString (policy_str pol))]"
| "failure_fields (InviteExpired expires) = [(''expires'', JNumber expires)]"
| "failure_fields _ = []"

definition failure_json :: "handshake_failure \<Rightarrow> json" where
  "failure_json reason = JObject ((''reason'', JString (failure_name reason)) # failure_fields reason)"

definition parse_failure :: "json \<Rightarrow> engine_error + handshake_failure" where
  "parse_failure v =
     and_then (as_object v) (\<lambda>m.
     and_then (fold_at m ''reason'' as_text) (\<lambda>reason.
       if reason = ''PolicyNotAccepted'' then
         and_then (fold_at m ''policy'' read_policy) (\<lambda>pol. Inr (PolicyNotAccepted pol))
       else if reason = ''InviteExpired'' then
         and_then (fold_at m ''expires'' as_number) (\<lambda>n. Inr (InviteExpired n))
       else if reason = ''NoticeUnlockFailed'' then Inr NoticeUnlockFailed
       else if reason = ''NoticeConflict'' then Inr NoticeConflict
       else if reason = ''IntroUnlockFailed'' then Inr IntroUnlockFailed
       else if reason = ''IntroVerifyFailed'' then Inr IntroVerifyFailed
       else if reason = ''DuplicateIntro'' then Inr DuplicateIntro
       else if reason = ''ConfirmationRejected'' then Inr ConfirmationRejected
       else if reason = ''Equivocation'' then Inr FailureEquivocation
       else Inl MalformedPersist))"

text \<open>\<open>if let Some(x) = opt { members.push((key, f(x))) }\<close>.\<close>

fun push_some :: "string \<Rightarrow> ('a \<Rightarrow> json) \<Rightarrow> 'a option \<Rightarrow> members" where
  "push_some k f (Some x) = [(k, f x)]"
| "push_some k f None = []"

definition phase_json ::
  "b64u \<Rightarrow> string \<Rightarrow> string \<Rightarrow> ticket \<Rightarrow> key_pair option \<Rightarrow> time_bin \<Rightarrow> policy option \<Rightarrow> secret option \<Rightarrow>
     secret option \<Rightarrow> handshake_failure option \<Rightarrow> json" where
  "phase_json b role phase tk intake list_from pol shared_inviter shared_invitee failure =
     JObject ([(''role'', JString role), (''phase'', JString phase), (''ticket'', ticket_to_json b tk),
        (''list_from'', JNumber list_from)] @
       push_some ''intake'' (\<lambda>k. keypair_json b (kp_public k) (kp_secret k)) intake @
       push_some ''policy'' (\<lambda>p. JString (policy_str p)) pol @
       push_some ''shared_inviter'' (\<lambda>s. bstr b (as_bytes s)) shared_inviter @
       push_some ''shared_invitee'' (\<lambda>s. bstr b (as_bytes s)) shared_invitee @
       push_some ''failure'' failure_json failure)"

fun inviter_json :: "b64u \<Rightarrow> inviter_phase \<Rightarrow> json" where
  "inviter_json b (InviteCreated t k l) = phase_json b ''inviter'' ''invite-created'' t (Some k) l None None None None"
| "inviter_json b (NoticePinned t k l) = phase_json b ''inviter'' ''notice-pinned'' t (Some k) l None None None None"
| "inviter_json b (InviterIntroMinted t k si se l) =
     phase_json b ''inviter'' ''introduction-minted'' t (Some k) l None (Some si) (Some se) None"
| "inviter_json b (InviterConfirming t k si se l) =
     phase_json b ''inviter'' ''confirming'' t (Some k) l None (Some si) (Some se) None"
| "inviter_json b (InviterFailed t l r) = phase_json b ''inviter'' ''failed'' t None l None None None (Some r)"

fun invitee_json :: "b64u \<Rightarrow> invitee_phase \<Rightarrow> json" where
  "invitee_json b (TicketReceived t l) = phase_json b ''invitee'' ''ticket-received'' t None l None None None None"
| "invitee_json b (InviteReceived t l p) = phase_json b ''invitee'' ''invite-received'' t None l (Some p) None None None"
| "invitee_json b (InviteeIntroMinted t l p k si) =
     phase_json b ''invitee'' ''introduction-minted'' t (Some k) l (Some p) (Some si) None None"
| "invitee_json b (IntroductionSent t l p k si) =
     phase_json b ''invitee'' ''introduction-sent'' t (Some k) l (Some p) (Some si) None None"
| "invitee_json b (InviteeConfirming t l p k si se) =
     phase_json b ''invitee'' ''confirming'' t (Some k) l (Some p) (Some si) (Some se) None"
| "invitee_json b (InviteeFailed t l r) = phase_json b ''invitee'' ''failed'' t None l None None None (Some r)"

fun party_json :: "b64u \<Rightarrow> Party.party \<Rightarrow> json" where
  "party_json b (Inviter p) = inviter_json b p"
| "party_json b (Invitee p) = invitee_json b p"

text \<open>The members of a phase as they are read, and the phase they make.\<close>

definition some_or :: "'a option \<Rightarrow> ('a \<Rightarrow> engine_error + 'b) \<Rightarrow> engine_error + 'b" where
  "some_or x f = and_then (ok_or x MalformedPersist) f"

definition parse_inviter_phase ::
  "string \<Rightarrow> ticket \<Rightarrow> time_bin \<Rightarrow> key_pair option \<Rightarrow> secret option \<Rightarrow> secret option \<Rightarrow> handshake_failure option \<Rightarrow>
     engine_error + inviter_phase" where
  "parse_inviter_phase phase t l intake si se failure =
     (if phase = ''invite-created'' then some_or intake (\<lambda>k. Inr (InviteCreated t k l))
      else if phase = ''notice-pinned'' then some_or intake (\<lambda>k. Inr (NoticePinned t k l))
      else if phase = ''introduction-minted'' then
        some_or intake (\<lambda>k. some_or si (\<lambda>si. some_or se (\<lambda>se. Inr (InviterIntroMinted t k si se l))))
      else if phase = ''confirming'' then
        some_or intake (\<lambda>k. some_or si (\<lambda>si. some_or se (\<lambda>se. Inr (InviterConfirming t k si se l))))
      else if phase = ''failed'' then some_or failure (\<lambda>r. Inr (InviterFailed t l r))
      else Inl MalformedPersist)"

definition parse_invitee_phase ::
  "string \<Rightarrow> ticket \<Rightarrow> time_bin \<Rightarrow> policy option \<Rightarrow> key_pair option \<Rightarrow> secret option \<Rightarrow> secret option \<Rightarrow>
     handshake_failure option \<Rightarrow> engine_error + invitee_phase" where
  "parse_invitee_phase phase t l pol intake si se failure =
     (if phase = ''ticket-received'' then Inr (TicketReceived t l)
      else if phase = ''invite-received'' then some_or pol (\<lambda>p. Inr (InviteReceived t l p))
      else if phase = ''introduction-minted'' then
        some_or pol (\<lambda>p. some_or intake (\<lambda>k. some_or si (\<lambda>si. Inr (InviteeIntroMinted t l p k si))))
      else if phase = ''introduction-sent'' then
        some_or pol (\<lambda>p. some_or intake (\<lambda>k. some_or si (\<lambda>si. Inr (IntroductionSent t l p k si))))
      else if phase = ''confirming'' then
        some_or pol (\<lambda>p. some_or intake (\<lambda>k. some_or si (\<lambda>si. some_or se (\<lambda>se.
          Inr (InviteeConfirming t l p k si se)))))
      else if phase = ''failed'' then some_or failure (\<lambda>r. Inr (InviteeFailed t l r))
      else Inl MalformedPersist)"

definition read_keypair :: "b64u \<Rightarrow> json \<Rightarrow> engine_error + key_pair" where
  "read_keypair b v = and_then (parse_fold_keypair b v) (\<lambda>(pk, sk). Inr \<lparr>kp_public = pk, kp_secret = sk\<rparr>)"

definition read_sign_pair :: "b64u \<Rightarrow> json \<Rightarrow> engine_error + signing_key_pair" where
  "read_sign_pair b v = and_then (parse_fold_keypair b v) (\<lambda>(pk, sk). Inr \<lparr>skp_public = pk, skp_secret = sk\<rparr>)"

definition optional_secret :: "b64u \<Rightarrow> members \<Rightarrow> string \<Rightarrow> engine_error + secret option" where
  "optional_secret b m k =
     and_then (fold_opt m k (nullable (decode_fold32 b))) (\<lambda>x. Inr (join_option x))"

definition parse_role_phase :: "b64u \<Rightarrow> json \<Rightarrow> engine_error + Party.party" where
  "parse_role_phase b v =
     and_then (as_object v) (\<lambda>m.
     and_then (fold_at m ''role'' as_text) (\<lambda>role.
     and_then (fold_at m ''phase'' as_text) (\<lambda>phase.
     and_then (fold_at m ''ticket'' (or_malformed (ticket_from_json b))) (\<lambda>t.
     and_then (fold_at m ''list_from'' as_number) (\<lambda>l.
     and_then (fold_opt m ''intake'' (read_keypair b)) (\<lambda>intake.
     and_then (fold_opt m ''policy'' read_policy) (\<lambda>pol.
     and_then (optional_secret b m ''shared_inviter'') (\<lambda>si.
     and_then (optional_secret b m ''shared_invitee'') (\<lambda>se.
     and_then (fold_opt m ''failure'' parse_failure) (\<lambda>failure.
       if role = ''inviter'' then
         and_then (parse_inviter_phase phase t l intake si se failure) (\<lambda>p. Inr (Inviter p))
       else if role = ''invitee'' then
         and_then (parse_invitee_phase phase t l pol intake si se failure) (\<lambda>p. Inr (Invitee p))
       else Inl MalformedPersist))))))))))"

section \<open>Chains\<close>

text \<open>A \<open>BTreeSet\<close> is walked in order.\<close>

definition id_array :: "b64u \<Rightarrow> 'r b32 set \<Rightarrow> json" where
  "id_array b ids = JArray (map (\<lambda>i. bstr b (as_bytes i)) (sorted_list_of_set ids))"

definition cached_mk_json :: "b64u \<Rightarrow> cached_mk \<Rightarrow> json" where
  "cached_mk_json b e = JObject [
     (''mk'', bstr b (as_bytes (cm_mk e))),
     (''expires_at'', JNumber (cm_expires_at e)),
     (''tx_id'', case cm_tx_id e of Some i \<Rightarrow> bstr b (as_bytes i) | None \<Rightarrow> JNull)]"

definition skipped_json :: "b64u \<Rightarrow> actor \<times> cached_mk list \<Rightarrow> json" where
  "skipped_json b row = JObject [
     (''actor_id'', bstr b (actor_as_bytes (fst row))),
     (''actor_role'', JString (actor_role (fst row))),
     (''mks'', JArray (map (cached_mk_json b) (snd row)))]"

definition last_ack_json :: "b64u \<Rightarrow> actor \<times> tag set \<Rightarrow> json" where
  "last_ack_json b row = JObject [
     (''actor_id'', bstr b (actor_as_bytes (fst row))),
     (''actor_role'', JString (actor_role (fst row))),
     (''tx_ids'', id_array b (snd row))]"

definition unused_json :: "b64u \<Rightarrow> unused_sk \<Rightarrow> json" where
  "unused_json b sk = JObject [
     (''tx_id'', bstr b (as_bytes (usk_tx_id sk))),
     (''pk'', bstr b (enc_pk_bytes (usk_pk sk))),
     (''sk'', bstr b (usk_sk sk))]"

definition known_json :: "b64u \<Rightarrow> known_shared \<Rightarrow> json" where
  "known_json b row = JObject [
     (''wrap_tx'', bstr b (as_bytes (ks_wrap_tx row))),
     (''shared'', bstr b (as_bytes (ks_shared row))),
     (''ct_hash'', bstr b (as_bytes (ks_ct_hash row))),
     (''from_us'', JBool (ks_from_us row)),
     (''encaps_pk'', bstr b (enc_pk_bytes (ks_encaps_pk row)))]"

definition ratchet_json :: "b64u \<Rightarrow> ratchet \<Rightarrow> json" where
  "ratchet_json b r = JObject [
     (''since'', JNumber (rt_since r)),
     (''minted'', id_array b (rt_minted r)),
     (''unused'', JArray (map (unused_json b) (rt_unused r))),
     (''known'', JArray (map (known_json b) (rt_known r)))]"

definition chains_json :: "b64u \<Rightarrow> conversation_id \<Rightarrow> packet_chains \<Rightarrow> ratchet option \<Rightarrow> members" where
  "chains_json b cid ch r =
     [(''chains'', JArray (map (\<lambda>(actor, chain). chain_to_json b cid actor chain) (pc_send ch))),
      (''recv_chains'', JArray (map (\<lambda>(actor, chain). chain_to_json b cid actor chain) (pc_recv ch))),
      (''skipped_mks'', JArray (map (skipped_json b) (pc_skipped_mks ch))),
      (''last_acks'', JArray (map (last_ack_json b) (pc_last_acks ch)))] @
     push_some ''ratchet'' (ratchet_json b) r"

definition read_chain :: "b64u \<Rightarrow> json \<Rightarrow> engine_error + (actor \<times> send_chain)" where
  "read_chain b v = and_then (chain_from_json b v) (\<lambda>(_, actor, chain). Inr (actor, chain))"

definition read_actor :: "b64u \<Rightarrow> members \<Rightarrow> engine_error + actor" where
  "read_actor b m =
     and_then (fold_at m ''actor_id'' (decode_fold_bstr b)) (\<lambda>bs.
     and_then (fold_opt m ''actor_role'' as_text) (\<lambda>role.
       ok_or (actor_from_stored role bs) MalformedPersist))"

definition read_cached_mk :: "b64u \<Rightarrow> json \<Rightarrow> engine_error + cached_mk" where
  "read_cached_mk b v =
     and_then (as_object v) (\<lambda>m.
     and_then (fold_at m ''mk'' (decode_fold32 b)) (\<lambda>key.
     and_then (fold_at m ''expires_at'' as_number) (\<lambda>expires_at.
     and_then (fold_opt m ''tx_id'' (nullable (decode_fold32 b))) (\<lambda>tx_id.
       Inr \<lparr>cm_mk = key, cm_expires_at = expires_at, cm_tx_id = join_option tx_id\<rparr>))))"

definition read_skipped :: "b64u \<Rightarrow> json \<Rightarrow> engine_error + (actor \<times> cached_mk list)" where
  "read_skipped b v =
     and_then (as_object v) (\<lambda>m.
     and_then (read_actor b m) (\<lambda>actor.
     and_then (fold_at m ''mks'' (read_array (read_cached_mk b))) (\<lambda>entries.
       Inr (actor, entries))))"

definition read_id_set :: "b64u \<Rightarrow> json \<Rightarrow> engine_error + 'r b32 set" where
  "read_id_set b v = and_then (read_array (decode_fold32 b) v) (\<lambda>ids. Inr (set ids))"

definition read_last_ack :: "b64u \<Rightarrow> json \<Rightarrow> engine_error + (actor \<times> tag set)" where
  "read_last_ack b v =
     and_then (as_object v) (\<lambda>m.
     and_then (read_actor b m) (\<lambda>actor.
     and_then (fold_at m ''tx_ids'' (read_id_set b)) (\<lambda>ids.
       Inr (actor, ids))))"

definition read_unused :: "b64u \<Rightarrow> json \<Rightarrow> engine_error + unused_sk" where
  "read_unused b v =
     and_then (as_object v) (\<lambda>m.
     and_then (fold_at m ''tx_id'' (decode_fold32 b)) (\<lambda>tx_id.
     and_then (fold_at m ''pk'' (decode_fold_bstr b)) (\<lambda>pk.
     and_then (fold_at m ''sk'' (decode_fold_bstr b)) (\<lambda>sk.
       Inr \<lparr>usk_tx_id = tx_id, usk_pk = EncryptionPublicKey pk, usk_sk = sk\<rparr>))))"

definition read_known :: "b64u \<Rightarrow> json \<Rightarrow> engine_error + known_shared" where
  "read_known b v =
     and_then (as_object v) (\<lambda>m.
     and_then (fold_at m ''from_us'' as_flag) (\<lambda>from_us.
     and_then (fold_at m ''wrap_tx'' (decode_fold32 b)) (\<lambda>wrap_tx.
     and_then (fold_at m ''shared'' (decode_fold32 b)) (\<lambda>shared.
     and_then (fold_at m ''ct_hash'' (decode_fold32 b)) (\<lambda>ct_hash.
     and_then (fold_at m ''encaps_pk'' (decode_fold_bstr b)) (\<lambda>pk.
       Inr \<lparr>ks_wrap_tx = wrap_tx, ks_shared = shared, ks_ct_hash = ct_hash, ks_from_us = from_us,
            ks_encaps_pk = EncryptionPublicKey pk\<rparr>))))))"

definition parse_ratchet :: "b64u \<Rightarrow> json \<Rightarrow> engine_error + ratchet" where
  "parse_ratchet b v =
     and_then (as_object v) (\<lambda>m.
     and_then (fold_at m ''since'' as_number) (\<lambda>since.
     and_then (fold_at m ''minted'' (read_id_set b)) (\<lambda>minted.
     and_then (fold_at m ''unused'' (read_array (read_unused b))) (\<lambda>unused.
     and_then (fold_at m ''known'' (read_array (read_known b))) (\<lambda>known.
       Inr \<lparr>rt_since = since, rt_minted = minted, rt_unused = unused, rt_known = known\<rparr>)))))"

text \<open>A \<open>BTreeMap\<close> filled by \<open>insert\<close> in the order of the array.\<close>

definition bt_of :: "('k :: linorder \<times> 'v) list \<Rightarrow> ('k, 'v) btree" where
  "bt_of xs = foldl (\<lambda>m (k, v). bt_insert k v m) [] xs"

definition parse_chains :: "b64u \<Rightarrow> members \<Rightarrow> engine_error + (packet_chains \<times> ratchet)" where
  "parse_chains b m =
     and_then (fold_opt m ''chains'' (read_array (read_chain b))) (\<lambda>send.
     and_then (fold_opt m ''recv_chains'' (read_array (read_chain b))) (\<lambda>recv.
     and_then (fold_opt m ''skipped_mks'' (read_array (read_skipped b))) (\<lambda>skipped.
     and_then (fold_opt m ''last_acks'' (read_array (read_last_ack b))) (\<lambda>acks.
     and_then (fold_opt m ''ratchet'' (parse_ratchet b)) (\<lambda>r.
       Inr (packet_chains_default\<lparr>pc_send := bt_of (list_or_nil send), pc_recv := bt_of (list_or_nil recv),
              pc_skipped_mks := bt_of (list_or_nil skipped), pc_last_acks := bt_of (list_or_nil acks)\<rparr>,
            case r of Some r \<Rightarrow> r | None \<Rightarrow> ratchet_default))))))"

definition established_from :: "packet_chains \<Rightarrow> ratchet \<Rightarrow> established_chains" where
  "established_from packet r = established_chains_default\<lparr>ec_packet := packet, ec_ratchet := r\<rparr>"

section \<open>Conversations\<close>

fun identity_chain_json :: "b64u \<Rightarrow> conversation_id \<Rightarrow> identity_conversation \<Rightarrow> members" where
  "identity_chain_json b cid (DmHandshakeRow _ _ ch) = chains_json b cid ch None"
| "identity_chain_json b cid (DirectMessageRow _ _ _ ch) = chains_json b cid (ec_packet ch) (Some (ec_ratchet ch))"
| "identity_chain_json b cid (GroupRow (Live live)) =
     chains_json b cid (ec_packet (gl_chains live)) (Some (ec_ratchet (gl_chains live)))"
| "identity_chain_json b cid (GroupRow _) = []"

fun identity_kind_json :: "b64u \<Rightarrow> identity_conversation \<Rightarrow> string \<times> json" where
  "identity_kind_json b (DmHandshakeRow p _ _) = (''handshake'', party_json b p)"
| "identity_kind_json b (DirectMessageRow s parent _ _) = (''direct_message'',
     JObject [(''secret'', bstr b (as_bytes s)), (''parent'', bstr b (as_bytes parent))])"
| "identity_kind_json b (GroupRow phase) = (''group'', group_json b phase)"

definition identity_conv_json :: "b64u \<Rightarrow> conversation_id \<Rightarrow> identity_conversation \<Rightarrow> json" where
  "identity_conv_json b cid node =
     JObject ([(''conversation_id'', bstr b (as_bytes cid)), identity_kind_json b node] @ identity_chain_json b cid node)"

fun device_chain_json :: "b64u \<Rightarrow> conversation_id \<Rightarrow> device_conversation \<Rightarrow> members" where
  "device_chain_json b cid (SyncHandshakeRow _ _ ch) = chains_json b cid ch None"
| "device_chain_json b cid (SynchronizationRow _ _ _ _ ch) = chains_json b cid (ec_packet ch) (Some (ec_ratchet ch))"

fun device_kind_json :: "b64u \<Rightarrow> device_conversation \<Rightarrow> string \<times> json" where
  "device_kind_json b (SyncHandshakeRow p _ _) = (''handshake'', party_json b p)"
| "device_kind_json b (SynchronizationRow s parent peer _ _) = (''synchronization'',
     JObject [(''secret'', bstr b (as_bytes s)), (''parent'', bstr b (as_bytes parent)), (''peer'', bstr b (as_bytes peer))])"

definition device_conv_json :: "b64u \<Rightarrow> conversation_id \<Rightarrow> device_conversation \<Rightarrow> json" where
  "device_conv_json b cid node =
     JObject ([(''conversation_id'', bstr b (as_bytes cid)), device_kind_json b node] @ device_chain_json b cid node)"

fun with_group_chains :: "established_chains \<Rightarrow> group_phase \<Rightarrow> group_phase" where
  "with_group_chains ch (Live live) = Live (live\<lparr>gl_chains := ch\<rparr>)"
| "with_group_chains ch phase = phase"

definition read_direct :: "b64u \<Rightarrow> established_chains \<Rightarrow> json \<Rightarrow> engine_error + identity_conversation" where
  "read_direct b ch v =
     and_then (as_object v) (\<lambda>d.
     and_then (fold_at d ''secret'' (decode_fold32 b)) (\<lambda>s.
     and_then (fold_at d ''parent'' (decode_fold32 b)) (\<lambda>parent.
       Inr (DirectMessageRow s parent [] ch))))"

definition read_sync :: "b64u \<Rightarrow> established_chains \<Rightarrow> json \<Rightarrow> engine_error + device_conversation" where
  "read_sync b ch v =
     and_then (as_object v) (\<lambda>d.
     and_then (fold_at d ''secret'' (decode_fold32 b)) (\<lambda>s.
     and_then (fold_at d ''parent'' (decode_fold32 b)) (\<lambda>parent.
     and_then (fold_at d ''peer'' (decode_fold32 b)) (\<lambda>peer.
       Inr (SynchronizationRow s parent peer [] ch)))))"

definition parse_identity_conv :: "b64u \<Rightarrow> json \<Rightarrow> engine_error + (conversation_id \<times> identity_conversation)" where
  "parse_identity_conv b v =
     and_then (as_object v) (\<lambda>m.
     and_then (fold_at m ''conversation_id'' (decode_fold32 b)) (\<lambda>cid.
     and_then (parse_chains b m) (\<lambda>(packet, r).
     and_then
       (case get m ''handshake'' of
          Some hs \<Rightarrow> and_then (parse_role_phase b hs) (\<lambda>p. Inr (DmHandshakeRow p [] packet))
        | None \<Rightarrow>
            (case get m ''direct_message'' of
               Some dm \<Rightarrow> read_direct b (established_from packet r) dm
             | None \<Rightarrow>
                 (case get m ''group'' of
                    Some g \<Rightarrow> and_then (parse_group b g) (\<lambda>phase.
                      Inr (GroupRow (with_group_chains (established_from packet r) phase)))
                  | None \<Rightarrow> Inl MalformedPersist))) (\<lambda>node.
       Inr (cid, node)))))"

definition parse_device_conv :: "b64u \<Rightarrow> json \<Rightarrow> engine_error + (conversation_id \<times> device_conversation)" where
  "parse_device_conv b v =
     and_then (as_object v) (\<lambda>m.
     and_then (fold_at m ''conversation_id'' (decode_fold32 b)) (\<lambda>cid.
     and_then (parse_chains b m) (\<lambda>(packet, r).
     and_then
       (case get m ''handshake'' of
          Some hs \<Rightarrow> and_then (parse_role_phase b hs) (\<lambda>p. Inr (SyncHandshakeRow p [] packet))
        | None \<Rightarrow>
            (case get m ''synchronization'' of
               Some s \<Rightarrow> read_sync b (established_from packet r) s
             | None \<Rightarrow> Inl MalformedPersist)) (\<lambda>node.
       Inr (cid, node)))))"

section \<open>Users and the device\<close>

definition identity_json :: "b64u \<Rightarrow> identity_id \<times> identity \<Rightarrow> json" where
  "identity_json b row = JObject [
     (''identity_id'', bstr b (as_bytes (fst row))),
     (''name'', opt_name (idn_name (snd row))),
     (''pic'', opt_pic b (idn_pic (snd row))),
     (''conversations'', JArray (map (\<lambda>(cid, node). identity_conv_json b cid node) (idn_conversations (snd row))))]"

definition user_json :: "b64u \<Rightarrow> user_id \<times> user \<Rightarrow> json" where
  "user_json b row = JObject [
     (''user_id'', bstr b (as_bytes (fst row))),
     (''identities'', JArray (map (identity_json b) (usr_identities (snd row))))]"

definition users_json :: "b64u \<Rightarrow> engine_state \<Rightarrow> json" where
  "users_json b st = JArray (map (user_json b) (es_users st))"

definition keys_json :: "b64u \<Rightarrow> device_keys \<Rightarrow> json" where
  "keys_json b keys = JObject [
     (''id'', bstr b (as_bytes (dk_id keys))),
     (''enc'', keypair_json b (kp_public (dk_enc keys)) (kp_secret (dk_enc keys))),
     (''sign'', keypair_json b (skp_public (dk_sign keys)) (skp_secret (dk_sign keys)))]"

definition device_json :: "b64u \<Rightarrow> device \<Rightarrow> json" where
  "device_json b d = JObject ([
     (''name'', opt_name (dev_name d)),
     (''keys'', case dev_keys d of Some keys \<Rightarrow> keys_json b keys | None \<Rightarrow> JNull),
     (''conversations'', JArray (map (\<lambda>(cid, node). device_conv_json b cid node) (dev_conversations d)))] @
     push_some ''dek_ct'' (bstr b) (dev_dek_ct d))"

definition parse_keys :: "b64u \<Rightarrow> json \<Rightarrow> engine_error + device_keys" where
  "parse_keys b v =
     and_then (as_object v) (\<lambda>m.
     and_then (fold_at m ''id'' (decode_fold32 b)) (\<lambda>i.
     and_then (fold_at m ''enc'' (read_keypair b)) (\<lambda>enc.
     and_then (fold_at m ''sign'' (read_sign_pair b)) (\<lambda>sig.
       Inr \<lparr>dk_id = i, dk_enc = enc, dk_sign = sig\<rparr>))))"

text \<open>\<open>let Json::Array(items) = value else { .. }; for item in items { .. }\<close>.\<close>

definition install_array ::
  "(json \<Rightarrow> engine_state \<Rightarrow> engine_error + engine_state) \<Rightarrow> engine_state \<Rightarrow> json \<Rightarrow> engine_error + engine_state" where
  "install_array f st v = and_then (as_array v) (\<lambda>items. try_fold f items st)"

definition install_conversation ::
  "b64u \<Rightarrow> user_id \<Rightarrow> identity_id \<Rightarrow> json \<Rightarrow> engine_state \<Rightarrow> engine_error + engine_state" where
  "install_conversation b u i v st =
     and_then (parse_identity_conv b v) (\<lambda>(cid, node). Inr (put_dm u i cid node st))"

definition install_identity :: "b64u \<Rightarrow> user_id \<Rightarrow> json \<Rightarrow> engine_state \<Rightarrow> engine_error + engine_state" where
  "install_identity b u v st =
     and_then (as_object v) (\<lambda>m.
     and_then (fold_at m ''identity_id'' (decode_fold32 b)) (\<lambda>i.
     and_then (fold_at m ''name'' (nullable read_name)) (\<lambda>name.
     and_then (fold_at m ''pic'' (nullable (read_pic b))) (\<lambda>pic.
       fold_at m ''conversations'' (install_array (install_conversation b u i)
         (identity_mut (\<lambda>row. row\<lparr>idn_name := name, idn_pic := pic\<rparr>) u i (ensure_identity u i st)))))))"

definition install_user :: "b64u \<Rightarrow> json \<Rightarrow> engine_state \<Rightarrow> engine_error + engine_state" where
  "install_user b v st =
     and_then (as_object v) (\<lambda>m.
     and_then (fold_at m ''user_id'' (decode_fold32 b)) (\<lambda>u.
       fold_at m ''identities'' (install_array (install_identity b u) st)))"

definition install_users :: "b64u \<Rightarrow> json \<Rightarrow> engine_state \<Rightarrow> engine_error + engine_state" where
  "install_users b v st = install_array (install_user b) st v"

definition install_sync :: "b64u \<Rightarrow> json \<Rightarrow> engine_state \<Rightarrow> engine_error + engine_state" where
  "install_sync b v st = and_then (parse_device_conv b v) (\<lambda>(cid, node). Inr (put_sync cid node st))"

definition set_device_fields ::
  "display_name option \<Rightarrow> device_keys option \<Rightarrow> bytes option \<Rightarrow> engine_state \<Rightarrow> engine_state" where
  "set_device_fields name keys dek_ct st =
     st\<lparr>es_device := (es_device st)\<lparr>dev_name := name, dev_keys := keys, dev_dek_ct := dek_ct\<rparr>\<rparr>"

definition install_device :: "b64u \<Rightarrow> json \<Rightarrow> engine_state \<Rightarrow> engine_error + engine_state" where
  "install_device b v st =
     and_then (as_object v) (\<lambda>m.
     and_then (fold_at m ''name'' (nullable read_name)) (\<lambda>name.
     and_then (fold_at m ''keys'' (nullable (parse_keys b))) (\<lambda>keys.
     and_then (fold_opt m ''dek_ct'' (decode_fold_bstr b)) (\<lambda>dek_ct.
       fold_at m ''conversations'' (install_array (install_sync b) (set_device_fields name keys dek_ct st))))))"

end
