(* ===== verification/Fold_Roundtrip.thy ===== *)
theory Fold_Roundtrip
  imports Fold_Tree
begin

text \<open>
  The rows of a snapshot read back. The locale \<open>fold_codec\<close> is the contract of a writer and a reader of a
  snapshot: the reader gives back what the snapshot keeps of a value, whatever the order of the
  members. It is interpreted on every pair of \<open>Fold_Tree\<close>.
\<close>

named_theorems fold_order \<open>readers of a snapshot do not depend on the order of members\<close>
named_theorems fold_read \<open>what readers give on what writers wrote\<close>

section \<open>The contract\<close>

locale fold_codec =
  fixes to_json :: "b64u \<Rightarrow> 'a \<Rightarrow> json" and from_json :: "b64u \<Rightarrow> json \<Rightarrow> engine_error + 'c"
    and wf :: "'a \<Rightarrow> bool" and kept :: "'a \<Rightarrow> 'c"
  assumes roundtrip: "b64u_ok b \<Longrightarrow> wf x \<Longrightarrow> from_json b (to_json b x) = Inr (kept x)"
    and any_order: "json_ok v \<Longrightarrow> from_json b (canon v) = from_json b v"
begin

lemma same_up_to_order: "json_ok v \<Longrightarrow> canon v' = canon v \<Longrightarrow> from_json b v' = from_json b v"
  using any_order json_ok_canon by metis

lemma array_roundtrip:
  "b64u_ok b \<Longrightarrow> list_all wf xs \<Longrightarrow> read_array (from_json b) (JArray (map (to_json b) xs)) = Inr (map kept xs)"
  unfolding read_array_def by (induction xs) (simp_all add: roundtrip)

end

section \<open>Order of members\<close>

lemma try_map_canon:
  "list_all json_ok xs \<Longrightarrow> (\<And>v. json_ok v \<Longrightarrow> p (canon v) = p v) \<Longrightarrow> try_map p (map canon xs) = try_map p xs"
  by (induction xs) auto

lemma try_fold_canon:
  "list_all json_ok xs \<Longrightarrow> (\<And>v s. json_ok v \<Longrightarrow> f (canon v) s = f v s) \<Longrightarrow> try_fold f (map canon xs) st = try_fold f xs st"
proof (induction xs arbitrary: st)
  case (Cons x xs)
  then show ?case by (cases "f x st") simp_all
qed simp

lemma read_array_canon [fold_order]:
  "json_ok v \<Longrightarrow> (\<And>w. json_ok w \<Longrightarrow> p (canon w) = p w) \<Longrightarrow> read_array p (canon v) = read_array p v"
  by (cases v) (simp_all add: read_array_def try_map_canon)

lemma install_array_canon [fold_order]:
  "json_ok v \<Longrightarrow> (\<And>w s. json_ok w \<Longrightarrow> f (canon w) s = f w s) \<Longrightarrow> install_array f st (canon v) = install_array f st v"
  by (cases v) (simp_all add: install_array_def try_fold_canon)

lemma nullable_canon [fold_order]:
  "json_ok v \<Longrightarrow> (\<And>w. json_ok w \<Longrightarrow> p (canon w) = p w) \<Longrightarrow> nullable p (canon v) = nullable p v"
proof (cases v)
  case (JArray xs)
  assume "json_ok v" "\<And>w. json_ok w \<Longrightarrow> p (canon w) = p w"
  then have "p (canon v) = p v" by blast
  with JArray show ?thesis by simp
next
  case (JObject m)
  assume "json_ok v" "\<And>w. json_ok w \<Longrightarrow> p (canon w) = p w"
  then have "p (canon v) = p v" by blast
  with JObject show ?thesis by simp
qed simp_all

lemma scalar_canon [fold_order]:
  "decode_fold_bstr b (canon v) = decode_fold_bstr b v" "as_text (canon v) = as_text v"
  "as_number (canon v) = as_number v" "as_flag (canon v) = as_flag v" "decode_bstr b (canon v) = decode_bstr b v"
  by (cases v; simp add: canon.simps)+

lemma decode_canon [fold_order]:
  "decode_fold32 b (canon v) = decode_fold32 b v" "decode32 b (canon v) = decode32 b v"
  "read_name (canon v) = read_name v" "read_pic b (canon v) = read_pic b v" "read_policy (canon v) = read_policy v"
  by (simp_all add: decode_fold32_def decode32_def read_name_def read_pic_def read_policy_def scalar_canon)

lemma fold_at_canon [fold_order]:
  "members_ok m \<Longrightarrow> (\<And>v. json_ok v \<Longrightarrow> p (canon v) = p v) \<Longrightarrow> fold_at (canon_members m) k p = fold_at m k p"
  using get_json_ok [of m k] by (cases "get m k") (simp_all add: fold_at_def get_canon)

lemma fold_opt_canon [fold_order]:
  "members_ok m \<Longrightarrow> (\<And>v. json_ok v \<Longrightarrow> p (canon v) = p v) \<Longrightarrow> fold_opt (canon_members m) k p = fold_opt m k p"
  using get_json_ok [of m k] by (cases "get m k") (simp_all add: fold_opt_def get_canon)

lemma case_get_canon:
  "members_ok m \<Longrightarrow> (\<And>v. json_ok v \<Longrightarrow> f (canon v) = f v) \<Longrightarrow>
     (case get (canon_members m) k of None \<Rightarrow> a | Some v \<Rightarrow> f v) = (case get m k of None \<Rightarrow> a | Some v \<Rightarrow> f v)"
  using get_json_ok [of m k] by (cases "get m k") (simp_all add: get_canon)

lemma get_none_canon [fold_order]: "members_ok m \<Longrightarrow> get (canon_members m) k = None \<longleftrightarrow> get m k = None"
  by (simp add: get_canon)

lemma object_canon:
  "json_ok v \<Longrightarrow> (\<And>m. members_ok m \<Longrightarrow> f (canon_members m) = f m) \<Longrightarrow>
     and_then (as_object (canon v)) f = and_then (as_object v) f"
  by (cases v) simp_all

lemma or_malformed_canon [fold_order]:
  "p (canon v) = p v \<Longrightarrow> or_malformed p (canon v) = or_malformed p v"
  by (simp add: or_malformed_def)

subsection \<open>Each reader\<close>

lemma keypair_canon [fold_order]:
  assumes "json_ok v"
  shows "parse_fold_keypair b (canon v) = parse_fold_keypair b v" "read_keypair b (canon v) = read_keypair b v"
    "read_sign_pair b (canon v) = read_sign_pair b v"
proof -
  have form: "parse_fold_keypair b v =
      and_then (as_object v) (\<lambda>m. and_then (fold_at m ''pk'' (decode_fold_bstr b)) (\<lambda>pk.
        and_then (fold_at m ''sk'' (decode_fold_bstr b)) (\<lambda>sk. Inr (pk, sk))))" for v
  proof (cases v)
    case (JObject m)
    then show ?thesis by (cases "get m ''pk''"; cases "get m ''sk''") (auto simp: parse_fold_keypair_def fold_at_def)
  qed (simp_all add: parse_fold_keypair_def)
  show "parse_fold_keypair b (canon v) = parse_fold_keypair b v"
    unfolding form by (rule object_canon [OF assms]) (simp add: fold_order)
  then show "read_keypair b (canon v) = read_keypair b v" "read_sign_pair b (canon v) = read_sign_pair b v"
    by (simp_all add: read_keypair_def read_sign_pair_def)
qed

lemma group_rows_canon [fold_order]:
  assumes "json_ok v"
  shows "fold_parse_member b (canon v) = fold_parse_member b v" "parse_one_pending b (canon v) = parse_one_pending b v"
  unfolding fold_parse_member_def parse_one_pending_def by (rule object_canon [OF assms]; simp add: fold_order)+

lemma parse_group_canon [fold_order]: "json_ok v \<Longrightarrow> parse_group b (canon v) = parse_group b v"
  unfolding parse_group_def parse_offer_def parse_live_def
  by (erule object_canon) (simp add: fold_order unordered cong: if_cong)

lemma parse_failure_canon [fold_order]: "json_ok v \<Longrightarrow> parse_failure (canon v) = parse_failure v"
  unfolding parse_failure_def by (erule object_canon) (simp add: fold_order cong: if_cong)

lemma parse_role_phase_canon [fold_order]: "json_ok v \<Longrightarrow> parse_role_phase b (canon v) = parse_role_phase b v"
  unfolding parse_role_phase_def optional_secret_def by (erule object_canon) (simp add: fold_order unordered)

lemma chain_rows_canon [fold_order]:
  assumes "json_ok v"
  shows "read_cached_mk b (canon v) = read_cached_mk b v" "read_unused b (canon v) = read_unused b v"
    "read_known b (canon v) = read_known b v" "read_id_set b (canon v) = read_id_set b v"
  unfolding read_cached_mk_def read_unused_def read_known_def read_id_set_def
  by (rule object_canon [OF assms]; simp add: fold_order)+ (simp add: fold_order assms)

lemma actor_rows_canon [fold_order]:
  assumes "json_ok v"
  shows "read_skipped b (canon v) = read_skipped b v" "read_last_ack b (canon v) = read_last_ack b v"
    "parse_ratchet b (canon v) = parse_ratchet b v"
  unfolding read_skipped_def read_last_ack_def parse_ratchet_def read_actor_def
  by (rule object_canon [OF assms]; simp add: fold_order)+

lemma role_canon:
  "members_ok m \<Longrightarrow>
     (case get (canon_members m) k of Some (JString s) \<Rightarrow> Inr (Some s) | Some _ \<Rightarrow> Inl e | None \<Rightarrow> Inr None) =
     (case get m k of Some (JString s) \<Rightarrow> Inr (Some s) | Some _ \<Rightarrow> Inl e | None \<Rightarrow> Inr None)"
  by (cases "get m k") (auto simp: get_canon split: json.splits)

lemma chain_from_json_canon [fold_order]:
  assumes "json_ok v"
  shows "chain_from_json b (canon v) = chain_from_json b v" "read_chain b (canon v) = read_chain b v"
proof -
  show "chain_from_json b (canon v) = chain_from_json b v"
    using assms
    by (cases v) (simp_all add: chain_from_json_def role_canon fold_order flip: fold_at_def cong: if_cong)
  then show "read_chain b (canon v) = read_chain b v" by (simp add: read_chain_def)
qed

lemma parse_chains_canon [fold_order]: "members_ok m \<Longrightarrow> parse_chains b (canon_members m) = parse_chains b m"
  by (simp add: parse_chains_def fold_order)

lemma conversations_canon [fold_order]:
  assumes "json_ok v"
  shows "read_direct b ch (canon v) = read_direct b ch v" "read_sync b ch' (canon v) = read_sync b ch' v"
  unfolding read_direct_def read_sync_def by (rule object_canon [OF assms]; simp add: fold_order)+

lemma parse_convs_canon [fold_order]:
  assumes "json_ok v"
  shows "parse_identity_conv b (canon v) = parse_identity_conv b v" "parse_device_conv b (canon v) = parse_device_conv b v"
  unfolding parse_identity_conv_def parse_device_conv_def
  by (rule object_canon [OF assms]; simp add: fold_order case_get_canon cong: option.case_cong)+

lemma parse_keys_canon [fold_order]: "json_ok v \<Longrightarrow> parse_keys b (canon v) = parse_keys b v"
  unfolding parse_keys_def by (erule object_canon) (simp add: fold_order)

lemma install_rows_canon [fold_order]:
  assumes "json_ok v"
  shows "install_conversation b u i (canon v) st = install_conversation b u i v st" "install_sync b (canon v) st = install_sync b v st"
  using assms by (simp_all add: install_conversation_def install_sync_def fold_order)

lemma install_identity_canon [fold_order]: "json_ok v \<Longrightarrow> install_identity b u (canon v) st = install_identity b u v st"
  unfolding install_identity_def by (erule object_canon) (simp add: fold_order)

lemma install_user_canon [fold_order]: "json_ok v \<Longrightarrow> install_user b (canon v) st = install_user b v st"
  unfolding install_user_def by (erule object_canon) (simp add: fold_order)

lemma install_canon [fold_order]:
  assumes "json_ok v"
  shows "install_users b (canon v) st = install_users b v st" "install_device b (canon v) st = install_device b v st"
proof -
  show "install_users b (canon v) st = install_users b v st"
    using assms by (simp add: install_users_def fold_order)
  show "install_device b (canon v) st = install_device b v st"
    unfolding install_device_def by (rule object_canon [OF assms]) (simp add: fold_order)
qed

section \<open>Reading what was written\<close>

lemma fold_at_Cons [simp]: "fold_at ((k', v) # m) k p = (if k' = k then p v else fold_at m k p)"
  by (simp add: fold_at_def)

lemma fold_opt_Cons [simp]:
  "fold_opt ((k', v) # m) k p = (if k' = k then and_then (p v) (\<lambda>x. Inr (Some x)) else fold_opt m k p)"
  by (simp add: fold_opt_def)

lemma fold_opt_Nil [simp]: "fold_opt [] k p = Inr None"
  by (simp add: fold_opt_def)

lemma get_push_some [simp]:
  "get (push_some k' f x @ m) k =
     (if k' = k then (case x of Some y \<Rightarrow> Some (f y) | None \<Rightarrow> get m k) else get m k)"
  "get (push_some k' f x) k = (if k' = k then map_option f x else None)"
  by (cases x; simp)+

lemma fold_opt_push_some [simp]:
  "fold_opt (push_some k' f x @ m) k p =
     (if k' = k then (case x of Some y \<Rightarrow> and_then (p (f y)) (\<lambda>z. Inr (Some z)) | None \<Rightarrow> fold_opt m k p) else fold_opt m k p)"
  "fold_opt (push_some k' f x) k p =
     (if k' = k then (case x of Some y \<Rightarrow> and_then (p (f y)) (\<lambda>z. Inr (Some z)) | None \<Rightarrow> Inr None) else Inr None)"
  by (cases x; simp)+

lemma read_bytes [fold_read]:
  assumes "b64u_ok b"
  shows "decode_fold_bstr b (bstr b bs) = Inr bs" "decode_fold32 b (bstr b (as_bytes x)) = Inr x"
    "nullable p (bstr b bs) = and_then (p (bstr b bs)) (\<lambda>x. Inr (Some x))"
  using b64u_okD [OF assms] by (simp_all add: bstr_def decode_fold32_def)

lemma read_names [fold_read]:
  "display_name_ok n \<Longrightarrow> read_name (JString (name_str n)) = Inr n" "read_policy (JString (policy_str pol)) = Inr pol"
  by (simp_all add: read_name_def read_policy_def codec_rt)

lemma read_opt_name [fold_read]: "pred_option display_name_ok n \<Longrightarrow> nullable read_name (opt_name n) = Inr n"
  by (cases n) (simp_all add: fold_read)

lemma read_opt_pic [fold_read]:
  assumes "b64u_ok b" "pred_option profile_pic_ok p"
  shows "nullable (read_pic b) (opt_pic b p) = Inr p"
  using assms by (cases p) (simp_all add: read_bytes [OF assms(1)] read_pic_def codec_rt)

lemma read_array_map:
  "(\<And>x. x \<in> set xs \<Longrightarrow> p (w x) = Inr (g x)) \<Longrightarrow> read_array p (JArray (map w xs)) = Inr (map g xs)"
  unfolding read_array_def by (induction xs) simp_all

lemma read_keypairs [fold_read]:
  assumes "b64u_ok b"
  shows "read_keypair b (keypair_json b (kp_public k) (kp_secret k)) = Inr k"
    "read_sign_pair b (keypair_json b (skp_public s) (skp_secret s)) = Inr s"
  using b64u_okD [OF assms]
  by (simp_all add: read_keypair_def read_sign_pair_def parse_fold_keypair_def keypair_json_def bstr_def)

lemma read_ids [fold_read]:
  assumes "b64u_ok b" "finite ids"
  shows "read_id_set b (id_array b ids) = Inr ids"
proof -
  have "read_array (decode_fold32 b) (JArray (map (\<lambda>i. bstr b (as_bytes i)) (sorted_list_of_set ids))) =
      Inr (map id (sorted_list_of_set ids))"
    by (rule read_array_map) (simp add: read_bytes [OF assms(1)])
  then show ?thesis using assms(2) by (simp add: read_id_set_def id_array_def)
qed

subsection \<open>Groups\<close>

definition pending_ok :: "group_pending \<Rightarrow> bool" where
  "pending_ok row \<longleftrightarrow> display_name_ok (gpe_name row) \<and> pred_option profile_pic_ok (gpe_photo row)"

interpretation member_fold: fold_codec fold_member_json fold_parse_member "\<lambda>_. True" "\<lambda>m. m"
proof
  fix b m
  assume "b64u_ok b"
  then show "fold_parse_member b (fold_member_json b m) = Inr m"
    by (simp add: fold_parse_member_def fold_member_json_def fold_read)
qed (rule group_rows_canon)

interpretation pending_fold: fold_codec pending_json parse_one_pending pending_ok "\<lambda>row. row"
proof
  fix b row
  assume b: "b64u_ok b" and ok: "pending_ok row"
  then show "parse_one_pending b (pending_json b row) = Inr row"
    by (simp add: parse_one_pending_def pending_json_def pending_ok_def fold_read)
qed (rule group_rows_canon)

text \<open>What a snapshot keeps of a group: not its log, the picture of an offer or the reason of an end. The
  chains are restored by the conversation's reader.\<close>

fun group_ok :: "group_phase \<Rightarrow> bool" where
  "group_ok (Live live) \<longleftrightarrow> display_name_ok (gl_name live) \<and> pred_option profile_pic_ok (gl_photo live) \<and>
     list_all durable_ok (gl_persistents live) \<and> list_all ephemeral_ok (gl_ephemerals live) \<and> list_all pending_ok (gl_pending live)"
| "group_ok (Offer offer) \<longleftrightarrow> display_name_ok (gof_name offer)"
| "group_ok (GroupFailed _) \<longleftrightarrow> True"

fun kept_group :: "group_phase \<Rightarrow> group_phase" where
  "kept_group (Live live) = Live (live\<lparr>gl_log := [], gl_chains := established_chains_default\<rparr>)"
| "kept_group (Offer offer) = Offer (offer\<lparr>gof_photo := None\<rparr>)"
| "kept_group (GroupFailed _) = GroupFailed Left"

interpretation group_fold: fold_codec group_json parse_group group_ok kept_group
proof
  fix b g
  assume b: "b64u_ok b" and ok: "group_ok g"
  have arrays: "read_array (fold_parse_member b) (JArray (map (fold_member_json b) ms)) = Inr ms" for ms
    using member_fold.array_roundtrip [OF b, of ms] by (simp add: list_all_iff)
  have pendings: "list_all pending_ok ps \<Longrightarrow> read_array (parse_one_pending b) (JArray (map (pending_json b) ps)) = Inr ps" for ps
    using pending_fold.array_roundtrip [OF b, of ps] by simp
  show "parse_group b (group_json b g) = Inr (kept_group g)"
    using b ok
    by (cases g) (simp_all add: parse_group_def parse_offer_def parse_live_def fold_read arrays pendings
        or_malformed_def list_or_nil_def)
qed (rule parse_group_canon)

subsection \<open>Handshake phases\<close>

lemma read_failure [fold_read]: "parse_failure (failure_json r) = Inr r"
  by (cases r) (simp_all add: parse_failure_def failure_json_def fold_read)

interpretation party_fold: fold_codec party_json parse_role_phase "\<lambda>p. ticket_wf (party_ticket p)" "\<lambda>p. p"
proof
  fix b p
  assume b: "b64u_ok b" and wf: "ticket_wf (party_ticket p)"
  note phase = parse_role_phase_def phase_json_def optional_secret_def or_malformed_def fold_read
    parse_inviter_phase_def parse_invitee_phase_def some_or_def ticket_roundtrip [OF b]
  show "parse_role_phase b (party_json b p) = Inr p"
  proof (cases p)
    case (Inviter q)
    with b wf show ?thesis by (cases q) (simp_all add: phase)
  next
    case (Invitee q)
    with b wf show ?thesis by (cases q) (simp_all add: phase)
  qed
qed (rule parse_role_phase_canon)

subsection \<open>Chains\<close>

lemma insert_last: "(\<forall>k'\<in>fst ` set m. k' < k) \<Longrightarrow> bt_insert k v m = m @ [(k, v)]"
  by (induction m) (auto dest: less_not_sym)

lemma foldl_insert_sorted:
  "bt_ok (acc @ m) \<Longrightarrow> foldl (\<lambda>m (k, v). bt_insert k v m) acc m = acc @ m"
proof (induction m arbitrary: acc)
  case (Cons kv m)
  obtain k v where kv: "kv = (k, v)" by (cases kv)
  have "\<forall>k'\<in>fst ` set acc. k' < k" using Cons.prems by (auto simp: bt_ok_def sorted_wrt_append kv)
  then have "bt_insert k v acc = acc @ [(k, v)]" by (rule insert_last)
  moreover have "bt_ok ((acc @ [(k, v)]) @ m)" using Cons.prems by (simp add: kv)
  ultimately show ?case using Cons.IH by (simp add: kv)
qed simp

lemma bt_of_sorted [simp]: "bt_ok m \<Longrightarrow> bt_of m = m"
  using foldl_insert_sorted [of "[]" m] by (simp add: bt_of_def)

definition actor_ok :: "actor \<Rightarrow> bool" where
  "actor_ok a \<longleftrightarrow> a \<noteq> Signing (SigningPublicKey [])"

lemma read_actor_written [fold_read]:
  "b64u_ok b \<Longrightarrow> actor_ok a \<Longrightarrow>
     read_actor b ((''actor_id'', bstr b (actor_as_bytes a)) # (''actor_role'', JString (actor_role a)) # m) = Inr a"
  using actor_from_stored_roundtrip [of a] by (simp add: read_actor_def fold_read actor_ok_def)

interpretation cached_fold: fold_codec cached_mk_json read_cached_mk "\<lambda>_. True" "\<lambda>e. e"
proof
  fix b e
  assume "b64u_ok b"
  then show "read_cached_mk b (cached_mk_json b e) = Inr e"
    by (simp add: read_cached_mk_def cached_mk_json_def fold_read split: option.split)
qed (rule chain_rows_canon)

interpretation unused_fold: fold_codec unused_json read_unused "\<lambda>_. True" "\<lambda>sk. sk"
proof
  fix b sk
  assume "b64u_ok b"
  then show "read_unused b (unused_json b sk) = Inr sk" by (simp add: read_unused_def unused_json_def fold_read)
qed (rule chain_rows_canon)

interpretation known_fold: fold_codec known_json read_known "\<lambda>_. True" "\<lambda>row. row"
proof
  fix b row
  assume "b64u_ok b"
  then show "read_known b (known_json b row) = Inr row" by (simp add: read_known_def known_json_def fold_read)
qed (rule chain_rows_canon)

interpretation ratchet_fold: fold_codec ratchet_json parse_ratchet "\<lambda>r. finite (rt_minted r)" "\<lambda>r. r"
proof
  fix b and r :: ratchet
  assume b: "b64u_ok b" and fin: "finite (rt_minted r)"
  have "read_array (read_unused b) (JArray (map (unused_json b) xs)) = Inr xs"
    "read_array (read_known b) (JArray (map (known_json b) ys)) = Inr ys" for xs ys
    using unused_fold.array_roundtrip [OF b, of xs] known_fold.array_roundtrip [OF b, of ys] by (simp_all add: list_all_iff)
  with b fin show "parse_ratchet b (ratchet_json b r) = Inr r"
    by (simp add: parse_ratchet_def ratchet_json_def fold_read)
qed (rule actor_rows_canon)

interpretation skipped_fold: fold_codec skipped_json read_skipped "\<lambda>row. actor_ok (fst row)" "\<lambda>row. row"
proof
  fix b and row :: "actor \<times> cached_mk list"
  assume b: "b64u_ok b" and ok: "actor_ok (fst row)"
  then show "read_skipped b (skipped_json b row) = Inr row"
    using cached_fold.array_roundtrip [OF b, of "snd row"]
    by (simp add: read_skipped_def skipped_json_def fold_read list_all_iff)
qed (rule actor_rows_canon)

interpretation ack_fold: fold_codec last_ack_json read_last_ack "\<lambda>row. actor_ok (fst row) \<and> finite (snd row)" "\<lambda>row. row"
proof
  fix b and row :: "actor \<times> tag set"
  assume "b64u_ok b" "actor_ok (fst row) \<and> finite (snd row)"
  then show "read_last_ack b (last_ack_json b row) = Inr row"
    by (simp add: read_last_ack_def last_ack_json_def fold_read)
qed (rule actor_rows_canon)

interpretation chain_fold: fold_codec "\<lambda>b row. chain_to_json b cid (fst row) (snd row)" read_chain "\<lambda>row. actor_ok (fst row)" "\<lambda>row. row"
proof
  fix b and row :: "actor \<times> send_chain"
  assume "b64u_ok b" "actor_ok (fst row)"
  then show "read_chain b (chain_to_json b cid (fst row) (snd row)) = Inr row"
    by (simp add: read_chain_def chain_json_roundtrip actor_ok_def)
qed (rule chain_from_json_canon)

text \<open>What a snapshot keeps of the chains of a row: keys, skipped keys and acknowledgements.\<close>

definition chains_ok :: "packet_chains \<Rightarrow> bool" where
  "chains_ok ch \<longleftrightarrow> bt_ok (pc_send ch) \<and> bt_ok (pc_recv ch) \<and> bt_ok (pc_skipped_mks ch) \<and> bt_ok (pc_last_acks ch) \<and>
     list_all (\<lambda>row. actor_ok (fst row)) (pc_send ch) \<and> list_all (\<lambda>row. actor_ok (fst row)) (pc_recv ch) \<and>
     list_all (\<lambda>row. actor_ok (fst row)) (pc_skipped_mks ch) \<and>
     list_all (\<lambda>row. actor_ok (fst row) \<and> finite (snd row)) (pc_last_acks ch)"

definition kept_packet :: "packet_chains \<Rightarrow> packet_chains" where
  "kept_packet ch = packet_chains_default\<lparr>pc_send := pc_send ch, pc_recv := pc_recv ch,
     pc_skipped_mks := pc_skipped_mks ch, pc_last_acks := pc_last_acks ch\<rparr>"

definition kept_chains :: "established_chains \<Rightarrow> established_chains" where
  "kept_chains ch = established_from (kept_packet (ec_packet ch)) (ec_ratchet ch)"

definition established_ok :: "established_chains \<Rightarrow> bool" where
  "established_ok ch \<longleftrightarrow> chains_ok (ec_packet ch) \<and> finite (rt_minted (ec_ratchet ch))"

lemma parse_chains_written [fold_read]:
  assumes b: "b64u_ok b" and ok: "chains_ok ch" "pred_option (\<lambda>r. finite (rt_minted r)) r"
    and other: "k1 \<notin> {''chains'', ''recv_chains'', ''skipped_mks'', ''last_acks'', ''ratchet''}"
      "k2 \<notin> {''chains'', ''recv_chains'', ''skipped_mks'', ''last_acks'', ''ratchet''}"
  shows "parse_chains b ((k1, v1) # (k2, v2) # chains_json b cid ch r) =
    Inr (kept_packet ch, case r of Some r \<Rightarrow> r | None \<Rightarrow> ratchet_default)"
proof -
  have chain: "(\<lambda>(actor, chain). chain_to_json b cid actor chain) = (\<lambda>row. chain_to_json b cid (fst row) (snd row))" by auto
  show ?thesis
    using ok other chain_fold.array_roundtrip [OF b] skipped_fold.array_roundtrip [OF b] ack_fold.array_roundtrip [OF b]
      ratchet_fold.roundtrip [OF b]
    by (cases r)
      (simp_all add: parse_chains_def chains_json_def chains_ok_def chain list_or_nil_def kept_packet_def)
qed

subsection \<open>Conversations\<close>

fun identity_row_ok :: "identity_conversation \<Rightarrow> bool" where
  "identity_row_ok (DmHandshakeRow p _ ch) \<longleftrightarrow> ticket_wf (party_ticket p) \<and> chains_ok ch"
| "identity_row_ok (DirectMessageRow _ _ _ ch) \<longleftrightarrow> established_ok ch"
| "identity_row_ok (GroupRow (Live live)) \<longleftrightarrow> group_ok (Live live) \<and> established_ok (gl_chains live)"
| "identity_row_ok (GroupRow g) \<longleftrightarrow> group_ok g"

fun kept_identity_row :: "identity_conversation \<Rightarrow> identity_conversation" where
  "kept_identity_row (DmHandshakeRow p _ ch) = DmHandshakeRow p [] (kept_packet ch)"
| "kept_identity_row (DirectMessageRow s parent _ ch) = DirectMessageRow s parent [] (kept_chains ch)"
| "kept_identity_row (GroupRow (Live live)) = GroupRow (Live (live\<lparr>gl_log := [], gl_chains := kept_chains (gl_chains live)\<rparr>))"
| "kept_identity_row (GroupRow g) = GroupRow (kept_group g)"

fun device_row_ok :: "device_conversation \<Rightarrow> bool" where
  "device_row_ok (SyncHandshakeRow p _ ch) \<longleftrightarrow> ticket_wf (party_ticket p) \<and> chains_ok ch"
| "device_row_ok (SynchronizationRow _ _ _ _ ch) \<longleftrightarrow> established_ok ch"

fun kept_device_row :: "device_conversation \<Rightarrow> device_conversation" where
  "kept_device_row (SyncHandshakeRow p _ ch) = SyncHandshakeRow p [] (kept_packet ch)"
| "kept_device_row (SynchronizationRow s parent peer _ ch) = SynchronizationRow s parent peer [] (kept_chains ch)"

lemma chains_json_get:
  "get (chains_json b cid ch r) k = None" if "k \<notin> {''chains'', ''recv_chains'', ''skipped_mks'', ''last_acks'', ''ratchet''}"
  using that by (auto simp: chains_json_def)

interpretation identity_fold: fold_codec "\<lambda>b row. identity_conv_json b (fst row) (snd row)" parse_identity_conv
  "\<lambda>row. identity_row_ok (snd row)" "\<lambda>row. (fst row, kept_identity_row (snd row))"
proof
  fix b and row :: "conversation_id \<times> identity_conversation"
  assume b: "b64u_ok b" and ok: "identity_row_ok (snd row)"
  obtain cid node where row: "row = (cid, node)" by (cases row)
  show "parse_identity_conv b (identity_conv_json b (fst row) (snd row)) = Inr (fst row, kept_identity_row (snd row))"
  proof (cases node)
    case (DmHandshakeRow p lg ch)
    then show ?thesis
      using b ok party_fold.roundtrip [OF b] parse_chains_written [OF b, of ch None]
      by (simp add: row parse_identity_conv_def identity_conv_json_def fold_read)
  next
    case (DirectMessageRow s parent lg ch)
    then show ?thesis
      using b ok parse_chains_written [OF b, of "ec_packet ch" "Some (ec_ratchet ch)"]
      by (simp add: row parse_identity_conv_def identity_conv_json_def fold_read chains_json_get read_direct_def
          established_ok_def kept_chains_def)
  next
    case (GroupRow g)
    note parts = parse_identity_conv_def identity_conv_json_def fold_read chains_json_get established_ok_def kept_chains_def
    show ?thesis
    proof (cases g)
      case (Live live)
      with GroupRow show ?thesis
        using b ok group_fold.roundtrip [OF b, of g]
          parse_chains_written [OF b, of "ec_packet (gl_chains live)" "Some (ec_ratchet (gl_chains live))"]
        by (simp add: row parts)
    qed (use GroupRow b ok group_fold.roundtrip [OF b, of g] in
        \<open>simp_all add: row parse_identity_conv_def identity_conv_json_def fold_read parse_chains_def\<close>)
  qed
qed (rule parse_convs_canon)

interpretation device_fold: fold_codec "\<lambda>b row. device_conv_json b (fst row) (snd row)" parse_device_conv
  "\<lambda>row. device_row_ok (snd row)" "\<lambda>row. (fst row, kept_device_row (snd row))"
proof
  fix b and row :: "conversation_id \<times> device_conversation"
  assume b: "b64u_ok b" and ok: "device_row_ok (snd row)"
  obtain cid node where row: "row = (cid, node)" by (cases row)
  show "parse_device_conv b (device_conv_json b (fst row) (snd row)) = Inr (fst row, kept_device_row (snd row))"
  proof (cases node)
    case (SyncHandshakeRow p lg ch)
    then show ?thesis
      using b ok party_fold.roundtrip [OF b] parse_chains_written [OF b, of ch None]
      by (simp add: row parse_device_conv_def device_conv_json_def fold_read)
  next
    case (SynchronizationRow s parent peer lg ch)
    then show ?thesis
      using b ok parse_chains_written [OF b, of "ec_packet ch" "Some (ec_ratchet ch)"]
      by (simp add: row parse_device_conv_def device_conv_json_def fold_read chains_json_get read_sync_def
          established_ok_def kept_chains_def)
  qed
qed (rule parse_convs_canon)

interpretation keys_fold: fold_codec keys_json parse_keys "\<lambda>_. True" "\<lambda>k. k"
proof
  fix b k
  assume "b64u_ok b"
  then show "parse_keys b (keys_json b k) = Inr k" by (simp add: parse_keys_def keys_json_def fold_read)
qed (rule parse_keys_canon)

subsection \<open>Users\<close>

lemma at_end [simp]:
  "k \<notin> fst ` set m \<Longrightarrow> bt_update k f (m @ [(k, v)]) = m @ [(k, f v)]"
  "k \<notin> fst ` set m \<Longrightarrow> bt_get (m @ [(k, v)]) k = Some v"
  by (induction m) (auto simp: bt_update_def)

lemma below_not_in: "\<forall>k'\<in>fst ` set m. k' < k \<Longrightarrow> (k :: 'k :: order) \<notin> fst ` set m"
  by auto

definition identity_ok :: "identity \<Rightarrow> bool" where
  "identity_ok ident \<longleftrightarrow> pred_option display_name_ok (idn_name ident) \<and> pred_option profile_pic_ok (idn_pic ident) \<and>
     bt_ok (idn_conversations ident) \<and> list_all (\<lambda>row. identity_row_ok (snd row)) (idn_conversations ident)"

definition kept_identity :: "identity \<Rightarrow> identity" where
  "kept_identity ident = ident\<lparr>idn_conversations := bt_map kept_identity_row (idn_conversations ident)\<rparr>"

definition user_ok :: "user \<Rightarrow> bool" where
  "user_ok usr \<longleftrightarrow> bt_ok (usr_identities usr) \<and> list_all (\<lambda>row. identity_ok (snd row)) (usr_identities usr)"

text \<open>A user with no identity is written and not read back.\<close>

definition kept_users :: "(user_id, user) btree \<Rightarrow> (user_id, user) btree" where
  "kept_users us = map (\<lambda>(u, usr). (u, \<lparr>usr_identities = bt_map kept_identity (usr_identities usr)\<rparr>))
     (filter (\<lambda>(_, usr). usr_identities usr \<noteq> []) us)"

text \<open>The users so far, with the identities of the user being read.\<close>

definition users_with :: "(user_id, user) btree \<Rightarrow> user_id \<Rightarrow> (identity_id, identity) btree \<Rightarrow> (user_id, user) btree" where
  "users_with us u ids = (if ids = [] then us else us @ [(u, \<lparr>usr_identities = ids\<rparr>)])"

lemma ensure_identity_last:
  assumes "\<forall>v\<in>fst ` set us. v < u" "\<forall>j\<in>fst ` set ids. j < i" "es_users st = users_with us u ids"
  shows "ensure_identity u i st = st\<lparr>es_users := us @ [(u, \<lparr>usr_identities = ids @ [(i, identity_default)]\<rparr>)]\<rparr>"
  using assms below_not_in [OF assms(1)] below_not_in [OF assms(2)]
  by (auto simp: ensure_identity_def ensure_user_def users_with_def bt_contains_def user_default_def insert_last bt_get_None Let_def)

lemma put_dm_last:
  assumes "\<forall>v\<in>fst ` set us. v < u" "\<forall>j\<in>fst ` set ids. j < i" "\<forall>c\<in>fst ` set (idn_conversations ident). c < cid"
    "es_users st = us @ [(u, \<lparr>usr_identities = ids @ [(i, ident)]\<rparr>)]"
  shows "put_dm u i cid node st =
    st\<lparr>es_users := us @ [(u, \<lparr>usr_identities = ids @ [(i, ident\<lparr>idn_conversations := idn_conversations ident @ [(cid, node)]\<rparr>)]\<rparr>)]\<rparr>"
  using assms(3,4) below_not_in [OF assms(1)] below_not_in [OF assms(2)]
  by (simp add: put_dm_def ensure_identity_def ensure_user_def identity_mut_def bt_contains_def insert_last Let_def)

lemma install_conversations_written:
  assumes b: "b64u_ok b" and below: "\<forall>v\<in>fst ` set us. v < u" "\<forall>j\<in>fst ` set ids. j < i"
    and "bt_ok (idn_conversations ident @ rows)" "list_all (\<lambda>row. identity_row_ok (snd row)) rows"
    "es_users st = us @ [(u, \<lparr>usr_identities = ids @ [(i, ident)]\<rparr>)]"
  shows "try_fold (install_conversation b u i) (map (\<lambda>row. identity_conv_json b (fst row) (snd row)) rows) st =
    Inr (st\<lparr>es_users := us @ [(u, \<lparr>usr_identities = ids @ [(i, ident\<lparr>idn_conversations :=
      idn_conversations ident @ bt_map kept_identity_row rows\<rparr>)]\<rparr>)]\<rparr>)"
  using assms(4-)
proof (induction rows arbitrary: ident st)
  case (Cons row rows)
  obtain cid node where row: "row = (cid, node)" by (cases row)
  let ?ident = "ident\<lparr>idn_conversations := idn_conversations ident @ [(cid, kept_identity_row node)]\<rparr>"
  let ?st = "st\<lparr>es_users := us @ [(u, \<lparr>usr_identities = ids @ [(i, ?ident)]\<rparr>)]\<rparr>"
  have last: "\<forall>c\<in>fst ` set (idn_conversations ident). c < cid" "bt_ok ((idn_conversations ?ident) @ rows)"
    using Cons.prems(1) by (auto simp: bt_ok_def sorted_wrt_append row)
  have "install_conversation b u i (identity_conv_json b cid node) st = Inr ?st"
    using identity_fold.roundtrip [OF b, of row] Cons.prems put_dm_last [OF below last(1) Cons.prems(3)]
    by (simp add: install_conversation_def row)
  then show ?case
    using Cons.IH [OF last(2), of ?st] Cons.prems(2) by (simp add: row bt_map_def)
qed (simp add: bt_map_def)

lemma install_identity_written:
  assumes b: "b64u_ok b" and below: "\<forall>v\<in>fst ` set us. v < u" "\<forall>j\<in>fst ` set ids. j < i"
    and ok: "identity_ok ident" "es_users st = users_with us u ids"
  shows "install_identity b u (identity_json b (i, ident)) st =
    Inr (st\<lparr>es_users := users_with us u (ids @ [(i, kept_identity ident)])\<rparr>)"
proof -
  let ?row = "\<lparr>idn_name = idn_name ident, idn_pic = idn_pic ident, idn_conversations = []\<rparr>"
  have start: "identity_mut (\<lambda>row. row\<lparr>idn_name := idn_name ident, idn_pic := idn_pic ident\<rparr>) u i (ensure_identity u i st) =
      st\<lparr>es_users := us @ [(u, \<lparr>usr_identities = ids @ [(i, ?row)]\<rparr>)]\<rparr>"
    using below_not_in [OF below(1)] below_not_in [OF below(2)]
    by (simp add: ensure_identity_last [OF below ok(2)] identity_mut_def identity_default_def)
  have rows: "(\<lambda>(cid, node). identity_conv_json b cid node) = (\<lambda>row. identity_conv_json b (fst row) (snd row))" by auto
  have "bt_ok (idn_conversations ?row @ idn_conversations ident)" using ok(1) by (simp add: identity_ok_def)
  from install_conversations_written [OF b below this, of "st\<lparr>es_users := us @ [(u, \<lparr>usr_identities = ids @ [(i, ?row)]\<rparr>)]\<rparr>"]
  show ?thesis
    using b ok(1)
    by (simp add: install_identity_def identity_json_def fold_read install_array_def start rows identity_ok_def
        users_with_def kept_identity_def)
qed

lemma install_identities_written:
  assumes b: "b64u_ok b" and below: "\<forall>v\<in>fst ` set us. v < u"
    and "bt_ok (ids @ rest)" "list_all (\<lambda>row. identity_ok (snd row)) rest" "es_users st = users_with us u ids"
  shows "try_fold (install_identity b u) (map (identity_json b) rest) st =
    Inr (st\<lparr>es_users := users_with us u (ids @ bt_map kept_identity rest)\<rparr>)"
  using assms(3-)
proof (induction rest arbitrary: ids st)
  case (Cons row rest)
  obtain i ident where row: "row = (i, ident)" by (cases row)
  have last: "\<forall>j\<in>fst ` set ids. j < i" "bt_ok ((ids @ [(i, kept_identity ident)]) @ rest)"
    using Cons.prems(1) by (auto simp: bt_ok_def sorted_wrt_append row)
  have "install_identity b u (identity_json b row) st = Inr (st\<lparr>es_users := users_with us u (ids @ [(i, kept_identity ident)])\<rparr>)"
    unfolding row using Cons.prems by (intro install_identity_written [OF b below last(1)]) (simp_all add: row)
  then show ?case
    using Cons.IH [OF last(2), of "st\<lparr>es_users := users_with us u (ids @ [(i, kept_identity ident)])\<rparr>"] Cons.prems(2)
    by (simp add: row bt_map_def)
qed (simp add: bt_map_def)

lemma install_users_written:
  assumes b: "b64u_ok b" and "bt_ok (done_users @ us)" "list_all (\<lambda>row. user_ok (snd row)) us" "es_users st = done_users"
  shows "try_fold (install_user b) (map (user_json b) us) st = Inr (st\<lparr>es_users := done_users @ kept_users us\<rparr>)"
  using assms(2-)
proof (induction us arbitrary: done_users st)
  case (Cons row us)
  obtain u usr where row: "row = (u, usr)" by (cases row)
  let ?ids = "bt_map kept_identity (usr_identities usr)"
  have below: "\<forall>v\<in>fst ` set done_users. v < u" "bt_ok (users_with done_users u ?ids @ us)"
    using Cons.prems(1) by (auto simp: bt_ok_def sorted_wrt_append row users_with_def)
  have "install_user b (user_json b row) st = Inr (st\<lparr>es_users := users_with done_users u ?ids\<rparr>)"
    using install_identities_written [OF b below(1), of "[]" "usr_identities usr" st] Cons.prems(2,3) b
    by (simp add: row install_user_def user_json_def fold_read install_array_def user_ok_def users_with_def)
  moreover have "users_with done_users u ?ids @ kept_users us = done_users @ kept_users (row # us)"
    by (simp add: users_with_def kept_users_def row bt_map_def)
  ultimately show ?case
    using Cons.IH [OF below(2), of "st\<lparr>es_users := users_with done_users u ?ids\<rparr>"] Cons.prems(2) by (simp add: row)
qed (simp add: kept_users_def)

subsection \<open>The device\<close>

definition device_ok :: "device \<Rightarrow> bool" where
  "device_ok d \<longleftrightarrow> pred_option display_name_ok (dev_name d) \<and> bt_ok (dev_conversations d) \<and>
     list_all (\<lambda>row. device_row_ok (snd row)) (dev_conversations d)"

text \<open>The list of kicked devices is not in a snapshot.\<close>

definition kept_device :: "device \<Rightarrow> device" where
  "kept_device d = d\<lparr>dev_conversations := bt_map kept_device_row (dev_conversations d), dev_kicked := []\<rparr>"

lemma install_syncs_written:
  assumes b: "b64u_ok b" and "bt_ok (dev_convs st @ rows)" "list_all (\<lambda>row. device_row_ok (snd row)) rows"
  shows "try_fold (install_sync b) (map (\<lambda>row. device_conv_json b (fst row) (snd row)) rows) st =
    Inr (st\<lparr>es_device := (es_device st)\<lparr>dev_conversations := dev_convs st @ bt_map kept_device_row rows\<rparr>\<rparr>)"
  using assms(2-)
proof (induction rows arbitrary: st)
  case (Cons row rows)
  obtain cid node where row: "row = (cid, node)" by (cases row)
  let ?st = "st\<lparr>es_device := (es_device st)\<lparr>dev_conversations := dev_convs st @ [(cid, kept_device_row node)]\<rparr>\<rparr>"
  have last: "\<forall>c\<in>fst ` set (dev_convs st). c < cid" "bt_ok (dev_convs ?st @ rows)"
    using Cons.prems(1) by (auto simp: bt_ok_def sorted_wrt_append row dev_convs_def)
  have "install_sync b (device_conv_json b cid node) st = Inr ?st"
    using device_fold.roundtrip [OF b, of row] Cons.prems(2) insert_last [OF last(1)]
    by (simp add: install_sync_def row put_sync_def)
  then show ?case
    using Cons.IH [OF last(2)] Cons.prems(2) by (simp add: row bt_map_def dev_convs_def)
qed (simp add: bt_map_def dev_convs_def)

lemma install_device_written:
  assumes b: "b64u_ok b" and ok: "device_ok d" and new: "es_device st = device_default"
  shows "install_device b (device_json b d) st = Inr (st\<lparr>es_device := kept_device d\<rparr>)"
proof -
  have rows: "(\<lambda>(cid, node). device_conv_json b cid node) = (\<lambda>row. device_conv_json b (fst row) (snd row))" by auto
  have keys: "nullable (parse_keys b) (case dev_keys d of Some keys \<Rightarrow> keys_json b keys | None \<Rightarrow> JNull) = Inr (dev_keys d)"
    using keys_fold.roundtrip [OF b] by (cases "dev_keys d") (simp_all add: keys_json_def)
  let ?st = "set_device_fields (dev_name d) (dev_keys d) (dev_dek_ct d) st"
  have "try_fold (install_sync b) (map (\<lambda>row. device_conv_json b (fst row) (snd row)) (dev_conversations d)) ?st =
      Inr (st\<lparr>es_device := kept_device d\<rparr>)"
    using install_syncs_written [OF b, of ?st "dev_conversations d"] ok new
    by (cases d) (simp add: device_ok_def set_device_fields_def dev_convs_def device_default_def kept_device_def)
  then show ?thesis
    using b ok
    by (cases "dev_dek_ct d")
      (simp_all add: install_device_def device_json_def fold_read install_array_def rows keys device_ok_def)
qed

end
