(* ===== verification/Snapshot.thy ===== *)
theory Snapshot
  imports Fold_Roundtrip "HOL-Library.Char_ord" "HOL-Library.Product_Lexorder"
begin

text \<open>
  Snapshots (\<open>fold\<close> and \<open>apply_folded\<close> of \<open>engine/persist.rs\<close>): the transactions every acknowledgement
  covers and that have not expired, the fragments and list progress, the rows and the device, sealed as
  one record, and the state read back from it.
\<close>

section \<open>Writing\<close>

text \<open>The entries of a map in the order of its keys; a bin key is ordered by kind, address and tag key.\<close>

definition map_entries :: "('k :: linorder \<rightharpoonup> 'v) \<Rightarrow> ('k \<times> 'v) list" where
  "map_entries m = map (\<lambda>k. (k, the (m k))) (sorted_list_of_set (dom m))"

definition bin_at :: "string \<times> string \<times> tag_key \<Rightarrow> bin_key" where
  "bin_at k = (case k of (kind, address, key) \<Rightarrow>
     \<lparr>bk_channel = \<lparr>dch_kind = Kind kind, dch_address = Address address\<rparr>, bk_tag_key = key\<rparr>)"

definition bin_values :: "(bin_key \<rightharpoonup> bin_progress) \<Rightarrow> bin_progress list" where
  "bin_values bins = map snd (map_entries (bins \<circ> bin_at))"

definition tx_json :: "b64u \<Rightarrow> tag \<times> durable_body \<Rightarrow> json" where
  "tx_json b row = JObject [
     (''tx_id'', bstr b (as_bytes (fst row))),
     (''body'', durable_body_to_json b (snd row))]"

definition part_json :: "b64u \<Rightarrow> frag_index \<times> bytes \<Rightarrow> json" where
  "part_json b row = JObject [(''i'', JNumber (fst row)), (''frag'', bstr b (snd row))]"

definition frag_json :: "b64u \<Rightarrow> tag \<times> frag_set \<Rightarrow> json" where
  "frag_json b row = JObject [
     (''tx_id'', bstr b (as_bytes (fst row))),
     (''conversation_id'', bstr b (as_bytes (fs_conversation_id (snd row)))),
     (''last_i'', opt_number (fs_last_i (snd row))),
     (''parts'', JArray (map (part_json b) (map_entries (fs_parts (snd row)))))]"

definition bin_json :: "b64u \<Rightarrow> bin_progress \<Rightarrow> json" where
  "bin_json b p = JObject [
     (''channel'', durable_json (bp_channel p)),
     (''tag_key'', bstr b (as_bytes (bp_tag_key p))),
     (''watermark'', opt_number (bp_watermark p)),
     (''completed'', JArray (map JNumber (sorted_list_of_set (bp_completed p))))]"

definition log_json :: "b64u \<Rightarrow> persist_seq \<times> tag \<Rightarrow> json" where
  "log_json b row = JObject [(''seq'', JNumber (fst row)), (''tx_id'', bstr b (as_bytes (snd row)))]"

definition kept_tx :: "engine_state \<Rightarrow> tag \<times> durable_body \<Rightarrow> bool" where
  "kept_tx st row \<longleftrightarrow> tx_watermarked st (fst row) \<and>
     \<not> (case payload_expire_at (db_payload (snd row)) of
          Some expires \<Rightarrow> expires \<le> (case es_ticked st of Some now \<Rightarrow> now | None \<Rightarrow> 0)
        | None \<Rightarrow> False)"

definition kept_txs :: "engine_state \<Rightarrow> (tag \<times> durable_body) list" where
  "kept_txs st = filter (kept_tx st) (body_pairs st)"

definition kept_log :: "engine_state \<Rightarrow> (persist_seq, tag) btree" where
  "kept_log st = filter (\<lambda>(_, t). t \<in> set (map fst (kept_txs st))) (es_persist_log st)"

definition snapshot_json :: "b64u \<Rightarrow> engine_state \<Rightarrow> json" where
  "snapshot_json b st = JObject [
     (''type'', JString ''v1-engine-snapshot''),
     (''next_seq'', JNumber (es_next_seq st)),
     (''ticked'', opt_number (es_ticked st)),
     (''txs'', JArray (map (tx_json b) (kept_txs st))),
     (''users'', users_json b st),
     (''device'', device_json b (es_device st)),
     (''frags'', JArray (map (frag_json b) (map_entries (es_frags st)))),
     (''bins'', JArray (map (bin_json b) (bin_values (es_bin_progress st)))),
     (''persist_log'', JArray (map (log_json b) (kept_log st)))]"

text \<open>\<open>fold\<close> returns the snapshot and its sequence number and leaves the state.\<close>

definition fold_snapshot :: "engine \<Rightarrow> engine_state \<Rightarrow> engine_error + (bytes \<times> persist_seq)" where
  "fold_snapshot en st =
     and_then (require_dek en) (\<lambda>_.
       if es_next_seq st = u64_max then Inl MalformedPersist
       else if persist_outside_watermark st then Inl WrongPhase
       else
         and_then (seal_snapshot en st (st_json_encode (en_suite en) (snapshot_json (st_b64u (en_suite en)) st)))
           (\<lambda>snapshot. Inr (snapshot, es_next_seq st)))"

section \<open>Reading\<close>

definition read_tx :: "b64u \<Rightarrow> json \<Rightarrow> engine_error + (tag \<times> durable_body)" where
  "read_tx b v =
     and_then (as_object v) (\<lambda>m.
     and_then (fold_at m ''tx_id'' (decode_fold32 b)) (\<lambda>t.
     and_then (fold_at m ''body'' (or_malformed (durable_body_from_json b))) (\<lambda>body.
       Inr (t, body))))"

definition read_part :: "b64u \<Rightarrow> json \<Rightarrow> engine_error + (frag_index \<times> bytes)" where
  "read_part b v =
     and_then (as_object v) (\<lambda>m.
     and_then (fold_at m ''i'' as_number) (\<lambda>i.
     and_then (fold_at m ''frag'' (decode_fold_bstr b)) (\<lambda>frag.
       Inr (i, frag))))"

text \<open>A map filled by \<open>insert\<close> in the order of the array.\<close>

definition map_filled :: "('k \<times> 'v) list \<Rightarrow> 'k \<rightharpoonup> 'v" where
  "map_filled rows = foldl (\<lambda>m (k, v). m(k \<mapsto> v)) Map.empty rows"

definition read_frag :: "b64u \<Rightarrow> json \<Rightarrow> engine_error + (tag \<times> frag_set)" where
  "read_frag b v =
     and_then (as_object v) (\<lambda>m.
     and_then (fold_at m ''tx_id'' (decode_fold32 b)) (\<lambda>t.
     and_then (fold_at m ''conversation_id'' (decode_fold32 b)) (\<lambda>cid.
     and_then (fold_opt m ''last_i'' (nullable as_number)) (\<lambda>last_i.
     and_then (fold_at m ''parts'' (read_array (read_part b))) (\<lambda>parts.
       Inr (t, \<lparr>fs_conversation_id = cid, fs_parts = map_filled parts, fs_last_i = join_option last_i\<rparr>))))))"

definition read_bin :: "b64u \<Rightarrow> json \<Rightarrow> engine_error + (bin_key \<times> bin_progress)" where
  "read_bin b v =
     and_then (as_object v) (\<lambda>m.
     and_then (fold_at m ''channel'' parse_fold_channel) (\<lambda>ch.
     and_then (fold_at m ''tag_key'' (decode_fold32 b)) (\<lambda>key.
     and_then (fold_at m ''watermark'' (nullable as_number)) (\<lambda>watermark.
     and_then (fold_at m ''completed'' (read_array as_number)) (\<lambda>completed.
       Inr (progress_key ch key, \<lparr>bp_channel = ch, bp_tag_key = key, bp_watermark = watermark,
         bp_completed = set completed\<rparr>))))))"

definition read_log :: "b64u \<Rightarrow> json \<Rightarrow> engine_error + (persist_seq \<times> tag)" where
  "read_log b v =
     and_then (as_object v) (\<lambda>m.
     and_then (fold_at m ''seq'' as_number) (\<lambda>seq.
     and_then (fold_at m ''tx_id'' (decode_fold32 b)) (\<lambda>t.
       Inr (seq, t))))"

text \<open>\<open>if let Some(Json::Array(txs)) = get("txs")\<close>: anything else counts as no transactions.\<close>

definition read_txs :: "b64u \<Rightarrow> members \<Rightarrow> engine_error + (tag \<times> durable_body) list" where
  "read_txs b m = (case get m ''txs'' of Some (JArray txs) \<Rightarrow> try_map (read_tx b) txs | _ \<Rightarrow> Inr [])"

definition banned_members :: "string list" where
  "banned_members = [''tickets'', ''chains'', ''recv_chains'', ''skipped_mks'', ''failed'', ''owners'', ''inviters'',
     ''intake'', ''shared_inviter'', ''shared_invitee'', ''established'', ''last_acks'', ''device_enc'', ''device_sign'']"

definition insert_tx :: "tag \<times> durable_body \<Rightarrow> engine_state \<Rightarrow> engine_error + engine_state" where
  "insert_tx row st =
     (case insert_body (fst row) (snd row) st of (Inr _, st') \<Rightarrow> Inr st' | (Inl _, _) \<Rightarrow> Inl MalformedPersist)"

definition install_member ::
  "members \<Rightarrow> string \<Rightarrow> (json \<Rightarrow> engine_state \<Rightarrow> engine_error + engine_state) \<Rightarrow> engine_state \<Rightarrow> engine_error + engine_state" where
  "install_member m k f st = (case get m k of Some v \<Rightarrow> f v st | None \<Rightarrow> Inr st)"

definition read_snapshot :: "b64u \<Rightarrow> json \<Rightarrow> engine_error + engine_state" where
  "read_snapshot b v =
     and_then (as_object v) (\<lambda>m.
     and_then (fold_at m ''next_seq'' as_number) (\<lambda>next_seq.
     and_then (fold_opt m ''ticked'' (nullable as_number)) (\<lambda>ticked.
     and_then (read_txs b m) (\<lambda>txs.
     and_then (fold_opt m ''frags'' (read_array (read_frag b))) (\<lambda>frags.
     and_then (fold_opt m ''bins'' (read_array (read_bin b))) (\<lambda>bins.
     and_then (fold_opt m ''persist_log'' (read_array (read_log b))) (\<lambda>log.
       if list_ex (\<lambda>k. get m k \<noteq> None) banned_members then Inl MalformedPersist
       else
         and_then (install_member m ''users'' (install_users b)
           (state_new\<lparr>es_next_seq := next_seq, es_ticked := join_option ticked, es_frags := map_filled (list_or_nil frags),
              es_bin_progress := map_filled (list_or_nil bins), es_persist_log := bt_of (list_or_nil log)\<rparr>)) (\<lambda>st.
         and_then (install_member m ''device'' (install_device b) st) (\<lambda>st.
           try_fold insert_tx txs st)))))))))"

definition open_snapshot :: "engine \<Rightarrow> bytes \<Rightarrow> engine_error + json" where
  "open_snapshot en snapshot =
     and_then (require_dek en) (\<lambda>dek.
       if length snapshot < AEAD_NONCE_LEN then Inl MalformedPersist
       else if take 4 snapshot \<noteq> be32 FOLD_VERSION then Inl MalformedPersist
       else
         let s = en_suite en in
         and_then (ok_or (st_open s dek (take AEAD_NONCE_LEN snapshot) [] (drop AEAD_NONCE_LEN snapshot)) MalformedPersist) (\<lambda>packed.
         and_then (map_err (\<lambda>_. MalformedPersist) (st_decompress s packed PERSIST_MAX_UNCOMPRESSED)) (\<lambda>canonical.
           ok_or (st_json_decode s canonical) MalformedPersist)))"

definition apply_folded :: "engine \<Rightarrow> bytes \<Rightarrow> engine_error + engine_state" where
  "apply_folded en snapshot = and_then (open_snapshot en snapshot) (read_snapshot (st_b64u (en_suite en)))"

section \<open>Order of members\<close>

lemma snapshot_rows_canon [fold_order]:
  assumes "json_ok v"
  shows "read_tx b (canon v) = read_tx b v" "read_part b (canon v) = read_part b v" "read_log b (canon v) = read_log b v"
  unfolding read_tx_def read_part_def read_log_def by (rule object_canon [OF assms]; simp add: fold_order unordered)+

lemma parse_fold_channel_canon [fold_order]: "json_ok v \<Longrightarrow> parse_fold_channel (canon v) = parse_fold_channel v"
proof (cases v)
  case (JObject m)
  assume "json_ok v"
  then have "members_ok m" by (simp add: JObject)
  then show ?thesis
    by (cases "get m ''kind''"; cases "get m ''address''")
      (auto simp: JObject parse_fold_channel_def get_canon split: json.splits)
qed (simp_all add: parse_fold_channel_def)

lemma read_frag_canon [fold_order]:
  assumes "json_ok v"
  shows "read_frag b (canon v) = read_frag b v" "read_bin b (canon v) = read_bin b v"
  unfolding read_frag_def read_bin_def by (rule object_canon [OF assms]; simp add: fold_order)+

lemma read_txs_canon [fold_order]: "members_ok m \<Longrightarrow> read_txs b (canon_members m) = read_txs b m"
  using get_json_ok [of m "''txs''"]
  by (cases "get m ''txs''") (auto simp: read_txs_def get_canon try_map_canon fold_order split: json.splits)

lemma install_member_canon [fold_order]:
  "members_ok m \<Longrightarrow> (\<And>v s. json_ok v \<Longrightarrow> f (canon v) s = f v s) \<Longrightarrow>
     install_member (canon_members m) k f st = install_member m k f st"
  using get_json_ok [of m k] by (cases "get m k") (simp_all add: install_member_def get_canon)

lemma read_snapshot_canon: "json_ok v \<Longrightarrow> read_snapshot b (canon v) = read_snapshot b v"
  unfolding read_snapshot_def by (erule object_canon) (simp add: fold_order cong: if_cong)

section \<open>Reading what was written\<close>

lemma foldl_filled: "distinct (map fst rows) \<Longrightarrow> foldl (\<lambda>m (k, v). m(k \<mapsto> v)) acc rows = acc ++ map_of rows"
proof (induction rows arbitrary: acc)
  case (Cons row rows)
  obtain k v where row: "row = (k, v)" by (cases row)
  have d: "distinct (map fst rows)" and "map_of rows k = None" using Cons.prems by (simp_all add: row map_of_eq_None_iff)
  then have "acc(k \<mapsto> v) ++ map_of rows = acc ++ (map_of rows)(k \<mapsto> v)"
    by (auto simp: fun_eq_iff map_add_def split: option.splits)
  then show ?case unfolding row foldl.simps prod.case Cons.IH [OF d] map_of.simps fst_conv snd_conv .
qed simp

lemma map_filled_distinct: "distinct (map fst rows) \<Longrightarrow> map_filled rows = map_of rows"
  unfolding map_filled_def by (simp add: foldl_filled)

lemma map_of_keys: "set ks = dom m \<Longrightarrow> map_of (map (\<lambda>k. (k, the (m k))) ks) = m"
  by (rule ext) (auto simp: map_of_map_restrict restrict_map_def comp_def domIff)

lemma map_filled_entries [simp]:
  assumes "finite (dom m)" shows "map_filled (map_entries m) = m"
proof -
  have "map fst (map_entries m) = sorted_list_of_set (dom m)" by (simp add: map_entries_def comp_def)
  then have "map_filled (map_entries m) = map_of (map_entries m)" by (intro map_filled_distinct) simp
  also have "\<dots> = m" unfolding map_entries_def by (rule map_of_keys) (simp add: assms)
  finally show ?thesis .
qed

lemma set_map_entries: "finite (dom m) \<Longrightarrow> set (map_entries m) = {(k, v). m k = Some v}"
  by (force simp: map_entries_def)

lemma bin_at_inject: "inj bin_at"
  by (rule injI) (auto simp: bin_at_def split: prod.splits)

lemma bin_at_onto: "\<exists>k. bin_at k = key"
proof -
  have "bin_at (kind_str (dch_kind (bk_channel key)), address_str (dch_address (bk_channel key)), bk_tag_key key) = key"
    by (simp add: bin_at_def)
  then show ?thesis ..
qed

definition bins_ok :: "(bin_key \<rightharpoonup> bin_progress) \<Rightarrow> bool" where
  "bins_ok bins \<longleftrightarrow> finite (dom bins) \<and>
     (\<forall>k p. bins k = Some p \<longrightarrow> k = progress_key (bp_channel p) (bp_tag_key p) \<and> durable_ok (bp_channel p) \<and>
        finite (bp_completed p))"

lemma finite_bin_keys: "bins_ok bins \<Longrightarrow> finite (dom (bins \<circ> bin_at))"
proof -
  assume "bins_ok bins"
  then have "finite (bin_at -` dom bins)" by (intro finite_vimageI bin_at_inject) (simp add: bins_ok_def)
  moreover have "dom (bins \<circ> bin_at) = bin_at -` dom bins" by (auto simp: dom_def)
  ultimately show ?thesis by simp
qed

lemma set_bin_values: "bins_ok bins \<Longrightarrow> p \<in> set (bin_values bins) \<Longrightarrow> durable_ok (bp_channel p) \<and> finite (bp_completed p)"
  using set_map_entries [OF finite_bin_keys, of bins] by (auto simp: bin_values_def bins_ok_def)

lemma map_filled_bins:
  assumes "bins_ok bins"
  shows "map_filled (map (\<lambda>p. (progress_key (bp_channel p) (bp_tag_key p), p)) (bin_values bins)) = bins"
proof -
  let ?ks = "map bin_at (sorted_list_of_set (dom (bins \<circ> bin_at)))"
  have key: "progress_key (bp_channel p) (bp_tag_key p) = bin_at k" if "bins (bin_at k) = Some p" for k p
    using assms that by (simp add: bins_ok_def)
  have rows: "map (\<lambda>p. (progress_key (bp_channel p) (bp_tag_key p), p)) (bin_values bins) = map (\<lambda>k. (k, the (bins k))) ?ks"
    using finite_bin_keys [OF assms] by (auto simp: bin_values_def map_entries_def key)
  have "dom bins \<subseteq> bin_at ` dom (bins \<circ> bin_at)"
  proof
    fix k
    assume "k \<in> dom bins"
    moreover obtain j where "bin_at j = k" using bin_at_onto by blast
    ultimately show "k \<in> bin_at ` dom (bins \<circ> bin_at)" by force
  qed
  then have "set ?ks = dom bins" using finite_bin_keys [OF assms] by auto
  then have "map_of (map (\<lambda>k. (k, the (bins k))) ?ks) = bins" by (rule map_of_keys)
  moreover have "distinct ?ks" using inj_on_subset [OF bin_at_inject subset_UNIV] by (simp add: distinct_map)
  ultimately show ?thesis unfolding rows by (subst map_filled_distinct) (simp_all add: comp_def)
qed

lemma read_opt_number [fold_read]: "nullable as_number (opt_number n) = Inr n"
  by (cases n) simp_all

interpretation tx_fold: fold_codec tx_json read_tx "\<lambda>row. body_wf (snd row)" "\<lambda>row. row"
proof
  fix b and row :: "tag \<times> durable_body"
  assume "b64u_ok b" "body_wf (snd row)"
  then show "read_tx b (tx_json b row) = Inr row"
    by (simp add: read_tx_def tx_json_def fold_read or_malformed_def body_codec.roundtrip)
qed (rule snapshot_rows_canon)

interpretation part_fold: fold_codec part_json read_part "\<lambda>_. True" "\<lambda>row. row"
proof
  fix b and row :: "frag_index \<times> bytes"
  assume "b64u_ok b"
  then show "read_part b (part_json b row) = Inr row" by (simp add: read_part_def part_json_def fold_read)
qed (rule snapshot_rows_canon)

interpretation log_fold: fold_codec log_json read_log "\<lambda>_. True" "\<lambda>row. row"
proof
  fix b and row :: "persist_seq \<times> tag"
  assume "b64u_ok b"
  then show "read_log b (log_json b row) = Inr row" by (simp add: read_log_def log_json_def fold_read)
qed (rule snapshot_rows_canon)

interpretation frag_fold: fold_codec frag_json read_frag "\<lambda>row. finite (dom (fs_parts (snd row)))" "\<lambda>row. row"
proof
  fix b and row :: "tag \<times> frag_set"
  assume b: "b64u_ok b" and fin: "finite (dom (fs_parts (snd row)))"
  then show "read_frag b (frag_json b row) = Inr row"
    using part_fold.array_roundtrip [OF b, of "map_entries (fs_parts (snd row))"]
    by (cases row) (simp add: read_frag_def frag_json_def fold_read list_all_iff)
qed (rule read_frag_canon)

interpretation bin_fold: fold_codec bin_json read_bin "\<lambda>p. durable_ok (bp_channel p) \<and> finite (bp_completed p)"
  "\<lambda>p. (progress_key (bp_channel p) (bp_tag_key p), p)"
proof
  fix b and p :: bin_progress
  assume b: "b64u_ok b" and ok: "durable_ok (bp_channel p) \<and> finite (bp_completed p)"
  have "read_array as_number (JArray (map JNumber xs)) = Inr (map id xs)" for xs by (rule read_array_map) simp
  moreover have "parse_fold_channel (durable_json (bp_channel p)) = Inr (bp_channel p)"
    using ok by (simp add: parse_fold_channel_def durable_json_def durable_ok_def codec_rt)
  ultimately show "read_bin b (bin_json b p) = Inr (progress_key (bp_channel p) (bp_tag_key p), p)"
    using b ok by (simp add: read_bin_def bin_json_def fold_read)
qed (rule read_frag_canon)

section \<open>The state in a snapshot\<close>

definition frags_ok :: "frags \<Rightarrow> bool" where
  "frags_ok frags \<longleftrightarrow> finite (dom frags) \<and> (\<forall>t fs. frags t = Some fs \<longrightarrow> finite (dom (fs_parts fs)))"

definition storable :: "engine_state \<Rightarrow> bool" where
  "storable st \<longleftrightarrow> bt_ok (es_users st) \<and> list_all (\<lambda>row. user_ok (snd row)) (es_users st) \<and> device_ok (es_device st) \<and>
     frags_ok (es_frags st) \<and> bins_ok (es_bin_progress st) \<and> bt_ok (es_persist_log st) \<and>
     list_all (\<lambda>row. body_wf (snd row)) (kept_txs st)"

definition kept_state :: "engine_state \<Rightarrow> engine_state" where
  "kept_state st = state_new\<lparr>es_next_seq := es_next_seq st, es_ticked := es_ticked st, es_frags := es_frags st,
     es_bin_progress := es_bin_progress st, es_persist_log := kept_log st, es_users := kept_users (es_users st),
     es_device := kept_device (es_device st)\<rparr>"

lemma read_snapshot_written:
  assumes b: "b64u_ok b" and ok: "storable st"
  shows "read_snapshot b (snapshot_json b st) = try_fold insert_tx (kept_txs st) (kept_state st)"
proof -
  have txs: "try_map (read_tx b) (map (tx_json b) (kept_txs st)) = Inr (kept_txs st)"
    using tx_fold.array_roundtrip [OF b, of "kept_txs st"] ok by (simp add: storable_def read_array_def)
  have frags: "read_array (read_frag b) (JArray (map (frag_json b) (map_entries (es_frags st)))) = Inr (map_entries (es_frags st))"
  proof -
    have "list_all (\<lambda>row. finite (dom (fs_parts (snd row)))) (map_entries (es_frags st))"
      using ok by (auto simp: storable_def frags_ok_def list_all_iff set_map_entries)
    then show ?thesis using frag_fold.array_roundtrip [OF b] by simp
  qed
  have bins: "read_array (read_bin b) (JArray (map (bin_json b) (bin_values (es_bin_progress st)))) =
      Inr (map (\<lambda>p. (progress_key (bp_channel p) (bp_tag_key p), p)) (bin_values (es_bin_progress st)))"
    using set_bin_values [of "es_bin_progress st"] ok
    by (intro bin_fold.array_roundtrip [OF b]) (simp add: storable_def list_all_iff)
  have log: "read_array (read_log b) (JArray (map (log_json b) (kept_log st))) = Inr (kept_log st)" "bt_ok (kept_log st)"
    using log_fold.array_roundtrip [OF b, of "kept_log st"] ok
    by (simp_all add: list_all_iff kept_log_def storable_def bt_ok_filter)
  let ?st = "state_new\<lparr>es_next_seq := es_next_seq st, es_ticked := es_ticked st, es_frags := es_frags st,
    es_bin_progress := es_bin_progress st, es_persist_log := kept_log st\<rparr>"
  have users: "install_users b (users_json b st) ?st = Inr (?st\<lparr>es_users := kept_users (es_users st)\<rparr>)"
    using install_users_written [OF b, of "[]" "es_users st" ?st] ok
    by (simp add: install_users_def users_json_def install_array_def storable_def state_new_def)
  have device: "install_device b (device_json b (es_device st)) (?st\<lparr>es_users := kept_users (es_users st)\<rparr>) = Inr (kept_state st)"
    using install_device_written [OF b, of "es_device st" "?st\<lparr>es_users := kept_users (es_users st)\<rparr>"] ok
    by (simp add: storable_def kept_state_def state_new_def)
  show ?thesis
    using b ok txs frags bins log users device
    by (simp add: read_snapshot_def snapshot_json_def fold_read read_txs_def banned_members_def install_member_def
        list_or_nil_def map_filled_bins storable_def frags_ok_def)
qed

lemma apply_folded_form:
  assumes suite: "packet_suite_ok (en_suite en)" and json: "json_ok (snapshot_json (st_b64u (en_suite en)) st)"
    and fold: "fold_snapshot en st = Inr (snapshot, seq)" and same: "en_suite en' = en_suite en" "en_dek en' = en_dek en"
  shows "apply_folded en' snapshot = read_snapshot (st_b64u (en_suite en)) (snapshot_json (st_b64u (en_suite en)) st)"
proof -
  let ?s = "en_suite en" and ?v = "snapshot_json (st_b64u (en_suite en)) st"
  have laws: "canonical_json_ok ?s" "compress_ok ?s" "aead_ok ?s" using suite by (simp_all add: packet_suite_ok_def)
  obtain v where v: "st_json_decode ?s (st_json_encode ?s ?v) = Some v" "canon v = canon ?v"
    using laws(1) json unfolding canonical_json_ok_def by blast
  have read: "read_snapshot b v = read_snapshot b ?v" for b
    using read_snapshot_canon [OF json] read_snapshot_canon [of v] json json_ok_canon [of v] json_ok_canon [of ?v] v(2) by simp
  obtain dek where dek: "en_dek en = Some dek" using fold by (cases "en_dek en") (auto simp: fold_snapshot_def require_dek_def)
  define nonce where "nonce = persist_nonce FOLD_VERSION (es_next_seq st)"
  have "length nonce = 12" "take 4 nonce = be32 FOLD_VERSION" by (simp_all add: nonce_def persist_nonce_def be32_def)
  moreover have "length (st_json_encode ?s ?v) \<le> PERSIST_MAX_UNCOMPRESSED"
    "snapshot = nonce @ st_seal ?s dek nonce [] (st_compress ?s (st_json_encode ?s ?v))"
    using fold dek
    by (auto simp: fold_snapshot_def seal_snapshot_def require_dek_def and_then_eq_Inr nonce_def Let_def split: if_splits)
  ultimately have "open_snapshot en' snapshot = Inr v"
    using laws v(1) dek same by (simp add: open_snapshot_def require_dek_def AEAD_NONCE_LEN_def aead_ok_def compress_ok_def)
  then show ?thesis by (simp add: apply_folded_def same read)
qed

end
