(* ===== verification/Snapshot_Properties.thy ===== *)
theory Snapshot_Properties
  imports Snapshot Vault_Properties
begin

text \<open>
  What a snapshot promises: the state that is read back, and that it holds exactly the transactions the
  snapshot kept.
\<close>

section \<open>Which transactions a state accepts\<close>

fun identity_accepts :: "identity_conversation \<Rightarrow> tx_payload \<Rightarrow> bool" where
  "identity_accepts (DmHandshakeRow _ _ _) p \<longleftrightarrow> dm_handshake_from p \<noteq> None"
| "identity_accepts (DirectMessageRow _ _ _ _) p \<longleftrightarrow> dm_from p \<noteq> None"
| "identity_accepts (GroupRow (Live _)) p \<longleftrightarrow> live_group_from p \<noteq> None"
| "identity_accepts (GroupRow _) p \<longleftrightarrow> False"

fun device_accepts :: "device_conversation \<Rightarrow> tx_payload \<Rightarrow> bool" where
  "device_accepts (SyncHandshakeRow _ _ _) p \<longleftrightarrow> sync_handshake_from p \<noteq> None"
| "device_accepts (SynchronizationRow _ _ _ _ _) p \<longleftrightarrow> sync_from p \<noteq> None"

fun row_takes :: "('p \<Rightarrow> bool) option \<Rightarrow> 'p \<Rightarrow> bool" where
  "row_takes (Some f) p = f p"
| "row_takes None p = False"

definition accepts :: "engine_state \<Rightarrow> durable_body \<Rightarrow> bool" where
  "accepts st b \<longleftrightarrow>
     (case place_of st (db_conversation_id b) of
        Some (PlaceIdentity u i cid) \<Rightarrow> row_takes (map_option identity_accepts (identity_row st u i cid)) (db_payload b)
      | Some (PlaceDevice cid) \<Rightarrow> row_takes (map_option device_accepts (bt_get (dev_convs st) cid)) (db_payload b)
      | _ \<Rightarrow> engine_from (db_payload b) \<noteq> None)"

lemma accepts_eqI:
  assumes "place_of st' = place_of st"
    "\<And>u i c. map_option identity_accepts (identity_row st' u i c) = map_option identity_accepts (identity_row st u i c)"
    "\<And>c. map_option device_accepts (bt_get (dev_convs st') c) = map_option device_accepts (bt_get (dev_convs st) c)"
  shows "accepts st' = accepts st"
  unfolding fun_eq_iff accepts_def assms by simp

lemma identity_log_put_iff: "(\<exists>node'. identity_log_put t b node = Some node') \<longleftrightarrow> identity_accepts node (db_payload b)"
  by (induction t b node rule: identity_log_put.induct) (auto simp: log_put_def)

lemma device_log_put_iff: "(\<exists>node'. device_log_put t b node = Some node') \<longleftrightarrow> device_accepts node (db_payload b)"
  by (cases node) (auto simp: log_put_def)

lemma identity_put_accepts: "identity_log_put t b node = Some node' \<Longrightarrow> identity_accepts node' = identity_accepts node"
  by (induction t b node rule: identity_log_put.induct) (auto simp: fun_eq_iff)

lemma device_put_accepts: "device_log_put t b node = Some node' \<Longrightarrow> device_accepts node' = device_accepts node"
  by (cases node) (auto simp: fun_eq_iff)

text \<open>Where a conversation is found depends on the keys of the maps only.\<close>

lemma identities_mut:
  "identities (identity_mut f u i st) =
     map (\<lambda>((v, j), ident). ((v, j), if v = u \<and> j = i then f ident else ident)) (identities st)"
  unfolding identities_def identity_mut_def bt_update_def map_concat map_map by (auto simp: case_prod_beta intro!: arg_cong [of _ _ concat])

lemma bt_contains_update [simp]: "bt_contains (bt_update k f m) k' = bt_contains m k'"
  by (simp add: bt_contains_def)

lemma find_map_cong: "(\<And>x. x \<in> set xs \<Longrightarrow> f x = g x) \<Longrightarrow> find_map f xs = find_map g xs"
  by (induction xs) (auto split: option.split)

definition owner_place :: "conversation_id \<Rightarrow> ((user_id \<times> identity_id) \<times> identity) list \<Rightarrow> tx_place option" where
  "owner_place cid = find_map (\<lambda>((u, i), ident). then_some (bt_contains (idn_conversations ident) cid) (PlaceIdentity u i cid))"

lemma owner_place_map:
  "(\<And>k ident. bt_contains (idn_conversations (f k ident)) cid = bt_contains (idn_conversations ident) cid) \<Longrightarrow>
     owner_place cid (map (\<lambda>(k, ident). (k, f k ident)) xs) = owner_place cid xs"
  unfolding owner_place_def find_map_map by (rule find_map_cong) (auto split: prod.splits)

lemma place_of_eqI:
  assumes "\<And>c. owner_place c (identities st') = owner_place c (identities st)"
    "\<And>c. bt_contains (dev_convs st') c = bt_contains (dev_convs st) c"
  shows "place_of st' = place_of st"
  unfolding fun_eq_iff place_of_def owner_place_def [symmetric] assms by simp

lemma place_of_set [simp]:
  "place_of (set_identity_row u i cid f st) = place_of st" "place_of (set_device_row cid g st) = place_of st"
  "place_of (st\<lparr>es_tx_place := pl\<rparr>) = place_of st" "place_of (st\<lparr>es_engine_log := lg\<rparr>) = place_of st"
proof -
  let ?g = "\<lambda>k ident. if k = (u, i) then ident\<lparr>idn_conversations := bt_update cid f (idn_conversations ident)\<rparr> else ident"
  have "identities (set_identity_row u i cid f st) = map (\<lambda>(k, ident). (k, ?g k ident)) (identities st)"
    unfolding set_identity_row_def identities_mut by auto
  then show "place_of (set_identity_row u i cid f st) = place_of st"
    by (intro place_of_eqI) (simp_all add: owner_place_map)
  show "place_of (set_device_row cid g st) = place_of st"
    by (rule place_of_eqI) (simp_all add: identities_def set_device_row_def dev_convs_def)
  show "place_of (st\<lparr>es_tx_place := pl\<rparr>) = place_of st" "place_of (st\<lparr>es_engine_log := lg\<rparr>) = place_of st"
    by (rule place_of_eqI; simp add: identities_def)+
qed

lemma insert_accepted:
  assumes "accepts st b" "\<not> bt_contains (es_tx_place st) t"
  shows "\<exists>st'. insert_body t b st = (Inr (), st') \<and> accepts st' = accepts st \<and>
    (\<forall>j. bt_contains (es_tx_place st') j \<longleftrightarrow> j = t \<or> bt_contains (es_tx_place st) j)"
proof -
  let ?p = "place_of st (db_conversation_id b)"
  have engine: ?thesis if "?p = None \<or> ?p = Some PlaceEngine"
  proof -
    have "engine_from (db_payload b) \<noteq> None" using that assms(1) by (elim disjE) (simp_all add: accepts_def)
    then obtain lg where "log_put engine_from t b (es_engine_log st) = Some lg" by (auto simp: log_put_def)
    with that assms(2) have "insert_body t b st = (Inr (), place_body t PlaceEngine (st\<lparr>es_engine_log := lg\<rparr>))"
      by (elim disjE) (simp_all add: insert_body_def Let_def)
    moreover have "accepts (place_body t PlaceEngine (st\<lparr>es_engine_log := lg\<rparr>)) = accepts st"
      by (rule accepts_eqI) (simp_all add: place_body_def)
    ultimately show ?thesis by (simp add: place_body_def)
  qed
  have identity: ?thesis if p: "?p = Some (PlaceIdentity u i cid)" for u i cid
  proof -
    obtain node where row: "identity_row st u i cid = Some node" and "identity_accepts node (db_payload b)"
      using assms(1) p by (cases "identity_row st u i cid") (auto simp: accepts_def)
    then obtain node' where put: "identity_log_put t b node = Some node'" using identity_log_put_iff by blast
    note n = row put
    let ?st = "place_body t (PlaceIdentity u i cid) (set_identity_row u i cid (\<lambda>_. node') st)"
    have "insert_body t b st = (Inr (), ?st)" using p n assms(2) by (simp add: insert_body_def Let_def)
    moreover have "accepts ?st = accepts st"
      by (rule accepts_eqI) (auto simp: place_body_def n identity_put_accepts [OF n(2)])
    ultimately show ?thesis by (simp add: place_body_def)
  qed
  have device: ?thesis if p: "?p = Some (PlaceDevice cid)" for cid
  proof -
    obtain node where row: "bt_get (dev_convs st) cid = Some node" and "device_accepts node (db_payload b)"
      using assms(1) p by (cases "bt_get (dev_convs st) cid") (auto simp: accepts_def)
    then obtain node' where put: "device_log_put t b node = Some node'" using device_log_put_iff by blast
    note n = row put
    let ?st = "place_body t (PlaceDevice cid) (set_device_row cid (\<lambda>_. node') st)"
    have "insert_body t b st = (Inr (), ?st)" using p n assms(2) by (simp add: insert_body_def Let_def)
    moreover have "accepts ?st = accepts st"
      by (rule accepts_eqI) (auto simp: place_body_def n device_put_accepts [OF n(2)])
    ultimately show ?thesis by (simp add: place_body_def)
  qed
  show ?thesis using engine identity device by (cases ?p) (auto split: tx_place.splits, metis tx_place.exhaust)
qed

lemma insert_all_accepted:
  assumes "distinct (map fst rows)" "\<forall>row\<in>set rows. accepts st (snd row) \<and> \<not> bt_contains (es_tx_place st) (fst row)" "indexed st"
  shows "\<exists>st'. try_fold insert_tx rows st = Inr st' \<and> body st' = body st ++ map_of rows \<and>
    es_next_seq st' = es_next_seq st \<and> es_ticked st' = es_ticked st"
  using assms
proof (induction rows arbitrary: st)
  case (Cons row rows)
  obtain t b where row: "row = (t, b)" by (cases row)
  from Cons.prems(2) have "accepts st b" "\<not> bt_contains (es_tx_place st) t" by (simp_all add: row)
  then obtain st1 where ins: "insert_body t b st = (Inr (), st1)" and acc: "accepts st1 = accepts st"
    and places: "\<And>j. bt_contains (es_tx_place st1) j \<longleftrightarrow> j = t \<or> bt_contains (es_tx_place st) j"
    using insert_accepted by blast
  have "\<forall>row\<in>set rows. accepts st1 (snd row) \<and> \<not> bt_contains (es_tx_place st1) (fst row)"
    using Cons.prems(1,2) by (auto simp: row acc places)
  from Cons.IH [OF _ this insert_indexed [OF Cons.prems(3) ins]] Cons.prems(1)
  obtain st' where st': "try_fold insert_tx rows st1 = Inr st'" "body st' = body st1 ++ map_of rows"
      "es_next_seq st' = es_next_seq st1" "es_ticked st' = es_ticked st1"
    by (auto simp: row)
  have "map_of rows t = None" using Cons.prems(1) by (simp add: row map_of_eq_None_iff)
  then have "body st' = body st ++ map_of (row # rows)"
    using st'(2) body_insert [OF Cons.prems(3) ins] by (auto simp: fun_eq_iff map_add_def row split: option.splits)
  moreover have "try_fold insert_tx (row # rows) st = Inr st'" using st'(1) ins by (simp add: insert_tx_def row)
  ultimately show ?case using st'(3,4) insert_body_side [OF ins] by (intro exI [of _ st']) (simp del: map_of.simps)
qed simp

section \<open>The state before its transactions\<close>

lemma kept_identities: "identities (kept_state st) = map (\<lambda>(k, ident). (k, kept_identity ident)) (identities st)"
proof -
  have "concat (map (\<lambda>(u, usr). map (\<lambda>(i, ident). ((u, i), ident)) (usr_identities usr)) (kept_users us)) =
      map (\<lambda>(k, ident). (k, kept_identity ident)) (concat (map (\<lambda>(u, usr). map (\<lambda>(i, ident). ((u, i), ident)) (usr_identities usr)) us))" for us
    by (induction us) (auto simp: kept_users_def bt_map_def)
  then show ?thesis by (simp add: identities_def kept_state_def)
qed

lemma kept_identity_at:
  assumes "bt_ok (es_users st)"
  shows "identity_at (kept_state st) u i = map_option kept_identity (identity_at st u i)"
proof -
  have "bt_get (kept_users us) u = (case bt_get us u of None \<Rightarrow> None
      | Some usr \<Rightarrow> if usr_identities usr = [] then None else Some \<lparr>usr_identities = bt_map kept_identity (usr_identities usr)\<rparr>)"
    if "bt_ok us" for us
    using that
  proof (induction us)
    case (Cons row us)
    obtain v usr where row: "row = (v, usr)" by (cases row)
    have "v \<notin> fst ` set us" using Cons.prems by (auto simp: row)
    then have "bt_get us v = None" by (simp add: bt_get_None)
    with Cons show ?case by (cases "v = u") (auto simp: kept_users_def row)
  qed (simp add: kept_users_def)
  from this [OF assms] show ?thesis
    by (cases "bt_get (es_users st) u") (simp_all add: identity_at_def kept_state_def)
qed

lemma kept_rows:
  assumes "bt_ok (es_users st)"
  shows "identity_row (kept_state st) u i cid = map_option kept_identity_row (identity_row st u i cid)"
    "bt_get (dev_convs (kept_state st)) cid = map_option kept_device_row (bt_get (dev_convs st) cid)"
proof -
  show "identity_row (kept_state st) u i cid = map_option kept_identity_row (identity_row st u i cid)"
    by (cases "identity_at st u i") (simp_all add: identity_row_def kept_identity_at [OF assms] kept_identity_def)
  show "bt_get (dev_convs (kept_state st)) cid = map_option kept_device_row (bt_get (dev_convs st) cid)"
    by (simp add: dev_convs_def kept_state_def kept_device_def)
qed

lemma kept_row_facts:
  "identity_accepts (kept_identity_row node) = identity_accepts node" "identity_body (kept_identity_row node) t = None"
  "device_accepts (kept_device_row dnode) = device_accepts dnode" "device_body (kept_device_row dnode) t = None"
proof -
  show "identity_accepts (kept_identity_row node) = identity_accepts node" "identity_body (kept_identity_row node) t = None"
    by (induction node rule: kept_identity_row.induct) (simp_all add: fun_eq_iff)
  show "device_accepts (kept_device_row dnode) = device_accepts dnode" "device_body (kept_device_row dnode) t = None"
    by (cases dnode; simp add: fun_eq_iff)+
qed

lemma kept_state_empty:
  assumes "bt_ok (es_users st)"
  shows "indexed (kept_state st)" "body (kept_state st) = Map.empty" "\<not> bt_contains (es_tx_place (kept_state st)) t"
proof -
  have "body_at (kept_state st) t p = None" for t p
    using kept_rows [OF assms]
    by (cases p) (simp_all add: kept_row_facts kept_state_def state_new_def bind_map_option comp_def split: Option.bind_split)
  then show "indexed (kept_state st)" by (simp add: indexed_def)
  show "body (kept_state st) = Map.empty" "\<not> bt_contains (es_tx_place (kept_state st)) t"
    by (simp_all add: fun_eq_iff body_def kept_state_def state_new_def bt_contains_def)
qed

lemma kept_accepts:
  assumes "bt_ok (es_users st)"
  shows "accepts (kept_state st) = accepts st"
proof (rule accepts_eqI)
  show "place_of (kept_state st) = place_of st"
  proof (rule place_of_eqI)
    fix c
    show "owner_place c (identities (kept_state st)) = owner_place c (identities st)"
      using owner_place_map [of "\<lambda>_. kept_identity" c "identities st"] by (simp add: kept_identities kept_identity_def bt_contains_def)
    show "bt_contains (dev_convs (kept_state st)) c = bt_contains (dev_convs st) c"
      using kept_rows(2) [OF assms] by (simp add: bt_contains_def)
  qed
qed (simp_all add: kept_rows [OF assms] option.map_comp comp_def kept_row_facts)

lemma kept_tx_iff:
  "kept_tx st (t, b) \<longleftrightarrow> tx_watermarked st t \<and>
     (\<forall>expires. payload_expire_at (db_payload b) = Some expires \<longrightarrow> (case es_ticked st of Some now \<Rightarrow> now | None \<Rightarrow> 0) < expires)"
  by (cases "payload_expire_at (db_payload b)") (simp_all add: kept_tx_def not_le)

section \<open>Reading any snapshot\<close>

lemma try_fold_steps:
  assumes "\<And>x s s'. f x s = Inr s' \<Longrightarrow> R\<^sup>*\<^sup>* s s'"
  shows "try_fold f xs s = Inr s' \<Longrightarrow> R\<^sup>*\<^sup>* s s'"
proof (induction xs arbitrary: s)
  case (Cons x xs)
  then obtain s1 where "f x s = Inr s1" "try_fold f xs s1 = Inr s'" by (auto simp: and_then_eq_Inr)
  then show ?case using assms Cons.IH by (meson rtranclp_trans)
qed simp

lemma install_array_steps:
  "(\<And>x s s'. f x s = Inr s' \<Longrightarrow> R\<^sup>*\<^sup>* s s') \<Longrightarrow> install_array f s v = Inr s' \<Longrightarrow> R\<^sup>*\<^sup>* s s'"
  unfolding install_array_def and_then_eq_Inr using try_fold_steps [of f R] by blast

lemma parsed_group_fresh:
  assumes "parse_group b v = Inr phase"
  shows "identity_wf (GroupRow (with_group_chains ch phase))" "identity_body (GroupRow (with_group_chains ch phase)) t = None"
  using assms
  by (auto simp: parse_group_def parse_offer_def parse_live_def and_then_eq_Inr log_get_def split: if_splits)

lemma parsed_row_fresh:
  assumes "parse_identity_conv b v = Inr (cid, node)"
  shows "identity_wf node" "identity_body node t = None"
  using assms parsed_group_fresh
  by (auto simp: parse_identity_conv_def read_direct_def and_then_eq_Inr log_get_def split: option.splits)

lemma parsed_device_fresh:
  assumes "parse_device_conv b v = Inr (cid, node)"
  shows "device_wf node" "device_body node t = None"
  using assms by (auto simp: parse_device_conv_def read_sync_def and_then_eq_Inr log_get_def split: option.splits)

lemma install_conversation_steps: "install_conversation b u i v st = Inr st' \<Longrightarrow> store_step\<^sup>*\<^sup>* st st'"
  unfolding install_conversation_def and_then_eq_Inr
  by (auto intro!: r_into_rtranclp s_put_dm dest: parsed_row_fresh)

lemma install_identity_steps:
  assumes "install_identity b u v st = Inr st'"
  shows "store_step\<^sup>*\<^sup>* st st'"
proof -
  obtain i name pic v' where
    "install_array (install_conversation b u i) (identity_mut (\<lambda>row. row\<lparr>idn_name := name, idn_pic := pic\<rparr>) u i (ensure_identity u i st)) v' = Inr st'"
    using assms by (auto simp: install_identity_def fold_at_def and_then_eq_Inr)
  from install_array_steps [OF install_conversation_steps this]
  have "store_step\<^sup>*\<^sup>* (identity_mut (\<lambda>row. row\<lparr>idn_name := name, idn_pic := pic\<rparr>) u i (ensure_identity u i st)) st'" .
  moreover have "store_step (ensure_identity u i st) (identity_mut (\<lambda>row. row\<lparr>idn_name := name, idn_pic := pic\<rparr>) u i (ensure_identity u i st))"
    by (rule s_rename) simp
  ultimately show ?thesis using s_identity by (meson converse_rtranclp_into_rtranclp)
qed

lemma install_user_steps: "install_user b v st = Inr st' \<Longrightarrow> store_step\<^sup>*\<^sup>* st st'"
  unfolding install_user_def fold_at_def and_then_eq_Inr by (blast intro: install_array_steps install_identity_steps)

lemma install_sync_steps: "install_sync b v st = Inr st' \<Longrightarrow> store_step\<^sup>*\<^sup>* st st'"
  unfolding install_sync_def and_then_eq_Inr by (auto intro!: r_into_rtranclp s_put_sync dest: parsed_device_fresh)

lemma install_steps:
  "install_users b v st = Inr st' \<Longrightarrow> store_step\<^sup>*\<^sup>* st st'" "install_device b v st = Inr st' \<Longrightarrow> store_step\<^sup>*\<^sup>* st st'"
proof -
  show "store_step\<^sup>*\<^sup>* st st'" if "install_users b v st = Inr st'"
    by (rule install_array_steps [OF install_user_steps that [unfolded install_users_def]])
  show "store_step\<^sup>*\<^sup>* st st'" if dev: "install_device b v st = Inr st'"
  proof -
    obtain name keys dek_ct v' where "install_array (install_sync b) (set_device_fields name keys dek_ct st) v' = Inr st'"
      using dev by (auto simp: install_device_def fold_at_def and_then_eq_Inr)
    from install_array_steps [OF install_sync_steps this] have "store_step\<^sup>*\<^sup>* (set_device_fields name keys dek_ct st) st'" .
    moreover have "store_step st (set_device_fields name keys dek_ct st)"
      by (rule s_other) (simp_all add: set_device_fields_def dev_convs_def)
    ultimately show ?thesis by (rule converse_rtranclp_into_rtranclp [rotated])
  qed
qed

lemma install_member_steps:
  "(\<And>v s s'. f v s = Inr s' \<Longrightarrow> R\<^sup>*\<^sup>* s s') \<Longrightarrow> install_member m k f s = Inr s' \<Longrightarrow> R\<^sup>*\<^sup>* s s'"
  by (auto simp: install_member_def split: option.splits)

lemma insert_tx_steps: "insert_tx row st = Inr st' \<Longrightarrow> store_step\<^sup>*\<^sup>* st st'"
  by (auto simp: insert_tx_def split: prod.splits sum.splits intro!: r_into_rtranclp s_insert)

lemma read_snapshot_steps:
  assumes "read_snapshot b v = Inr st"
  shows "store_step\<^sup>*\<^sup>* state_new st"
proof -
  obtain m n tk fr bn lg txs st0 st1 where
    u: "install_member m ''users'' (install_users b)
      (state_new\<lparr>es_next_seq := n, es_ticked := tk, es_frags := fr, es_bin_progress := bn, es_persist_log := lg\<rparr>) = Inr st0"
    and d: "install_member m ''device'' (install_device b) st0 = Inr st1" and t: "try_fold insert_tx txs st1 = Inr st"
    using assms by (auto simp: read_snapshot_def and_then_eq_Inr split: if_splits)
  have "store_step state_new
      (state_new\<lparr>es_next_seq := n, es_ticked := tk, es_frags := fr, es_bin_progress := bn, es_persist_log := lg\<rparr>)"
    by (rule s_other) (simp_all add: state_new_def dev_convs_def forward_def)
  with install_member_steps [OF install_steps(1) u] install_member_steps [OF install_steps(2) d]
    try_fold_steps [OF insert_tx_steps t]
  show ?thesis by (meson converse_rtranclp_into_rtranclp rtranclp_trans)
qed

section \<open>Properties\<close>


lemma held_facts:
  "kept_txs (held t) = [(t, init_body)]" "storable (held t)" "wf_state (held t)" "indexed (held t)" "accepts (held t) init_body"
proof -
  let ?row = "\<lparr>row_conversation_id = fill 0, row_hlc = sample_hlc, row_payload = Init\<rparr>"
  have parts: "es_users (held t) = []" "es_device (held t) = device_default" "dev_convs (held t) = []" "es_frags (held t) = Map.empty"
    "es_bin_progress (held t) = Map.empty" "es_persist_log (held t) = []" "es_tx_place (held t) = [(t, PlaceEngine)]"
    "es_engine_log (held t) = [(t, ?row)]" "es_ticked (held t) = Some 5" "es_next_seq (held t) = 0"
    by (simp_all add: held_def place_body_def state_new_def dev_convs_def device_default_def)
  have ids: "identities (held t) = []" by (simp add: identities_def parts)
  have pairs: "body_pairs (held t) = [(t, init_body)]"
    by (simp add: body_pairs_def ids parts push_log_def row_body_def durable_def init_body_def)
  have "chains_of (held t) c = None" for c by (simp add: chains_of_def packet_of_def first_row_def ids parts)
  then show kept: "kept_txs (held t) = [(t, init_body)]"
    by (simp add: kept_txs_def pairs kept_tx_def tx_watermarked_def held_body watermark_of_def conversation_tx_ids_def)
      (simp add: init_body_def)
  show "storable (held t)"
    using init_body_json(1) by (simp add: storable_def kept parts frags_ok_def bins_ok_def device_ok_def device_default_def)
  show "wf_state (held t)"
    by (simp add: wf_state_def parts identity_row_def identity_at_def)
  show "indexed (held t)"
  proof (rule indexedI)
    fix p t' b
    assume "body_at (held t) t' p = Some b"
    then show "bt_get (es_tx_place (held t)) t' = Some p"
      by (cases p) (auto simp: parts identity_row_def identity_at_def log_get_def split: if_splits)
  qed
  show "accepts (held t) init_body"
    by (simp add: accepts_def place_of_def ids parts then_some_def bt_contains_def) (simp add: init_body_def)
qed

lemma held_json:
  assumes "v = snapshot_json (st_b64u sample_suite) (held t)"
  shows "json_ok v" "length (json_encode v) \<le> 3000"
proof -
  let ?b = "st_b64u sample_suite"
  have v: "v = JObject [(''type'', JString ''v1-engine-snapshot''), (''next_seq'', JNumber 0), (''ticked'', JNumber 5),
      (''txs'', JArray [JObject [(''tx_id'', bstr ?b (as_bytes t)), (''body'', durable_body_to_json ?b init_body)]]), (''users'', JArray []),
      (''device'', JObject [(''name'', JNull), (''keys'', JNull), (''conversations'', JArray [])]), (''frags'', JArray []),
      (''bins'', JArray []), (''persist_log'', JArray [])]"
    by (simp add: assms snapshot_json_def held_facts(1) tx_json_def users_json_def device_json_def kept_log_def)
      (simp add: held_def place_body_def state_new_def device_default_def map_entries_def bin_values_def dom_def)
  show "json_ok v" using init_body_json(2) sample_b64u_ok by (simp add: v)
  have "plain_json v" "json_bound v \<le> 3000"
    using plain_letters
    by (simp_all add: v init_body_def durable_body_to_json_def payload_to_json_def hlc_json_def bstr_def sample_suite_def plain_str_def)
  then show "length (json_encode v) \<le> 3000" using length_json_bound [of v] by simp
qed

lemma held_folds: "\<exists>snapshot. fold_snapshot sample_engine (held t) = Inr (snapshot, 0)"
proof -
  have s: "en_suite sample_engine = sample_suite" "require_dek sample_engine = Inr (fill 8)"
      "st_json_encode sample_suite = json_encode" "es_next_seq (held t) = 0" "0 \<noteq> u64_max" "es_persist_log (held t) = []"
    by (simp_all add: sample_engine_def require_dek_def sample_suite_def held_def place_body_def state_new_def u64_max_def)
  then show ?thesis
    using held_json(2) [OF refl, of t]
    by (simp add: fold_snapshot_def s seal_snapshot_def persist_outside_watermark_def bt_values_def Let_def
        PERSIST_MAX_UNCOMPRESSED_def)
qed

lemma held_restored: "\<exists>st. try_fold insert_tx [(fill 3, init_body)] (kept_state (held (fill 3))) = Inr st \<and> body st (fill 3) = Some init_body"
proof -
  have "kept_state (held (fill 3)) = state_new\<lparr>es_ticked := Some 5\<rparr>"
    by (simp add: kept_state_def kept_log_def kept_users_def kept_device_def)
      (simp add: held_def place_body_def state_new_def device_default_def kept_device_def bt_map_def)
  moreover have "\<exists>st. insert_tx (fill 3, init_body) (state_new\<lparr>es_ticked := Some 5\<rparr>) = Inr st \<and> body st (fill 3) = Some init_body"
    by (simp add: insert_tx_def insert_body_def init_body_def state_new_def place_of_def identities_def device_default_def
        dev_convs_def log_put_def tx_row_of_def bt_contains_def place_body_def then_some_def Let_def body_def log_get_def
        row_body_def durable_def)
  ultimately show ?thesis by auto
qed






end
