(* ===== verification/Adapters.thy ===== *)
theory Adapters
  imports Secrets Sample_Suite
begin

text \<open>
  The adapters of \<open>chuchotez-adapters/src\<close> that stand between the ports and third-party crates, and the
  suite they make (\<open>v1.rs\<close>). The functions of the crates (\<open>libcrux\<close>, \<open>flate2\<close>, \<open>base64ct\<close>, \<open>argon2\<close>) are
  the fields of the records below, with their documented behaviour as \<open>crates_ok\<close>.
\<close>

section \<open>The crates\<close>

datatype kem_algorithm = X25519 | MlKem768 | XWingKemDraft06

record ('pk, 'sk, 'ct, 'ss) kem_crate =
  kc_key_gen :: "kem_algorithm \<Rightarrow> bytes \<Rightarrow> ('sk \<times> 'pk) option"
  kc_encapsulate :: "'pk \<Rightarrow> bytes \<Rightarrow> ('ss \<times> 'ct) option"
  kc_decapsulate :: "'ct \<Rightarrow> 'sk \<Rightarrow> 'ss option"
  kc_pk_encode :: "'pk \<Rightarrow> bytes"
  kc_sk_encode :: "'sk \<Rightarrow> bytes"
  kc_ct_encode :: "'ct \<Rightarrow> bytes"
  kc_ss_encode :: "'ss \<Rightarrow> bytes"
  kc_pk_decode :: "kem_algorithm \<Rightarrow> bytes \<Rightarrow> 'pk option"
  kc_sk_decode :: "kem_algorithm \<Rightarrow> bytes \<Rightarrow> 'sk option"
  kc_ct_decode :: "kem_algorithm \<Rightarrow> bytes \<Rightarrow> 'ct option"

record sign_crates =
  ed_secret_to_public :: "bytes \<Rightarrow> bytes"
  ed_sign :: "bytes \<Rightarrow> bytes \<Rightarrow> bytes option"
  ed_verify :: "bytes \<Rightarrow> bytes \<Rightarrow> bytes \<Rightarrow> bool"
  dsa_generate :: "bytes \<Rightarrow> bytes \<times> bytes"
  dsa_sign :: "bytes \<Rightarrow> bytes \<Rightarrow> bytes \<Rightarrow> bytes \<Rightarrow> bytes option"
  dsa_verify :: "bytes \<Rightarrow> bytes \<Rightarrow> bytes \<Rightarrow> bytes \<Rightarrow> bool"

text \<open>Encryption gives the ciphertext and the tag. The inflater writes its output in chunks and says at
  the end whether the stream was sound.\<close>

record ('pk, 'sk, 'ct, 'ss) crates =
  cr_hmac :: "bytes \<Rightarrow> bytes \<Rightarrow> hmac_mac"
  cr_sha256 :: "bytes \<Rightarrow> array32"
  cr_b64 :: b64u
  cr_aes_encrypt :: "bytes \<Rightarrow> bytes \<Rightarrow> bytes \<Rightarrow> bytes \<Rightarrow> (bytes \<times> bytes) option"
  cr_aes_decrypt :: "bytes \<Rightarrow> bytes \<Rightarrow> bytes \<Rightarrow> bytes \<Rightarrow> bytes \<Rightarrow> bytes option"
  cr_deflate :: "bytes \<Rightarrow> bytes"
  cr_inflate :: "bytes \<Rightarrow> bytes list \<times> bool"
  cr_argon_params :: "u32 \<Rightarrow> u32 \<Rightarrow> u32 \<Rightarrow> bool"
  cr_argon_hash :: "bytes \<Rightarrow> bytes \<Rightarrow> u32 \<Rightarrow> u32 \<Rightarrow> u32 \<Rightarrow> array32 option"
  cr_kem :: "('pk, 'sk, 'ct, 'ss) kem_crate"
  cr_sign :: sign_crates

section \<open>AES-256-GCM\<close>

definition TAG_LEN :: nat where "TAG_LEN = 16"

text \<open>\<open>None\<close> is the panic of \<open>expect\<close>.\<close>

definition aes_seal :: "('pk, 'sk, 'ct, 'ss) crates \<Rightarrow> aead_key \<Rightarrow> bytes \<Rightarrow> bytes \<Rightarrow> bytes \<Rightarrow> bytes option" where
  "aes_seal cr key nonce aad plain = map_option (\<lambda>(ct, tg). ct @ tg) (cr_aes_encrypt cr (as_bytes key) nonce aad plain)"

definition aes_open :: "('pk, 'sk, 'ct, 'ss) crates \<Rightarrow> aead_key \<Rightarrow> bytes \<Rightarrow> bytes \<Rightarrow> bytes \<Rightarrow> bytes option" where
  "aes_open cr key nonce aad ciphertext =
     (if length ciphertext < TAG_LEN then None
      else
        let n = length ciphertext - TAG_LEN in
        cr_aes_decrypt cr (as_bytes key) nonce aad (take n ciphertext) (drop n ciphertext))"

section \<open>Raw Deflate\<close>

text \<open>The writer the inflater fills: it refuses a chunk that would pass the bound, and remembers that.\<close>

record capped =
  cap_buf :: bytes
  cap_max :: nat
  cap_oversize :: bool

definition capped_new :: "nat \<Rightarrow> capped" where
  "capped_new mx = \<lparr>cap_buf = [], cap_max = mx, cap_oversize = False\<rparr>"

definition capped_write :: "bytes \<Rightarrow> capped \<Rightarrow> bool \<times> capped" where
  "capped_write buf w =
     (if length (cap_buf w) + length buf > cap_max w then (False, w\<lparr>cap_oversize := True\<rparr>)
      else (True, w\<lparr>cap_buf := cap_buf w @ buf\<rparr>))"

text \<open>The inflater stops at the first refused chunk.\<close>

fun write_chunks :: "bytes list \<Rightarrow> capped \<Rightarrow> capped" where
  "write_chunks [] w = w"
| "write_chunks (c # cs) w = (case capped_write c w of (True, w') \<Rightarrow> write_chunks cs w' | (False, w') \<Rightarrow> w')"

definition decompress :: "('pk, 'sk, 'ct, 'ss) crates \<Rightarrow> bytes \<Rightarrow> nat \<Rightarrow> compress_error + bytes" where
  "decompress cr src mx =
     (let (chunks, sound) = cr_inflate cr src; w = write_chunks chunks (capped_new mx) in
      if cap_oversize w then Inl Oversize
      else if sound then Inr (cap_buf w)
      else Inl Codec)"

section \<open>Key encapsulation\<close>

fun alg :: "policy \<Rightarrow> kem_algorithm" where
  "alg Classic = X25519"
| "alg PostQuantum = MlKem768"
| "alg Hybrid = XWingKemDraft06"

fun wrap_seed :: "policy \<Rightarrow> bytes \<Rightarrow> bytes" where
  "wrap_seed Hybrid seed = seed"
| "wrap_seed _ seed = take 32 seed"

fun generate_seed :: "policy \<Rightarrow> bytes \<Rightarrow> bytes" where
  "generate_seed PostQuantum seed = seed"
| "generate_seed _ seed = take 32 seed"

definition kem_generate :: "('pk, 'sk, 'ct, 'ss) kem_crate \<Rightarrow> policy \<Rightarrow> bytes \<Rightarrow> kem_error + key_pair" where
  "kem_generate kc pol seed =
     and_then (ok_or (kc_key_gen kc (alg pol) (generate_seed pol seed)) KemKeyGen) (\<lambda>(sk, pk).
       Inr \<lparr>kp_public = kc_pk_encode kc pk, kp_secret = kc_sk_encode kc sk\<rparr>)"

definition kem_wrap :: "('pk, 'sk, 'ct, 'ss) kem_crate \<Rightarrow> policy \<Rightarrow> bytes \<Rightarrow> bytes \<Rightarrow> kem_error + (bytes \<times> bytes)" where
  "kem_wrap kc pol pk seed =
     and_then (ok_or (kc_pk_decode kc (alg pol) pk) KemWrap) (\<lambda>public.
     and_then (ok_or (kc_encapsulate kc public (wrap_seed pol seed)) KemWrap) (\<lambda>(ss, ct).
       Inr (kc_ss_encode kc ss, kc_ct_encode kc ct)))"

definition kem_unwrap :: "('pk, 'sk, 'ct, 'ss) kem_crate \<Rightarrow> policy \<Rightarrow> bytes \<Rightarrow> bytes \<Rightarrow> kem_error + bytes" where
  "kem_unwrap kc pol sk kem_ct =
     and_then (ok_or (kc_sk_decode kc (alg pol) sk) KemWrap) (\<lambda>secret.
     and_then (ok_or (kc_ct_decode kc (alg pol) kem_ct) KemWrap) (\<lambda>ct.
     and_then (ok_or (kc_decapsulate kc ct secret) KemWrap) (\<lambda>ss.
       Inr (kc_ss_encode kc ss))))"

section \<open>Signatures\<close>

definition SEED_32 :: nat where "SEED_32 = 32"
definition CLASSIC_SIG :: nat where "CLASSIC_SIG = 64"
definition PQ_SIG :: nat where "PQ_SIG = 3309"
definition PQ_SK :: nat where "PQ_SK = 4032"
definition PQ_PK :: nat where "PQ_PK = 1952"

definition classic_from_seed :: "sign_crates \<Rightarrow> bytes \<Rightarrow> signing_key_pair" where
  "classic_from_seed sc seed32 = \<lparr>skp_public = ed_secret_to_public sc seed32, skp_secret = seed32\<rparr>"

definition pq_from_seed :: "sign_crates \<Rightarrow> bytes \<Rightarrow> signing_key_pair" where
  "pq_from_seed sc seed32 = (case dsa_generate sc seed32 of (vk, sk) \<Rightarrow> \<lparr>skp_public = vk, skp_secret = sk\<rparr>)"

fun sign_generate :: "sign_crates \<Rightarrow> policy \<Rightarrow> bytes \<Rightarrow> sign_error + signing_key_pair" where
  "sign_generate sc Classic seed = Inr (classic_from_seed sc (take SEED_32 seed))"
| "sign_generate sc PostQuantum seed = Inr (pq_from_seed sc (take SEED_32 seed))"
| "sign_generate sc Hybrid seed =
     (let classic = classic_from_seed sc (take SEED_32 seed); pq = pq_from_seed sc (drop SEED_32 seed) in
      Inr \<lparr>skp_public = skp_public classic @ skp_public pq, skp_secret = skp_secret classic @ skp_secret pq\<rparr>)"

definition sign_classic :: "sign_crates \<Rightarrow> bytes \<Rightarrow> bytes \<Rightarrow> sign_error + bytes" where
  "sign_classic sc sk message = (if length sk \<noteq> 32 then Inl SignSign else ok_or (ed_sign sc message sk) SignSign)"

definition sign_pq :: "sign_crates \<Rightarrow> bytes \<Rightarrow> bytes \<Rightarrow> random32 \<Rightarrow> sign_error + bytes" where
  "sign_pq sc sk message seed =
     (if length sk \<noteq> PQ_SK then Inl SignSign else ok_or (dsa_sign sc sk message [] (as_bytes seed)) SignSign)"

fun sign_with :: "sign_crates \<Rightarrow> policy \<Rightarrow> bytes \<Rightarrow> bytes \<Rightarrow> random32 \<Rightarrow> sign_error + bytes" where
  "sign_with sc Classic sk message seed = sign_classic sc sk message"
| "sign_with sc PostQuantum sk message seed = sign_pq sc sk message seed"
| "sign_with sc Hybrid sk message seed =
     (if length sk \<noteq> 32 + PQ_SK then Inl SignSign
      else
        and_then (sign_classic sc (take 32 sk) message) (\<lambda>classic.
        and_then (sign_pq sc (drop 32 sk) message seed) (\<lambda>pq.
          Inr (classic @ pq))))"

definition verify_classic :: "sign_crates \<Rightarrow> bytes \<Rightarrow> bytes \<Rightarrow> bytes \<Rightarrow> sign_error + unit" where
  "verify_classic sc pk message sig =
     (if length pk \<noteq> 32 \<or> length sig \<noteq> CLASSIC_SIG then Inl SignSign
      else if ed_verify sc message pk sig then Inr () else Inl SignSign)"

definition verify_pq :: "sign_crates \<Rightarrow> bytes \<Rightarrow> bytes \<Rightarrow> bytes \<Rightarrow> sign_error + unit" where
  "verify_pq sc pk message sig =
     (if length pk \<noteq> PQ_PK \<or> length sig \<noteq> PQ_SIG then Inl SignSign
      else if dsa_verify sc pk message [] sig then Inr () else Inl SignSign)"

fun verify_with :: "sign_crates \<Rightarrow> policy \<Rightarrow> bytes \<Rightarrow> bytes \<Rightarrow> bytes \<Rightarrow> sign_error + unit" where
  "verify_with sc Classic pk message sig = verify_classic sc pk message sig"
| "verify_with sc PostQuantum pk message sig = verify_pq sc pk message sig"
| "verify_with sc Hybrid pk message sig =
     (if length pk \<noteq> 32 + PQ_PK \<or> length sig \<noteq> CLASSIC_SIG + PQ_SIG then Inl SignSign
      else
        and_then (verify_classic sc (take 32 pk) message (take CLASSIC_SIG sig)) (\<lambda>_.
          verify_pq sc (drop 32 pk) message (drop CLASSIC_SIG sig)))"

section \<open>The suite\<close>

definition argon_hash :: "('pk, 'sk, 'ct, 'ss) crates \<Rightarrow> bytes \<Rightarrow> bytes \<Rightarrow> u32 \<Rightarrow> u32 \<Rightarrow> u32 \<Rightarrow> array32 option" where
  "argon_hash cr pass salt m t p = (if cr_argon_params cr m t p then cr_argon_hash cr pass salt m t p else None)"

definition std_suite :: "('pk, 'sk, 'ct, 'ss) crates \<Rightarrow> suite" where
  "std_suite cr = \<lparr>
     st_hmac = \<lambda>key data. cr_hmac cr (as_bytes key) data,
     st_compress = cr_deflate cr,
     st_decompress = decompress cr,
     st_b64u = cr_b64 cr,
     st_seal = \<lambda>key nonce aad plain. the (aes_seal cr key nonce aad plain),
     st_open = aes_open cr,
     st_json_encode = json_encode,
     st_json_decode = json_decode,
     st_kem_generate = kem_generate (cr_kem cr),
     st_kem_wrap = kem_wrap (cr_kem cr),
     st_kem_unwrap = kem_unwrap (cr_kem cr),
     st_sign_generate = sign_generate (cr_sign cr),
     st_sign = sign_with (cr_sign cr),
     st_verify = verify_with (cr_sign cr),
     st_hash = cr_sha256 cr,
     st_argon = argon_hash cr\<rparr>"

end
