(* ===== verification/Adapter_Properties.thy ===== *)
theory Adapter_Properties
  imports Adapters
begin

text \<open>
  The suite the adapters make satisfies what the protocol relies on, when the crates do what they document.
\<close>

section \<open>What the crates document\<close>

definition aes_ok :: "('pk, 'sk, 'ct, 'ss) crates \<Rightarrow> bool" where
  "aes_ok cr \<longleftrightarrow>
     (\<forall>k n a p. length k = 32 \<longrightarrow>
        (\<exists>ct tg. cr_aes_encrypt cr k n a p = Some (ct, tg) \<and> length ct = length p \<and> length tg = TAG_LEN \<and>
           cr_aes_decrypt cr k n a ct tg = Some p))"

text \<open>The inflater gives the input back, also when zero bytes at the end of the stream are missing, which
  is what removing the padding of a packet may do.\<close>

definition deflate_ok :: "('pk, 'sk, 'ct, 'ss) crates \<Rightarrow> bool" where
  "deflate_ok cr \<longleftrightarrow>
     (\<forall>x src. src = cr_deflate cr x \<or> src = unpad (cr_deflate cr x) \<longrightarrow>
        (\<exists>chunks. cr_inflate cr src = (chunks, True) \<and> concat chunks = x))"

definition kem_crate_ok :: "('pk, 'sk, 'ct, 'ss) kem_crate \<Rightarrow> bool" where
  "kem_crate_ok kc \<longleftrightarrow>
     (\<forall>pol seed sk pk. kc_key_gen kc (alg pol) seed = Some (sk, pk) \<longrightarrow>
        kc_pk_decode kc (alg pol) (kc_pk_encode kc pk) = Some pk \<and> kc_sk_decode kc (alg pol) (kc_sk_encode kc sk) = Some sk \<and>
        (\<forall>s ss ct. kc_encapsulate kc pk s = Some (ss, ct) \<longrightarrow>
           kc_ct_decode kc (alg pol) (kc_ct_encode kc ct) = Some ct \<and> length (kc_ct_encode kc ct) = kem_ct_len pol \<and>
           kc_decapsulate kc ct sk = Some ss))"

definition crates_ok :: "('pk, 'sk, 'ct, 'ss) crates \<Rightarrow> bool" where
  "crates_ok cr \<longleftrightarrow> b64u_ok (cr_b64 cr) \<and> aes_ok cr \<and> deflate_ok cr \<and> kem_crate_ok (cr_kem cr)"

definition ed_ok :: "sign_crates \<Rightarrow> bool" where
  "ed_ok sc \<longleftrightarrow>
     (\<forall>sk. length sk = 32 \<longrightarrow> length (ed_secret_to_public sc sk) = 32 \<and>
        (\<forall>m sig. ed_sign sc m sk = Some sig \<longrightarrow> length sig = 64 \<and> ed_verify sc m (ed_secret_to_public sc sk) sig))"

definition dsa_ok :: "sign_crates \<Rightarrow> bool" where
  "dsa_ok sc \<longleftrightarrow>
     (\<forall>seed vk sk. length seed = 32 \<longrightarrow> dsa_generate sc seed = (vk, sk) \<longrightarrow> length vk = 1952 \<and> length sk = 4032 \<and>
        (\<forall>m ctx r sig. dsa_sign sc sk m ctx r = Some sig \<longrightarrow> length sig = 3309 \<and> dsa_verify sc vk m ctx sig))"

section \<open>Deflate\<close>

lemma write_chunks_spec:
  "length (cap_buf w) \<le> cap_max w \<Longrightarrow> \<not> cap_oversize w \<Longrightarrow>
     (let w' = write_chunks cs w in
      length (cap_buf w') \<le> cap_max w \<and> (cap_oversize w' \<longleftrightarrow> length (cap_buf w) + length (concat cs) > cap_max w) \<and>
      (\<not> cap_oversize w' \<longrightarrow> cap_buf w' = cap_buf w @ concat cs))"
proof (induction cs arbitrary: w)
  case (Cons c cs)
  show ?case
  proof (cases "length (cap_buf w) + length c > cap_max w")
    case True
    then show ?thesis using Cons.prems by (simp add: capped_write_def Let_def)
  next
    case False
    then show ?thesis using Cons.prems Cons.IH [of "w\<lparr>cap_buf := cap_buf w @ c\<rparr>"]
      by (simp add: capped_write_def Let_def add.assoc)
  qed
qed simp

text \<open>C40: The decompressor with its bounded writer, which sees the output in chunks, gives what one pass over
  the whole output would: too much output is \<open>Oversize\<close> whether or not the stream is sound, an unsound
  stream is \<open>Codec\<close>, and what it keeps never passes the bound.\<close>

theorem decompress_bounded:
  "decompress cr src mx =
     (case cr_inflate cr src of (chunks, sound) \<Rightarrow>
        if length (concat chunks) > mx then Inl Oversize
        else if sound then Inr (concat chunks)
        else Inl Codec) \<and>
   length (cap_buf (write_chunks (fst (cr_inflate cr src)) (capped_new mx))) \<le> mx"
proof -
  have "cap_oversize (write_chunks cs (capped_new mx)) \<longleftrightarrow> length (concat cs) > mx"
    "\<not> cap_oversize (write_chunks cs (capped_new mx)) \<Longrightarrow> cap_buf (write_chunks cs (capped_new mx)) = concat cs"
    "length (cap_buf (write_chunks cs (capped_new mx))) \<le> mx" for cs
    using write_chunks_spec [of "capped_new mx" cs] by (simp_all add: capped_new_def Let_def)
  then show ?thesis by (auto simp: decompress_def Let_def split: prod.splits)
qed

lemma decompress_whole:
  "cr_inflate cr src = (chunks, True) \<Longrightarrow> length (concat chunks) \<le> mx \<Longrightarrow> decompress cr src mx = Inr (concat chunks)"
  using write_chunks_spec [of "capped_new mx" chunks] by (auto simp: decompress_def capped_new_def Let_def)

section \<open>The suite\<close>

lemma std_compress_ok:
  assumes "deflate_ok cr"
  shows "compress_ok (std_suite cr)"
proof -
  have "decompress cr src mx = Inr x"
    if stream: "src = cr_deflate cr x \<or> src = unpad (cr_deflate cr x)" and fits: "length x \<le> mx" for src x mx
  proof -
    obtain chunks where "cr_inflate cr src = (chunks, True)" "concat chunks = x"
      using assms [unfolded deflate_ok_def, rule_format, OF stream] by blast
    then show ?thesis using decompress_whole [of cr src chunks mx] fits by simp
  qed
  then show ?thesis by (simp add: compress_ok_def std_suite_def)
qed

lemma std_aead_ok:
  assumes "aes_ok cr"
  shows "aead_ok (std_suite cr)"
proof -
  have "st_open (std_suite cr) k n a (st_seal (std_suite cr) k n a p) = Some p \<and>
      length (st_seal (std_suite cr) k n a p) = length p + 16" for k n a p
  proof -
    obtain ct tg where "cr_aes_encrypt cr (as_bytes k) n a p = Some (ct, tg)" "length ct = length p" "length tg = 16"
        "cr_aes_decrypt cr (as_bytes k) n a ct tg = Some p"
      using assms unfolding aes_ok_def TAG_LEN_def by (meson length_as_bytes)
    then show ?thesis by (simp add: std_suite_def aes_seal_def aes_open_def TAG_LEN_def)
  qed
  then show ?thesis by (simp add: aead_ok_def)
qed

lemma std_kem_ok: "kem_crate_ok (cr_kem cr) \<Longrightarrow> kem_ok (std_suite cr)"
  unfolding kem_ok_def
  by (auto simp: std_suite_def kem_generate_def kem_wrap_def kem_unwrap_def kem_crate_ok_def and_then_eq_Inr)


section \<open>Signatures\<close>

lemmas sign_sizes = SEED_32_def CLASSIC_SIG_def PQ_SIG_def PQ_SK_def PQ_PK_def CLASSIC_SIGN_PK_LEN_def
  MLDSA65_SIGN_PK_LEN_def CLASSIC_SIGN_SK_LEN_def MLDSA65_SIGN_SK_LEN_def CLASSIC_SIGN_SIG_LEN_def MLDSA65_SIGN_SIG_LEN_def

lemma classic_pair:
  assumes "ed_ok sc" "length seed = 32" "kp = classic_from_seed sc seed"
  shows "length (skp_public kp) = 32" "length (skp_secret kp) = 32"
    "sign_classic sc (skp_secret kp) m = Inr sig \<Longrightarrow> length sig = 64 \<and> verify_classic sc (skp_public kp) m sig = Inr ()"
  using assms by (auto simp: ed_ok_def classic_from_seed_def sign_classic_def verify_classic_def sign_sizes)

lemma pq_pair:
  assumes "dsa_ok sc" "length seed = 32" "kp = pq_from_seed sc seed"
  shows "length (skp_public kp) = 1952" "length (skp_secret kp) = 4032"
    "sign_pq sc (skp_secret kp) m r = Inr sig \<Longrightarrow> length sig = 3309 \<and> verify_pq sc (skp_public kp) m sig = Inr ()"
proof -
  obtain vk sk where g: "dsa_generate sc seed = (vk, sk)" by (cases "dsa_generate sc seed")
  then have kp: "skp_public kp = vk" "skp_secret kp = sk" by (simp_all add: assms(3) pq_from_seed_def)
  have law: "length vk = 1952" "length sk = 4032" "dsa_sign sc sk m [] r' = Some sig \<Longrightarrow> length sig = 3309 \<and> dsa_verify sc vk m [] sig" for r'
    using assms(1,2) g unfolding dsa_ok_def by blast+
  then show "length (skp_public kp) = 1952" "length (skp_secret kp) = 4032" by (simp_all add: kp)
  show "length sig = 3309 \<and> verify_pq sc (skp_public kp) m sig = Inr ()" if "sign_pq sc (skp_secret kp) m r = Inr sig"
    using that law(1,2) law(3) [of "as_bytes r"] by (simp add: kp sign_pq_def verify_pq_def sign_sizes split: if_splits)
qed

text \<open>C26: For every policy, a signature made with the secret key of a generated pair is accepted under its public
  key, keys and signatures have the lengths the protocol stores, and a hybrid signature is accepted only
  if both of its halves are.\<close>

theorem signatures_verify:
  assumes "ed_ok sc" "dsa_ok sc" "length seed = 64" "sign_generate sc pol seed = Inr kp"
    "sign_with sc pol (skp_secret kp) m r = Inr sig"
  shows "verify_with sc pol (skp_public kp) m sig = Inr () \<and> length (skp_public kp) = sign_pk_len pol \<and>
    length (skp_secret kp) = sign_sk_len pol \<and> length sig = sign_sig_len pol \<and>
    (\<forall>pk m' sig'. verify_with sc Hybrid pk m' sig' = Inr () \<longrightarrow>
       ed_verify sc m' (take 32 pk) (take 64 sig') \<and> dsa_verify sc (drop 32 pk) m' [] (drop 64 sig'))"
proof -
  have both: "ed_verify sc m' (take 32 pk) (take 64 sig') \<and> dsa_verify sc (drop 32 pk) m' [] (drop 64 sig')"
    if "verify_with sc Hybrid pk m' sig' = Inr ()" for pk m' sig'
    using that by (auto simp: verify_classic_def verify_pq_def sign_sizes and_then_eq_Inr split: if_splits)
  let ?c = "classic_from_seed sc (take 32 seed)" and ?q = "pq_from_seed sc (take 32 seed)" and ?q2 = "pq_from_seed sc (drop 32 seed)"
  have lens: "length (take 32 seed) = 32" "length (drop 32 seed) = 32" using assms(3) by simp_all
  note c = classic_pair [OF assms(1) lens(1) refl] and q = pq_pair [OF assms(2) lens(1) refl] and q2 = pq_pair [OF assms(2) lens(2) refl]
  have "verify_with sc pol (skp_public kp) m sig = Inr () \<and> length (skp_public kp) = sign_pk_len pol \<and>
      length (skp_secret kp) = sign_sk_len pol \<and> length sig = sign_sig_len pol"
  proof (cases pol)
    case Classic
    then show ?thesis using assms(4,5) c by (auto simp: sign_sizes)
  next
    case PostQuantum
    then show ?thesis using assms(4,5) q by (auto simp: sign_sizes)
  next
    case Hybrid
    have kp: "skp_public kp = skp_public ?c @ skp_public ?q2" "skp_secret kp = skp_secret ?c @ skp_secret ?q2"
      using assms(4) by (auto simp: Hybrid sign_sizes Let_def)
    obtain s1 s2 where s: "sig = s1 @ s2" "sign_classic sc (skp_secret ?c) m = Inr s1" "sign_pq sc (skp_secret ?q2) m r = Inr s2"
      using assms(5) c(1,2) q2(1,2) by (auto simp: Hybrid kp sign_sizes and_then_eq_Inr)
    show ?thesis using c(1,2) q2(1,2) c(3) [OF s(2)] q2(3) [OF s(3)] by (simp add: Hybrid kp s(1) sign_sizes)
  qed
  with both show ?thesis by blast
qed

section \<open>Instances\<close>

definition sample_sign :: sign_crates where
  "sample_sign = \<lparr>ed_secret_to_public = rev, ed_sign = \<lambda>m sk. Some (sk @ sk),
     ed_verify = \<lambda>m pk sig. sig = rev pk @ rev pk,
     dsa_generate = \<lambda>seed. (seed @ replicate 1920 0, seed @ replicate 4000 0),
     dsa_sign = \<lambda>sk m ctx r. Some (take 32 sk @ replicate 3277 0),
     dsa_verify = \<lambda>vk m ctx sig. take 32 sig = take 32 vk\<rparr>"

text \<open>A key that carries its algorithm, a constant secret.\<close>

fun sample_ct :: "kem_algorithm \<Rightarrow> bytes" where
  "sample_ct X25519 = replicate 32 0"
| "sample_ct MlKem768 = replicate 1088 0"
| "sample_ct XWingKemDraft06 = replicate 1120 0"

definition sample_kem :: "(kem_algorithm \<times> bytes, bytes, bytes, bytes) kem_crate" where
  "sample_kem = \<lparr>kc_key_gen = \<lambda>a seed. Some (seed, (a, seed)),
     kc_encapsulate = \<lambda>pk s. Some (replicate 32 7, sample_ct (fst pk)),
     kc_decapsulate = \<lambda>ct sk. Some (replicate 32 7),
     kc_pk_encode = snd, kc_sk_encode = id, kc_ct_encode = id, kc_ss_encode = id,
     kc_pk_decode = \<lambda>a bs. Some (a, bs), kc_sk_decode = \<lambda>a. Some, kc_ct_decode = \<lambda>a. Some\<rparr>"

definition sample_crates :: "(kem_algorithm \<times> bytes, bytes, bytes, bytes) crates" where
  "sample_crates = \<lparr>cr_hmac = \<lambda>k. sample_hmac (from_array k), cr_sha256 = \<lambda>_. zero32, cr_b64 = st_b64u sample_suite,
     cr_aes_encrypt = \<lambda>k n a p. Some (p, take 16 k),
     cr_aes_decrypt = \<lambda>k n a ct tg. then_some (tg = take 16 k) ct,
     cr_deflate = \<lambda>x. x @ [1],
     cr_inflate = \<lambda>src. ([take 3 (butlast src), drop 3 (butlast src)], src \<noteq> []),
     cr_argon_params = \<lambda>m t p. m \<noteq> 0, cr_argon_hash = \<lambda>_ _ _ _ _. Some zero32,
     cr_kem = sample_kem, cr_sign = sample_sign\<rparr>"

lemma sample_crates_ok: "crates_ok sample_crates"
proof -
  have "deflate_ok sample_crates" by (simp add: deflate_ok_def sample_crates_def unpad_eq_self)
  moreover have "aes_ok sample_crates" by (simp add: aes_ok_def sample_crates_def then_some_def TAG_LEN_def)
  moreover have "kem_crate_ok sample_kem"
  proof -
    have "length (sample_ct (alg pol)) = kem_ct_len pol" for pol by (cases pol) simp_all
    then show ?thesis by (simp add: kem_crate_ok_def sample_kem_def)
  qed
  ultimately show ?thesis using sample_b64u_ok by (simp add: crates_ok_def) (simp add: sample_crates_def)
qed

lemma sample_sign_ok: "ed_ok sample_sign" "dsa_ok sample_sign"
  by (simp_all add: ed_ok_def dsa_ok_def sample_sign_def)


theorem signatures_verify_witness:
  "\<exists>kp sig. sign_generate sample_sign Hybrid (replicate 64 1) = Inr kp \<and>
     sign_with sample_sign Hybrid (skp_secret kp) [5] zero32 = Inr sig \<and>
     verify_with sample_sign Hybrid (skp_public kp) [5] sig = Inr () \<and> length sig = 3373"
proof -
  obtain kp where kp: "sign_generate sample_sign Hybrid (replicate 64 1) = Inr kp" by (simp add: Let_def)
  then have "length (skp_secret kp) = 4064"
    by (auto simp: sample_sign_def Let_def classic_from_seed_def pq_from_seed_def SEED_32_def)
  then obtain sig where sig: "sign_with sample_sign Hybrid (skp_secret kp) [5] zero32 = Inr sig"
    by (simp add: sign_classic_def sign_pq_def PQ_SK_def) (simp add: sample_sign_def)
  have "verify_with sample_sign Hybrid (skp_public kp) [5] sig = Inr () \<and> length sig = sign_sig_len Hybrid"
    using signatures_verify [OF sample_sign_ok length_replicate kp sig] by blast
  moreover have "sign_sig_len Hybrid = 3373" by (simp add: sign_sizes)
  ultimately show ?thesis using kp sig by metis
qed

end
