(* ===== verification/Delivery_Properties.thy ===== *)
theory Delivery_Properties
  imports Snapshot_Properties Wire_Properties Transport_Properties
begin

text \<open>
  From one device's store to another's: what \<open>write_chain_packets\<close> posts for a stored transaction is what
  the receiving chain opens, reassembly completes and the reader decodes.
\<close>

section \<open>Changes of a row's chains\<close>

lemma bt_ext:
  assumes "bt_ok a" "bt_ok b" "bt_get a = bt_get b"
  shows "a = b"
proof -
  have sets: "set a = set b"
    using bt_get_iff [OF assms(1)] bt_get_iff [OF assms(2)] assms(3) by auto
  have sorted: "sorted (map fst m) \<and> distinct (map fst m)" if "bt_ok m" for m :: "('a, 'b) btree"
    using that by (simp add: bt_ok_def strict_sorted_iff)
  from sets have "fst ` set a = fst ` set b" by simp
  then have keys: "map fst a = map fst b"
    using sorted [OF assms(1)] sorted [OF assms(2)] sorted_distinct_set_unique by (metis list.set_map)
  have "a ! k = b ! k" if "k < length a" for k
  proof -
    have len: "k < length b" using that arg_cong [OF keys, of length] by simp
    have "fst (a ! k) = fst (b ! k)" using that len keys by (metis nth_map)
    moreover have "bt_get a (fst (a ! k)) = Some (snd (a ! k))" using that bt_get_iff [OF assms(1)] by simp
    moreover have "bt_get b (fst (b ! k)) = Some (snd (b ! k))" using len bt_get_iff [OF assms(2)] by simp
    ultimately show ?thesis using assms(3) by (simp add: prod_eq_iff)
  qed
  moreover have "length a = length b" using arg_cong [OF keys, of length] by simp
  ultimately show ?thesis by (intro nth_equalityI)
qed

lemma find_map_view:
  assumes "\<And>x. x \<in> set xs \<Longrightarrow> map_option P (f x) = map_option P (g x)"
  shows "map_option P (find_map f xs) = map_option P (find_map g xs)"
  using assms
proof (induction xs)
  case (Cons x xs)
  from Cons.prems [of x] Cons show ?case by (cases "f x"; cases "g x") auto
qed simp

lemma set_identity_row_view:
  assumes wf: "wf_state st" and row: "identity_row st u i cid = Some node" and same: "P node' = P node"
  shows "map_option P (first_row (set_identity_row u i cid (\<lambda>_. node') st) cid) = map_option P (first_row st cid)"
proof -
  let ?g = "\<lambda>((v, j), ident). ((v, j), if v = u \<and> j = i then ident\<lparr>idn_conversations := bt_update cid (\<lambda>_. node') (idn_conversations ident)\<rparr> else ident)"
  have ids: "identities (set_identity_row u i cid (\<lambda>_. node') st) = map ?g (identities st)"
    unfolding set_identity_row_def identities_mut by (rule refl)
  have "map_option P (bt_get (idn_conversations (snd (?g x))) cid) = map_option P (bt_get (idn_conversations (snd x)) cid)"
    if "x \<in> set (identities st)" for x
  proof -
    obtain v j ident where x: "x = ((v, j), ident)" by (cases x) auto
    have "identity_at st v j = Some ident" using that in_identities [OF wf] by (simp add: x)
    then show ?thesis using row same by (auto simp: x identity_row_def)
  qed
  then have "map_option P (find_map (\<lambda>x. bt_get (idn_conversations (snd (?g x))) cid) (identities st)) =
      map_option P (find_map (\<lambda>x. bt_get (idn_conversations (snd x)) cid) (identities st))"
    by (rule find_map_view)
  then show ?thesis unfolding first_row_def ids find_map_map by (simp add: comp_def case_prod_unfold)
qed

text \<open>A change of the chains that leaves a part \<open>view\<close> of them alone leaves it alone in what is read back.\<close>

lemma with_chains_view:
  assumes wf: "wf_state st" and view: "\<And>ch. view (f ch) = view ch"
  shows "map_option view (chains_of (with_chains f cid st) cid) = map_option view (chains_of st cid)"
proof -
  let ?P = "\<lambda>node. map_option view (packet_of_identity node)"
  have of: "map_option view (chains_of s cid) =
      (case map_option ?P (first_row s cid) of Some r \<Rightarrow> r
       | None \<Rightarrow> map_option view (Option.bind (bt_get (dev_convs s) cid) packet_of_device))" for s
    by (cases "first_row s cid") (simp_all add: chains_of_def packet_of_def)
  consider (none) "with_chains f cid st = st"
    | (identity) u i node node' where "identity_row st u i cid = Some node" "packet_mut_of_identity f node = Some node'"
        "with_chains f cid st = set_identity_row u i cid (\<lambda>_. node') st"
    | (device) node node' where "bt_get (dev_convs st) cid = Some node" "packet_mut_of_device f node = Some node'"
        "with_chains f cid st = set_device_row cid (\<lambda>_. node') st"
  proof (cases "packet_mut_of f cid st")
    case None
    then show ?thesis by (intro none) (simp add: with_chains_def chains_mut_def)
  next
    case (Some st')
    then have st': "with_chains f cid st = st'" by (simp add: with_chains_def chains_mut_def)
    from Some consider "identity_row_mut (packet_mut_of_identity f) cid st = Some st'" | "device_row_mut (packet_mut_of_device f) cid st = Some st'"
      by (auto simp: packet_mut_of_def or_else_Some)
    then show ?thesis
    proof cases
      case 1
      from identity_row_mut_set [OF wf 1] identity st' show ?thesis by blast
    next
      case 2
      from device_row_mut_set [OF 2] device st' show ?thesis by blast
    qed
  qed
  then show ?thesis
  proof cases
    case identity
    have "?P node' = ?P node" using identity(2) view by (induction f node rule: packet_mut_of_identity.induct) auto
    from set_identity_row_view [OF wf identity(1), of ?P, OF this]
    have first: "map_option ?P (first_row (set_identity_row u i cid (\<lambda>_. node') st) cid) = map_option ?P (first_row st cid)" .
    have dev: "dev_convs (set_identity_row u i cid (\<lambda>_. node') st) = dev_convs st"
      by (simp add: set_identity_row_def identity_mut_def dev_convs_def)
    show ?thesis unfolding of identity(3) first dev ..
  next
    case device
    have "map_option view (packet_of_device node') = map_option view (packet_of_device node)"
      using device(2) view by (cases node) auto
    then have dev: "map_option view (Option.bind (bt_get (dev_convs (set_device_row cid (\<lambda>_. node') st)) cid) packet_of_device) =
        map_option view (Option.bind (bt_get (dev_convs st) cid) packet_of_device)"
      using device(1) by simp
    have first: "first_row (set_device_row cid (\<lambda>_. node') st) cid = first_row st cid"
      by (simp add: first_row_def identities_def set_device_row_def)
    show ?thesis unfolding of device(3) first dev ..
  qed simp
qed

lemma body_pairs_same:
  assumes "wf_state st" "indexed st" "wf_state st'" "same_store st st'"
  shows "body_pairs st' = body_pairs st"
proof (rule bt_ext)
  show "bt_get (body_pairs st') = bt_get (body_pairs st)"
    using assms indexed_same [OF assms(4)] same_store_body [OF assms(4)] by (simp add: fun_eq_iff get_body_pairs_body)
qed (simp_all add: bt_ok_body_pairs)

lemma writes_kept [simp]:
  "es_writes (with_chains f cid st) = es_writes st" "es_writes (with_established g cid st) = es_writes st"
  "es_writes (note_sent_packet cid st) = es_writes st"
proof -
  have row: "es_writes st' = es_writes st" if "or_else (identity_row_mut p cid st) (device_row_mut q cid st) = Some st'" for p q st'
    using that by (auto simp: or_else_Some identity_row_mut_def device_row_mut_def bind_eq_Some_conv)
  show 1: "es_writes (with_chains f cid st) = es_writes st" for f
    using row by (auto simp: with_chains_def chains_mut_def packet_mut_of_def split: option.splits)
  show 2: "es_writes (with_established g cid st) = es_writes st" for g
    using row by (auto simp: with_established_def established_mut_of_def split: option.splits)
  show "es_writes (note_sent_packet cid st) = es_writes st" by (simp add: note_sent_packet_def with_ratchet_def 2)
qed

section \<open>The sending loop\<close>

lemma saturating_step:
  fixes q :: u64
  assumes "k < 64"
  shows "saturating_add (saturating_add q (of_nat k)) 1 = saturating_add q (of_nat (Suc k))"
proof (rule word_unat_eq_iff [THEN iffD2])
  have "unat (of_nat k :: u64) = k" "unat (of_nat (Suc k) :: u64) = Suc k"
    using assms by (simp_all only: unat_of_nat) simp_all
  then show "unat (saturating_add (saturating_add q (of_nat k)) 1) = unat (saturating_add q (of_nat (Suc k)))"
    by (simp add: unat_saturating_add del: of_nat_Suc)
qed

lemma saturating_zero: "saturating_add 0 (n :: u64) = n" "saturating_add n 0 = n"
  using unsigned_less [of n, where ?'a = nat] by (auto intro!: word_unat_eq_iff [THEN iffD2] simp: unat_saturating_add)

text \<open>What the loop of \<open>write_chain_packets\<close> does with a packet, and the entries it leaves for the host.\<close>

definition post_packet :: "suite \<Rightarrow> conversation_id \<Rightarrow> durable_channel list \<Rightarrow> tag \<Rightarrow> bool \<Rightarrow> send_chain \<Rightarrow> packet_plain \<Rightarrow> bytes list act" where
  "post_packet s cid channels tg since chain packet =
     act_then (seal s (mk s chain) packet) (\<lambda>sealed.
     act_then (modify (push_writes channels tg sealed)) (\<lambda>_.
     act_then (if since then modify (note_sent_packet cid) else ret ()) (\<lambda>_.
       ret [])))"

definition posted :: "durable_channel list \<Rightarrow> tag \<Rightarrow> bytes list \<Rightarrow> durable_write list" where
  "posted channels tg sealed = concat (map (\<lambda>b. map (\<lambda>ch. \<lparr>dw_channel = ch, dw_tag = tg, dw_body = b\<rparr>) channels) sealed)"

lemma post_packet_runs:
  assumes "packet_suite_ok s" "packet_sendable s p"
  shows "\<exists>b st'. post_packet s cid channels tg since chain p (st, g) = (Inr [], st', stl g) \<and> length b = 512 \<and>
    open_plain s (mk s chain) b = Inr p \<and> es_writes st' = es_writes st @ posted channels tg [b]"
proof -
  obtain b where "seal_packet s g (mk s chain) p = (Inr b, stl g)" "length b = PACKET_LEN" "open_plain s (mk s chain) b = Inr p"
    by (rule seal_then_open [OF assms])
  then show ?thesis
    by (intro exI [of _ b])
      (auto simp: post_packet_def act_then_def seal_def modify_def ret_def push_writes_def set_writes_def posted_def PACKET_LEN_def Let_def)
qed

lemma send_loop_runs:
  "packet_suite_ok s \<Longrightarrow> fragment_loop s t x q a r ps = Inr (ps @ qs) \<Longrightarrow> length ps < 64 \<Longrightarrow>
    sc_packet_seq chain = saturating_add q (of_nat (length ps)) \<Longrightarrow> list_all (packet_sendable s) qs \<Longrightarrow>
    \<exists>sealed st' g'. send_loop s t x a (post_packet s cid channels tg since) r (of_nat (length ps)) chain (st, g) =
        (Inr (steps s (length qs) chain, []), st', g') \<and>
      list_all (\<lambda>b. length b = 512) sealed \<and> es_writes st' = es_writes st @ posted channels tg sealed \<and>
      recv_run s now chain sealed = Some (qs, steps s (length qs) chain)"
proof (induction s t x q a r ps arbitrary: qs chain st g rule: fragment_loop.induct)
  case (1 s t x q a r ps)
  let ?post = "post_packet s cid channels tg since"
  define i where "i = u64_of_len (length ps)"
  define sq where "sq = saturating_add q (if length ps < 2 ^ 64 then of_nat (length ps) else 0)"
  have i: "i = of_nat (length ps)" and sq: "sq = sc_packet_seq chain" using 1(4,5) by (simp_all add: i_def sq_def u64_of_len_def)
  have loop: "fragment_loop s t x q a r ps = (case next_fragment s r t x sq i a of
      Inl e \<Rightarrow> Inl e
    | Inr (p, n) \<Rightarrow> if is_last p then Inr (ps @ [p]) else fragment_loop s t x q a (drop n r) (ps @ [p]))"
    by (subst fragment_loop.simps) (simp add: Let_def i_def sq_def)
  then obtain p n where nf: "next_fragment s r t x sq i a = Inr (p, n)" using 1(3) by (auto split: sum.splits)
  then have run: "fragment_loop s t x q a r ps = (if is_last p then Inr (ps @ [p]) else fragment_loop s t x q a (drop n r) (ps @ [p]))"
    using loop by simp
  have sends: "send_loop s t x a ?post r i chain = act_then (?post chain p) (\<lambda>kept.
      if is_last p then ret (step s chain, kept)
      else act_then (send_loop s t x a ?post (drop n r) (saturating_add i 1) (step s chain)) (\<lambda>(chain, rest). ret (chain, kept @ rest)))"
    using nf by (subst send_loop_eq) (simp add: sq)
  show ?case
  proof (cases "is_last p")
    case True
    then have qs: "qs = [p]" using 1(3) run by simp
    then obtain b st' where b: "?post chain p (st, g) = (Inr [], st', stl g)" "length b = 512"
        "open_plain s (mk s chain) b = Inr p" "es_writes st' = es_writes st @ posted channels tg [b]"
      using post_packet_runs [OF 1(2), of p] 1(6) by fastforce
    have "send_loop s t x a ?post r i chain (st, g) = (Inr (steps s (length qs) chain, []), st', stl g)"
      unfolding sends by (simp add: act_then_def b(1) True ret_def qs)
    then show ?thesis
      using b open_skip_ahead_here [OF b(3), of now] unfolding i by (intro exI [of _ "[b]"]) (simp add: qs)
  next
    case False
    then have rest: "fragment_loop s t x q a (drop n r) (ps @ [p]) = Inr (ps @ qs)" using 1(3) run by simp
    have len: "length (ps @ [p]) < 64"
    proof (rule ccontr)
      assume "\<not> length (ps @ [p]) < 64"
      with 1(4) have "length ps = 63" by simp
      then have "u64_of_len (length (ps @ [p])) \<ge> 64" by (simp add: u64_of_len_def)
      then show False using rest by (subst (asm) fragment_loop.simps) (simp add: next_fragment_def MAX_FRAGS_def Let_def)
    qed
    obtain qs' where qs: "qs = p # qs'"
      using fragment_loop_spec [OF rest] len by fastforce
    obtain b st1 where b: "?post chain p (st, g) = (Inr [], st1, stl g)" "length b = 512"
        "open_plain s (mk s chain) b = Inr p" "es_writes st1 = es_writes st @ posted channels tg [b]"
      using post_packet_runs [OF 1(2), of p] 1(6) qs by fastforce
    have seq: "sc_packet_seq (step s chain) = saturating_add q (of_nat (length (ps @ [p])))"
      using saturating_step [OF 1(4)] 1(5) by (simp add: step_def del: of_nat_Suc)
    have next_i: "saturating_add i 1 = of_nat (length (ps @ [p]))"
      using saturating_step [OF 1(4), of 0] by (simp add: i saturating_zero del: of_nat_Suc)
    obtain sealed st' g' where IH: "send_loop s t x a ?post (drop n r) (of_nat (length (ps @ [p]))) (step s chain) (st1, stl g) =
          (Inr (steps s (length qs') (step s chain), []), st', g')" "list_all (\<lambda>b. length b = 512) sealed"
        "es_writes st' = es_writes st1 @ posted channels tg sealed"
        "recv_run s now (step s chain) sealed = Some (qs', steps s (length qs') (step s chain))"
      using 1(1) [OF i_def sq_def nf refl False 1(2) _ len seq, of qs' st1 "stl g"] rest 1(6) qs by auto
    have "send_loop s t x a ?post r i chain (st, g) = (Inr (steps s (length qs) chain, []), st', g')"
      unfolding sends next_i using IH(1) by (simp add: act_then_def b(1) False ret_def qs funpow_swap1 del: of_nat_Suc)
    then show ?thesis
      using b IH open_skip_ahead_here [OF b(3), of now] unfolding i
      by (intro exI [of _ "b # sealed"]) (simp add: qs posted_def funpow_swap1)
  qed
qed

section \<open>Delivery\<close>

text \<open>Where the sender's chain stands: as stored, or joined afresh.\<close>

definition send_position :: "engine \<Rightarrow> engine_state \<Rightarrow> conversation_id \<Rightarrow> conversation_sort \<Rightarrow> actor \<Rightarrow> ticket \<Rightarrow> engine_error + send_chain" where
  "send_position en st cid srt actor tk =
     (case Option.bind (chains_of st cid) (\<lambda>c. bt_get (pc_send c) actor) of
        Some c \<Rightarrow> Inr c
      | None \<Rightarrow> join (en_suite en) (tk_secret tk) srt [])"

lemma decode_packed:
  assumes "packet_suite_ok (en_suite en)" "body_wf b" "json_ok (durable_body_to_json (st_b64u (en_suite en)) b)"
    "length (st_json_encode (en_suite en) (durable_body_to_json (st_b64u (en_suite en)) b)) \<le> PACKET_MAX_UNCOMPRESSED"
  shows "decode_body en (packed_durable_body (en_suite en) b) = Some b"
proof -
  let ?s = "en_suite en"
  have laws: "b64u_ok (st_b64u ?s)" "canonical_json_ok ?s" "compress_ok ?s" using assms(1) by (simp_all add: packet_suite_ok_def)
  obtain v where "st_json_decode ?s (st_json_encode ?s (durable_body_to_json (st_b64u ?s) b)) = Some v"
      "durable_body_from_json (st_b64u ?s) v = Some b"
    using body_codec.wire_roundtrip [OF laws(1,2) assms(2,3)] by (auto simp: bind_eq_Some_conv)
  then show ?thesis using laws(3) assms(4) by (simp add: decode_body_def packed_durable_body_def compress_ok_def Let_def)
qed

lemma unseal_keeps_position:
  assumes "wf_state st"
  shows "Option.bind (chains_of (with_chains (unseal_heal now) cid st) cid) (\<lambda>c. bt_get (pc_send c) actor) =
    Option.bind (chains_of st cid) (\<lambda>c. bt_get (pc_send c) actor)"
proof -
  have "map_option pc_send (chains_of (with_chains (unseal_heal now) cid st) cid) = map_option pc_send (chains_of st cid)"
    by (rule with_chains_view [OF assms]) (simp add: unseal_heal_def Let_def)
  then show ?thesis by (cases "chains_of st cid"; cases "chains_of (with_chains (unseal_heal now) cid st) cid") auto
qed

lemma write_chain_packets_runs:
  assumes suite: "packet_suite_ok (en_suite en)" and wf: "wf_state st" "indexed st"
    and tk: "ticket_of st cid = Some tk" and b: "body st t = Some b"
    and pos: "send_position en st cid srt actor tk = Inr chain"
    and frags: "fragment_body (en_suite en) (packed_durable_body (en_suite en) b) t (set_xor_for (body_pairs st) cid)
      (sc_packet_seq chain) (actor_as_bytes actor) = Inr packets" "list_all (packet_sendable (en_suite en)) packets"
  shows "\<exists>sealed st' g'. write_chain_packets en cid srt channels tg t actor since (st, g) = (Inr (), st', g') \<and>
    es_writes st' = es_writes st @ posted channels tg sealed \<and> list_all (\<lambda>b. length b = 512) sealed \<and>
    recv_run (en_suite en) now chain sealed = Some (packets, steps (en_suite en) (length packets) chain)"
proof -
  let ?s = "en_suite en" and ?st = "with_chains (unseal_heal (es_ticked st)) cid st"
  have same: "wf_state ?st" "same_store st ?st" using with_chains_same [OF wf(1)] by simp_all
  have b1: "body ?st t = Some b" using same_store_body [OF same(2)] b by simp
  have pairs: "body_pairs ?st = body_pairs st" by (rule body_pairs_same [OF wf same])
  have start: "sc_packet_seq chain = saturating_add (sc_packet_seq chain) (of_nat (length []))"
    by (simp add: saturating_zero)
  obtain sealed st' g' where run: "send_loop ?s t (set_xor_for (body_pairs st) cid) (actor_as_bytes actor)
        (post_packet ?s cid channels tg since) (packed_durable_body ?s b) 0 chain (?st, g) =
          (Inr (steps ?s (length packets) chain, []), st', g')" "list_all (\<lambda>b. length b = 512) sealed"
      "es_writes st' = es_writes ?st @ posted channels tg sealed"
      "recv_run ?s now chain sealed = Some (packets, steps ?s (length packets) chain)"
    using send_loop_runs [OF suite, of t "set_xor_for (body_pairs st) cid" "sc_packet_seq chain" "actor_as_bytes actor"
        "packed_durable_body ?s b" "[]" packets chain cid channels tg since ?st g now] frags start
    by (auto simp: fragment_body_def)
  have chain: "(case Option.bind (chains_of ?st cid) (\<lambda>c. bt_get (pc_send c) actor) of
      Some c \<Rightarrow> ret c | None \<Rightarrow> lift (join ?s (tk_secret tk) srt [])) w = (Inr chain, w)" for w
    using pos unfolding unseal_keeps_position [OF wf(1)] send_position_def
    by (cases "Option.bind (chains_of st cid) (\<lambda>c. bt_get (pc_send c) actor)") (simp_all add: ret_def lift_def)
  let ?st_new = "with_chains (\<lambda>ch. ch\<lparr>pc_send := bt_insert actor (steps ?s (length packets) chain) (pc_send ch)\<rparr>) cid st'"
  have "write_chain_packets en cid srt channels tg t actor since (st, g) = (Inr (), ?st_new, g')"
    using run(1) unfolding write_chain_packets_def post_packet_def [abs_def]
    by (simp add: reading_def require_def opt_or_def act_then_def modify_def tk b1 pairs chain Let_def)
  then show ?thesis using run by (intro exI [of _ sealed]) simp
qed


section \<open>A transaction on its way\<close>

text \<open>A stored confirmation, and a suite that compresses it to one byte.\<close>

definition confirm_text :: bytes where
  "confirm_text = json_encode (durable_body_to_json (st_b64u sample_suite) confirm_body)"

definition short_suite :: suite where
  "short_suite = sample_suite\<lparr>
     st_compress := \<lambda>x. if x = confirm_text then [2] else x @ [1],
     st_decompress := \<lambda>c mx. if c = [2] then (if length confirm_text \<le> mx then Inr confirm_text else Inl Oversize)
       else sample_decompress c mx\<rparr>"

lemma short_suite_parts [simp]:
  "st_b64u short_suite = st_b64u sample_suite" "st_json_encode short_suite = json_encode" "st_json_decode short_suite = json_decode"
  by (simp_all add: short_suite_def sample_suite_def)

lemma short_suite_ok: "packet_suite_ok short_suite"
proof -
  have "canonical_json_ok short_suite" by (rule rfc8785_canonical) simp_all
  moreover have "aead_ok short_suite"
    by (simp add: aead_ok_def short_suite_def sample_suite_def sample_open_def)
  moreover have "compress_ok short_suite"
    by (simp add: compress_ok_def short_suite_def unpad_eq_self sample_decompress_def)
  ultimately show ?thesis using sample_b64u_ok by (simp add: packet_suite_ok_def)
qed

lemma short_length: "length (st_compress short_suite x) \<le> length x + 1"
  by (simp add: short_suite_def)

lemma confirm_body_json:
  "body_wf confirm_body" "json_ok (durable_body_to_json (st_b64u sample_suite) confirm_body)"
  "length confirm_text \<le> 1000" "packed_durable_body short_suite confirm_body = [2]"
proof -
  let ?v = "durable_body_to_json (st_b64u sample_suite) confirm_body"
  show "body_wf confirm_body" by (simp add: confirm_body_def body_wf_def payload_wf_def)
  show "json_ok ?v"
    using sample_b64u_ok by (simp add: confirm_body_def durable_body_to_json_def payload_to_json_def hlc_json_def)
  have "plain_json ?v" "json_bound ?v \<le> 1000"
    using plain_letters
    by (simp_all add: confirm_body_def durable_body_to_json_def payload_to_json_def hlc_json_def bstr_def sample_suite_def plain_str_def)
  then show "length confirm_text \<le> 1000" using length_json_bound [of ?v] by (simp add: confirm_text_def)
  have "st_compress short_suite confirm_text = [2]" by (simp add: short_suite_def)
  then show "packed_durable_body short_suite confirm_body = [2]" by (simp add: packed_durable_body_def confirm_text_def)
qed

definition last_packet :: "tag \<Rightarrow> tag \<Rightarrow> u64 \<Rightarrow> bytes \<Rightarrow> packet_plain" where
  "last_packet t x q frag = TxFragLast \<lparr>pfl_actor_id = [], pfl_packet_seq = q, pfl_tx_id = t, pfl_frag_i = 0, pfl_frag = frag, pfl_set_xor = x\<rparr>"

lemma last_packet_length:
  assumes "length frag \<le> 1"
  shows "length (json_encode (packet_to_json (st_b64u sample_suite) (last_packet t x q frag))) \<le> 400"
proof -
  let ?v = "packet_to_json (st_b64u sample_suite) (last_packet t x q frag)"
  have "plain_json ?v" "json_bound ?v \<le> 400"
    using plain_letters assms by (simp_all add: last_packet_def packet_to_json_def bstr_def sample_suite_def plain_str_def)
  then show ?thesis using length_json_bound [of ?v] by simp
qed

lemma last_packet_sendable: "length frag \<le> 1 \<Longrightarrow> packet_sendable short_suite (last_packet t x q frag)"
  using last_packet_length [of frag t x q] short_length [of "json_encode (packet_to_json (st_b64u sample_suite) (last_packet t x q frag))"]
  by (simp add: packet_sendable_def PACKET_MAX_UNCOMPRESSED_def PACKET_PAD_LEN_def) (simp add: packet_wf_def last_packet_def)

lemma largest_loop_reaches:
  "lo \<le> hi \<Longrightarrow> \<forall>k\<le>n. frag_fits s build k \<Longrightarrow> n \<le> hi \<Longrightarrow> n \<le> largest_loop s build lo hi"
proof (induction s build lo hi rule: largest_loop.induct)
  case (1 s build lo hi)
  define mid where "mid = lo + div_ceil2 (hi - lo)"
  have mid: "lo \<le> mid - 1 \<and> mid \<le> hi" if "lo < hi" using that by (auto simp: mid_def div_ceil2_def)
  have "n \<le> mid - 1" if "\<not> frag_fits s build mid" using 1(4) that by (metis Suc_leI Suc_le_mono Suc_pred' le_0_eq not_less zero_le not_gr_zero)
  then show ?case using 1(1,2) [OF _ mid_def] 1(3-5) mid
    by (subst largest_loop.simps) (auto simp: Let_def mid_def [symmetric])
qed

lemma short_fragments: "fragment_body short_suite [2] t x q [] = Inr [last_packet t x q [2]]"
proof -
  have "\<forall>k\<le>1. frag_fits short_suite (last_packet t x r) k" for r
  proof (intro allI impI)
    fix k :: nat
    assume "k \<le> 1"
    then have "packet_sendable short_suite (last_packet t x r (replicate k 0x5a))" by (simp add: last_packet_sendable)
    then show "frag_fits short_suite (last_packet t x r) k"
      by (simp add: frag_fits_def packed_packet_cases packet_sendable_def Let_def)
  qed
  then have "1 \<le> largest_frag short_suite (last_packet t x r)" for r
    unfolding largest_frag_def by (intro largest_loop_reaches) (simp_all add: PACKET_PAD_LEN_def)
  then show ?thesis
    unfolding fragment_body_def
    by (subst fragment_loop.simps)
      (simp add: next_fragment_def Let_def MAX_FRAGS_def u64_of_len_def word_le_nat_alt saturating_zero last_packet_def [abs_def])
qed

lemma confirm_posting:
  "\<exists>st. wf_state st \<and> indexed st \<and> body st (fill 9) = Some confirm_body \<and> ticket_of st (fill 3) = Some sample_ticket \<and>
     Option.bind (chains_of st (fill 3)) (\<lambda>c. bt_get (pc_send c) Handshake) = None"
proof -
  have "\<exists>st. insert_body (fill 9) confirm_body invited = (Inr (), st) \<and>
      es_users st = [] \<and> dev_convs st = [(fill 3, confirmed_row)]"
    by (simp add: insert_body_def invited_def confirm_body_def place_of_def identities_def put_sync_invitee_def
        put_sync_def state_new_def device_default_def dev_convs_def sync_handshake_node_def log_put_def tx_row_of_def
        bt_contains_def then_some_def Let_def place_body_def set_device_row_def bt_update_def confirmed_row_def)
  then obtain st where st: "insert_body (fill 9) confirm_body invited = (Inr (), st)" "es_users st = []"
    "dev_convs st = [(fill 3, confirmed_row)]" by blast
  have at: "body_at st (fill 9) (PlaceDevice (fill 3)) = Some confirm_body"
    by (simp add: st confirmed_row_def confirm_body_def log_get_def row_body_def durable_def)
  have "store_step state_new invited" unfolding invited_def put_sync_invitee_def
    by (rule s_put_sync) (simp_all add: new_nodes)
  then have "store_step\<^sup>*\<^sup>* state_new st" using s_insert [OF st(1)] by simp
  from store_steps_invariant [OF this new_invariant] have inv: "wf_state st" "indexed st" by simp_all
  have ids: "identities st = []" by (simp add: identities_def st)
  have "ticket_of st (fill 3) = Some sample_ticket"
    by (simp add: ticket_of_def dm_party_def sync_party_def first_row_def ids st confirmed_row_def)
  moreover have "Option.bind (chains_of st (fill 3)) (\<lambda>c. bt_get (pc_send c) Handshake) = None"
    by (simp add: chains_of_def packet_of_def first_row_def ids st confirmed_row_def packet_chains_default_def)
  ultimately show ?thesis using inv at body_eq by blast
qed


end
