(* ===== verification/Spec2Isabelle.thy ===== *)
theory Spec2Isabelle
  imports Wire_Properties Transport_Properties Heal_Properties Store_Properties Engine_Properties
    Vault_Properties Handshake_Properties Snapshot_Properties Adapter_Properties
    Delivery_Properties
begin

text \<open>
  A verification library of the \<open>chuchotez\<close> messaging engine (\<open>src/crates/chuchotez-domain\<close>, protocol
  version 1, and the JSON adapter of \<open>src/crates/chuchotez-adapters\<close>).

  \<^bold>\<open>The program.\<close> A host owns an \<open>Engine\<close> (a suite of cryptographic ports, defaults and the data key)
  and an \<open>EngineState\<close>, and calls operations that take the state and return it changed, together with
  sealed persist records. Two users meet by a ticket: notice, introductions on both sides, a
  fingerprint each user confirms, and a child conversation spawned from the shared secrets. Messages
  are transactions; a transaction is written as canonical JSON, compressed, cut into fragments, and
  each fragment is a 512-byte packet sealed under the key of a hash chain. Packets carry a fingerprint
  of the sender's set of transactions, and devices whose fingerprints differ search for the difference.

  \<^bold>\<open>Theories and sources\<close> (under \<open>protocol/v1\<close> unless said otherwise).
  \<^item> \<open>Prelude\<close>: words, bytes, big-endian values, result and list combinators; \<open>BTree\<close>: \<open>BTreeMap\<close>.
  \<^item> \<open>Ids\<close> (\<open>ids.rs\<close>, \<open>error.rs\<close>, \<open>bytes32.rs\<close>), \<open>Channel\<close> (\<open>channel.rs\<close>, \<open>unicode.rs\<close>), \<open>Defaults\<close>
    (\<open>defaults.rs\<close>), \<open>Ports\<close> (\<open>suite.rs\<close> and the traits it carries), \<open>Payload\<close> (\<open>payload.rs\<close>).
  \<^item> \<open>Codec\<close>, \<open>Codec_Parse\<close> (\<open>codec.rs\<close>), \<open>Codec_Order\<close>, \<open>Codec_Roundtrip\<close>: writers and readers, the
    locale \<open>json_codec\<close> and its interpretations; \<open>Utf8\<close>, \<open>Rfc8785\<close> (\<open>chuchotez-adapters/src/json.rs\<close>).
  \<^item> \<open>Chain\<close>, \<open>Fragment\<close> (\<open>chain.rs\<close>), \<open>Reassembly\<close> (fragments in \<open>engine/handshake.rs\<close>).
  \<^item> \<open>Row_Log\<close>, \<open>Party\<close>, \<open>Chains\<close>, \<open>State\<close>, \<open>Tx_Store\<close>, \<open>Store_Steps\<close>, \<open>Helpers\<close> (\<open>engine/row_log.rs\<close>,
    \<open>party.rs\<close>, \<open>chains.rs\<close>, \<open>state.rs\<close>, \<open>helpers.rs\<close>): the state, its transaction store and its steps.
  \<^item> \<open>Engine_Monad\<close>: operations as actions on the state and the random source; \<open>Vault\<close> (\<open>vault.rs\<close>),
    \<open>Ratchet_Engine\<close> (\<open>ratchet.rs\<close>), \<open>Posting\<close> (\<open>vault.rs\<close>), \<open>Heal\<close> and \<open>Heal_Engine\<close> (\<open>heal.rs\<close>),
    \<open>Handshake_Keys\<close>, \<open>Handshake_Mint\<close>, \<open>Views\<close>, \<open>Ingest\<close> (\<open>handshake.rs\<close>, \<open>query.rs\<close>), \<open>Chat\<close>
    (\<open>chat.rs\<close>), \<open>Live_Post\<close>, \<open>Live_Ingest\<close> (\<open>live.rs\<close>), \<open>Secrets\<close>, \<open>Group_Engine\<close> (\<open>group.rs\<close>),
    \<open>Minting\<close>, \<open>Identity_Ops\<close> (\<open>identity.rs\<close>), \<open>Session_Ops\<close> (\<open>session.rs\<close>), \<open>Invite\<close> (\<open>invite.rs\<close>),
    \<open>Poll\<close> (\<open>poll.rs\<close>), \<open>Persist\<close> (\<open>persist.rs\<close>), \<open>Operations\<close>: the public interface as calls.
  \<^item> \<open>Fold_Tree\<close> (\<open>fold_tree.rs\<close> and the end of \<open>group.rs\<close>), \<open>Snapshot\<close> (\<open>fold\<close> and \<open>apply_folded\<close> of
    \<open>persist.rs\<close>): writers and readers of a snapshot; \<open>Fold_Roundtrip\<close>: the locale \<open>fold_codec\<close> and its
    interpretations, one for each part of the tree.
  \<^item> \<open>Adapters\<close> (\<open>chuchotez-adapters/src\<close>): AEAD, Deflate, key encapsulation and signatures over the
    functions of third-party crates, and \<open>std_suite\<close>, the suite they make.
  \<^item> \<open>Sample_Suite\<close>: a concrete suite on which the laws of the ports hold.
  \<^item> \<open>Wire_Properties\<close>, \<open>Transport_Properties\<close>, \<open>Heal_Properties\<close>, \<open>Store_Properties\<close>,
    \<open>Engine_Properties\<close>, \<open>Vault_Properties\<close>, \<open>Handshake_Properties\<close>, \<open>Snapshot_Properties\<close>,
    \<open>Adapter_Properties\<close>, \<open>Delivery_Properties\<close>: the theorems.

  \<^bold>\<open>How the model corresponds to the code.\<close> A struct is a record, an enum a datatype, a 64-bit integer
  a word with saturating or wrapping arithmetic as in the source, \<open>BTreeMap\<close> an association list in key
  order, \<open>Result\<close> a sum. A method on \<open>&mut EngineState\<close> that draws random numbers is an action
  \<open>world \<Rightarrow> (fault + 'a) \<times> world\<close>: an error keeps the changes made before it, a failed \<open>expect\<close> is
  \<open>Panic\<close>. A method on \<open>&mut self\<close> also returns the engine. The cryptographic primitives, compression
  and base64url are fields of the suite; what the code relies on is named as laws (\<open>aead_ok\<close>, \<open>kem_ok\<close>,
  \<open>compress_ok\<close>, \<open>b64u_ok\<close>, \<open>canonical_json_ok\<close>), which \<open>sample_suite\<close> satisfies and which
  \<open>std_suite\<close>, the program's own suite, satisfies when the crates behind it do what they document.

  \<^bold>\<open>What is shown.\<close> Sealing and opening, in order, late and ahead, agree; fragments reassemble in any
  order; a stored transaction that is posted is opened, reassembled and decoded by a receiver whose
  chain stands where the sender's stood; every payload survives the wire and no reader depends on member order; the transaction store is
  one map in every state the operations reach; handshakes only move forward; the clock and the sequence
  number never go back; the search for missing transactions ends and names a difference; posting a
  message is well founded; both sides of a handshake agree on the fingerprint; secrets, tickets, media,
  the vault and persist records can be opened again; a snapshot reads back as the rows and transactions
  it kept.
  Where the code falls short of what it states, a theorem shows it: the slice of ids the search cannot
  split, insertions and moves that hide stored transactions, and nonces that are used twice.

  \<^bold>\<open>Bounds and fuel.\<close> The JSON parser takes fuel, and twice the length of the text is shown to be enough.
  The loops over fragments, list progress and key positions are total functions with a measure. The
  recursion of \<open>post_live\<close> is unrolled once, which is shown to be its only solution.

  \<^bold>\<open>Not modelled.\<close> The functions of third-party crates, which are parameters; formatting for debug output
  and zeroing of dropped secrets; re-exports, fixtures and tests.
\<close>

end
